(* ===== verification/Prelude.thy ===== *)
theory Prelude
  imports Main "HOL-Library.Char_ord" "HOL-Library.List_Lexorder" "HOL-Library.Product_Lexorder"
begin

text \<open>
  What every component shares: Go's errors as values, the results that carry them, instants of
  time, and the list operations in which the SQL statements of the store are written, with the
  lemmas about them that the component proofs use.

  A Go error is a tree: a sentinel (compared by identity), a fresh error with a text, or an
  error that wraps another one with \<^verbatim>\<open>%w\<close> between a prefix and a suffix. The function
  \<^theory_text>\<open>errors_is\<close> is Go's \<^verbatim>\<open>errors.Is\<close> on such trees and \<^theory_text>\<open>err_text\<close> is
  \<^verbatim>\<open>Error()\<close>.
\<close>

named_theorems op_defs "definitions of the operations, unfolded when one is executed"
named_theorems step_rules "preservation rules of the statements and operations"

section \<open>Errors\<close>

datatype go_error =
    ErrNoRows
  | ErrIncidentInactive
  | ErrJobLeaseLost
  | ErrDeadlineExceeded
  | ErrNew string
  | ErrWrap string go_error string

type_synonym 'a res = "go_error + 'a"

fun err_text :: "go_error \<Rightarrow> string" where
  "err_text ErrNoRows = ''sql: no rows in result set''"
| "err_text ErrIncidentInactive = ''incident is not active''"
| "err_text ErrJobLeaseLost = ''job lease is no longer owned by this worker''"
| "err_text ErrDeadlineExceeded = ''context deadline exceeded''"
| "err_text (ErrNew s) = s"
| "err_text (ErrWrap p e s) = p @ err_text e @ s"

fun errors_is :: "go_error \<Rightarrow> go_error \<Rightarrow> bool" where
  "errors_is (ErrWrap p e s) t = (ErrWrap p e s = t \<or> errors_is e t)"
| "errors_is e t = (e = t)"

lemma errors_is_refl [simp]: "errors_is e e"
  by (cases e) auto

section \<open>Instants of time\<close>

text \<open>
  A \<^verbatim>\<open>time.Time\<close> is the number of nanoseconds since the Unix epoch. \<^verbatim>\<open>Unix()\<close> rounds
  down to seconds (Go keeps the nanoseconds of an instant in [0, 1e9)), \<^verbatim>\<open>time.Unix(s, 0)\<close>
  goes back, and the zero time is midnight of 1 January of year 1.
\<close>

type_synonym time = int

definition second :: int where "second = 1000000000"

definition unix :: "time \<Rightarrow> int" where "unix t = t div second"

definition time_unix :: "int \<Rightarrow> time" where "time_unix s = s * second"

definition zero_time :: time where "zero_time = - 62135596800 * second"

lemma second_pos [simp]: "0 < second"
  by (simp add: second_def)

lemma unix_time_unix [simp]: "unix (time_unix s) = s"
  by (simp add: unix_def time_unix_def second_def)

lemma unix_add_seconds: "unix (t + n * second) = unix t + n"
  by (simp add: unix_def second_def)

lemma unix_mono: "s \<le> t \<Longrightarrow> unix s \<le> unix t"
  by (simp add: unix_def second_def zdiv_mono1)

text \<open>Go's \<^verbatim>\<open>int64\<close> arithmetic (durations): two's complement wrap-around.\<close>

definition int64 :: "int \<Rightarrow> int" where
  "int64 x = (x + 2 ^ 63) mod 2 ^ 64 - 2 ^ 63"

lemma int64_id: "- (2 ^ 63) \<le> x \<Longrightarrow> x < 2 ^ 63 \<Longrightarrow> int64 x = x"
  by (simp add: int64_def)

section \<open>Rows of a table\<close>

text \<open>
  A table is a list of rows. \<^theory_text>\<open>update_where p f\<close> is an \<^verbatim>\<open>UPDATE\<close> with the
  condition \<^theory_text>\<open>p\<close>, and \<^theory_text>\<open>min_by\<close> / \<^theory_text>\<open>max_by\<close> are
  \<^verbatim>\<open>ORDER BY ... LIMIT 1\<close>, ascending and descending.
\<close>

definition update_where :: "('a \<Rightarrow> bool) \<Rightarrow> ('a \<Rightarrow> 'a) \<Rightarrow> 'a list \<Rightarrow> 'a list" where
  "update_where p f xs = map (\<lambda>x. if p x then f x else x) xs"

definition count_where :: "('a \<Rightarrow> bool) \<Rightarrow> 'a list \<Rightarrow> nat" where
  "count_where p xs = length (filter p xs)"

fun min_by :: "('a \<Rightarrow> 'k::linorder) \<Rightarrow> 'a list \<Rightarrow> 'a option" where
  "min_by k [] = None"
| "min_by k (x # xs) =
     (case min_by k xs of None \<Rightarrow> Some x | Some y \<Rightarrow> Some (if k x \<le> k y then x else y))"

fun max_by :: "('a \<Rightarrow> 'k::linorder) \<Rightarrow> 'a list \<Rightarrow> 'a option" where
  "max_by k [] = None"
| "max_by k (x # xs) =
     (case max_by k xs of None \<Rightarrow> Some x | Some y \<Rightarrow> Some (if k y \<le> k x then x else y))"

lemma min_by_None [simp]: "min_by k xs = None \<longleftrightarrow> xs = []"
  by (cases xs) (auto split: option.splits)

lemma max_by_None [simp]: "max_by k xs = None \<longleftrightarrow> xs = []"
  by (cases xs) (auto split: option.splits)

lemma min_by_in: "min_by k xs = Some x \<Longrightarrow> x \<in> set xs"
  by (induction xs arbitrary: x) (auto split: option.splits if_splits)

lemma max_by_in: "max_by k xs = Some x \<Longrightarrow> x \<in> set xs"
  by (induction xs arbitrary: x) (auto split: option.splits if_splits)

lemma min_by_least: "min_by k xs = Some x \<Longrightarrow> y \<in> set xs \<Longrightarrow> k x \<le> k y"
proof (induction xs arbitrary: x)
  case (Cons z zs)
  then show ?case
    by (cases "min_by k zs") (fastforce split: if_splits)+
qed simp

lemma max_by_greatest: "max_by k xs = Some x \<Longrightarrow> y \<in> set xs \<Longrightarrow> k y \<le> k x"
proof (induction xs arbitrary: x)
  case (Cons z zs)
  then show ?case
    by (cases "max_by k zs") (fastforce split: if_splits)+
qed simp

lemma set_update_where:
  "y \<in> set (update_where p f xs) \<longleftrightarrow> (\<exists>x \<in> set xs. y = (if p x then f x else x))"
  by (auto simp: update_where_def)

lemma map_update_where:
  "(\<And>x. p x \<Longrightarrow> k (f x) = k x) \<Longrightarrow> map k (update_where p f xs) = map k xs"
  by (simp add: update_where_def)

lemma update_where_none: "(\<And>x. x \<in> set xs \<Longrightarrow> \<not> p x) \<Longrightarrow> update_where p f xs = xs"
  by (simp add: update_where_def map_idI)

lemma count_where_zero [simp]: "count_where p xs = 0 \<longleftrightarrow> (\<forall>x \<in> set xs. \<not> p x)"
  by (simp add: count_where_def filter_empty_conv)

lemma count_where_pos: "0 < count_where p xs \<longleftrightarrow> (\<exists>x \<in> set xs. p x)"
  by (simp add: count_where_def filter_empty_conv)

text \<open>A condition that fixes a column with pairwise different values selects at most one row.\<close>

lemma count_where_key_le:
  assumes "distinct (map k xs)" and "\<And>x. p x \<Longrightarrow> k x = v"
  shows "count_where p xs \<le> 1"
  using assms(1)
proof (induction xs)
  case (Cons a xs)
  have "count_where p xs = 0" if "p a"
    using that Cons.prems assms(2) by fastforce
  with Cons show ?case by (cases "p a") (simp_all add: count_where_def)
qed (simp add: count_where_def)

lemma count_where_one_iff:
  assumes "distinct (map k xs)" and "\<And>x. p x \<Longrightarrow> k x = v"
  shows "count_where p xs = 1 \<longleftrightarrow> (\<exists>x \<in> set xs. p x)"
proof -
  have "count_where p xs \<le> 1"
    using assms by (rule count_where_key_le)
  then show ?thesis
    using count_where_pos [of p xs] by linarith
qed

lemma distinct_key_eq:
  "distinct (map k xs) \<Longrightarrow> x \<in> set xs \<Longrightarrow> y \<in> set xs \<Longrightarrow> k x = k y \<Longrightarrow> x = y"
  by (auto simp: distinct_map inj_on_def)

lemma find_key:
  "distinct (map k xs) \<Longrightarrow> x \<in> set xs \<Longrightarrow> find (\<lambda>y. k y = k x) xs = Some x"
  by (induction xs) force+

lemma find_SomeD: "find p xs = Some x \<Longrightarrow> x \<in> set xs \<and> p x"
  by (induction xs) (auto split: if_splits)

lemma find_None_iff_all: "find p xs = None \<longleftrightarrow> (\<forall>x \<in> set xs. \<not> p x)"
  by (induction xs) auto

lemma update_where_related:
  assumes "\<And>x. x \<in> set xs \<Longrightarrow> p x \<Longrightarrow> R x (f x)" and "\<And>x. R x x"
  shows "\<forall>x \<in> set xs. \<exists>y \<in> set (update_where p f xs). R x y"
proof
  fix x assume "x \<in> set xs"
  with assms have "R x (if p x then f x else x)" and
    "(if p x then f x else x) \<in> set (update_where p f xs)"
    by (auto simp: set_update_where)
  then show "\<exists>y \<in> set (update_where p f xs). R x y" by blast
qed

lemma update_where_all:
  assumes "\<And>x. x \<in> set xs \<Longrightarrow> p x \<Longrightarrow> P (f x)" and "\<forall>x \<in> set xs. P x"
  shows "\<forall>y \<in> set (update_where p f xs). P y"
  using assms by (auto simp: set_update_where)

lemma update_where_cong:
  "(\<And>x. x \<in> set xs \<Longrightarrow> p x = q x) \<Longrightarrow> update_where p f xs = update_where q f xs"
  by (auto simp: update_where_def)

lemma count_where_cong:
  "(\<And>x. x \<in> set xs \<Longrightarrow> p x = q x) \<Longrightarrow> count_where p xs = count_where q xs"
  unfolding count_where_def by (metis (mono_tags, lifting) filter_cong)

lemma find_update_where:
  assumes "\<And>x. k (f x) = k x"
  shows "find (\<lambda>x. k x = v) (update_where p f xs) =
           map_option (\<lambda>x. if p x then f x else x) (find (\<lambda>x. k x = v) xs)"
  using assms by (induction xs) (auto simp: update_where_def)

lemma update_where_id [simp]: "update_where p (\<lambda>x. x) xs = xs"
  by (simp add: update_where_def)

lemma update_where_False [simp]: "update_where (\<lambda>x. False) f xs = xs"
  by (simp add: update_where_def)

lemma count_where_False [simp]: "count_where (\<lambda>x. False) xs = 0"
  by simp

lemma update_whereE:
  assumes "y \<in> set (update_where p f xs)"
  obtains (updated) x where "x \<in> set xs" and "p x" and "y = f x"
    | (kept) "y \<in> set xs" and "\<not> p y"
  using assms by (auto simp: update_where_def split: if_splits)

end
