(* ===== verification/Domain.thy ===== *)
theory Domain
  imports Complex_Main Prelude
begin

text \<open>
  The domain types of \<^verbatim>\<open>internal/domain/incident.go\<close> and the customer-visible texts of
  \<^verbatim>\<open>internal/messages/incident.go\<close>: incident states and job statuses are the strings the
  code stores, structs are records with the code's fields (prefixed by the struct), and the
  constructors take the random identifier and the clock reading that the Go code draws itself.
\<close>

section \<open>States and statuses\<close>

definition IncidentReceived :: string where "IncidentReceived = ''RECEIVED''"
definition IncidentInvestigating :: string where "IncidentInvestigating = ''INVESTIGATING''"
definition IncidentAwaitingAuditEvent :: string where
  "IncidentAwaitingAuditEvent = ''AWAITING_AUDIT_EVENT''"
definition IncidentCompleted :: string where "IncidentCompleted = ''COMPLETED''"
definition IncidentFailed :: string where "IncidentFailed = ''FAILED''"
definition IncidentRecovered :: string where "IncidentRecovered = ''RECOVERED''"
definition JobQueued :: string where "JobQueued = ''QUEUED''"
definition JobRunning :: string where "JobRunning = ''RUNNING''"
definition JobCompleted :: string where "JobCompleted = ''COMPLETED''"
definition JobCancelled :: string where "JobCancelled = ''CANCELLED''"
definition JobFailed :: string where "JobFailed = ''FAILED''"

lemmas incident_state_defs =
  IncidentReceived_def IncidentInvestigating_def IncidentAwaitingAuditEvent_def
  IncidentCompleted_def IncidentFailed_def IncidentRecovered_def

lemmas job_status_defs =
  JobQueued_def JobRunning_def JobCompleted_def JobCancelled_def JobFailed_def

definition incident_states :: "string list" where
  "incident_states =
     [IncidentReceived, IncidentInvestigating, IncidentAwaitingAuditEvent,
      IncidentCompleted, IncidentFailed, IncidentRecovered]"

definition job_statuses :: "string list" where
  "job_statuses = [JobQueued, JobRunning, JobCompleted, JobCancelled, JobFailed]"

text \<open>The names stay folded in proofs: the simplifier only needs that they differ.\<close>

lemma incident_states_distinct [simp]:
  "IncidentReceived \<noteq> IncidentInvestigating" "IncidentInvestigating \<noteq> IncidentReceived"
  "IncidentReceived \<noteq> IncidentAwaitingAuditEvent" "IncidentAwaitingAuditEvent \<noteq> IncidentReceived"
  "IncidentReceived \<noteq> IncidentCompleted" "IncidentCompleted \<noteq> IncidentReceived"
  "IncidentReceived \<noteq> IncidentFailed" "IncidentFailed \<noteq> IncidentReceived"
  "IncidentReceived \<noteq> IncidentRecovered" "IncidentRecovered \<noteq> IncidentReceived"
  "IncidentInvestigating \<noteq> IncidentAwaitingAuditEvent"
  "IncidentAwaitingAuditEvent \<noteq> IncidentInvestigating"
  "IncidentInvestigating \<noteq> IncidentCompleted" "IncidentCompleted \<noteq> IncidentInvestigating"
  "IncidentInvestigating \<noteq> IncidentFailed" "IncidentFailed \<noteq> IncidentInvestigating"
  "IncidentInvestigating \<noteq> IncidentRecovered" "IncidentRecovered \<noteq> IncidentInvestigating"
  "IncidentAwaitingAuditEvent \<noteq> IncidentCompleted"
  "IncidentCompleted \<noteq> IncidentAwaitingAuditEvent"
  "IncidentAwaitingAuditEvent \<noteq> IncidentFailed" "IncidentFailed \<noteq> IncidentAwaitingAuditEvent"
  "IncidentAwaitingAuditEvent \<noteq> IncidentRecovered"
  "IncidentRecovered \<noteq> IncidentAwaitingAuditEvent"
  "IncidentCompleted \<noteq> IncidentFailed" "IncidentFailed \<noteq> IncidentCompleted"
  "IncidentCompleted \<noteq> IncidentRecovered" "IncidentRecovered \<noteq> IncidentCompleted"
  "IncidentFailed \<noteq> IncidentRecovered" "IncidentRecovered \<noteq> IncidentFailed"
  by (simp_all add: incident_state_defs)

lemma job_statuses_distinct [simp]:
  "JobQueued \<noteq> JobRunning" "JobRunning \<noteq> JobQueued"
  "JobQueued \<noteq> JobCompleted" "JobCompleted \<noteq> JobQueued"
  "JobQueued \<noteq> JobCancelled" "JobCancelled \<noteq> JobQueued"
  "JobQueued \<noteq> JobFailed" "JobFailed \<noteq> JobQueued"
  "JobRunning \<noteq> JobCompleted" "JobCompleted \<noteq> JobRunning"
  "JobRunning \<noteq> JobCancelled" "JobCancelled \<noteq> JobRunning"
  "JobRunning \<noteq> JobFailed" "JobFailed \<noteq> JobRunning"
  "JobCompleted \<noteq> JobCancelled" "JobCancelled \<noteq> JobCompleted"
  "JobCompleted \<noteq> JobFailed" "JobFailed \<noteq> JobCompleted"
  "JobCancelled \<noteq> JobFailed" "JobFailed \<noteq> JobCancelled"
  by (simp_all add: job_status_defs)

section \<open>Structs\<close>

record Alert =
  al_workspace :: string
  al_rule_id :: string
  al_resource_id :: string
  al_state :: string
  al_event_at :: time

record Incident =
  inc_id :: string
  inc_key :: string
  inc_workspace :: string
  inc_rule_id :: string
  inc_resource_id :: string
  inc_state :: string
  inc_message_id :: string
  inc_alert_at :: time
  inc_created_at :: time
  inc_updated_at :: time

record Job =
  job_id :: string
  job_incident_id :: string
  job_status :: string
  job_worker_id :: string
  job_attempt :: int
  job_run_after :: time
  job_lease_until :: time

record Evidence =
  ev_id :: string
  ev_type :: string
  ev_observed_at :: time
  ev_source :: string
  ev_query_ref :: string
  ev_summary :: string
  ev_raw_ref :: string

text \<open>
  \<^verbatim>\<open>Confidence\<close> is a finite \<^verbatim>\<open>float64\<close> (JSON has no other): the rational it stands for.
\<close>

record RCAResult =
  rca_summary :: string
  rca_confidence :: rat
  rca_root_cause :: string
  rca_evidence_ids :: "string list"
  rca_next_actions :: "string list"
  rca_pending_audit :: bool

definition empty_result :: RCAResult where
  "empty_result =
     \<lparr>rca_summary = '''', rca_confidence = 0, rca_root_cause = '''', rca_evidence_ids = [],
      rca_next_actions = [], rca_pending_audit = False\<rparr>"

definition zero_incident :: Incident where
  "zero_incident =
     \<lparr>inc_id = '''', inc_key = '''', inc_workspace = '''', inc_rule_id = '''',
      inc_resource_id = '''', inc_state = '''', inc_message_id = '''',
      inc_alert_at = zero_time, inc_created_at = zero_time, inc_updated_at = zero_time\<rparr>"

section \<open>Constructors\<close>

definition incident_key :: "string \<Rightarrow> string \<Rightarrow> string \<Rightarrow> string" where
  "incident_key workspace ruleID resourceID = workspace @ '':'' @ ruleID @ '':'' @ resourceID"

definition NewIncident ::
    "string \<Rightarrow> time \<Rightarrow> string \<Rightarrow> string \<Rightarrow> string \<Rightarrow> time \<Rightarrow> Incident" where
  "NewIncident freshID now workspace ruleID resourceID alertAt =
     \<lparr>inc_id = freshID, inc_key = incident_key workspace ruleID resourceID,
      inc_workspace = workspace, inc_rule_id = ruleID, inc_resource_id = resourceID,
      inc_state = IncidentReceived, inc_message_id = '''', inc_alert_at = alertAt,
      inc_created_at = now, inc_updated_at = now\<rparr>"

definition NewJob :: "string \<Rightarrow> string \<Rightarrow> time \<Rightarrow> Job" where
  "NewJob freshID incidentID runAfter =
     \<lparr>job_id = freshID, job_incident_id = incidentID, job_status = JobQueued,
      job_worker_id = '''', job_attempt = 0, job_run_after = runAfter,
      job_lease_until = zero_time\<rparr>"

text \<open>
  The hexadecimal text of sixteen random bytes: what \<^verbatim>\<open>newID\<close> returns. The bytes come from
  \<^verbatim>\<open>crypto/rand\<close>, so the operations that draw an identifier take it as an argument.
\<close>

definition hex_digit :: "nat \<Rightarrow> char" where
  "hex_digit n = ''0123456789abcdef'' ! (n mod 16)"

fun hex_encode :: "string \<Rightarrow> string" where
  "hex_encode [] = []"
| "hex_encode (c # cs) =
     (let b = (of_char c :: nat) in hex_digit (b div 16) # hex_digit (b mod 16) # hex_encode cs)"

definition newID :: "string \<Rightarrow> string" where
  "newID buf = hex_encode buf"

lemma length_hex_encode: "length (hex_encode cs) = 2 * length cs"
  by (induction cs) (simp_all add: Let_def)

section \<open>Customer-visible messages\<close>

text \<open>The UTF-8 bytes of the Chinese texts, given by their code units.\<close>

definition utf8 :: "nat list \<Rightarrow> string" where
  "utf8 = map char_of"

definition RecoverySummary :: string where
  "RecoverySummary = ''CloudMonitor '' @ utf8
     [229,145,138, 232,173,166, 229,183,178, 230,129,162, 229,164,141, 227,128,130]"

definition FailureSummary :: string where
  "FailureSummary = ''RCA '' @ utf8
     [230,156,170, 232,131,189, 229,174,140, 230,136,144, 239,188,155, 232,175,183, 230,163,128,
      230,159,165, 231,189,145, 229,133,179, 230,151,165, 229,191,151, 229,144,142, 233,135,141,
      232,175,149, 227,128,130]"

definition FailureAction :: string where
  "FailureAction = utf8
     [230,163,128, 230,159,165, 231,189,145, 229,133,179, 233,148,153, 232,175,175, 229,185,182,
      233,135,141, 232,175,149, 232,175,165, 228,186,139, 228,187,182, 227,128,130]"

definition recovery_result :: RCAResult where
  "recovery_result = empty_result\<lparr>rca_summary := RecoverySummary\<rparr>"

definition failure_result :: RCAResult where
  "failure_result =
     empty_result\<lparr>rca_summary := FailureSummary, rca_next_actions := [FailureAction]\<rparr>"

section \<open>Keys\<close>

text \<open>
  The key is injective on workspaces and rule ids without a colon: the part before the first
  colon is the workspace, the part before the second the rule.
\<close>

lemma append_sep_inject:
  assumes "x @ c # u = y @ c # v" and "c \<notin> set x" and "c \<notin> set y"
  shows "x = y \<and> u = v"
  using assms
proof (induction x arbitrary: y)
  case Nil
  then show ?case by (cases y) auto
next
  case (Cons a x)
  then obtain b y' where y: "y = b # y'" by (cases y) auto
  with Cons.prems have "x @ c # u = y' @ c # v" "c \<notin> set x" "c \<notin> set y'" "a = b" by auto
  with Cons.IH [of y'] y show ?case by simp
qed

lemma incident_key_eqD:
  assumes "incident_key w r s = incident_key w' r' s'"
    and "CHR '':'' \<notin> set w" "CHR '':'' \<notin> set w'" "CHR '':'' \<notin> set r" "CHR '':'' \<notin> set r'"
  shows "w = w' \<and> r = r' \<and> s = s'"
proof -
  from assms(1) have "w @ CHR '':'' # (r @ CHR '':'' # s) = w' @ CHR '':'' # (r' @ CHR '':'' # s')"
    by (simp add: incident_key_def)
  from append_sep_inject [OF this assms(2,3)]
  have "w = w'" and rest: "r @ CHR '':'' # s = r' @ CHR '':'' # s'" by simp_all
  with append_sep_inject [OF rest assms(4,5)] show ?thesis by simp
qed

end
