(* ===== verification/GoText.thy ===== *)
theory GoText
  imports Prelude
begin

text \<open>
  Go strings are byte strings; here \<^typ>\<open>string\<close>, one character per byte. This theory holds
  what the program uses of Go's text libraries: the decoding of UTF-8 that a \<^verbatim>\<open>range\<close>
  loop and \<^verbatim>\<open>strings.TrimSpace\<close> do (an invalid byte is one \<^verbatim>\<open>RuneError\<close> of width
  one), \<^verbatim>\<open>strings.Join\<close>, and decimal formatting. The lemmas relate rune-wise tests to
  byte-wise ones for the sets of ASCII characters the program allows.
\<close>

section \<open>Runes\<close>

definition byte :: "char \<Rightarrow> nat" where "byte c = of_char c"

lemma byte_inj: "inj byte"
  unfolding byte_def by (rule injI) simp

definition RuneError :: nat where "RuneError = 65533"

definition cont :: "char \<Rightarrow> bool" where "cont c \<longleftrightarrow> 128 \<le> byte c \<and> byte c \<le> 191"

text \<open>The range of the second byte, which depends on the first for some of them.\<close>

definition second_ok :: "nat \<Rightarrow> char \<Rightarrow> bool" where
  "second_ok x c \<longleftrightarrow>
     (if x = 224 then 160 else if x = 240 then 144 else 128) \<le> byte c \<and>
     byte c \<le> (if x = 237 then 159 else if x = 244 then 143 else 191)"

text \<open>The code point of a sequence of two, three or four bytes.\<close>

definition rune2 :: "char \<Rightarrow> char \<Rightarrow> nat" where
  "rune2 a b = (byte a - 192) * 64 + (byte b - 128)"

definition rune3 :: "char \<Rightarrow> char \<Rightarrow> char \<Rightarrow> nat" where
  "rune3 a b c = ((byte a - 224) * 64 + (byte b - 128)) * 64 + (byte c - 128)"

definition rune4 :: "char \<Rightarrow> char \<Rightarrow> char \<Rightarrow> char \<Rightarrow> nat" where
  "rune4 a b c d =
     (((byte a - 240) * 64 + (byte b - 128)) * 64 + (byte c - 128)) * 64 + (byte d - 128)"

fun decode_rune :: "string \<Rightarrow> nat \<times> nat" where
  "decode_rune [] = (RuneError, 0)"
| "decode_rune (a # s) =
     (let x = byte a in
      if x < 128 then (x, 1)
      else if 194 \<le> x \<and> x \<le> 223 then
        (case s of
           b # _ \<Rightarrow> if cont b then (rune2 a b, 2) else (RuneError, 1)
         | _ \<Rightarrow> (RuneError, 1))
      else if 224 \<le> x \<and> x \<le> 239 then
        (case s of
           b # c # _ \<Rightarrow>
             if second_ok x b \<and> cont c
             then (rune3 a b c, 3) else (RuneError, 1)
         | _ \<Rightarrow> (RuneError, 1))
      else if 240 \<le> x \<and> x \<le> 244 then
        (case s of
           b # c # d # _ \<Rightarrow>
             if second_ok x b \<and> cont c \<and> cont d
             then (rune4 a b c d, 4) else (RuneError, 1)
         | _ \<Rightarrow> (RuneError, 1))
      else (RuneError, 1))"

lemma decode_rune_width: "1 \<le> snd (decode_rune (a # s))"
  by (auto simp: Let_def split: list.splits)

lemma decode_rune_ascii: "byte a < 128 \<Longrightarrow> decode_rune (a # s) = (byte a, 1)"
  by (simp add: Let_def)

text \<open>A byte that is not ASCII never decodes to an ASCII rune.\<close>

lemma second_ok_high:
  assumes "second_ok x b" and "x = k \<Longrightarrow> k = 224 \<or> k = 240" and "k \<le> x"
  shows "2 \<le> (x - k) * 64 + (byte b - 128)"
proof (cases "x = k")
  case True
  with assms have "144 \<le> byte b" by (auto simp: second_ok_def)
  with True show ?thesis by simp
next
  case False
  with assms(3) have "1 \<le> x - k" by simp
  then have "64 \<le> (x - k) * 64" by simp
  then show ?thesis by linarith
qed

lemma times_64_high: "2 \<le> n \<Longrightarrow> 128 \<le> n * 64 + (m :: nat)"
  by simp

lemma decode_rune_high:
  assumes "128 \<le> byte a"
  shows "128 \<le> fst (decode_rune (a # s))"
proof -
  let ?x = "byte a"
  have two: "128 \<le> rune2 a b" if "194 \<le> ?x" for b
    unfolding rune2_def using that by (intro times_64_high) simp
  have three: "128 \<le> rune3 a b c" if "second_ok ?x b" "224 \<le> ?x" for b c
    unfolding rune3_def using second_ok_high [OF that(1) _ that(2)] by (intro times_64_high) simp
  have four: "128 \<le> rune4 a b c d" if "second_ok ?x b" "240 \<le> ?x" for b c d
  proof -
    have "2 \<le> (?x - 240) * 64 + (byte b - 128)"
      using second_ok_high [OF that(1) _ that(2)] by simp
    then have "2 \<le> ((?x - 240) * 64 + (byte b - 128)) * 64 + (byte c - 128)"
      using times_64_high order_trans [of 2 128] by force
    then show ?thesis unfolding rune4_def by (rule times_64_high)
  qed
  show ?thesis
    using assms
    by (simp add: Let_def RuneError_def two three four split: list.split)
qed

declare decode_rune.simps(2) [simp del]

text \<open>The runes of a string, each with the bytes it was read from.\<close>

function runes :: "string \<Rightarrow> (nat \<times> string) list" where
  "runes [] = []"
| "runes (a # s) =
     (let (r, n) = decode_rune (a # s)
      in (r, take n (a # s)) # runes (drop n (a # s)))"
  by pat_completeness auto
termination
proof (relation "measure length")
  fix a :: char and s :: string and p r n
  assume "p = decode_rune (a # s)" "(r, n) = p"
  then have "1 \<le> n" using decode_rune_width [of a s] by (metis snd_conv)
  then show "(drop n (a # s), a # s) \<in> measure length" by (simp add: less_Suc_eq_le)
qed simp

declare runes.simps(2) [simp del]

lemma runes_Cons:
  "runes (a # s) = (fst (decode_rune (a # s)), take (snd (decode_rune (a # s))) (a # s)) #
     runes (drop (snd (decode_rune (a # s))) (a # s))"
  by (simp add: runes.simps(2) Let_def split: prod.splits)

lemma runes_ascii: "byte a < 128 \<Longrightarrow> runes (a # s) = (byte a, [a]) # runes s"
  by (simp add: runes_Cons decode_rune_ascii)

lemma runes_eq_Nil [simp]: "runes s = [] \<longleftrightarrow> s = []"
  by (cases s) (simp_all add: runes_Cons)

text \<open>The bytes of the runes are the string.\<close>

lemma concat_runes: "concat (map snd (runes s)) = s"
proof (induction s rule: runes.induct)
  case (2 a s)
  obtain r n where d: "decode_rune (a # s) = (r, n)" by fastforce
  from "2.IH" [OF d [symmetric] refl] show ?case by (simp add: runes_Cons d)
qed simp

text \<open>
  For a set of ASCII characters, \<^verbatim>\<open>for _, char := range value\<close> tests the bytes.
\<close>

lemma runes_all_ascii:
  assumes "\<And>r. P r \<Longrightarrow> r < 128"
  shows "(\<forall>x \<in> set (runes s). P (fst x)) \<longleftrightarrow> (\<forall>c \<in> set s. P (byte c))"
proof (induction s)
  case (Cons a s)
  show ?case
  proof (cases "byte a < 128")
    case True
    with Cons show ?thesis by (simp add: runes_ascii)
  next
    case False
    with decode_rune_high [of a s] assms have "\<not> P (fst (decode_rune (a # s)))" "\<not> P (byte a)"
      by (meson leD leI)+
    then show ?thesis by (simp add: runes_Cons)
  qed
qed simp

section \<open>White space\<close>

text \<open>\<^verbatim>\<open>unicode.IsSpace\<close>.\<close>

definition is_space :: "nat \<Rightarrow> bool" where
  "is_space r \<longleftrightarrow>
     r = 9 \<or> r = 10 \<or> r = 11 \<or> r = 12 \<or> r = 13 \<or> r = 32 \<or> r = 133 \<or> r = 160 \<or> r = 5760 \<or>
     (8192 \<le> r \<and> r \<le> 8202) \<or> r = 8232 \<or> r = 8233 \<or> r = 8239 \<or> r = 8287 \<or> r = 12288"

definition TrimSpace :: "string \<Rightarrow> string" where
  "TrimSpace s =
     concat (map snd (rev (dropWhile (\<lambda>x. is_space (fst x))
       (rev (dropWhile (\<lambda>x. is_space (fst x)) (runes s))))))"

definition blank :: "string \<Rightarrow> bool" where
  "blank s \<longleftrightarrow> TrimSpace s = ''''"

lemma runes_bytes_nonempty: "x \<in> set (runes s) \<Longrightarrow> snd x \<noteq> []"
proof (induction s rule: runes.induct)
  case (2 a s)
  obtain r n where d: "decode_rune (a # s) = (r, n)" by fastforce
  then have "n \<noteq> 0" using decode_rune_width [of a s] by auto
  with "2.IH" [OF d [symmetric] refl] "2.prems" d show ?case
    by (auto simp: runes_Cons)
qed simp

lemma concat_bytes_Nil: "\<forall>x \<in> set t. snd x \<noteq> [] \<Longrightarrow> concat (map snd t) = [] \<longleftrightarrow> t = []"
  by (cases t) auto

lemma blank_iff: "blank s \<longleftrightarrow> (\<forall>x \<in> set (runes s). is_space (fst x))"
proof -
  let ?sp = "\<lambda>x. is_space (fst x)"
  let ?t = "rev (dropWhile ?sp (rev (dropWhile ?sp (runes s))))"
  have "set ?t \<subseteq> set (runes s)" by (auto dest!: set_dropWhileD)
  then have "\<forall>x \<in> set ?t. snd x \<noteq> []" using runes_bytes_nonempty [of _ s] by blast
  then have trim: "blank s \<longleftrightarrow> ?t = []"
    unfolding blank_def TrimSpace_def by (rule concat_bytes_Nil)
  show ?thesis
  proof (cases "dropWhile ?sp (runes s)")
    case Nil
    with trim show ?thesis by (simp add: dropWhile_eq_Nil_conv)
  next
    case (Cons x xs)
    then have "\<not> ?sp x" using hd_dropWhile [of ?sp "runes s"] by simp
    moreover have "x \<in> set (runes s)" using Cons set_dropWhileD [of x ?sp "runes s"] by simp
    moreover have "?t \<noteq> []"
      using Cons \<open>\<not> ?sp x\<close> by (auto simp: dropWhile_eq_Nil_conv)
    ultimately show ?thesis using trim by blast
  qed
qed

lemma blank_Nil [simp]: "blank ''''"
  by (simp add: blank_iff)

section \<open>Joining and formatting\<close>

fun join :: "string \<Rightarrow> string list \<Rightarrow> string" where
  "join sep [] = ''''"
| "join sep [x] = x"
| "join sep (x # y # ys) = x @ sep @ join sep (y # ys)"

fun digits_of :: "nat \<Rightarrow> string" where
  "digits_of n =
     (if n < 10 then [char_of (48 + n)] else digits_of (n div 10) @ [char_of (48 + n mod 10)])"

declare digits_of.simps [simp del]

definition itoa :: "int \<Rightarrow> string" where
  "itoa i = (if i < 0 then ''-'' @ digits_of (nat (- i)) else digits_of (nat i))"

text \<open>The verb \<^verbatim>\<open>%q\<close> of \<^verbatim>\<open>fmt\<close>, for a text that needs no escapes.\<close>

definition quoted :: "string \<Rightarrow> string" where
  "quoted s = CHR 0x22 # s @ [CHR 0x22]"

end
