(* ===== verification/GoJson.thy ===== *)
theory GoJson
  imports GoText
begin

text \<open>
  What the program uses of Go's \<^verbatim>\<open>encoding/json\<close>: the syntax the scanner accepts (white
  space, literals, numbers, strings with their escapes, nesting of at most 10000), the values as
  trees, and how an object's keys find the fields of a struct (exact name, else the name with its
  letters folded). Objects keep their members in the order of the text, duplicates included: a
  struct decoder assigns them one after the other. An unpaired surrogate escape and an invalid
  byte become U+FFFD. The texts of syntax errors are not modelled.
\<close>

section \<open>Code points as bytes\<close>

definition chr :: "nat \<Rightarrow> char" where "chr n = char_of n"

definition encode_rune :: "nat \<Rightarrow> string" where
  "encode_rune r =
     (if r < 128 then [chr r]
      else if r < 2048 then [chr (192 + r div 64), chr (128 + r mod 64)]
      else if r < 65536 then
        [chr (224 + r div 4096), chr (128 + r div 64 mod 64), chr (128 + r mod 64)]
      else [chr (240 + r div 262144), chr (128 + r div 4096 mod 64),
            chr (128 + r div 64 mod 64), chr (128 + r mod 64)])"

section \<open>Values\<close>

datatype json =
    JNull
  | JBool bool
  | JNum string
  | JStr string
  | JArr "json list"
  | JObj "(string \<times> json) list"

section \<open>Tokens\<close>

definition is_ws :: "char \<Rightarrow> bool" where
  "is_ws c \<longleftrightarrow> c = CHR '' '' \<or> c = CHR 0x09 \<or> c = CHR 0x0A \<or> c = CHR 0x0D"

definition skip_ws :: "string \<Rightarrow> string" where
  "skip_ws s = dropWhile is_ws s"

definition is_digit :: "char \<Rightarrow> bool" where
  "is_digit c \<longleftrightarrow> 48 \<le> byte c \<and> byte c \<le> 57"

definition digit_value :: "char \<Rightarrow> nat" where
  "digit_value c = byte c - 48"

definition hex_value :: "char \<Rightarrow> nat option" where
  "hex_value c =
     (let b = byte c in
      if 48 \<le> b \<and> b \<le> 57 then Some (b - 48)
      else if 97 \<le> b \<and> b \<le> 102 then Some (b - 87)
      else if 65 \<le> b \<and> b \<le> 70 then Some (b - 55) else None)"

text \<open>\<^verbatim>\<open>getu4\<close>: the number of four hexadecimal digits.\<close>

fun getu4 :: "string \<Rightarrow> nat option" where
  "getu4 (a # b # c # d # _) =
     (case (hex_value a, hex_value b, hex_value c, hex_value d) of
        (Some w, Some x, Some y, Some z) \<Rightarrow> Some (((w * 16 + x) * 16 + y) * 16 + z)
      | _ \<Rightarrow> None)"
| "getu4 _ = None"

definition is_surrogate :: "nat \<Rightarrow> bool" where
  "is_surrogate r \<longleftrightarrow> 55296 \<le> r \<and> r < 57344"

text \<open>\<^verbatim>\<open>utf16.DecodeRune\<close>: the code point of a surrogate pair, if it is one.\<close>

definition decode_surrogates :: "nat \<Rightarrow> nat \<Rightarrow> nat option" where
  "decode_surrogates r1 r2 =
     (if 55296 \<le> r1 \<and> r1 < 56320 \<and> 56320 \<le> r2 \<and> r2 < 57344
      then Some ((r1 - 55296) * 1024 + (r2 - 56320) + 65536) else None)"

text \<open>An escape, after its backslash: the bytes it stands for and how many characters it takes.\<close>

definition unescape :: "string \<Rightarrow> (string \<times> nat) option" where
  "unescape s =
     (case s of
        [] \<Rightarrow> None
      | e # r \<Rightarrow>
          if e = CHR 0x22 \<or> e = CHR 0x5C \<or> e = CHR ''/'' then Some ([e], 1)
          else if e = CHR ''b'' then Some ([CHR 0x08], 1)
          else if e = CHR ''f'' then Some ([CHR 0x0C], 1)
          else if e = CHR ''n'' then Some ([CHR 0x0A], 1)
          else if e = CHR ''r'' then Some ([CHR 0x0D], 1)
          else if e = CHR ''t'' then Some ([CHR 0x09], 1)
          else if e = CHR ''u'' then
            (case getu4 r of
               None \<Rightarrow> None
             | Some r1 \<Rightarrow>
                 if is_surrogate r1 then
                   (case (if take 2 (drop 4 r) = [CHR 0x5C, CHR ''u''] then getu4 (drop 6 r) else None) of
                      None \<Rightarrow> Some (encode_rune RuneError, 5)
                    | Some r2 \<Rightarrow>
                        (case decode_surrogates r1 r2 of
                           None \<Rightarrow> Some (encode_rune RuneError, 5)
                         | Some p \<Rightarrow> Some (encode_rune p, 11)))
                 else Some (encode_rune r1, 5))
          else None)"

text \<open>A string, after its opening quote: its bytes and what follows the closing quote.\<close>

function parse_string :: "string \<Rightarrow> (string \<times> string) option" where
  "parse_string [] = None"
| "parse_string (c # s) =
     (if c = CHR 0x22 then Some ([], s)
      else if c = CHR 0x5C then
        (case unescape s of
           None \<Rightarrow> None
         | Some (out, n) \<Rightarrow>
             (case parse_string (drop n s) of
                None \<Rightarrow> None | Some (t, rest) \<Rightarrow> Some (out @ t, rest)))
      else if byte c < 32 then None
      else
        (case parse_string (drop (snd (decode_rune (c # s))) (c # s)) of
           None \<Rightarrow> None | Some (t, rest) \<Rightarrow> Some (encode_rune (fst (decode_rune (c # s))) @ t, rest)))"
  by pat_completeness auto
termination
proof (relation "measure length", goal_cases)
  case (3 c s)
  with decode_rune_width [of c s] show ?case by simp
qed (auto simp: less_Suc_eq_le)

declare parse_string.simps(2) [simp del]

section \<open>Numbers\<close>

definition digits :: "string \<Rightarrow> string" where "digits s = takeWhile is_digit s"

definition after_digits :: "string \<Rightarrow> string" where "after_digits s = dropWhile is_digit s"

text \<open>The integer part: zero, or digits that start with another one.\<close>

definition int_part :: "string \<Rightarrow> (string \<times> string) option" where
  "int_part s =
     (case s of
        [] \<Rightarrow> None
      | c # r \<Rightarrow>
          if c = CHR ''0'' then Some ([c], r)
          else if is_digit c then Some (digits s, after_digits s) else None)"

definition frac_part :: "string \<Rightarrow> (string \<times> string) option" where
  "frac_part s =
     (case s of
        c # r \<Rightarrow>
          if c = CHR ''.''
          then (if digits r = [] then None else Some (c # digits r, after_digits r))
          else Some ([], s)
      | [] \<Rightarrow> Some ([], []))"

definition exp_part :: "string \<Rightarrow> (string \<times> string) option" where
  "exp_part s =
     (case s of
        c # r \<Rightarrow>
          if c = CHR ''e'' \<or> c = CHR ''E'' then
            (let sign = takeWhile (\<lambda>x. x = CHR ''+'' \<or> x = CHR ''-'') (take 1 r);
                 r' = drop (length sign) r
             in if digits r' = [] then None else Some (c # sign @ digits r', after_digits r'))
          else Some ([], s)
      | [] \<Rightarrow> Some ([], []))"

definition parse_number :: "string \<Rightarrow> (string \<times> string) option" where
  "parse_number s =
     (let sign = takeWhile (\<lambda>x. x = CHR ''-'') (take 1 s)
      in case int_part (drop (length sign) s) of
           None \<Rightarrow> None
         | Some (a, s1) \<Rightarrow>
             (case frac_part s1 of
                None \<Rightarrow> None
              | Some (b, s2) \<Rightarrow>
                  (case exp_part s2 of
                     None \<Rightarrow> None
                   | Some (c, s3) \<Rightarrow> Some (sign @ a @ b @ c, s3))))"

definition literal :: "string \<Rightarrow> json \<Rightarrow> string \<Rightarrow> (json \<times> string) option" where
  "literal word v s = (if take (length word) s = word then Some (v, drop (length word) s) else None)"

section \<open>Values in a text\<close>

text \<open>
  The parser descends with fuel: the length of the text bounds the number of its steps. The
  second argument is what is left of the nesting depth.
\<close>

fun parse_value :: "nat \<Rightarrow> nat \<Rightarrow> string \<Rightarrow> (json \<times> string) option"
  and parse_members :: "nat \<Rightarrow> nat \<Rightarrow> string \<Rightarrow> ((string \<times> json) list \<times> string) option"
  and parse_elements :: "nat \<Rightarrow> nat \<Rightarrow> string \<Rightarrow> (json list \<times> string) option"
where
  "parse_value 0 d s = None"
| "parse_value (Suc n) d s =
     (case skip_ws s of
        [] \<Rightarrow> None
      | c # r \<Rightarrow>
          if c = CHR ''{'' then
            (if d = 0 then None
             else if take 1 (skip_ws r) = ''}'' then Some (JObj [], drop 1 (skip_ws r))
             else (case parse_members n (d - 1) r of
                     None \<Rightarrow> None | Some (ms, rest) \<Rightarrow> Some (JObj ms, rest)))
          else if c = CHR ''['' then
            (if d = 0 then None
             else if take 1 (skip_ws r) = '']'' then Some (JArr [], drop 1 (skip_ws r))
             else (case parse_elements n (d - 1) r of
                     None \<Rightarrow> None | Some (vs, rest) \<Rightarrow> Some (JArr vs, rest)))
          else if c = CHR 0x22 then
            (case parse_string r of None \<Rightarrow> None | Some (t, rest) \<Rightarrow> Some (JStr t, rest))
          else if c = CHR ''t'' then literal ''true'' (JBool True) (c # r)
          else if c = CHR ''f'' then literal ''false'' (JBool False) (c # r)
          else if c = CHR ''n'' then literal ''null'' JNull (c # r)
          else
            (case parse_number (c # r) of None \<Rightarrow> None | Some (t, rest) \<Rightarrow> Some (JNum t, rest)))"
| "parse_members 0 d s = None"
| "parse_members (Suc n) d s =
     (case skip_ws s of
        [] \<Rightarrow> None
      | c # r \<Rightarrow>
          if c \<noteq> CHR 0x22 then None
          else (case parse_string r of
            None \<Rightarrow> None
          | Some (key, r1) \<Rightarrow>
              if take 1 (skip_ws r1) \<noteq> '':'' then None
              else (case parse_value n d (drop 1 (skip_ws r1)) of
                None \<Rightarrow> None
              | Some (v, r2) \<Rightarrow>
                  if take 1 (skip_ws r2) = ''}'' then Some ([(key, v)], drop 1 (skip_ws r2))
                  else if take 1 (skip_ws r2) \<noteq> '','' then None
                  else (case parse_members n d (drop 1 (skip_ws r2)) of
                    None \<Rightarrow> None | Some (ms, rest) \<Rightarrow> Some ((key, v) # ms, rest)))))"
| "parse_elements 0 d s = None"
| "parse_elements (Suc n) d s =
     (case parse_value n d s of
        None \<Rightarrow> None
      | Some (v, r) \<Rightarrow>
          if take 1 (skip_ws r) = '']'' then Some ([v], drop 1 (skip_ws r))
          else if take 1 (skip_ws r) \<noteq> '','' then None
          else (case parse_elements n d (drop 1 (skip_ws r)) of
            None \<Rightarrow> None | Some (vs, rest) \<Rightarrow> Some (v # vs, rest)))"

definition max_depth :: nat where "max_depth = 10000"

definition fuel_for :: "string \<Rightarrow> nat" where "fuel_for s = 2 * length s + 1"

definition parse_prefix :: "string \<Rightarrow> (json \<times> string) option" where
  "parse_prefix s = parse_value (fuel_for s) max_depth s"

definition syntax_error :: go_error where "syntax_error = ErrNew ''invalid JSON''"

text \<open>
  \<^verbatim>\<open>Decoder.Decode\<close> reads one value and leaves the rest; \<^verbatim>\<open>json.Unmarshal\<close>
  accepts nothing but white space after it.
\<close>

definition decode_value :: "string \<Rightarrow> (go_error + (json \<times> string))" where
  "decode_value s = (case parse_prefix s of None \<Rightarrow> Inl syntax_error | Some p \<Rightarrow> Inr p)"

definition unmarshal_value :: "string \<Rightarrow> json res" where
  "unmarshal_value s =
     (case parse_prefix s of
        None \<Rightarrow> Inl syntax_error
      | Some (v, rest) \<Rightarrow> if skip_ws rest = [] then Inr v else Inl syntax_error)"

section \<open>Struct fields\<close>

text \<open>
  A key finds the field of its exact name, else the first one whose name is equal when letters
  are folded. Unicode folds two more characters to ASCII letters: the long s and the Kelvin sign.
\<close>

definition fold_rune :: "nat \<Rightarrow> nat" where
  "fold_rune r =
     (if 97 \<le> r \<and> r \<le> 122 then r - 32 else if r = 383 then 83 else if r = 8490 then 75 else r)"

definition fold_name :: "string \<Rightarrow> nat list" where
  "fold_name s = map (\<lambda>x. fold_rune (fst x)) (runes s)"

definition field_of :: "string list \<Rightarrow> string \<Rightarrow> string option" where
  "field_of names key =
     (if key \<in> set names then Some key else find (\<lambda>n. fold_name n = fold_name key) names)"

definition type_error :: go_error where "type_error = ErrNew ''json: cannot unmarshal''"

text \<open>A \<^verbatim>\<open>null\<close> leaves the field as it is.\<close>

definition string_field :: "json \<Rightarrow> string \<Rightarrow> string res" where
  "string_field v old =
     (case v of JNull \<Rightarrow> Inr old | JStr t \<Rightarrow> Inr t | _ \<Rightarrow> Inl type_error)"

fun nat_of_digits :: "nat \<Rightarrow> string \<Rightarrow> nat" where
  "nat_of_digits acc [] = acc"
| "nat_of_digits acc (c # cs) = nat_of_digits (acc * 10 + digit_value c) cs"

definition int64_literal :: "string \<Rightarrow> int option" where
  "int64_literal s =
     (let neg = take 1 s = ''-''; ds = (if neg then drop 1 s else s);
          n = (if neg then - int (nat_of_digits 0 ds) else int (nat_of_digits 0 ds))
      in if ds \<noteq> [] \<and> list_all is_digit ds \<and> - (2 ^ 63) \<le> n \<and> n < 2 ^ 63 then Some n else None)"

definition int64_field :: "json \<Rightarrow> int \<Rightarrow> int res" where
  "int64_field v old =
     (case v of
        JNull \<Rightarrow> Inr old
      | JNum t \<Rightarrow> (case int64_literal t of Some n \<Rightarrow> Inr n | None \<Rightarrow> Inl type_error)
      | _ \<Rightarrow> Inl type_error)"

text \<open>Assigning the members of an object one after the other; the first error is returned.\<close>

fun assign_members ::
    "string list \<Rightarrow> (string \<Rightarrow> 'v \<Rightarrow> 's \<Rightarrow> 's res) \<Rightarrow> (string \<times> 'v) list \<Rightarrow> 's \<Rightarrow> 's res" where
  "assign_members names set_field [] s = Inr s"
| "assign_members names set_field ((key, v) # ms) s =
     (case field_of names key of
        None \<Rightarrow> assign_members names set_field ms s
      | Some f \<Rightarrow>
          (case set_field f v s of
             Inl err \<Rightarrow> Inl err
           | Inr s' \<Rightarrow> assign_members names set_field ms s'))"

definition struct_value ::
    "string list \<Rightarrow> (string \<Rightarrow> json \<Rightarrow> 's \<Rightarrow> 's res) \<Rightarrow> json \<Rightarrow> 's \<Rightarrow> 's res" where
  "struct_value names set_field v s =
     (case v of
        JNull \<Rightarrow> Inr s
      | JObj ms \<Rightarrow> assign_members names set_field ms s
      | _ \<Rightarrow> Inl type_error)"

section \<open>The fuel is enough\<close>

lemma skip_ws_length: "length (skip_ws s) \<le> length s"
  by (simp add: skip_ws_def length_dropWhile_le)

lemma parse_string_length: "parse_string s = Some (t, r) \<Longrightarrow> length r < length s"
proof (induction s arbitrary: t rule: parse_string.induct)
  case (2 c s)
  have w: "1 \<le> snd (decode_rune (c # s))" by (rule decode_rune_width)
  consider "c = CHR 0x22" | "c = CHR 0x5C" | "c \<noteq> CHR 0x22" "c \<noteq> CHR 0x5C" by blast
  then show ?case
  proof cases
    case 1
    with "2.prems" show ?thesis by (simp add: parse_string.simps(2))
  next
    case 2
    with "2.prems" obtain out n t' where "unescape s = Some (out, n)"
      and "parse_string (drop n s) = Some (t', r)"
      by (auto simp: parse_string.simps(2) split: option.splits)
    with "2.IH"(1) 2 have "length r < length (drop n s)" by fastforce
    then show ?thesis by simp
  next
    case 3
    with "2.prems" obtain t' where "\<not> byte c < 32"
      and "parse_string (drop (snd (decode_rune (c # s))) (c # s)) = Some (t', r)"
      by (auto simp: parse_string.simps(2) split: option.splits if_splits)
    with "2.IH"(2) 3 have "length r < length (drop (snd (decode_rune (c # s))) (c # s))" by blast
    then show ?thesis by simp
  qed
qed simp

lemma parse_number_length: "parse_number s = Some (t, r) \<Longrightarrow> length r < length s"
proof -
  have a: "length r1 < length s1" if "int_part s1 = Some (x, r1)" for s1 x r1
    using that by (auto simp: int_part_def after_digits_def length_dropWhile_le
        split: list.splits if_splits intro: le_imp_less_Suc)
  have b: "length r1 \<le> length s1" if "frac_part s1 = Some (x, r1)" for s1 x r1
    using that by (auto simp: frac_part_def after_digits_def split: list.splits if_splits
        intro: order_trans [OF length_dropWhile_le] le_SucI)
  have c: "length r1 \<le> length s1" if "exp_part s1 = Some (x, r1)" for s1 x r1
    using that by (auto simp: exp_part_def after_digits_def Let_def split: list.splits if_splits
        intro: order_trans [OF length_dropWhile_le] le_SucI)
  assume "parse_number s = Some (t, r)"
  then obtain x s1 y s2 z where "int_part (drop (length (takeWhile (\<lambda>x. x = CHR ''-'') (take 1 s))) s) = Some (x, s1)"
    and "frac_part s1 = Some (y, s2)" and "exp_part s2 = Some (z, r)"
    by (auto simp: parse_number_def Let_def split: option.splits)
  from a [OF this(1)] b [OF this(2)] c [OF this(3)] show ?thesis by simp
qed

lemma literal_length: "literal w v s = Some (x, r) \<Longrightarrow> w \<noteq> [] \<Longrightarrow> length r < length s"
  by (auto simp: literal_def split: if_splits) (metis diff_less length_greater_0_conv take_Nil)

lemma after_ws: "length (drop 1 (skip_ws s)) \<le> length s"
  using skip_ws_length [of s] by simp

lemma skip_ws_Cons: "skip_ws s = c # r \<Longrightarrow> length r < length s"
  using skip_ws_length [of s] by simp

lemma parse_length:
  "parse_value n d s = Some (v, r) \<Longrightarrow> length r < length s"
  "parse_members n d s = Some (ms, r) \<Longrightarrow> length r < length s"
  "parse_elements n d s = Some (vs, r) \<Longrightarrow> length r < length s"
proof (induction n d s and n d s and n d s arbitrary: v r and ms r and vs r
    rule: parse_value_parse_members_parse_elements.induct)
  case (2 n d s)
  then obtain c q where s: "skip_ws s = c # q" by (cases "skip_ws s") auto
  note q = skip_ws_Cons [OF s]
  have "length r < Suc (length q)"
    using "2.prems" "2.IH" s after_ws [of q]
    by (auto simp: le_imp_less_Suc less_SucI split: if_splits option.splits
        dest!: parse_string_length parse_number_length literal_length)
  with q show ?case by simp
next
  case (4 n d s)
  then obtain c q where s: "skip_ws s = c # q" by (cases "skip_ws s") auto
  note q = skip_ws_Cons [OF s]
  from "4.prems" s obtain key r1 v r2 where c: "c = CHR 0x22" and str: "parse_string q = Some (key, r1)"
    and colon: "take 1 (skip_ws r1) = '':''"
    and val: "parse_value n d (drop 1 (skip_ws r1)) = Some (v, r2)"
    by (auto split: if_splits option.splits)
  have "length r2 < length s"
    using "4.IH"(1) [OF s _ str refl _ val] c colon parse_string_length [OF str] after_ws [of r1] q by simp
  moreover have "length r \<le> length r2"
    using "4.prems" "4.IH"(2) [OF s _ str refl _ val refl] s c str colon val after_ws [of r2]
    by (force split: if_splits option.splits)
  ultimately show ?case by simp
next
  case (6 n d s)
  then obtain v r1 where val: "parse_value n d s = Some (v, r1)" by (auto split: option.splits)
  from "6.IH"(1) [OF val] have "length r1 < length s" .
  moreover have "length r \<le> length r1"
    using "6.prems" "6.IH"(2) [OF val refl] val after_ws [of r1]
    by (force split: if_splits option.splits)
  ultimately show ?case by simp
qed simp_all

text \<open>Any fuel above twice the length gives the same answer.\<close>

definition fuel_free :: "string \<Rightarrow> bool" where
  "fuel_free s \<longleftrightarrow>
     (\<forall>n m d. 2 * length s < n \<longrightarrow> 2 * length s < m \<longrightarrow> parse_value n d s = parse_value m d s) \<and>
     (\<forall>n m d. 2 * length s < n \<longrightarrow> 2 * length s < m \<longrightarrow> parse_members n d s = parse_members m d s) \<and>
     (\<forall>n m d. 2 * length s + 1 < n \<longrightarrow> 2 * length s + 1 < m \<longrightarrow>
        parse_elements n d s = parse_elements m d s)"

lemma fuel_freeD:
  "fuel_free s \<Longrightarrow> 2 * length s < n \<Longrightarrow> 2 * length s < m \<Longrightarrow> parse_value n d s = parse_value m d s"
  "fuel_free s \<Longrightarrow> 2 * length s < n \<Longrightarrow> 2 * length s < m \<Longrightarrow> parse_members n d s = parse_members m d s"
  "fuel_free s \<Longrightarrow> 2 * length s + 1 < n \<Longrightarrow> 2 * length s + 1 < m \<Longrightarrow>
     parse_elements n d s = parse_elements m d s"
  unfolding fuel_free_def by blast+

lemma Suc_Suc_obtain:
  assumes "(k::nat) < n" and "k < m"
  obtains n' m' where "n = Suc n'" and "m = Suc m'"
  using assms by (metis gr0_implies_Suc less_zeroE not_gr_zero)

lemma fuel_irrelevant: "fuel_free s"
proof (induction s rule: measure_induct_rule [of length])
  case (less s)
  have val_case: "parse_value n d s = parse_value m d s"
    if "2 * length s < n" "2 * length s < m" for n m d
  proof -
    from that obtain n' m' where nm: "n = Suc n'" "m = Suc m'" by (rule Suc_Suc_obtain)
    show ?thesis
    proof (cases "skip_ws s")
      case (Cons c q)
      note q = skip_ws_Cons [OF Cons]
      have "parse_members n' (d - 1) q = parse_members m' (d - 1) q"
        "parse_elements n' (d - 1) q = parse_elements m' (d - 1) q"
        using that nm q by (intro fuel_freeD [OF less]; simp)+
      then show ?thesis by (simp add: nm Cons)
    qed (simp add: nm)
  qed
  moreover have "parse_members n d s = parse_members m d s"
    if nm0: "2 * length s < n" "2 * length s < m" for n m d
  proof -
    from nm0 obtain n' m' where nm: "n = Suc n'" "m = Suc m'" by (rule Suc_Suc_obtain)
    show ?thesis
    proof (cases "skip_ws s")
      case (Cons c q)
      note q = skip_ws_Cons [OF Cons]
      have v: "parse_value n' d (drop 1 (skip_ws r1)) = parse_value m' d (drop 1 (skip_ws r1))"
        if "parse_string q = Some (key, r1)" for key r1
        using nm0 nm q parse_string_length [OF that] after_ws [of r1]
        by (intro fuel_freeD [OF less]) simp_all
      have mem: "parse_members n' d (drop 1 (skip_ws r2)) = parse_members m' d (drop 1 (skip_ws r2))"
        if "parse_string q = Some (key, r1)" "parse_value m' d (drop 1 (skip_ws r1)) = Some (x, r2)"
        for key r1 x r2
        using nm0 nm q parse_string_length [OF that(1)]
          after_ws [of r1] parse_length(1) [OF that(2)] after_ws [of r2]
        by (intro fuel_freeD [OF less]) simp_all
      show ?thesis
        using v mem by (auto simp add: nm Cons split: option.split)
    qed (simp add: nm)
  qed
  moreover have "parse_elements n d s = parse_elements m d s"
    if nm0: "2 * length s + 1 < n" "2 * length s + 1 < m" for n m d
  proof -
    from nm0 obtain n' m' where nm: "n = Suc n'" "m = Suc m'" by (rule Suc_Suc_obtain)
    have v: "parse_value n' d s = parse_value m' d s"
      using nm0 nm by (intro val_case) simp_all
    have els: "parse_elements n' d (drop 1 (skip_ws r)) = parse_elements m' d (drop 1 (skip_ws r))"
      if "parse_value m' d s = Some (x, r)" for x r
      using nm0 nm parse_length(1) [OF that] after_ws [of r]
      by (intro fuel_freeD [OF less]) simp_all
    show ?thesis using els by (auto simp add: nm v split: option.split)
  qed
  ultimately show ?case unfolding fuel_free_def by blast
qed

lemma fuel_for_enough: "fuel_for s \<le> n \<Longrightarrow> parse_value n max_depth s = parse_value (fuel_for s) max_depth s"
  by (rule fuel_freeD [OF fuel_irrelevant]) (simp_all add: fuel_for_def)


section \<open>Evaluating on concrete texts\<close>

lemma parse_string_plain:
  "c \<noteq> CHR 0x22 \<Longrightarrow> c \<noteq> CHR 0x5C \<Longrightarrow> 32 \<le> byte c \<Longrightarrow> byte c < 128 \<Longrightarrow>
     parse_string (c # s) = map_option (\<lambda>p. (c # fst p, snd p)) (parse_string s)"
  "parse_string (CHR 0x22 # s) = Some ([], s)"
  by (auto simp: parse_string.simps decode_rune_ascii encode_rune_def chr_def byte_def split: option.splits)

lemmas parse_numeral =
  parse_value.simps(2) [where n = "pred_numeral k" for k, folded numeral_eq_Suc]
  parse_members.simps(2) [where n = "pred_numeral k" for k, folded numeral_eq_Suc]
  parse_elements.simps(2) [where n = "pred_numeral k" for k, folded numeral_eq_Suc]

lemmas json_eval =
  decode_value_def parse_prefix_def fuel_for_def max_depth_def skip_ws_def is_ws_def byte_def
  parse_numeral parse_string_plain literal_def parse_number_def int_part_def frac_part_def
  exp_part_def digits_def after_digits_def is_digit_def

end
