(* ===== verification/GoEncode.thy ===== *)
theory GoEncode
  imports GoJson
begin

text \<open>
  What the program uses of the encoder of \<^verbatim>\<open>encoding/json\<close>: the compact text of
  \<^verbatim>\<open>json.Marshal\<close> and \<^verbatim>\<open>Encoder.Encode\<close> with HTML escaping on, and the text of
  \<^verbatim>\<open>json.MarshalIndent\<close> with two spaces. An object is written in the order of its
  members; a Go map is first brought into the order of its keys, each key once (the last value
  assigned to a key wins), by \<^theory_text>\<open>go_map\<close>.
\<close>

section \<open>Strings\<close>

definition u00 :: "nat \<Rightarrow> string" where
  "u00 r = [CHR 0x5C, CHR ''u'', CHR ''0'', CHR ''0'',
     ''0123456789abcdef'' ! (r div 16), ''0123456789abcdef'' ! (r mod 16)]"

definition escape_rune :: "nat \<times> string \<Rightarrow> string" where
  "escape_rune x =
     (let r = fst x in
      if r = 34 \<or> r = 92 then [CHR 0x5C, chr r]
      else if r = 8 then [CHR 0x5C, CHR ''b'']
      else if r = 12 then [CHR 0x5C, CHR ''f'']
      else if r = 10 then [CHR 0x5C, CHR ''n'']
      else if r = 13 then [CHR 0x5C, CHR ''r'']
      else if r = 9 then [CHR 0x5C, CHR ''t'']
      else if r < 32 \<or> r = 60 \<or> r = 62 \<or> r = 38 then u00 r
      else if r = RuneError \<and> length (snd x) = 1 then CHR 0x5C # ''ufffd''
      else if r = 8232 then CHR 0x5C # ''u2028''
      else if r = 8233 then CHR 0x5C # ''u2029''
      else snd x)"

definition quote :: "string \<Rightarrow> string" where
  "quote s = CHR 0x22 # concat (map escape_rune (runes s)) @ [CHR 0x22]"

section \<open>Values\<close>

fun marshal :: "json \<Rightarrow> string" where
  "marshal JNull = ''null''"
| "marshal (JBool b) = (if b then ''true'' else ''false'')"
| "marshal (JNum t) = t"
| "marshal (JStr s) = quote s"
| "marshal (JArr vs) = ''['' @ join '','' (map marshal vs) @ '']''"
| "marshal (JObj ms) = ''{'' @ join '','' (map (\<lambda>kv. quote (fst kv) @ '':'' @ marshal (snd kv)) ms) @ ''}''"

text \<open>\<^verbatim>\<open>Encoder.Encode\<close> ends its output with a newline.\<close>

definition encode_line :: "json \<Rightarrow> string" where
  "encode_line v = marshal v @ [CHR 0x0A]"

definition new_line :: "nat \<Rightarrow> string" where
  "new_line depth = CHR 0x0A # replicate (2 * depth) (CHR '' '')"

fun indented :: "nat \<Rightarrow> json \<Rightarrow> string" where
  "indented d (JArr vs) =
     (if vs = [] then ''[]''
      else ''['' @ new_line (Suc d) @
        join ('','' @ new_line (Suc d)) (map (indented (Suc d)) vs) @ new_line d @ '']'')"
| "indented d (JObj ms) =
     (if ms = [] then ''{}''
      else ''{'' @ new_line (Suc d) @
        join ('','' @ new_line (Suc d))
          (map (\<lambda>kv. quote (fst kv) @ '': '' @ indented (Suc d) (snd kv)) ms) @ new_line d @ ''}'')"
| "indented d v = marshal v"

definition MarshalIndent :: "json \<Rightarrow> string" where
  "MarshalIndent v = indented 0 v"

section \<open>Maps\<close>

fun last_wins :: "(string \<times> 'v) list \<Rightarrow> (string \<times> 'v) list" where
  "last_wins [] = []"
| "last_wins (kv # ms) =
     (if fst kv \<in> set (map fst ms) then last_wins ms else kv # last_wins ms)"

definition go_map :: "(string \<times> json) list \<Rightarrow> json" where
  "go_map ms = JObj (sort_key fst (last_wins ms))"

text \<open>A value decoded into \<^verbatim>\<open>any\<close>: its objects are Go maps.\<close>

fun any_value :: "json \<Rightarrow> json" where
  "any_value (JArr vs) = JArr (map any_value vs)"
| "any_value (JObj ms) = go_map (map (\<lambda>kv. (fst kv, any_value (snd kv))) ms)"
| "any_value v = v"

lemma set_last_wins_keys [simp]: "fst ` set (last_wins ms) = fst ` set ms"
  by (induction ms) auto

lemma distinct_last_wins: "distinct (map fst (last_wins ms))"
  by (induction ms) auto

lemma set_last_wins: "set (last_wins ms) \<subseteq> set ms"
  by (induction ms) auto

lemma map_of_last_wins: "map_of (last_wins ms) = map_of (rev ms)"
proof (induction ms)
  case (Cons kv ms)
  show ?case
  proof (cases "fst kv \<in> set (map fst ms)")
    case True
    then have "fst kv \<in> dom (map_of (rev ms))" by (simp add: dom_map_of_conv_image_fst)
    with True Cons show ?thesis
      by (cases kv) (auto simp: map_add_def fun_eq_iff split: option.split)
  next
    case False
    then have "map_of (rev ms) (fst kv) = None" by (simp add: map_of_eq_None_iff)
    with False Cons show ?thesis
      by (cases kv) (auto simp: map_add_def fun_eq_iff split: option.split)
  qed
qed simp

lemma last_wins_distinct: "distinct (map fst ms) \<Longrightarrow> last_wins ms = ms"
  by (induction ms) auto

lemma last_wins_map:
  "last_wins (map (\<lambda>kv. (fst kv, f (fst kv) (snd kv))) ms) =
     map (\<lambda>kv. (fst kv, f (fst kv) (snd kv))) (last_wins ms)"
proof (induction ms)
  case (Cons kv ms)
  have "fst ` set (map (\<lambda>kv. (fst kv, f (fst kv) (snd kv))) ms) = fst ` set ms" by force
  with Cons show ?case by simp
qed simp

lemma sort_key_map:
  "(\<And>x. k (f x) = k x) \<Longrightarrow> sort_key k (map f xs) = map f (sort_key k xs)"
proof (induction xs)
  case (Cons x xs)
  have "insort_key k (f x) (map f ys) = map f (insort_key k x ys)" for ys
    by (induction ys) (simp_all add: Cons.prems)
  with Cons show ?case by simp
qed simp

end
