(* ===== verification/GoTime.thy ===== *)
theory GoTime
  imports GoJson
begin

text \<open>
  What the program uses of Go's \<^verbatim>\<open>time\<close> package: the calendar, and \<^verbatim>\<open>time.Parse\<close>
  for the two layouts of event times, RFC 3339 with a colon in the zone offset (or
  \<^verbatim>\<open>Z\<close>) and ISO 8601 without it. As in Go, a fraction of a second may follow the seconds in
  either layout, after a dot or a comma, the hour may have one digit, and offsets up to 24:60 are
  taken. An instant is the number of nanoseconds since 1970.
\<close>

section \<open>Calendar\<close>

definition is_leap :: "nat \<Rightarrow> bool" where
  "is_leap y \<longleftrightarrow> 4 dvd y \<and> (\<not> 100 dvd y \<or> 400 dvd y)"

definition month_days :: "nat \<Rightarrow> nat list" where
  "month_days y = [31, if is_leap y then 29 else 28, 31, 30, 31, 30, 31, 31, 30, 31, 30, 31]"

definition days_in :: "nat \<Rightarrow> nat \<Rightarrow> nat" where
  "days_in m y = (if 1 \<le> m \<and> m \<le> 12 then month_days y ! (m - 1) else 0)"

text \<open>Days from 1 January 1970 to 1 January of a year.\<close>

definition year_start :: "nat \<Rightarrow> int" where
  "year_start y =
     365 * (int y - 1970) + ((int y - 1) div 4 - (int y - 1) div 100 + (int y - 1) div 400 - 477)"

definition civil_days :: "nat \<Rightarrow> nat \<Rightarrow> nat \<Rightarrow> int" where
  "civil_days y m d = year_start y + int (sum_list (take (m - 1) (month_days y))) + int d - 1"

definition instant :: "nat \<Rightarrow> nat \<Rightarrow> nat \<Rightarrow> nat \<Rightarrow> nat \<Rightarrow> nat \<Rightarrow> nat \<Rightarrow> int \<Rightarrow> time" where
  "instant y mo d h mi s nsec offset =
     (civil_days y mo d * 86400 + int h * 3600 + int mi * 60 + int s - offset) * second + int nsec"

section \<open>Numbers in a layout\<close>

text \<open>\<^verbatim>\<open>getnum\<close>: one or two digits, two when fixed.\<close>

definition getnum :: "bool \<Rightarrow> string \<Rightarrow> (nat \<times> string) option" where
  "getnum fixed s =
     (case s of
        a # b # r \<Rightarrow>
          if \<not> is_digit a then None
          else if \<not> is_digit b then (if fixed then None else Some (digit_value a, b # r))
          else Some (digit_value a * 10 + digit_value b, r)
      | [a] \<Rightarrow> if is_digit a \<and> \<not> fixed then Some (digit_value a, []) else None
      | [] \<Rightarrow> None)"

definition get_year :: "string \<Rightarrow> (nat \<times> string) option" where
  "get_year s =
     (if length s < 4 \<or> \<not> list_all is_digit (take 4 s) then None
      else Some (nat_of_digits 0 (take 4 s), drop 4 s))"

definition expect :: "char \<Rightarrow> string \<Rightarrow> string option" where
  "expect c s = (case s of a # r \<Rightarrow> if a = c then Some r else None | [] \<Rightarrow> None)"

text \<open>At most nine digits of the fraction count.\<close>

definition get_fraction :: "string \<Rightarrow> nat \<times> string" where
  "get_fraction s =
     (case s of
        c # r \<Rightarrow>
          if (c = CHR ''.'' \<or> c = CHR '','') \<and> digits r \<noteq> [] then
            (let ds = take 9 (digits r)
             in (nat_of_digits 0 ds * 10 ^ (9 - length ds), after_digits r))
          else (0, s)
      | [] \<Rightarrow> (0, []))"

definition zone_offset :: "char \<Rightarrow> string \<Rightarrow> string \<Rightarrow> int option" where
  "zone_offset sign hour minute =
     (case (getnum True hour, getnum True minute) of
        (Some (h, _), Some (m, _)) \<Rightarrow>
          if h > 24 \<or> m > 60 then None
          else if sign = CHR ''+'' then Some (int ((h * 60 + m) * 60))
          else if sign = CHR ''-'' then Some (- int ((h * 60 + m) * 60))
          else None
      | _ \<Rightarrow> None)"

text \<open>The zone of RFC 3339 and the one without a colon.\<close>

definition colon_zone :: "string \<Rightarrow> (int \<times> string) option" where
  "colon_zone s =
     (if take 1 s = ''Z'' then Some (0, drop 1 s)
      else if length s < 6 \<or> s ! 3 \<noteq> CHR '':'' then None
      else (case zone_offset (s ! 0) (take 2 (drop 1 s)) (take 2 (drop 4 s)) of
              None \<Rightarrow> None | Some k \<Rightarrow> Some (k, drop 6 s)))"

definition plain_zone :: "string \<Rightarrow> (int \<times> string) option" where
  "plain_zone s =
     (if length s < 5 then None
      else (case zone_offset (s ! 0) (take 2 (drop 1 s)) (take 2 (drop 3 s)) of
              None \<Rightarrow> None | Some k \<Rightarrow> Some (k, drop 5 s)))"

section \<open>Parsing\<close>

definition obind :: "'a option \<Rightarrow> ('a \<Rightarrow> 'b option) \<Rightarrow> 'b option" where
  "obind m k = (case m of None \<Rightarrow> None | Some x \<Rightarrow> k x)"

definition parse_clock :: "string \<Rightarrow> ((nat \<times> nat \<times> nat) \<times> string) option" where
  "parse_clock s =
     obind (getnum False s) (\<lambda>(h, s1).
     if h \<ge> 24 then None else
     obind (expect (CHR '':'') s1) (\<lambda>s2. obind (getnum True s2) (\<lambda>(mi, s3).
     if mi \<ge> 60 then None else
     obind (expect (CHR '':'') s3) (\<lambda>s4. obind (getnum True s4) (\<lambda>(sec, s5).
     if sec \<ge> 60 then None else Some ((h, mi, sec), s5))))))"

definition parse_date :: "string \<Rightarrow> ((nat \<times> nat \<times> nat) \<times> string) option" where
  "parse_date s =
     obind (get_year s) (\<lambda>(y, s1). obind (expect (CHR ''-'') s1) (\<lambda>s2.
     obind (getnum True s2) (\<lambda>(mo, s3).
     if mo = 0 \<or> 12 < mo then None else
     obind (expect (CHR ''-'') s3) (\<lambda>s4. obind (getnum True s4) (\<lambda>(d, s5).
     Some ((y, mo, d), s5))))))"

definition parse_time :: "(string \<Rightarrow> (int \<times> string) option) \<Rightarrow> string \<Rightarrow> time option" where
  "parse_time zone value =
     obind (parse_date value) (\<lambda>((y, mo, d), s1). obind (expect (CHR ''T'') s1) (\<lambda>s2.
     obind (parse_clock s2) (\<lambda>((h, mi, sec), s3).
     (case get_fraction s3 of (nsec, s4) \<Rightarrow>
        obind (zone s4) (\<lambda>(offset, rest).
        if rest \<noteq> [] \<or> d < 1 \<or> days_in mo y < d then None
        else Some (instant y mo d h mi sec nsec offset))))))"

lemma parse_time_examples:
  "parse_time colon_zone ''2026-07-22T15:14:40Z'' = Some (1784733280 * second)"
  "parse_time plain_zone ''2026-07-22T23:13:33+0800'' = Some (1784733213 * second)"
  "parse_time colon_zone ''2000-02-29T00:00:00.5+00:00'' = Some (951782400 * second + 500000000)"
  "parse_time colon_zone ''2001-02-29T00:00:00Z'' = None"
  by (simp_all add: parse_time_def parse_date_def parse_clock_def get_year_def getnum_def expect_def
      get_fraction_def colon_zone_def plain_zone_def zone_offset_def obind_def is_digit_def byte_def
      digit_value_def digits_def after_digits_def days_in_def month_days_def is_leap_def instant_def
      civil_days_def year_start_def second_def)


section \<open>Formatting\<close>

text \<open>
  The date of a day, by the shifted calendar whose years start in March: a cycle of 400 years
  has 146097 days.
\<close>

definition date_of_days :: "int \<Rightarrow> int \<times> nat \<times> nat" where
  "date_of_days days =
     (let z = days + 719468;
          era = z div 146097;
          doe = z mod 146097;
          yoe = (doe - doe div 1460 + doe div 36524 - doe div 146096) div 365;
          doy = doe - (365 * yoe + yoe div 4 - yoe div 100);
          mp = (5 * doy + 2) div 153;
          d = doy - (153 * mp + 2) div 5 + 1;
          m = (if mp < 10 then mp + 3 else mp - 9)
      in (yoe + era * 400 + (if m \<le> 2 then 1 else 0), nat m, nat d))"

definition pad :: "nat \<Rightarrow> nat \<Rightarrow> string" where
  "pad width n = replicate (width - length (digits_of n)) (CHR ''0'') @ digits_of n"

text \<open>\<^verbatim>\<open>t.UTC().Format(time.RFC3339)\<close>.\<close>

definition format_rfc3339 :: "time \<Rightarrow> string" where
  "format_rfc3339 t =
     (let s = unix t; (y, m, d) = date_of_days (s div 86400); r = nat (s mod 86400)
      in (if y < 0 then CHR ''-'' # pad 4 (nat (- y)) else pad 4 (nat y)) @ ''-'' @ pad 2 m @ ''-'' @ pad 2 d @
         ''T'' @ pad 2 (r div 3600) @ '':'' @ pad 2 (r div 60 mod 60) @ '':'' @ pad 2 (r mod 60) @ ''Z'')"

lemma date_of_days_examples:
  "date_of_days 0 = (1970, 1, 1)" "date_of_days 20656 = (2026, 7, 22)"
  "date_of_days 11016 = (2000, 2, 29)" "date_of_days (- 1) = (1969, 12, 31)"
  by code_simp+

end
