(* ===== verification/Inbound.thy ===== *)
theory Inbound
  imports Domain GoEncode GoTime
begin

text \<open>
  The alert callbacks of \<^verbatim>\<open>internal/inbound\<close>: the parser of CloudMonitor events
  (\<^verbatim>\<open>cloudmonitor_event.go\<close>) and the capture of redacted callback bodies
  (\<^verbatim>\<open>cloudmonitor.go\<close>).
\<close>

section \<open>Upper case\<close>

text \<open>
  \<^verbatim>\<open>strings.ToUpper\<close> as far as its result can be ASCII: the ASCII letters, and the two other
  runes whose upper case is an ASCII letter (the dotless i and the long s). Every other rune is
  left as it is; the program only compares the result with ASCII words.
\<close>

definition upper_rune :: "nat \<Rightarrow> nat" where
  "upper_rune r =
     (if 97 \<le> r \<and> r \<le> 122 then r - 32 else if r = 305 then 73 else if r = 383 then 83 else r)"

definition ToUpper :: "string \<Rightarrow> string" where
  "ToUpper s = concat (map (\<lambda>x. encode_rune (upper_rune (fst x))) (runes s))"

section \<open>Events\<close>

definition AlertOccurred :: string where "AlertOccurred = ''OCCURRED''"
definition AlertRecovered :: string where "AlertRecovered = ''RECOVERED''"

record CloudMonitorEvent =
  cm_alert :: Alert
  cm_transition :: string

record cloudMonitorPayload =
  pl_type :: string
  pl_status :: string
  pl_workspace :: string
  pl_rule_id :: string
  pl_alert_entity_id :: string
  pl_time :: string
  pl_timestamp :: int
  pl_entity_id :: string

definition empty_payload :: cloudMonitorPayload where
  "empty_payload =
     \<lparr>pl_type = '''', pl_status = '''', pl_workspace = '''', pl_rule_id = '''',
      pl_alert_entity_id = '''', pl_time = '''', pl_timestamp = 0, pl_entity_id = ''''\<rparr>"

text \<open>
  Decoding into the struct. The nested structs \<^verbatim>\<open>Resource.Entity\<close> are flattened: their
  only field is the entity id, and a second \<^verbatim>\<open>resource\<close> member is merged over the first.
\<close>

definition put :: "'a res \<Rightarrow> ('a \<Rightarrow> 's \<Rightarrow> 's) \<Rightarrow> 's \<Rightarrow> 's res" where
  "put r f s = (case r of Inl err \<Rightarrow> Inl err | Inr x \<Rightarrow> Inr (f x s))"

definition set_entity_field :: "string \<Rightarrow> json \<Rightarrow> string \<Rightarrow> string res" where
  "set_entity_field f v s = string_field v s"

definition set_resource_field :: "string \<Rightarrow> json \<Rightarrow> string \<Rightarrow> string res" where
  "set_resource_field f v s = struct_value [''entity_id''] set_entity_field v s"

definition payload_fields :: "string list" where
  "payload_fields = [''type'', ''status'', ''workspace'', ''ruleId'', ''alertEntityId'', ''time'',
     ''timestamp'', ''resource'']"

definition set_payload_field :: "string \<Rightarrow> json \<Rightarrow> cloudMonitorPayload \<Rightarrow> cloudMonitorPayload res" where
  "set_payload_field f v p =
     (if f = ''type'' then put (string_field v (pl_type p)) (\<lambda>x p. p\<lparr>pl_type := x\<rparr>) p
      else if f = ''status'' then put (string_field v (pl_status p)) (\<lambda>x p. p\<lparr>pl_status := x\<rparr>) p
      else if f = ''workspace'' then put (string_field v (pl_workspace p)) (\<lambda>x p. p\<lparr>pl_workspace := x\<rparr>) p
      else if f = ''ruleId'' then put (string_field v (pl_rule_id p)) (\<lambda>x p. p\<lparr>pl_rule_id := x\<rparr>) p
      else if f = ''alertEntityId''
      then put (string_field v (pl_alert_entity_id p)) (\<lambda>x p. p\<lparr>pl_alert_entity_id := x\<rparr>) p
      else if f = ''time'' then put (string_field v (pl_time p)) (\<lambda>x p. p\<lparr>pl_time := x\<rparr>) p
      else if f = ''timestamp'' then put (int64_field v (pl_timestamp p)) (\<lambda>x p. p\<lparr>pl_timestamp := x\<rparr>) p
      else put (struct_value [''entity''] set_resource_field v (pl_entity_id p))
             (\<lambda>x p. p\<lparr>pl_entity_id := x\<rparr>) p)"

definition decode_payload :: "string \<Rightarrow> cloudMonitorPayload res" where
  "decode_payload raw =
     (case decode_value raw of
        Inl err \<Rightarrow> Inl err
      | Inr (v, rest) \<Rightarrow> struct_value payload_fields set_payload_field v empty_payload)"

definition cloudMonitorEventTime :: "string \<Rightarrow> int \<Rightarrow> time res" where
  "cloudMonitorEventTime v timestamp =
     (if v \<noteq> '''' then
        (case parse_time colon_zone v of
           Some t \<Rightarrow> Inr t
         | None \<Rightarrow>
             (case parse_time plain_zone v of
                Some t \<Rightarrow> Inr t
              | None \<Rightarrow> Inl (ErrNew (''parse CloudMonitor event time '' @ quoted v))))
      else if timestamp > 0 then Inr (timestamp * 1000000)
      else Inl (ErrNew ''CloudMonitor callback requires time or timestamp''))"

definition event_of_payload :: "cloudMonitorPayload \<Rightarrow> CloudMonitorEvent res" where
  "event_of_payload payload =
     (if ToUpper (pl_type payload) \<noteq> ''ALERT''
      then Inl (ErrNew (''unsupported CloudMonitor event type '' @ quoted (pl_type payload)))
      else
        (let transition = ToUpper (pl_status payload);
             resourceID = (if pl_entity_id payload = '''' then pl_alert_entity_id payload
                           else pl_entity_id payload)
         in if transition \<noteq> AlertOccurred \<and> transition \<noteq> AlertRecovered
            then Inl (ErrNew (''unsupported CloudMonitor alert status '' @ quoted (pl_status payload)))
            else if pl_workspace payload = '''' \<or> pl_rule_id payload = '''' \<or> resourceID = ''''
            then Inl (ErrNew ''CloudMonitor callback requires workspace, ruleId, and resource entity id'')
            else (case cloudMonitorEventTime (pl_time payload) (pl_timestamp payload) of
                    Inl err \<Rightarrow> Inl err
                  | Inr eventAt \<Rightarrow>
                      Inr \<lparr>cm_alert = \<lparr>al_workspace = pl_workspace payload,
                             al_rule_id = pl_rule_id payload, al_resource_id = resourceID,
                             al_state = transition, al_event_at = eventAt\<rparr>,
                           cm_transition = transition\<rparr>)))"

definition ParseCloudMonitorEvent :: "string \<Rightarrow> CloudMonitorEvent res" where
  "ParseCloudMonitorEvent raw =
     (case decode_payload raw of
        Inl err \<Rightarrow> Inl (ErrWrap ''decode CloudMonitor callback: '' err '''')
      | Inr payload \<Rightarrow> event_of_payload payload)"

section \<open>Redaction\<close>

text \<open>
  The regular expression \<^verbatim>\<open>sensitiveKey\<close> is a search for one of these words, case
  folded.
\<close>

definition sensitive_words :: "nat list list" where
  "sensitive_words = map fold_name
     [''secret'', ''password'', ''authorization'', ''accesskey'', ''access_key'', ''access-key'',
      ''signature'', ''cookie'', ''token'']"

fun occurs_in :: "'a list \<Rightarrow> 'a list \<Rightarrow> bool" where
  "occurs_in w [] = (w = [])"
| "occurs_in w (x # xs) = (take (length w) (x # xs) = w \<or> occurs_in w xs)"

definition sensitiveKey :: "string \<Rightarrow> bool" where
  "sensitiveKey key = list_ex (\<lambda>w. occurs_in w (fold_name key)) sensitive_words"

fun redact :: "json \<Rightarrow> json" where
  "redact (JObj ms) =
     JObj (map (\<lambda>kv. (fst kv, if sensitiveKey (fst kv) then JStr ''[REDACTED]'' else redact (snd kv))) ms)"
| "redact (JArr vs) = JArr (map redact vs)"
| "redact v = v"

section \<open>Capture\<close>

text \<open>
  The capture directory maps file names to contents. What the operating system answers to the
  calls of \<^verbatim>\<open>Save\<close> is its argument: the context's error, the error of \<^verbatim>\<open>MkdirAll\<close>,
  the fresh fixture id, the error of \<^verbatim>\<open>OpenFile\<close> for a name that is free, and how much of
  the text was written before an error.
\<close>

type_synonym fixtures = "string \<Rightarrow> string option"

record save_env =
  se_ctx :: "go_error option"
  se_mkdir :: "go_error option"
  se_id :: "string res"
  se_open :: "go_error option"
  se_write :: "(nat \<times> go_error) option"

definition ErrExist :: go_error where "ErrExist = ErrNew ''file already exists''"

text \<open>The single JSON object of a body, as a value of type \<^verbatim>\<open>any\<close>.\<close>

definition capture_payload :: "string \<Rightarrow> json res" where
  "capture_payload raw =
     (case decode_value raw of
        Inl err \<Rightarrow> Inl (ErrWrap ''callback body must be valid JSON: '' err '''')
      | Inr (v, rest) \<Rightarrow>
          if skip_ws rest \<noteq> []
          then Inl (ErrNew ''callback body must contain exactly one JSON value'')
          else (case any_value v of
                  JObj ms \<Rightarrow> Inr (JObj ms)
                | _ \<Rightarrow> Inl (ErrNew ''callback body must be a JSON object'')))"

definition write_new_file ::
    "save_env \<Rightarrow> string \<Rightarrow> string \<Rightarrow> fixtures \<Rightarrow> unit res \<times> fixtures" where
  "write_new_file env name content files =
     (if files name \<noteq> None then (Inl ErrExist, files)
      else case se_open env of
        Some err \<Rightarrow> (Inl err, files)
      | None \<Rightarrow>
        (case se_write env of
           Some (n, err) \<Rightarrow> (Inl err, files(name \<mapsto> take n content))
         | None \<Rightarrow> (Inr (), files(name \<mapsto> content))))"

definition Save :: "save_env \<Rightarrow> string \<Rightarrow> string \<Rightarrow> fixtures \<Rightarrow> string res \<times> fixtures" where
  "Save env dir raw files =
     (case se_ctx env of
        Some err \<Rightarrow> (Inl err, files)
      | None \<Rightarrow>
        if dir = '''' then (Inl (ErrNew ''callback capture directory is not configured''), files)
        else case capture_payload raw of
          Inl err \<Rightarrow> (Inl err, files)
        | Inr payload \<Rightarrow>
          (case se_mkdir env of
             Some err \<Rightarrow> (Inl err, files)
           | None \<Rightarrow>
             (case se_id env of
                Inl err \<Rightarrow> (Inl err, files)
              | Inr fresh \<Rightarrow>
                (case write_new_file env (fresh @ ''.json'')
                        (MarshalIndent (redact payload) @ [CHR 0x0A]) files of
                   (Inl err, files') \<Rightarrow> (Inl err, files')
                 | (Inr _, files') \<Rightarrow> (Inr fresh, files')))))"

text \<open>The name of a fixture: the UTC time to the nanosecond and six random bytes.\<close>

definition fixtureID :: "(time \<Rightarrow> string) \<Rightarrow> string res \<Rightarrow> time \<Rightarrow> string res" where
  "fixtureID format random now =
     (case random of
        Inl err \<Rightarrow> Inl err
      | Inr buf \<Rightarrow> Inr (''cloudmonitor-'' @ format now @ ''-'' @ hex_encode buf))"


section \<open>Properties\<close>

text \<open>Members whose key finds no field do not count.\<close>

definition payload_member :: "string \<times> json \<Rightarrow> bool" where
  "payload_member kv \<longleftrightarrow> field_of payload_fields (fst kv) \<noteq> None"

lemma assign_members_filter:
  "assign_members names sf (filter (\<lambda>kv. field_of names (fst kv) \<noteq> None) ms) s = assign_members names sf ms s"
  by (induction ms arbitrary: s) (auto split: sum.splits option.splits)


text \<open>What an accepted event looks like.\<close>

lemma event_of_payload_fields:
  assumes "event_of_payload p = Inr ev"
  shows "al_workspace (cm_alert ev) \<noteq> ''''" "al_rule_id (cm_alert ev) \<noteq> ''''"
    "al_resource_id (cm_alert ev) \<noteq> ''''" "al_state (cm_alert ev) = cm_transition ev"
    "cm_transition ev = AlertOccurred \<or> cm_transition ev = AlertRecovered"
    "al_workspace (cm_alert ev) = pl_workspace p" "al_rule_id (cm_alert ev) = pl_rule_id p"
    "cloudMonitorEventTime (pl_time p) (pl_timestamp p) = Inr (al_event_at (cm_alert ev))"
  using assms by (auto simp: event_of_payload_def Let_def split: if_splits sum.splits)

lemma event_fields:
  assumes "ParseCloudMonitorEvent raw = Inr ev"
  shows "al_workspace (cm_alert ev) \<noteq> ''''" "al_rule_id (cm_alert ev) \<noteq> ''''"
    "al_resource_id (cm_alert ev) \<noteq> ''''" "al_state (cm_alert ev) = cm_transition ev"
    "cm_transition ev = AlertOccurred \<or> cm_transition ev = AlertRecovered"
proof -
  from assms obtain p where "event_of_payload p = Inr ev"
    by (auto simp: ParseCloudMonitorEvent_def split: sum.splits)
  note f = event_of_payload_fields [OF this]
  show "al_workspace (cm_alert ev) \<noteq> ''''" "al_rule_id (cm_alert ev) \<noteq> ''''"
    "al_resource_id (cm_alert ev) \<noteq> ''''" "al_state (cm_alert ev) = cm_transition ev"
    "cm_transition ev = AlertOccurred \<or> cm_transition ev = AlertRecovered"
    by (rule f)+
qed

text \<open>Every value under a sensitive key, at any depth, is the placeholder.\<close>

fun redacted :: "json \<Rightarrow> bool" where
  "redacted (JObj ms) =
     list_all (\<lambda>kv. if sensitiveKey (fst kv) then snd kv = JStr ''[REDACTED]'' else redacted (snd kv)) ms"
| "redacted (JArr vs) = list_all redacted vs"
| "redacted v = True"

lemma redacted_redact: "redacted (redact v)"
  by (induction v rule: redact.induct) (auto simp: list_all_iff)

text \<open>Two values that differ only under sensitive keys.\<close>

fun same_outside :: "json \<Rightarrow> json \<Rightarrow> bool" where
  "same_outside (JObj ms) (JObj ms') =
     list_all2 (\<lambda>kv kv'. fst kv = fst kv' \<and> (sensitiveKey (fst kv) \<or> same_outside (snd kv) (snd kv'))) ms ms'"
| "same_outside (JArr vs) (JArr vs') = list_all2 same_outside vs vs'"
| "same_outside v v' = (v = v')"

lemma same_outside_redact: "same_outside v v' \<Longrightarrow> redact v = redact v'"
proof (induction v v' rule: same_outside.induct)
  case (1 ms ms')
  then have len: "length ms = length ms'" by (auto dest: list_all2_lengthD)
  have vals: "redact (snd (ms ! i)) = redact (snd (ms' ! i))"
    if "i < length ms'" "same_outside (snd (ms ! i)) (snd (ms' ! i))" for i
    using "1.IH" [of "ms ! i" "ms' ! i"] that len by simp
  have keys: "fst (ms ! i) = fst (ms' ! i) \<and>
      (sensitiveKey (fst (ms ! i)) \<or> same_outside (snd (ms ! i)) (snd (ms' ! i)))"
    if "i < length ms'" for i
    using "1.prems" that by (auto simp: list_all2_conv_all_nth)
  define f where "f kv = (fst kv, if sensitiveKey (fst kv) then JStr ''[REDACTED]'' else redact (snd kv))"
    for kv
  have "f (ms ! i) = f (ms' ! i)" if "i < length ms'" for i
    using keys [OF that] vals [OF that] by (auto simp: f_def)
  with len have "map f ms = map f ms'" by (intro nth_equalityI) simp_all
  then show ?case by (simp add: f_def [abs_def])
next
  case (2 vs vs')
  then have "length vs = length vs'" by (auto dest: list_all2_lengthD)
  with 2 show ?case
    by (auto simp: list_all2_conv_all_nth intro!: nth_equalityI)
qed auto

lemma write_new_file_changes:
  assumes "write_new_file env name content files = (r, files')" and "files' q \<noteq> files q"
  shows "q = name \<and> files q = None \<and> (\<exists>n. files' q = Some (take n content))"
proof -
  from assms(1) have "files' = files \<or> files name = None \<and> (\<exists>n. files' = files(name \<mapsto> take n content))"
    unfolding write_new_file_def
    by (auto split: if_splits option.splits intro: exI [of _ "length content"])
  with assms(2) show ?thesis by (auto split: if_splits)
qed

lemma Save_cases:
  assumes "Save env dir raw files = (r, files')"
  shows "files' = files \<and> (\<exists>err. r = Inl err) \<or>
    (\<exists>payload fresh q. capture_payload raw = Inr payload \<and> se_id env = Inr fresh \<and>
       write_new_file env (fresh @ ''.json'') (MarshalIndent (redact payload) @ [CHR 0x0A]) files = (q, files') \<and>
       (r = Inr fresh \<and> q = Inr () \<or> (\<exists>err. r = Inl err)))"
  using assms by (cases "se_id env") (auto simp: Save_def split: option.splits sum.splits if_splits prod.splits, metis)

text \<open>
  C31 (captured_fixtures_are_redacted). Whatever \<^verbatim>\<open>Save\<close> does to the capture directory, it
  only creates the file it names: no existing file changes, and what a file newly holds is the
  text, or after a write error the beginning of the text, of a JSON value in which every value
  under a sensitive key, at any depth, is the placeholder. When it succeeds the file holds the whole text of
  the redacted body.
\<close>

theorem captured_fixtures_are_redacted:
  assumes "Save env dir raw files = (r, files')"
  shows "(\<forall>name. files' name \<noteq> files name \<longrightarrow> files name = None \<and>
            (\<exists>v n. redacted v \<and> files' name = Some (take n (MarshalIndent v @ [CHR 0x0A])))) \<and>
         (\<forall>name. r = Inr name \<longrightarrow>
            (\<exists>v. capture_payload raw = Inr v \<and> files' (name @ ''.json'') = Some (MarshalIndent (redact v) @ [CHR 0x0A])))"
proof (intro conjI allI impI)
  fix name assume ne: "files' name \<noteq> files name"
  with Save_cases [OF assms] obtain payload fresh q
    where "write_new_file env (fresh @ ''.json'') (MarshalIndent (redact payload) @ [CHR 0x0A]) files = (q, files')"
    by blast
  from write_new_file_changes [OF this ne]
  show "files name = None" "\<exists>v n. redacted v \<and> files' name = Some (take n (MarshalIndent v @ [CHR 0x0A]))"
    using redacted_redact [of payload] by blast+
next
  fix name assume "r = Inr name"
  with Save_cases [OF assms] obtain payload where p: "capture_payload raw = Inr payload"
    and w: "write_new_file env (name @ ''.json'') (MarshalIndent (redact payload) @ [CHR 0x0A]) files = (Inr (), files')"
    by blast
  from w have "files' (name @ ''.json'') = Some (MarshalIndent (redact payload) @ [CHR 0x0A])"
    by (auto simp: write_new_file_def split: if_splits option.splits)
  with p show "\<exists>v. capture_payload raw = Inr v \<and>
      files' (name @ ''.json'') = Some (MarshalIndent (redact v) @ [CHR 0x0A])" by blast
qed

text \<open>
  C32 (capture_hides_sensitive_values). What is captured does not depend on the values under
  sensitive keys: two bodies whose objects differ only there leave the same file and give the
  same answer.
\<close>

theorem capture_hides_sensitive_values:
  assumes "capture_payload raw = Inr v" and "capture_payload raw' = Inr v'" and "same_outside v v'"
  shows "Save env dir raw files = Save env dir raw' files"
  using assms(1,2) same_outside_redact [OF assms(3)] by (simp add: Save_def split: option.split sum.split)


section \<open>Witnesses\<close>

definition demo_body :: "char \<Rightarrow> string" where
  "demo_body secret =
     [CHR ''{'', CHR 0x22, CHR ''i'', CHR ''d'', CHR 0x22, CHR '':'', CHR ''1'', CHR '','', CHR 0x22,
      CHR ''t'', CHR ''o'', CHR ''k'', CHR ''e'', CHR ''n'', CHR 0x22, CHR '':'', CHR 0x22, secret,
      CHR 0x22, CHR ''}'']"

lemma demo_body_decoded:
  "decode_value (demo_body CHR ''x'') = Inr (JObj [(''id'', JNum ''1''), (''token'', JStr ''x'')], [])"
  "decode_value (demo_body CHR ''y'') = Inr (JObj [(''id'', JNum ''1''), (''token'', JStr ''y'')], [])"
  by (simp_all add: demo_body_def json_eval)

lemma demo_body_payload:
  "capture_payload (demo_body CHR ''x'') = Inr (JObj [(''id'', JNum ''1''), (''token'', JStr ''x'')])"
  "capture_payload (demo_body CHR ''y'') = Inr (JObj [(''id'', JNum ''1''), (''token'', JStr ''y'')])"
  by (simp_all add: capture_payload_def demo_body_decoded go_map_def skip_ws_def)

lemma demo_body_keys: "sensitiveKey ''token''"
  by (simp add: sensitiveKey_def sensitive_words_def fold_name_def fold_rune_def runes_ascii byte_def)

definition demo_save_env :: save_env where
  "demo_save_env = \<lparr>se_ctx = None, se_mkdir = None, se_id = Inr ''f1'', se_open = None, se_write = None\<rparr>"

lemma capture_hides_sensitive_values_witness:
  "Save demo_save_env ''/captures'' (demo_body CHR ''x'') Map.empty =
     Save demo_save_env ''/captures'' (demo_body CHR ''y'') Map.empty"
  by (rule capture_hides_sensitive_values [OF demo_body_payload(1) demo_body_payload(2)])
    (simp add: demo_body_keys)

lemma demo_save:
  "fst (Save demo_save_env ''/captures'' (demo_body CHR ''x'') Map.empty) = Inr ''f1''"
  by (simp add: Save_def demo_save_env_def demo_body_payload write_new_file_def)

lemma captured_fixtures_are_redacted_witness:
  "\<exists>v. capture_payload (demo_body CHR ''x'') = Inr v \<and>
     snd (Save demo_save_env ''/captures'' (demo_body CHR ''x'') Map.empty) ''f1.json'' =
       Some (MarshalIndent (redact v) @ [CHR 0x0A])"
  using captured_fixtures_are_redacted [OF surjective_pairing, of demo_save_env "''/captures''" "demo_body CHR ''x''" Map.empty]
    demo_save by simp


end
