(* ===== verification/Runner.thy ===== *)
theory Runner
  imports Domain GoText
begin

text \<open>
  The RCA analysis boundary of \<^verbatim>\<open>internal/cc/runner.go\<close>: the fixed evidence forms, the
  command line of the child process, the bounded output buffers, and the parsing and validation
  of the result. The child process is a parameter (what it writes, how it ends), and so are
  \<^verbatim>\<open>encoding/json\<close> (the record \<^theory_text>\<open>codec\<close>) and SHA-256. In production
  \<^verbatim>\<open>commandFactory\<close> is nil, so commands are built by \<^verbatim>\<open>exec.CommandContext\<close>. A text
  formatted with \<^verbatim>\<open>%q\<close> is written in plain quotes.
\<close>

section \<open>Fixed evidence forms\<close>

definition fixedEvidenceForms :: "string list list" where
  "fixedEvidenceForms =
     [[''incident'', ''context''], [''metrics'', ''query''], [''logs'', ''query''],
      [''changes'', ''query'']]"

record EvidenceCollection =
  ec_form :: string
  ec_evidence :: "Evidence list"

fun match_form :: "string list \<Rightarrow> string list \<Rightarrow> bool" where
  "match_form [] [] = True"
| "match_form (x # xs) (y # ys) = (if x \<noteq> y then False else match_form xs ys)"
| "match_form _ _ = False"

fun form_loop :: "string list \<Rightarrow> string list list \<Rightarrow> bool" where
  "form_loop form [] = False"
| "form_loop form (candidate # rest) =
     (if length form \<noteq> length candidate then form_loop form rest
      else if match_form form candidate then True else form_loop form rest)"

definition isFixedEvidenceForm :: "string list \<Rightarrow> bool" where
  "isFixedEvidenceForm form = form_loop form fixedEvidenceForms"

section \<open>Safe references\<close>

definition reference_rune :: "nat \<Rightarrow> bool" where
  "reference_rune r \<longleftrightarrow>
     (97 \<le> r \<and> r \<le> 122) \<or> (65 \<le> r \<and> r \<le> 90) \<or> (48 \<le> r \<and> r \<le> 57) \<or>
     r = 45 \<or> r = 95 \<or> r = 46 \<or> r = 58"

fun reference_loop :: "(nat \<times> string) list \<Rightarrow> bool" where
  "reference_loop [] = True"
| "reference_loop (x # xs) = (if reference_rune (fst x) then reference_loop xs else False)"

definition isSafeIncidentID :: "string \<Rightarrow> bool" where
  "isSafeIncidentID value = (if TrimSpace value = '''' then False else reference_loop (runes value))"

section \<open>Commands\<close>

definition defaultClaudeBinary :: string where "defaultClaudeBinary = ''/usr/bin/claude''"
definition defaultEvidenceCLIPath :: string where
  "defaultEvidenceCLIPath = ''/opt/sre-rca/bin/sre-evidence''"
definition defaultWorkingDir :: string where "defaultWorkingDir = ''/opt/sre-rca/runtime''"
definition childHome :: string where "childHome = ''/var/lib/sre-rca''"
definition childPath :: string where
  "childPath = ''/usr/local/sbin:/usr/local/bin:/usr/sbin:/usr/bin:/sbin:/bin''"
definition defaultTimeout :: int where "defaultTimeout = 5 * 60 * second"
definition defaultMaxOutputBytes :: int where "defaultMaxOutputBytes = 64 * 2 ^ 10"

record Runner =
  rn_Timeout :: int
  rn_MaxTurns :: int
  rn_MaxOutputBytes :: int
  rn_workingDir :: string

record command =
  cmd_path :: string
  cmd_args :: "string list"
  cmd_dir :: string
  cmd_env :: "string list"
  cmd_process_group :: bool
  cmd_wait_delay :: int

definition timeout_of :: "Runner \<Rightarrow> int" where
  "timeout_of r = (if rn_Timeout r > 0 then rn_Timeout r else defaultTimeout)"

definition maxTurns :: "Runner \<Rightarrow> int" where
  "maxTurns r = (if rn_MaxTurns r > 0 then rn_MaxTurns r else 8)"

definition outputLimit :: "Runner \<Rightarrow> int" where
  "outputLimit r = (if rn_MaxOutputBytes r > 0 then rn_MaxOutputBytes r else defaultMaxOutputBytes)"

definition runtimeWorkingDir :: "Runner \<Rightarrow> string" where
  "runtimeWorkingDir r = (if rn_workingDir r \<noteq> '''' then rn_workingDir r else defaultWorkingDir)"

definition minimalChildEnvironment :: "string list" where
  "minimalChildEnvironment = [''HOME='' @ childHome, ''PATH='' @ childPath]"

definition newCommand :: "string \<Rightarrow> string list \<Rightarrow> command" where
  "newCommand name args =
     \<lparr>cmd_path = name, cmd_args = args, cmd_dir = '''', cmd_env = [],
      cmd_process_group = False, cmd_wait_delay = 0\<rparr>"

definition configureProcessGroup :: "command \<Rightarrow> command" where
  "configureProcessGroup c = c\<lparr>cmd_process_group := True, cmd_wait_delay := second\<rparr>"

text \<open>
  The \<^verbatim>\<open>Cancel\<close> function of the command: it kills the process group, and a group that
  is already gone counts as done. \<^theory_text>\<open>kill\<close> is the system call (no result is success).
\<close>

definition ErrProcessDone :: go_error where
  "ErrProcessDone = ErrNew ''os: process already finished''"

definition ESRCH :: go_error where "ESRCH = ErrNew ''no such process''"

definition cancel_child :: "(int \<Rightarrow> go_error option) \<Rightarrow> int option \<Rightarrow> go_error option" where
  "cancel_child kill process =
     (case process of
        None \<Rightarrow> Some ErrProcessDone
      | Some pid \<Rightarrow>
          (case kill (- pid) of
             None \<Rightarrow> None
           | Some err \<Rightarrow> if errors_is err ESRCH then Some ErrProcessDone else Some err))"

definition configureChildCommand :: "Runner \<Rightarrow> command \<Rightarrow> command" where
  "configureChildCommand r c =
     (configureProcessGroup c)\<lparr>cmd_dir := runtimeWorkingDir r, cmd_env := minimalChildEnvironment\<rparr>"

definition unsafe_id_error :: go_error where
  "unsafe_id_error = ErrNew ''incident id is required and must be a safe reference''"

definition prepareEvidenceCommand :: "Runner \<Rightarrow> string list \<Rightarrow> string \<Rightarrow> command res" where
  "prepareEvidenceCommand r form incidentID =
     (if \<not> isSafeIncidentID incidentID then Inl unsafe_id_error
      else if \<not> isFixedEvidenceForm form then Inl (ErrNew ''evidence form is not allowed'')
      else Inr (configureChildCommand r (newCommand defaultEvidenceCLIPath (form @ [incidentID]))))"

section \<open>The prompt\<close>

record codec =
  js_payload :: "string \<Rightarrow> EvidenceCollection list \<Rightarrow> string res"
  js_ids :: "string list \<Rightarrow> string res"
  js_result_into :: "string \<Rightarrow> RCAResult \<Rightarrow> RCAResult res"
  js_envelope :: "string \<Rightarrow> string res"

fun check_forms :: "nat \<Rightarrow> EvidenceCollection list \<Rightarrow> string list list \<Rightarrow> unit res" where
  "check_forms n (c # cs) (f # fs) =
     (if ec_form c \<noteq> join '' '' f
      then Inl (ErrNew (''RCA evidence collection '' @ itoa (int n) @ '' is not an allowed fixed form''))
      else check_forms (Suc n) cs fs)"
| "check_forms n _ _ = Inr ()"

definition nl :: string where "nl = [CHR 0x0A]"

definition prompt_text :: "string \<Rightarrow> string \<Rightarrow> string" where
  "prompt_text allowed payload =
     ''/rca-investigate'' @ nl @
     ''Analyze only the supplied fixed evidence JSON. Do not request or use any other tools, commands, URLs, APIs, filesystem data, credentials, or network access.'' @ nl @
     ''Use Simplified Chinese for every human-readable RCA value. Keep only opaque identifiers, URLs, and machine field names unchanged.'' @ nl @
     ''Your evidence_ids must be a non-empty subset of the exact IDs in ALLOWED_EVIDENCE_IDS. Copy IDs verbatim; never hash, transform, infer, or invent an evidence ID.'' @ nl @
     ''ALLOWED_EVIDENCE_IDS='' @ allowed @ nl @ payload"

definition allowed_ids :: "EvidenceCollection list \<Rightarrow> string list" where
  "allowed_ids collections = concat (map (\<lambda>c. map ev_id (ec_evidence c)) collections)"

definition buildPrompt :: "codec \<Rightarrow> string \<Rightarrow> EvidenceCollection list \<Rightarrow> string res" where
  "buildPrompt js incidentID collections =
     (if \<not> isSafeIncidentID incidentID then Inl unsafe_id_error
      else if length collections \<noteq> length fixedEvidenceForms
      then Inl (ErrNew ''RCA requires all fixed evidence collections'')
      else case check_forms 0 collections fixedEvidenceForms of
        Inl err \<Rightarrow> Inl err
      | Inr _ \<Rightarrow>
        (case js_payload js incidentID collections of
           Inl err \<Rightarrow> Inl (ErrWrap ''encode fixed RCA evidence: '' err '''')
         | Inr payload \<Rightarrow>
           (case js_ids js (allowed_ids collections) of
              Inl err \<Rightarrow> Inl (ErrWrap ''encode allowed RCA evidence IDs: '' err '''')
            | Inr allowed \<Rightarrow> Inr (prompt_text allowed payload))))"

definition prepareClaudeCommand ::
    "codec \<Rightarrow> Runner \<Rightarrow> string \<Rightarrow> EvidenceCollection list \<Rightarrow> command res" where
  "prepareClaudeCommand js r incidentID collections =
     (if \<not> isSafeIncidentID incidentID then Inl unsafe_id_error
      else case buildPrompt js incidentID collections of
        Inl err \<Rightarrow> Inl err
      | Inr prompt \<Rightarrow> Inr (configureChildCommand r (newCommand defaultClaudeBinary
          [''-p'', prompt, ''--output-format'', ''json'', ''--max-turns'', itoa (maxTurns r),
           ''--tools'', '''', ''--no-session-persistence''])))"

section \<open>Bounded output\<close>

record boundedBuffer =
  bb_buffer :: string
  bb_limit :: int
  bb_total :: int
  bb_truncated :: bool

definition newBoundedBuffer :: "int \<Rightarrow> boundedBuffer" where
  "newBoundedBuffer limit =
     \<lparr>bb_buffer = [], bb_limit = (if limit \<le> 0 then defaultMaxOutputBytes else limit),
      bb_total = 0, bb_truncated = False\<rparr>"

definition bb_Write :: "boundedBuffer \<Rightarrow> string \<Rightarrow> int \<times> boundedBuffer" where
  "bb_Write b p =
     (let written = int (length p);
          b = b\<lparr>bb_total := bb_total b + written\<rparr>;
          remaining = bb_limit b - int (length (bb_buffer b))
      in if remaining \<le> 0 then (written, b\<lparr>bb_truncated := True\<rparr>)
         else if int (length p) > remaining
         then (written, b\<lparr>bb_truncated := True,
                 bb_buffer := bb_buffer b @ take (nat remaining) p\<rparr>)
         else (written, b\<lparr>bb_buffer := bb_buffer b @ p\<rparr>))"

definition write_all :: "boundedBuffer \<Rightarrow> string list \<Rightarrow> boundedBuffer" where
  "write_all b ps = foldl (\<lambda>b p. snd (bb_Write b p)) b ps"

definition describe :: "(string \<Rightarrow> string) \<Rightarrow> boundedBuffer \<Rightarrow> string \<Rightarrow> string" where
  "describe sha256 b name =
     name @ ''_bytes='' @ itoa (bb_total b) @ '' '' @ name @ ''_sha256='' @
     hex_encode (take 8 (sha256 (bb_buffer b))) @ '' truncated='' @
     (if bb_truncated b then ''true'' else ''false'')"

section \<open>Results\<close>

fun han_loop :: "(nat \<times> string) list \<Rightarrow> bool" where
  "han_loop [] = False"
| "han_loop (x # xs) = (if 19968 \<le> fst x \<and> fst x \<le> 40959 then True else han_loop xs)"

definition containsHan :: "string \<Rightarrow> bool" where
  "containsHan value = han_loop (runes value)"

fun check_actions :: "string list \<Rightarrow> unit res" where
  "check_actions [] = Inr ()"
| "check_actions (action # rest) =
     (if TrimSpace action = '''' \<or> \<not> containsHan action
      then Inl (ErrNew ''RCA result next_actions must contain Chinese'')
      else check_actions rest)"

text \<open>The map of known evidence is nil (\<^const>\<open>None\<close>) when only the shape is checked.\<close>

fun check_evidence_ids :: "(string \<Rightarrow> bool) option \<Rightarrow> string list \<Rightarrow> unit res" where
  "check_evidence_ids known [] = Inr ()"
| "check_evidence_ids known (i # rest) =
     (if i = '''' then Inl (ErrNew ''RCA evidence id must not be empty'')
      else case known of
        None \<Rightarrow> check_evidence_ids known rest
      | Some m \<Rightarrow>
          if \<not> m i
          then Inl (ErrNew (''RCA result references unknown evidence \"'' @ i @ ''\"''))
          else check_evidence_ids known rest)"

definition ValidateResult :: "RCAResult \<Rightarrow> (string \<Rightarrow> bool) option \<Rightarrow> unit res" where
  "ValidateResult result known =
     (if TrimSpace (rca_summary result) = '''' \<or> TrimSpace (rca_root_cause result) = ''''
      then Inl (ErrNew ''RCA result summary and root_cause are required'')
      else if \<not> containsHan (rca_summary result) \<or> \<not> containsHan (rca_root_cause result)
      then Inl (ErrNew ''RCA result summary and root_cause must contain Chinese'')
      else case check_actions (rca_next_actions result) of
        Inl err \<Rightarrow> Inl err
      | Inr _ \<Rightarrow>
        if rca_confidence result < 0 \<or> rca_confidence result > 1
        then Inl (ErrNew ''RCA confidence must be within [0,1]'')
        else if length (rca_evidence_ids result) = 0
        then Inl (ErrNew ''RCA result requires at least one evidence id'')
        else check_evidence_ids known (rca_evidence_ids result))"

text \<open>
  \<^verbatim>\<open>json.Unmarshal\<close> fills the fields of an existing struct: the result inside an envelope
  is read over what the outer object already gave.
\<close>

definition ParseResult :: "codec \<Rightarrow> string \<Rightarrow> RCAResult res" where
  "ParseResult js raw =
     (case js_result_into js raw empty_result of
        Inl err \<Rightarrow> Inl (ErrWrap ''decode RCA result: '' err '''')
      | Inr result \<Rightarrow>
        (case (if rca_summary result = '''' then
                 (case js_envelope js raw of
                    Inl _ \<Rightarrow> Inr result
                  | Inr inner \<Rightarrow>
                      if inner = '''' then Inr result
                      else (case js_result_into js inner result of
                              Inl err \<Rightarrow> Inl (ErrWrap ''decode RCA result envelope: '' err '''')
                            | Inr result' \<Rightarrow> Inr result'))
               else Inr result) of
           Inl err \<Rightarrow> Inl err
         | Inr result \<Rightarrow>
           (case ValidateResult result None of
              Inl err \<Rightarrow> Inl err
            | Inr _ \<Rightarrow> Inr result)))"

section \<open>Running the child\<close>

text \<open>
  What the child process did: the chunks it wrote to each stream, the error of
  \<^verbatim>\<open>command.Run()\<close>, and the error of the context that bounds it.
\<close>

record process_outcome =
  po_stdout :: "string list"
  po_stderr :: "string list"
  po_error :: "go_error option"
  po_ctx_error :: "go_error option"

definition stream_suffix :: "(string \<Rightarrow> string) \<Rightarrow> boundedBuffer \<Rightarrow> boundedBuffer \<Rightarrow> string" where
  "stream_suffix sha256 out err =
     '' ('' @ describe sha256 out ''stdout'' @ ''; '' @ describe sha256 err ''stderr'' @ '')''"

definition Run ::
    "codec \<Rightarrow> (string \<Rightarrow> string) \<Rightarrow> (command \<Rightarrow> int \<Rightarrow> 'w \<Rightarrow> process_outcome \<times> 'w) \<Rightarrow> Runner \<Rightarrow>
       string \<Rightarrow> EvidenceCollection list \<Rightarrow> 'w \<Rightarrow> RCAResult res \<times> 'w" where
  "Run js sha256 exec r incidentID collections w =
     (if \<not> isSafeIncidentID incidentID then (Inl unsafe_id_error, w)
      else case prepareClaudeCommand js r incidentID collections of
        Inl err \<Rightarrow> (Inl err, w)
      | Inr command \<Rightarrow>
        (case exec command (timeout_of r) w of (outcome, w') \<Rightarrow>
          (let stdout = write_all (newBoundedBuffer (outputLimit r)) (po_stdout outcome);
               stderr = write_all (newBoundedBuffer (outputLimit r)) (po_stderr outcome)
           in case po_error outcome of
                Some e \<Rightarrow>
                  (let e' = (case po_ctx_error outcome of Some c \<Rightarrow> c | None \<Rightarrow> e)
                   in (Inl (ErrWrap ''run Claude Code RCA skill: '' e' (stream_suffix sha256 stdout stderr)), w'))
              | None \<Rightarrow>
                  (case ParseResult js (bb_buffer stdout) of
                     Inl err \<Rightarrow>
                       (Inl (ErrWrap ''parse Claude Code RCA result: '' err (stream_suffix sha256 stdout stderr)), w')
                   | Inr result \<Rightarrow> (Inr result, w')))))"

section \<open>Properties\<close>

lemma match_form_eq: "length xs = length ys \<Longrightarrow> match_form xs ys \<longleftrightarrow> xs = ys"
  by (induction xs ys rule: match_form.induct) auto

lemma form_loop_iff: "form_loop form cs \<longleftrightarrow> form \<in> set cs"
  by (induction cs) (auto simp: match_form_eq)

text \<open>The evidence forms a child may run are exactly the four
  fixed ones; the nested comparison loops decide list membership.\<close>

theorem only_fixed_evidence_forms:
  "isFixedEvidenceForm form \<longleftrightarrow>
     form = [''incident'', ''context''] \<or> form = [''metrics'', ''query''] \<or>
     form = [''logs'', ''query''] \<or> form = [''changes'', ''query'']"
  by (simp add: isFixedEvidenceForm_def form_loop_iff fixedEvidenceForms_def)

lemma reference_loop_iff: "reference_loop xs \<longleftrightarrow> (\<forall>x \<in> set xs. reference_rune (fst x))"
  by (induction xs) auto

lemma reference_rune_ascii: "reference_rune r \<Longrightarrow> r < 128 \<and> \<not> is_space r"
  by (auto simp: reference_rune_def is_space_def)

lemma reference_rune_codes:
  "reference_rune n \<longleftrightarrow> n \<in> set ([97..<123] @ [65..<91] @ [48..<58] @ [45, 95, 46, 58])"
  unfolding reference_rune_def set_append set_upt Un_iff atLeastLessThan_iff list.set insert_iff empty_iff
  by presburger

lemma safe_id_bytes: "isSafeIncidentID v \<longleftrightarrow> v \<noteq> '''' \<and> (\<forall>c \<in> set v. reference_rune (byte c))"
proof -
  have loop: "reference_loop (runes v) \<longleftrightarrow> (\<forall>c \<in> set v. reference_rune (byte c))"
    unfolding reference_loop_iff by (rule runes_all_ascii) (blast dest: reference_rune_ascii)
  have "TrimSpace v \<noteq> ''''" if "v \<noteq> ''''" and "reference_loop (runes v)"
  proof -
    from that(1) obtain x where "x \<in> set (runes v)" by (metis runes_eq_Nil list.set_intros(1) neq_Nil_conv)
    with that(2) have "\<not> is_space (fst x)"
      unfolding reference_loop_iff by (blast dest: reference_rune_ascii)
    with \<open>x \<in> set (runes v)\<close> have "\<not> blank v" unfolding blank_iff by blast
    then show ?thesis by (simp add: blank_def)
  qed
  moreover have "TrimSpace '''' = ''''" by (simp add: TrimSpace_def)
  ultimately show ?thesis
    unfolding isSafeIncidentID_def loop [symmetric] by auto
qed

text \<open>
  An incident id is accepted exactly when it is a non-empty
  string of ASCII letters, digits and \<^verbatim>\<open>-_.:\<close>: no white space, quote, slash or non-ASCII
  byte gets into a command line, whatever the decoding of the bytes says.
\<close>

lemma safe_ids_are_plain_ascii:
  "isSafeIncidentID v \<longleftrightarrow>
     v \<noteq> '''' \<and> (\<forall>c \<in> set v. c \<in> set ''abcdefghijklmnopqrstuvwxyzABCDEFGHIJKLMNOPQRSTUVWXYZ0123456789-_.:'')"
proof -
  let ?L = "''abcdefghijklmnopqrstuvwxyzABCDEFGHIJKLMNOPQRSTUVWXYZ0123456789-_.:''"
  have bytes: "map byte ?L = [97..<123] @ [65..<91] @ [48..<58] @ [45, 95, 46, 58]"
    by code_simp
  have "reference_rune (byte c) \<longleftrightarrow> c \<in> set ?L" for c
  proof -
    have "reference_rune (byte c) \<longleftrightarrow> byte c \<in> set ([97..<123] @ [65..<91] @ [48..<58] @ [45, 95, 46, 58])"
      by (rule reference_rune_codes)
    also have "\<dots> \<longleftrightarrow> byte c \<in> byte ` set ?L"
      unfolding bytes [symmetric] set_map ..
    also have "\<dots> \<longleftrightarrow> c \<in> set ?L"
      by (rule inj_image_mem_iff [OF byte_inj])
    finally show ?thesis .
  qed
  then show ?thesis by (simp only: safe_id_bytes)
qed

text \<open>
  C23 (child_command_is_fixed). Whatever the incident and the evidence, a prepared RCA command
  runs the fixed Claude binary with no tools and no session, in its own process group, with
  only HOME and PATH in its environment; it is prepared only for a safe id and the four fixed
  collections in their order.
\<close>

theorem child_command_is_fixed:
  assumes "prepareClaudeCommand js r incidentID collections = Inr c"
  shows "cmd_path c = ''/usr/bin/claude'' \<and>
    (\<exists>prompt. cmd_args c = [''-p'', prompt, ''--output-format'', ''json'', ''--max-turns'',
        itoa (maxTurns r), ''--tools'', '''', ''--no-session-persistence'']) \<and>
    cmd_env c = [''HOME=/var/lib/sre-rca'',
       ''PATH=/usr/local/sbin:/usr/local/bin:/usr/sbin:/usr/bin:/sbin:/bin''] \<and>
    cmd_process_group c \<and> 1 \<le> maxTurns r \<and> isSafeIncidentID incidentID \<and>
    map ec_form collections = [''incident context'', ''metrics query'', ''logs query'', ''changes query'']"
proof -
  from assms obtain prompt where id: "isSafeIncidentID incidentID"
    and prompt: "buildPrompt js incidentID collections = Inr prompt"
    and c: "c = configureChildCommand r (newCommand defaultClaudeBinary
          [''-p'', prompt, ''--output-format'', ''json'', ''--max-turns'', itoa (maxTurns r),
           ''--tools'', '''', ''--no-session-persistence''])"
    by (auto simp: prepareClaudeCommand_def split: if_splits sum.splits)
  from prompt have len: "length collections = 4"
    and forms: "check_forms 0 collections fixedEvidenceForms = Inr ()"
    by (auto simp: buildPrompt_def fixedEvidenceForms_def split: if_splits sum.splits)
  from len obtain a b d e where "collections = [a, b, d, e]"
    by (auto simp: length_Suc_conv eval_nat_numeral)
  with forms have "map ec_form collections =
      [''incident context'', ''metrics query'', ''logs query'', ''changes query'']"
    by (simp add: fixedEvidenceForms_def split: if_splits)
  with id show ?thesis
    by (simp add: c configureChildCommand_def configureProcessGroup_def newCommand_def
        defaultClaudeBinary_def minimalChildEnvironment_def childHome_def childPath_def maxTurns_def)
qed

section \<open>Bounded buffers\<close>

definition bb_inv :: "boundedBuffer \<Rightarrow> string \<Rightarrow> bool" where
  "bb_inv b written \<longleftrightarrow>
     0 < bb_limit b \<and> bb_buffer b = take (nat (bb_limit b)) written \<and>
     bb_total b = int (length written) \<and>
     (bb_limit b < int (length written) \<longrightarrow> bb_truncated b) \<and>
     (bb_truncated b \<longrightarrow> bb_limit b \<le> int (length written))"

lemma bb_Write_inv:
  assumes "bb_inv b w"
  shows "bb_inv (snd (bb_Write b p)) (w @ p) \<and> bb_limit (snd (bb_Write b p)) = bb_limit b"
proof -
  have "int (length (bb_buffer b)) = min (bb_limit b) (int (length w))"
    using assms by (auto simp: bb_inv_def)
  then show ?thesis
    using assms by (auto simp: bb_inv_def bb_Write_def Let_def min_def nat_diff_distrib split: if_splits)
qed

lemma write_all_inv:
  "bb_inv b w \<Longrightarrow> bb_inv (write_all b ps) (w @ concat ps) \<and> bb_limit (write_all b ps) = bb_limit b"
proof (induction ps arbitrary: b w)
  case (Cons p ps)
  from Cons.IH [OF bb_Write_inv [OF Cons.prems, THEN conjunct1], of p] bb_Write_inv [OF Cons.prems, of p]
  show ?case by (simp add: write_all_def)
qed (simp add: write_all_def)

text \<open>
  C24 (output_is_a_bounded_prefix). However the child splits its output into writes, the buffer
  keeps exactly its first bytes up to the limit, counts all of them, marks every output that is
  longer than the limit as truncated and none that is shorter; every write reports full success,
  so the child is never blocked or failed by it.
\<close>

theorem output_is_a_bounded_prefix:
  fixes r ps
  defines "b \<equiv> write_all (newBoundedBuffer (outputLimit r)) ps"
  shows "bb_buffer b = take (nat (outputLimit r)) (concat ps) \<and>
    bb_total b = int (length (concat ps)) \<and> 0 < outputLimit r \<and>
    (outputLimit r < int (length (concat ps)) \<longrightarrow> bb_truncated b) \<and>
    (int (length (concat ps)) < outputLimit r \<longrightarrow> \<not> bb_truncated b) \<and>
    fst (bb_Write b p) = int (length p)"
proof -
  have pos: "0 < outputLimit r" by (simp add: outputLimit_def defaultMaxOutputBytes_def)
  then have "bb_inv (newBoundedBuffer (outputLimit r)) []"
    by (simp add: bb_inv_def newBoundedBuffer_def)
  from write_all_inv [OF this, of ps] pos show ?thesis
    by (auto simp: b_def bb_inv_def newBoundedBuffer_def bb_Write_def Let_def)
qed

section \<open>Validated results\<close>

lemma han_loop_iff: "han_loop xs \<longleftrightarrow> (\<exists>x \<in> set xs. 19968 \<le> fst x \<and> fst x \<le> 40959)"
  by (induction xs) auto

lemma containsHan_not_blank: "containsHan s \<Longrightarrow> TrimSpace s \<noteq> ''''"
proof -
  assume "containsHan s"
  then obtain x where "x \<in> set (runes s)" "19968 \<le> fst x" "fst x \<le> 40959"
    by (auto simp: containsHan_def han_loop_iff)
  then have "\<not> blank s" unfolding blank_iff by (auto simp: is_space_def intro!: bexI [of _ x])
  then show ?thesis by (simp add: blank_def)
qed

lemma check_actions_iff: "check_actions as = Inr () \<longleftrightarrow> (\<forall>a \<in> set as. containsHan a)"
  by (induction as) (auto dest: containsHan_not_blank)

lemma check_evidence_ids_iff:
  "check_evidence_ids (Some m) ids = Inr () \<longleftrightarrow> (\<forall>i \<in> set ids. i \<noteq> '''' \<and> m i)"
  by (induction ids) auto

text \<open>
  C22 (validated_results_are_grounded). With the worker's map of known evidence, a result passes
  validation exactly when its summary, its root cause and every next action contain a Chinese
  character, its confidence is between 0 and 1, and it cites at least one evidence id, all of
  them non-empty and known.
\<close>

theorem validated_results_are_grounded:
  "ValidateResult result (Some known) = Inr () \<longleftrightarrow>
     (\<forall>text \<in> set (rca_summary result # rca_root_cause result # rca_next_actions result).
        \<exists>r \<in> set (runes text). 19968 \<le> fst r \<and> fst r \<le> 40959) \<and>
     0 \<le> rca_confidence result \<and> rca_confidence result \<le> 1 \<and>
     rca_evidence_ids result \<noteq> [] \<and>
     (\<forall>i \<in> set (rca_evidence_ids result). i \<noteq> '''' \<and> known i)"
proof -
  have "ValidateResult result (Some known) = Inr () \<longleftrightarrow>
     containsHan (rca_summary result) \<and> containsHan (rca_root_cause result) \<and>
     check_actions (rca_next_actions result) = Inr () \<and>
     \<not> (rca_confidence result < 0 \<or> rca_confidence result > 1) \<and>
     rca_evidence_ids result \<noteq> [] \<and>
     check_evidence_ids (Some known) (rca_evidence_ids result) = Inr ()"
    unfolding ValidateResult_def
    by (auto split: sum.splits dest: containsHan_not_blank)
  then show ?thesis
    unfolding check_actions_iff check_evidence_ids_iff
    by (auto simp: containsHan_def han_loop_iff not_less)
qed

section \<open>Witnesses\<close>

definition han :: string where "han = utf8 [231, 173, 137]"

lemma han_runes: "runes han = [(31561, han)]"
  by (simp add: han_def utf8_def runes_Cons decode_rune.simps(2) rune3_def byte_def cont_def
      second_ok_def)

lemma validated_results_are_grounded_witness:
  "ValidateResult (empty_result\<lparr>rca_summary := han, rca_root_cause := han, rca_confidence := 1,
     rca_evidence_ids := [''e1'']\<rparr>) (Some (\<lambda>i. i = ''e1'')) = Inr () \<and>
   \<not> ValidateResult (empty_result\<lparr>rca_evidence_ids := [''e1'']\<rparr>) (Some (\<lambda>i. i = ''e1'')) = Inr ()"
  unfolding validated_results_are_grounded by (simp add: empty_result_def han_runes)

definition demo_codec :: codec where
  "demo_codec =
     \<lparr>js_payload = (\<lambda>i cs. Inr ''{}''), js_ids = (\<lambda>ids. Inr ''[]''),
      js_result_into = (\<lambda>raw r. Inr r), js_envelope = (\<lambda>raw. Inr raw)\<rparr>"

definition demo_runner :: Runner where
  "demo_runner = \<lparr>rn_Timeout = 0, rn_MaxTurns = 0, rn_MaxOutputBytes = 4, rn_workingDir = ''''\<rparr>"

definition demo_collections :: "EvidenceCollection list" where
  "demo_collections =
     map (\<lambda>f. \<lparr>ec_form = f, ec_evidence = []\<rparr>)
       [''incident context'', ''metrics query'', ''logs query'', ''changes query'']"

lemma output_is_a_bounded_prefix_witness:
  "bb_buffer (write_all (newBoundedBuffer (outputLimit demo_runner)) [''abc'', ''def'']) = ''abcd'' \<and>
   bb_truncated (write_all (newBoundedBuffer (outputLimit demo_runner)) [''abc'', ''def''])"
  using output_is_a_bounded_prefix [of demo_runner "[''abc'', ''def'']"]
  by (simp add: outputLimit_def demo_runner_def)

lemma child_command_is_fixed_witness:
  "\<exists>c. prepareClaudeCommand demo_codec demo_runner ''i1'' demo_collections = Inr c \<and>
     cmd_path c = ''/usr/bin/claude'' \<and> cmd_process_group c"
proof -
  have "isSafeIncidentID ''i1''" by (simp add: safe_id_bytes byte_def reference_rune_def)
  then obtain c where "prepareClaudeCommand demo_codec demo_runner ''i1'' demo_collections = Inr c"
    by (simp add: prepareClaudeCommand_def buildPrompt_def demo_collections_def demo_codec_def
        fixedEvidenceForms_def)
  with child_command_is_fixed [OF this] show ?thesis by blast
qed

end
