(* ===== verification/Worker.thy ===== *)
theory Worker
  imports Runner
begin

text \<open>
  The RCA worker of \<^verbatim>\<open>internal/worker/worker.go\<close>. Its four collaborators are Go
  interfaces; here each is a record of functions on an arbitrary world \<^typ>\<open>'w\<close>, so that
  the worker is one definition over every database, service and schedule. \<^verbatim>\<open>nil\<close> errors
  are \<^const>\<open>Inr\<close>. \<^verbatim>\<open>RunOne\<close> is cut where the code has its blank lines: claim, card,
  investigation and conclusion.
\<close>

section \<open>Interfaces\<close>

record 'w Repository =
  rp_ClaimNext :: "string \<Rightarrow> time \<Rightarrow> 'w \<Rightarrow> Job option res \<times> 'w"
  rp_CheckActiveClaim :: "Job \<Rightarrow> 'w \<Rightarrow> unit res \<times> 'w"
  rp_IncidentByID :: "string \<Rightarrow> 'w \<Rightarrow> Incident res \<times> 'w"
  rp_MarkInvestigatingForClaim :: "Job \<Rightarrow> time \<Rightarrow> 'w \<Rightarrow> unit res \<times> 'w"
  rp_SetFeishuMessageID :: "string \<Rightarrow> string \<Rightarrow> time \<Rightarrow> 'w \<Rightarrow> unit res \<times> 'w"
  rp_SetFeishuMessageIDForClaim :: "Job \<Rightarrow> string \<Rightarrow> time \<Rightarrow> 'w \<Rightarrow> unit res \<times> 'w"
  rp_UpdateActiveClaimCard ::
    "Job \<Rightarrow> (Incident \<Rightarrow> 'w \<Rightarrow> unit res \<times> 'w) \<Rightarrow> 'w \<Rightarrow> unit res \<times> 'w"
  rp_StoreEvidence :: "string \<Rightarrow> Evidence list \<Rightarrow> time \<Rightarrow> 'w \<Rightarrow> unit res \<times> 'w"
  rp_Complete :: "string \<Rightarrow> RCAResult \<Rightarrow> time \<Rightarrow> 'w \<Rightarrow> unit res \<times> 'w"
  rp_ScheduleAuditRetry :: "string \<Rightarrow> time \<Rightarrow> 'w \<Rightarrow> unit res \<times> 'w"
  rp_CompleteJobAndIncident ::
    "Job \<Rightarrow> string \<Rightarrow> RCAResult \<Rightarrow> time \<Rightarrow> 'w \<Rightarrow> unit res \<times> 'w"
  rp_CompleteJobAndScheduleAuditRetry :: "Job \<Rightarrow> string \<Rightarrow> time \<Rightarrow> 'w \<Rightarrow> unit res \<times> 'w"
  rp_RetryOrFailJob :: "Job \<Rightarrow> time \<Rightarrow> int \<Rightarrow> 'w \<Rightarrow> bool res \<times> 'w"

record 'w Cards =
  cd_CreateIncidentCard :: "Incident \<Rightarrow> 'w \<Rightarrow> string res \<times> 'w"
  cd_UpdateIncidentCard :: "string \<Rightarrow> Incident \<Rightarrow> RCAResult \<Rightarrow> 'w \<Rightarrow> unit res \<times> 'w"

record 'w EvidenceQueries =
  eq_Context :: "string \<Rightarrow> 'w \<Rightarrow> Evidence list res \<times> 'w"
  eq_Metrics :: "string \<Rightarrow> 'w \<Rightarrow> Evidence list res \<times> 'w"
  eq_Logs :: "string \<Rightarrow> 'w \<Rightarrow> Evidence list res \<times> 'w"
  eq_Changes :: "string \<Rightarrow> 'w \<Rightarrow> Evidence list res \<times> 'w"

record 'w Worker =
  wk_repo :: "'w Repository"
  wk_cards :: "'w Cards"
  wk_evidence :: "'w EvidenceQueries"
  wk_runner :: "string \<Rightarrow> EvidenceCollection list \<Rightarrow> 'w \<Rightarrow> RCAResult res \<times> 'w"
  wk_id :: string
  wk_now :: "'w \<Rightarrow> time"
  wk_audit_delay :: int

definition New ::
    "'w Repository \<Rightarrow> 'w Cards \<Rightarrow> 'w EvidenceQueries \<Rightarrow>
       (string \<Rightarrow> EvidenceCollection list \<Rightarrow> 'w \<Rightarrow> RCAResult res \<times> 'w) \<Rightarrow>
       string \<Rightarrow> ('w \<Rightarrow> time) \<Rightarrow> 'w Worker" where
  "New repo cards evidence runner workerID now =
     \<lparr>wk_repo = repo, wk_cards = cards, wk_evidence = evidence, wk_runner = runner,
      wk_id = workerID, wk_now = now, wk_audit_delay = 120 * second\<rparr>"

section \<open>Calls that may fail\<close>

text \<open>
  \<^verbatim>\<open>x, err := call(); if err != nil { handle }; rest\<close> in the order of the world's changes.
\<close>

definition attempt ::
    "('w \<Rightarrow> 'a res \<times> 'w) \<Rightarrow> (go_error \<Rightarrow> 'w \<Rightarrow> 'b \<times> 'w) \<Rightarrow> ('a \<Rightarrow> 'w \<Rightarrow> 'b \<times> 'w) \<Rightarrow>
       'w \<Rightarrow> 'b \<times> 'w" where
  "attempt m h k w = (case m w of (Inl e, w') \<Rightarrow> h e w' | (Inr x, w') \<Rightarrow> k x w')"

definition done_ok :: "'w \<Rightarrow> unit res \<times> 'w" where
  "done_ok w = (Inr (), w)"

definition isInactive :: "go_error \<Rightarrow> bool" where
  "isInactive err \<longleftrightarrow> errors_is err ErrIncidentInactive \<or> errors_is err ErrJobLeaseLost"

section \<open>Failure paths\<close>

definition retry_after :: "'w Worker \<Rightarrow> Job \<Rightarrow> go_error \<Rightarrow> 'w \<Rightarrow> unit res \<times> 'w" where
  "retry_after wk job cause w =
     attempt (rp_RetryOrFailJob (wk_repo wk) job (wk_now wk w) 3)
       (\<lambda>err. if isInactive err then done_ok
          else (\<lambda>w. (Inl (ErrWrap (''RCA failed ('' @ err_text cause @ ''); could not persist retry: '')
                            err ''''), w)))
       (\<lambda>failed w. (Inl (ErrWrap ''RCA failed: '' cause ''''), w)) w"

definition updateCard ::
    "'w Worker \<Rightarrow> Job \<Rightarrow> Incident \<Rightarrow> RCAResult \<Rightarrow> 'w \<Rightarrow> unit res \<times> 'w" where
  "updateCard wk job incident result =
     rp_UpdateActiveClaimCard (wk_repo wk) job
       (\<lambda>_. cd_UpdateIncidentCard (wk_cards wk) (inc_message_id incident) incident result)"

definition fail_rca ::
    "'w Worker \<Rightarrow> Incident \<Rightarrow> Job \<Rightarrow> go_error \<Rightarrow> 'w \<Rightarrow> unit res \<times> 'w" where
  "fail_rca wk incident job cause =
     (if job_attempt job \<ge> 3 \<and> inc_message_id incident \<noteq> ''''
      then attempt (updateCard wk job (incident\<lparr>inc_state := IncidentFailed\<rparr>) failure_result)
             (\<lambda>err. if isInactive err then done_ok
                else retry_after wk job (ErrWrap (err_text cause @ ''; update card: '') err ''''))
             (\<lambda>_. retry_after wk job cause)
      else retry_after wk job cause)"

definition persistenceFailure :: "'w Worker \<Rightarrow> Job \<Rightarrow> go_error \<Rightarrow> 'w \<Rightarrow> unit res \<times> 'w" where
  "persistenceFailure wk job cause w =
     (if isInactive cause then done_ok w
      else attempt (rp_RetryOrFailJob (wk_repo wk) job (wk_now wk w) 3)
        (\<lambda>err. if isInactive err then done_ok
           else (\<lambda>w. (Inl (ErrWrap (''persist RCA retry after '' @ err_text cause @ '': '') err ''''), w)))
        (\<lambda>_ w. (Inl (ErrWrap ''persist RCA: '' cause ''''), w)) w)"

definition show_recovery :: "'w Worker \<Rightarrow> Incident \<Rightarrow> 'w \<Rightarrow> unit res \<times> 'w" where
  "show_recovery wk incident =
     cd_UpdateIncidentCard (wk_cards wk) (inc_message_id incident) incident recovery_result"

definition finishRecoveredCardCreate ::
    "'w Worker \<Rightarrow> string \<Rightarrow> string \<Rightarrow> time \<Rightarrow> 'w \<Rightarrow> unit res \<times> 'w" where
  "finishRecoveredCardCreate wk incidentID messageID ts =
     attempt (rp_IncidentByID (wk_repo wk) incidentID)
       (\<lambda>err. done_ok)
       (\<lambda>incident.
          if inc_state incident \<noteq> IncidentRecovered then done_ok
          else attempt (rp_SetFeishuMessageID (wk_repo wk) incidentID messageID ts)
            (\<lambda>err w. (Inl err, w))
            (\<lambda>_. attempt (rp_IncidentByID (wk_repo wk) incidentID)
               (\<lambda>err w. (Inl err, w))
               (show_recovery wk)))"

section \<open>Evidence\<close>

fun collect_loop ::
    "(string \<times> (string \<Rightarrow> 'w \<Rightarrow> Evidence list res \<times> 'w)) list \<Rightarrow> string \<Rightarrow>
       EvidenceCollection list \<Rightarrow> Evidence list \<Rightarrow> 'w \<Rightarrow>
       (EvidenceCollection list \<times> Evidence list) res \<times> 'w" where
  "collect_loop [] incidentID collections every w = (Inr (collections, every), w)"
| "collect_loop ((form, query) # rest) incidentID collections every w =
     (case query incidentID w of
        (Inl err, w') \<Rightarrow> (Inl err, w')
      | (Inr items, w') \<Rightarrow>
          collect_loop rest incidentID (collections @ [\<lparr>ec_form = form, ec_evidence = items\<rparr>])
            (every @ items) w')"

definition evidence_queries ::
    "'w Worker \<Rightarrow> (string \<times> (string \<Rightarrow> 'w \<Rightarrow> Evidence list res \<times> 'w)) list" where
  "evidence_queries wk =
     [(''incident context'', eq_Context (wk_evidence wk)),
      (''metrics query'', eq_Metrics (wk_evidence wk)),
      (''logs query'', eq_Logs (wk_evidence wk)),
      (''changes query'', eq_Changes (wk_evidence wk))]"

definition collectEvidence ::
    "'w Worker \<Rightarrow> string \<Rightarrow> 'w \<Rightarrow> (EvidenceCollection list \<times> Evidence list) res \<times> 'w" where
  "collectEvidence wk incidentID = collect_loop (evidence_queries wk) incidentID [] []"

section \<open>One job\<close>

definition known_evidence :: "Evidence list \<Rightarrow> string \<Rightarrow> bool" where
  "known_evidence items i = (i \<in> set (map ev_id items))"

definition conclude ::
    "'w Worker \<Rightarrow> time \<Rightarrow> Job \<Rightarrow> Incident \<Rightarrow> RCAResult \<Rightarrow> 'w \<Rightarrow> unit res \<times> 'w" where
  "conclude wk now job incident result =
     (if rca_pending_audit result then
        (let incident = incident\<lparr>inc_state := IncidentAwaitingAuditEvent\<rparr> in
         attempt (updateCard wk job incident result)
           (\<lambda>err. if isInactive err then done_ok else fail_rca wk incident job err)
           (\<lambda>_. attempt (rp_CompleteJobAndScheduleAuditRetry (wk_repo wk) job (inc_id incident)
                           (now + wk_audit_delay wk))
              (\<lambda>err. if isInactive err then done_ok else persistenceFailure wk job err)
              (\<lambda>_. done_ok)))
      else
        (let incident = incident\<lparr>inc_state := IncidentCompleted\<rparr> in
         attempt (updateCard wk job incident result)
           (\<lambda>err. if isInactive err then done_ok else fail_rca wk incident job err)
           (\<lambda>_. attempt (rp_CompleteJobAndIncident (wk_repo wk) job (inc_id incident) result now)
              (\<lambda>err. if isInactive err then done_ok else persistenceFailure wk job err)
              (\<lambda>_. done_ok))))"

definition investigate ::
    "'w Worker \<Rightarrow> time \<Rightarrow> Job \<Rightarrow> Incident \<Rightarrow> 'w \<Rightarrow> unit res \<times> 'w" where
  "investigate wk now job incident =
     attempt (collectEvidence wk (inc_id incident))
       (fail_rca wk incident job)
       (\<lambda>(collections, items).
        attempt (rp_StoreEvidence (wk_repo wk) (inc_id incident) items now)
          (\<lambda>err. if isInactive err then done_ok else persistenceFailure wk job err)
          (\<lambda>_. attempt (wk_runner wk (inc_id incident) collections)
             (fail_rca wk incident job)
             (\<lambda>result.
                case ValidateResult result (Some (known_evidence items)) of
                  Inl err \<Rightarrow> fail_rca wk incident job err
                | Inr _ \<Rightarrow> conclude wk now job incident result)))"

definition start_investigation ::
    "'w Worker \<Rightarrow> time \<Rightarrow> Job \<Rightarrow> Incident \<Rightarrow> 'w \<Rightarrow> unit res \<times> 'w" where
  "start_investigation wk now job incident =
     attempt (rp_MarkInvestigatingForClaim (wk_repo wk) job now)
       (\<lambda>err. if isInactive err then done_ok else persistenceFailure wk job err)
       (\<lambda>_. let incident = incident\<lparr>inc_state := IncidentInvestigating\<rparr> in
          attempt (updateCard wk job incident empty_result)
            (\<lambda>err. if isInactive err then done_ok else fail_rca wk incident job err)
            (\<lambda>_. investigate wk now job incident))"

definition create_card ::
    "'w Worker \<Rightarrow> time \<Rightarrow> Job \<Rightarrow> Incident \<Rightarrow> 'w \<Rightarrow> unit res \<times> 'w" where
  "create_card wk now job incident =
     attempt (rp_CheckActiveClaim (wk_repo wk) job)
       (\<lambda>err. if isInactive err then done_ok else persistenceFailure wk job err)
       (\<lambda>_. attempt (cd_CreateIncidentCard (wk_cards wk) incident)
          (fail_rca wk incident job)
          (\<lambda>messageID. attempt (rp_SetFeishuMessageIDForClaim (wk_repo wk) job messageID now)
             (\<lambda>err. if isInactive err then finishRecoveredCardCreate wk (inc_id incident) messageID now
                else persistenceFailure wk job err)
             (\<lambda>_. attempt (rp_IncidentByID (wk_repo wk) (inc_id incident))
                (persistenceFailure wk job)
                (\<lambda>incident.
                   if inc_state incident = IncidentRecovered then show_recovery wk incident
                   else start_investigation wk now job incident))))"

definition run_claimed :: "'w Worker \<Rightarrow> time \<Rightarrow> Job \<Rightarrow> 'w \<Rightarrow> unit res \<times> 'w" where
  "run_claimed wk now job =
     attempt (rp_IncidentByID (wk_repo wk) (job_incident_id job))
       (persistenceFailure wk job)
       (\<lambda>incident.
          if inc_message_id incident = '''' then create_card wk now job incident
          else start_investigation wk now job incident)"

definition RunOne :: "'w Worker \<Rightarrow> 'w \<Rightarrow> unit res \<times> 'w" where
  "RunOne wk w =
     (let now = wk_now wk w in
      attempt (rp_ClaimNext (wk_repo wk) (wk_id wk) now)
        (\<lambda>err w. (Inl err, w))
        (\<lambda>claimed. case claimed of None \<Rightarrow> done_ok | Some job \<Rightarrow> run_claimed wk now job) w)"

end
