(* ===== verification/SqlTx.thy ===== *)
theory SqlTx
  imports Domain
begin

text \<open>
  The SQLite database of \<^verbatim>\<open>internal/store/sqlite.go\<close>: one record per table row with the
  columns of \<^verbatim>\<open>migrate\<close>, the tables as lists in insertion order, and the statements the
  repository runs. A transaction is a function from the database to an error or a value with
  the new database; \<^theory_text>\<open>run_tx\<close> commits a value and rolls an error back (every
  transaction of the store has a deferred \<^verbatim>\<open>Rollback\<close>). The primary keys and the partial
  unique index on active incident keys are checked by the statements that can violate them.

  The locale \<^theory_text>\<open>tx_preorder\<close> is the interface between the statements and the operations:
  whatever reflexive and transitive relation on databases all statements of a transaction
  respect, the transaction respects too.
\<close>

section \<open>Tables\<close>

record incident_row =
  ir_id :: string
  ir_key :: string
  ir_workspace :: string
  ir_rule_id :: string
  ir_resource_id :: string
  ir_state :: string
  ir_message_id :: string
  ir_alert_at :: int
  ir_created_at :: int
  ir_updated_at :: int

record job_row =
  jr_id :: string
  jr_incident_id :: string
  jr_status :: string
  jr_worker_id :: string
  jr_attempt :: int
  jr_run_after :: int
  jr_lease_until :: int

record evidence_row =
  er_id :: string
  er_incident_id :: string
  er_evidence_json :: string
  er_created_at :: int

record db =
  db_incidents :: "incident_row list"
  db_jobs :: "job_row list"
  db_snapshots :: "evidence_row list"
  db_evidence :: "evidence_row list"

definition empty_db :: db where
  "empty_db = \<lparr>db_incidents = [], db_jobs = [], db_snapshots = [], db_evidence = []\<rparr>"

text \<open>The states listed by the partial index, and by almost every condition of the store.\<close>

definition is_active :: "string \<Rightarrow> bool" where
  "is_active st \<longleftrightarrow>
     st = IncidentReceived \<or> st = IncidentInvestigating \<or> st = IncidentAwaitingAuditEvent"

definition incident_active :: "db \<Rightarrow> string \<Rightarrow> bool" where
  "incident_active s i \<longleftrightarrow> (\<exists>r \<in> set (db_incidents s). ir_id r = i \<and> is_active (ir_state r))"

lemma is_active_simps [simp]:
  "is_active IncidentReceived" "is_active IncidentInvestigating"
  "is_active IncidentAwaitingAuditEvent" "\<not> is_active IncidentCompleted"
  "\<not> is_active IncidentFailed" "\<not> is_active IncidentRecovered"
  by (simp_all add: is_active_def)

text \<open>What SQLite checks: the primary key, and the unique key among active incidents.\<close>

definition incidents_ok :: "incident_row list \<Rightarrow> bool" where
  "incidents_ok rows \<longleftrightarrow>
     distinct (map ir_id rows) \<and>
     distinct (map ir_key (filter (\<lambda>r. is_active (ir_state r)) rows))"

section \<open>Transactions\<close>

type_synonym 'a tx = "db \<Rightarrow> go_error + ('a \<times> db)"

definition tx_return :: "'a \<Rightarrow> 'a tx" where
  "tx_return x = (\<lambda>s. Inr (x, s))"

definition tx_throw :: "go_error \<Rightarrow> 'a tx" where
  "tx_throw e = (\<lambda>s. Inl e)"

definition tx_bind :: "'a tx \<Rightarrow> ('a \<Rightarrow> 'b tx) \<Rightarrow> 'b tx" where
  "tx_bind m k = (\<lambda>s. case m s of Inl e \<Rightarrow> Inl e | Inr (x, s') \<Rightarrow> k x s')"

definition tx_read :: "(db \<Rightarrow> 'a) \<Rightarrow> 'a tx" where
  "tx_read q = (\<lambda>s. Inr (q s, s))"

definition run_tx :: "'a tx \<Rightarrow> db \<Rightarrow> 'a res \<times> db" where
  "run_tx m s = (case m s of Inl e \<Rightarrow> (Inl e, s) | Inr (x, s') \<Rightarrow> (Inr x, s'))"

lemmas tx_defs = tx_return_def tx_throw_def tx_bind_def tx_read_def run_tx_def

section \<open>Statements\<close>

definition tx_update_incidents ::
    "(db \<Rightarrow> incident_row \<Rightarrow> bool) \<Rightarrow> (incident_row \<Rightarrow> incident_row) \<Rightarrow> nat tx" where
  "tx_update_incidents p f =
     (\<lambda>s. let rows = update_where (p s) f (db_incidents s)
          in if incidents_ok rows
             then Inr (count_where (p s) (db_incidents s), s\<lparr>db_incidents := rows\<rparr>)
             else Inl (ErrNew ''UNIQUE constraint failed: incidents''))"

definition tx_update_jobs ::
    "(db \<Rightarrow> job_row \<Rightarrow> bool) \<Rightarrow> (job_row \<Rightarrow> job_row) \<Rightarrow> nat tx" where
  "tx_update_jobs p f =
     (\<lambda>s. Inr (count_where (p s) (db_jobs s),
               s\<lparr>db_jobs := update_where (p s) f (db_jobs s)\<rparr>))"

definition tx_insert_incident :: "incident_row \<Rightarrow> unit tx" where
  "tx_insert_incident r =
     (\<lambda>s. if ir_id r \<in> set (map ir_id (db_incidents s))
          then Inl (ErrNew ''UNIQUE constraint failed: incidents.id'')
          else if incidents_ok (db_incidents s @ [r])
          then Inr ((), s\<lparr>db_incidents := db_incidents s @ [r]\<rparr>)
          else Inl (ErrNew ''UNIQUE constraint failed: incidents.incident_key''))"

definition tx_insert_job :: "job_row \<Rightarrow> unit tx" where
  "tx_insert_job j =
     (\<lambda>s. if jr_id j \<in> set (map jr_id (db_jobs s))
          then Inl (ErrNew ''UNIQUE constraint failed: jobs.id'')
          else Inr ((), s\<lparr>db_jobs := db_jobs s @ [j]\<rparr>))"

definition tx_insert_snapshot :: "evidence_row \<Rightarrow> unit tx" where
  "tx_insert_snapshot r =
     (\<lambda>s. if er_id r \<in> set (map er_id (db_snapshots s))
          then Inl (ErrNew ''UNIQUE constraint failed: evidence_snapshots.id'')
          else Inr ((), s\<lparr>db_snapshots := db_snapshots s @ [r]\<rparr>))"

text \<open>\<^verbatim>\<open>INSERT OR REPLACE\<close> deletes the row with that key, then inserts.\<close>

definition tx_replace_evidence :: "evidence_row \<Rightarrow> unit tx" where
  "tx_replace_evidence r =
     (\<lambda>s. Inr ((), s\<lparr>db_evidence := filter (\<lambda>e. er_id e \<noteq> er_id r) (db_evidence s) @ [r]\<rparr>))"

section \<open>What a transaction respects\<close>

definition tx_rel :: "(db \<Rightarrow> db \<Rightarrow> bool) \<Rightarrow> 'a tx \<Rightarrow> bool" where
  "tx_rel R m \<longleftrightarrow> (\<forall>s x s'. m s = Inr (x, s') \<longrightarrow> R s s')"

lemma tx_relI: "(\<And>s x s'. m s = Inr (x, s') \<Longrightarrow> R s s') \<Longrightarrow> tx_rel R m"
  by (simp add: tx_rel_def)

lemma tx_relD: "tx_rel R m \<Longrightarrow> m s = Inr (x, s') \<Longrightarrow> R s s'"
  by (simp add: tx_rel_def)

locale tx_preorder =
  fixes R :: "db \<Rightarrow> db \<Rightarrow> bool"
  assumes R_refl: "R s s"
    and R_trans: "R s s' \<Longrightarrow> R s' s'' \<Longrightarrow> R s s''"
begin

lemma rel_return: "tx_rel R (tx_return x)"
  by (simp add: tx_rel_def tx_return_def R_refl)

lemma rel_throw: "tx_rel R (tx_throw e)"
  by (simp add: tx_rel_def tx_throw_def)

lemma rel_read: "tx_rel R (tx_read q)"
  by (simp add: tx_rel_def tx_read_def R_refl)

lemma rel_bind:
  assumes "tx_rel R m" and "\<And>x. tx_rel R (k x)"
  shows "tx_rel R (tx_bind m k)"
proof (rule tx_relI)
  fix s y s''
  assume "tx_bind m k s = Inr (y, s'')"
  then obtain x s' where "m s = Inr (x, s')" and "k x s' = Inr (y, s'')"
    by (auto simp: tx_bind_def split: sum.splits)
  with assms show "R s s''"
    by (blast intro: R_trans dest: tx_relD)
qed

lemma rel_if: "tx_rel R m \<Longrightarrow> tx_rel R m' \<Longrightarrow> tx_rel R (if b then m else m')"
  by simp

lemma rel_case_option:
  "tx_rel R m \<Longrightarrow> (\<And>x. tx_rel R (k x)) \<Longrightarrow>
     tx_rel R (case v of None \<Rightarrow> m | Some x \<Rightarrow> k x)"
  by (simp split: option.splits)

lemma rel_case_sum:
  "(\<And>e. tx_rel R (m e)) \<Longrightarrow> (\<And>x. tx_rel R (k x)) \<Longrightarrow>
     tx_rel R (case v of Inl e \<Rightarrow> m e | Inr x \<Rightarrow> k x)"
  by (simp split: sum.splits)

lemma rel_run: "tx_rel R m \<Longrightarrow> R s (snd (run_tx m s))"
  by (auto simp: run_tx_def R_refl split: sum.splits dest: tx_relD)

lemmas rel_rules =
  rel_return rel_throw rel_read rel_bind rel_if rel_case_option rel_case_sum

end

text \<open>A transaction that fails leaves the database as it was.\<close>

lemma run_tx_error: "run_tx m s = (Inl e, s') \<Longrightarrow> s' = s"
  by (auto simp: run_tx_def split: sum.splits)

lemma run_tx_Inr: "run_tx m s = (Inr x, s') \<longleftrightarrow> m s = Inr (x, s')"
  by (auto simp: run_tx_def split: sum.splits)

lemma run_tx_Inl: "run_tx m s = (Inl e, s') \<longleftrightarrow> m s = Inl e \<and> s' = s"
  by (auto simp: run_tx_def split: sum.splits)

lemma tx_bind_Inr:
  "tx_bind m k s = Inr (y, s'') \<longleftrightarrow> (\<exists>x s'. m s = Inr (x, s') \<and> k x s' = Inr (y, s''))"
  by (auto simp: tx_bind_def split: sum.splits)

end
