(* ===== verification/Store.thy ===== *)
theory Store
  imports SqlTx
begin

text \<open>
  The repository of \<^verbatim>\<open>internal/store/sqlite.go\<close>: every exported operation, with the
  conditions of its SQL statements, their order, and its early returns. An operation takes the
  database and returns a result or an error together with the new database. The driver's own
  failures (I/O, cancelled contexts) are not here but where the operations are called: they
  leave the database unchanged and return an arbitrary error.
\<close>

section \<open>Columns and fields\<close>

definition scanIncident :: "incident_row \<Rightarrow> Incident" where
  "scanIncident r =
     \<lparr>inc_id = ir_id r, inc_key = ir_key r, inc_workspace = ir_workspace r,
      inc_rule_id = ir_rule_id r, inc_resource_id = ir_resource_id r, inc_state = ir_state r,
      inc_message_id = ir_message_id r, inc_alert_at = time_unix (ir_alert_at r),
      inc_created_at = time_unix (ir_created_at r), inc_updated_at = time_unix (ir_updated_at r)\<rparr>"

definition scanJob :: "job_row \<Rightarrow> Job" where
  "scanJob j =
     \<lparr>job_id = jr_id j, job_incident_id = jr_incident_id j, job_status = jr_status j,
      job_worker_id = jr_worker_id j, job_attempt = jr_attempt j,
      job_run_after = time_unix (jr_run_after j), job_lease_until = time_unix (jr_lease_until j)\<rparr>"

definition incident_columns :: "Incident \<Rightarrow> incident_row" where
  "incident_columns i =
     \<lparr>ir_id = inc_id i, ir_key = inc_key i, ir_workspace = inc_workspace i,
      ir_rule_id = inc_rule_id i, ir_resource_id = inc_resource_id i, ir_state = inc_state i,
      ir_message_id = '''', ir_alert_at = unix (inc_alert_at i),
      ir_created_at = unix (inc_created_at i), ir_updated_at = unix (inc_updated_at i)\<rparr>"

definition job_columns :: "Job \<Rightarrow> job_row" where
  "job_columns j =
     \<lparr>jr_id = job_id j, jr_incident_id = job_incident_id j, jr_status = job_status j,
      jr_worker_id = '''', jr_attempt = 0, jr_run_after = unix (job_run_after j),
      jr_lease_until = 0\<rparr>"

section \<open>Counting affected rows\<close>

definition oneRow :: "nat \<Rightarrow> string \<Rightarrow> string \<Rightarrow> unit tx" where
  "oneRow changed operation i =
     (if changed \<noteq> 1 then tx_throw (ErrWrap (operation @ '' '' @ i @ '': '') ErrNoRows '''')
      else tx_return ())"

definition activeRow :: "nat \<Rightarrow> string \<Rightarrow> string \<Rightarrow> unit tx" where
  "activeRow changed operation i =
     (if changed \<noteq> 1
      then tx_throw (ErrWrap (operation @ '' '' @ i @ '': '') ErrIncidentInactive '''')
      else tx_return ())"

definition leaseRow :: "nat \<Rightarrow> string \<Rightarrow> string \<Rightarrow> unit tx" where
  "leaseRow changed operation i =
     (if changed \<noteq> 1
      then tx_throw (ErrWrap (operation @ '' '' @ i @ '': '') ErrJobLeaseLost '''')
      else tx_return ())"

section \<open>Conditions that many statements share\<close>

definition JobLeaseDuration :: int where "JobLeaseDuration = 5 * 60 * second"

text \<open>The row of a job claim, as its holder knows it: worker and lease are the fencing token.\<close>

definition claim_row :: "Job \<Rightarrow> string \<Rightarrow> job_row \<Rightarrow> bool" where
  "claim_row job incidentID j \<longleftrightarrow>
     jr_id j = job_id job \<and> jr_incident_id j = incidentID \<and> jr_status j = JobRunning \<and>
     jr_worker_id j = job_worker_id job \<and> jr_lease_until j = unix (job_lease_until job)"

definition job_incident_active :: "db \<Rightarrow> job_row \<Rightarrow> bool" where
  "job_incident_active s j \<longleftrightarrow> incident_active s (jr_incident_id j)"

definition claimable :: "int \<Rightarrow> job_row \<Rightarrow> bool" where
  "claimable now j \<longleftrightarrow>
     (jr_status j = JobQueued \<and> jr_run_after j \<le> now) \<or>
     (jr_status j = JobRunning \<and> jr_lease_until j \<le> now)"

definition live :: "job_row \<Rightarrow> bool" where
  "live j \<longleftrightarrow> jr_status j = JobQueued \<or> jr_status j = JobRunning"

definition close_job :: "string \<Rightarrow> job_row \<Rightarrow> job_row" where
  "close_job status j = j\<lparr>jr_status := status, jr_worker_id := '''', jr_lease_until := 0\<rparr>"

definition set_state :: "string \<Rightarrow> int \<Rightarrow> incident_row \<Rightarrow> incident_row" where
  "set_state state ts r = r\<lparr>ir_state := state, ir_updated_at := ts\<rparr>"

definition cancel_live_jobs :: "string \<Rightarrow> nat tx" where
  "cancel_live_jobs incidentID =
     tx_update_jobs (\<lambda>s j. jr_incident_id j = incidentID \<and> live j) (close_job JobCancelled)"

definition cancel_other_jobs :: "string \<Rightarrow> string \<Rightarrow> nat tx" where
  "cancel_other_jobs incidentID jobID =
     tx_update_jobs (\<lambda>s j. jr_incident_id j = incidentID \<and> jr_id j \<noteq> jobID \<and> live j)
       (close_job JobCancelled)"

definition close_claimed_job :: "Job \<Rightarrow> string \<Rightarrow> string \<Rightarrow> nat tx" where
  "close_claimed_job job incidentID status =
     tx_update_jobs (\<lambda>s j. claim_row job incidentID j \<and> job_incident_active s j) (close_job status)"

definition update_active_incident :: "string \<Rightarrow> string \<Rightarrow> time \<Rightarrow> nat tx" where
  "update_active_incident state i ts =
     tx_update_incidents (\<lambda>s r. ir_id r = i \<and> is_active (ir_state r)) (set_state state (unix ts))"

section \<open>Incidents\<close>

definition active_by_key :: "string \<Rightarrow> db \<Rightarrow> incident_row option" where
  "active_by_key key s =
     find (\<lambda>r. ir_key r = key \<and> is_active (ir_state r)) (db_incidents s)"

definition CreateOrGetIncident :: "Incident \<Rightarrow> db \<Rightarrow> (Incident \<times> bool) res \<times> db" where
  "CreateOrGetIncident inc s =
     (case run_tx (tx_insert_incident (incident_columns inc)) s of
        (Inr _, s') \<Rightarrow> (Inr (inc, True), s')
      | (Inl err, s') \<Rightarrow>
          (case active_by_key (inc_key inc) s' of
             None \<Rightarrow>
               (Inl (ErrWrap ''insert incident: '' err
                  (''; read active incident: '' @ err_text ErrNoRows)), s')
           | Some r \<Rightarrow> (Inr (scanIncident r, False), s')))"

definition Enqueue :: "string \<Rightarrow> string \<Rightarrow> time \<Rightarrow> db \<Rightarrow> unit res \<times> db" where
  "Enqueue freshID incidentID runAfter =
     run_tx (tx_insert_job (job_columns (NewJob freshID incidentID runAfter)))"

definition RecoveredIncidentByKey :: "string \<Rightarrow> time \<Rightarrow> db \<Rightarrow> (Incident \<times> bool) res \<times> db" where
  "RecoveredIncidentByKey key ts s =
     (case max_by (\<lambda>r. (ir_alert_at r, ir_id r))
             (filter (\<lambda>r. ir_key r = key \<and> ir_state r = IncidentRecovered \<and>
                          ir_alert_at r \<le> unix ts) (db_incidents s)) of
        None \<Rightarrow> (Inr (zero_incident, False), s)
      | Some r \<Rightarrow> (Inr (scanIncident r, True), s))"

definition IncidentByID :: "string \<Rightarrow> db \<Rightarrow> Incident res \<times> db" where
  "IncidentByID i s =
     (case find (\<lambda>r. ir_id r = i) (db_incidents s) of
        None \<Rightarrow> (Inl ErrNoRows, s)
      | Some r \<Rightarrow> (Inr (scanIncident r), s))"

definition CheckActiveClaim :: "Job \<Rightarrow> db \<Rightarrow> unit res \<times> db" where
  "CheckActiveClaim job s =
     (if \<exists>j \<in> set (db_jobs s). claim_row job (job_incident_id job) j \<and> job_incident_active s j
      then (Inr (), s)
      else (Inl (ErrWrap (''check active job claim '' @ job_id job @ '': '') ErrJobLeaseLost ''''), s))"

definition MarkInvestigatingForClaim :: "Job \<Rightarrow> time \<Rightarrow> db \<Rightarrow> unit res \<times> db" where
  "MarkInvestigatingForClaim job ts s =
     (case run_tx (tx_update_incidents
             (\<lambda>s r. ir_id r = job_incident_id job \<and>
                (ir_state r = IncidentReceived \<or> ir_state r = IncidentAwaitingAuditEvent) \<and>
                (\<exists>j \<in> set (db_jobs s). claim_row job (job_incident_id job) j))
             (set_state IncidentInvestigating (unix ts))) s of
        (Inl err, s') \<Rightarrow> (Inl err, s')
      | (Inr changed, s') \<Rightarrow>
          if changed = 1 then (Inr (), s')
          else (case CheckActiveClaim job s' of
                  (Inl err, s'') \<Rightarrow> (Inl err, s'')
                | (Inr _, s'') \<Rightarrow> (Inl ErrIncidentInactive, s'')))"

definition SetFeishuMessageID :: "string \<Rightarrow> string \<Rightarrow> time \<Rightarrow> db \<Rightarrow> unit res \<times> db" where
  "SetFeishuMessageID incidentID messageID ts s =
     (if messageID = '''' then (Inl (ErrNew ''Feishu message id is required''), s)
      else run_tx (tx_bind (tx_update_incidents
               (\<lambda>s r. ir_id r = incidentID \<and> ir_message_id r = '''')
               (\<lambda>r. r\<lparr>ir_message_id := messageID, ir_updated_at := unix ts\<rparr>))
             (\<lambda>changed. oneRow changed ''set Feishu message id'' incidentID)) s)"

text \<open>Touching the claimed row (\<^verbatim>\<open>SET lease_until = lease_until\<close>) takes the write lock.\<close>

definition touch_claim :: "Job \<Rightarrow> nat tx" where
  "touch_claim job =
     tx_update_jobs (\<lambda>s j. claim_row job (job_incident_id job) j \<and> job_incident_active s j) (\<lambda>j. j)"

definition SetFeishuMessageIDForClaim :: "Job \<Rightarrow> string \<Rightarrow> time \<Rightarrow> db \<Rightarrow> unit res \<times> db" where
  "SetFeishuMessageIDForClaim job messageID ts s =
     (if messageID = '''' then (Inl (ErrNew ''Feishu message id is required''), s)
      else run_tx
        (tx_bind (touch_claim job) (\<lambda>claimed.
         tx_bind (leaseRow claimed ''save card for job claim'' (job_id job)) (\<lambda>_.
         tx_bind (tx_update_incidents
             (\<lambda>s r. ir_id r = job_incident_id job \<and> ir_message_id r = '''' \<and>
                     is_active (ir_state r))
             (\<lambda>r. r\<lparr>ir_message_id := messageID, ir_updated_at := unix ts\<rparr>)) (\<lambda>updated.
         activeRow updated ''set Feishu message id'' (job_incident_id job))))) s)"

text \<open>
  \<^verbatim>\<open>UpdateActiveClaimCard\<close> runs a callback inside the transaction, after both fences.
  \<^theory_text>\<open>card_fence\<close> is the part before the callback: it returns the incident the callback gets.
\<close>

definition card_fence :: "Job \<Rightarrow> Incident tx" where
  "card_fence job =
     tx_bind (tx_read (\<lambda>s. find (\<lambda>r. ir_id r = job_incident_id job \<and> is_active (ir_state r))
                          (db_incidents s))) (\<lambda>row.
     case row of
       None \<Rightarrow> tx_throw ErrIncidentInactive
     | Some r \<Rightarrow>
         tx_bind (touch_claim job) (\<lambda>claimed.
         tx_bind (leaseRow claimed ''fence job claim card update'' (job_id job)) (\<lambda>_.
         tx_bind (tx_update_incidents
             (\<lambda>s r. ir_id r = job_incident_id job \<and> is_active (ir_state r)) (\<lambda>r. r)) (\<lambda>locked.
         tx_bind (activeRow locked ''fence incident card update'' (job_incident_id job)) (\<lambda>_.
         tx_return (scanIncident r))))))"

definition UpdateActiveClaimCard ::
    "Job \<Rightarrow> (Incident \<Rightarrow> 'c \<Rightarrow> unit res \<times> 'c) \<Rightarrow> db \<times> 'c \<Rightarrow> unit res \<times> (db \<times> 'c)" where
  "UpdateActiveClaimCard job update sc =
     (case sc of (s, c) \<Rightarrow>
      (case card_fence job s of
         Inl err \<Rightarrow> (Inl err, (s, c))
       | Inr (incident, s') \<Rightarrow>
           (case update incident c of
              (Inl err, c') \<Rightarrow> (Inl err, (s, c'))
            | (Inr _, c') \<Rightarrow> (Inr (), (s', c')))))"

section \<open>Evidence\<close>

text \<open>
  The JSON text of a record is produced and read by \<^verbatim>\<open>encoding/json\<close>, here the parameters
  \<^theory_text>\<open>marshal\<close> and \<^theory_text>\<open>unmarshal\<close>.
\<close>

fun tx_store_evidence ::
    "(Evidence \<Rightarrow> string res) \<Rightarrow> string \<Rightarrow> time \<Rightarrow> Evidence list \<Rightarrow> unit tx" where
  "tx_store_evidence marshal incidentID ts [] = tx_return ()"
| "tx_store_evidence marshal incidentID ts (item # items) =
     (if ev_id item = '''' then tx_throw (ErrNew ''evidence id is required'')
      else case marshal item of
             Inl err \<Rightarrow> tx_throw err
           | Inr raw \<Rightarrow>
               tx_bind (tx_replace_evidence
                   \<lparr>er_id = ev_id item, er_incident_id = incidentID, er_evidence_json = raw,
                    er_created_at = unix ts\<rparr>) (\<lambda>_.
               tx_store_evidence marshal incidentID ts items))"

definition StoreEvidence ::
    "(Evidence \<Rightarrow> string res) \<Rightarrow> string \<Rightarrow> Evidence list \<Rightarrow> time \<Rightarrow> db \<Rightarrow> unit res \<times> db" where
  "StoreEvidence marshal incidentID evidence ts =
     run_tx (tx_store_evidence marshal incidentID ts evidence)"

definition OpenEvidence ::
    "(string \<Rightarrow> Evidence res) \<Rightarrow> string \<Rightarrow> db \<Rightarrow> Evidence res \<times> db" where
  "OpenEvidence unmarshal evidenceID s =
     (case find (\<lambda>r. er_id r = evidenceID) (db_evidence s) of
        None \<Rightarrow> (Inl ErrNoRows, s)
      | Some r \<Rightarrow>
          (case unmarshal (er_evidence_json r) of
             Inl err \<Rightarrow> (Inl (ErrWrap ''decode stored evidence: '' err ''''), s)
           | Inr item \<Rightarrow> (Inr item, s)))"

section \<open>Closing incidents\<close>

definition snapshot_row :: "string \<Rightarrow> string \<Rightarrow> string \<Rightarrow> time \<Rightarrow> evidence_row" where
  "snapshot_row snapshotID incidentID raw ts =
     \<lparr>er_id = snapshotID, er_incident_id = incidentID, er_evidence_json = raw,
      er_created_at = unix ts\<rparr>"

definition marshal_failed :: "go_error \<Rightarrow> go_error" where
  "marshal_failed err = ErrWrap ''marshal RCA result: '' err ''''"

definition Complete ::
    "(RCAResult \<Rightarrow> string res) \<Rightarrow> string \<Rightarrow> string \<Rightarrow> RCAResult \<Rightarrow> time \<Rightarrow> db \<Rightarrow> unit res \<times> db" where
  "Complete marshal snapshotID incidentID result ts s =
     (case marshal result of
        Inl err \<Rightarrow> (Inl (marshal_failed err), s)
      | Inr raw \<Rightarrow> run_tx
          (tx_bind (update_active_incident IncidentCompleted incidentID ts) (\<lambda>updated.
           tx_bind (activeRow updated ''complete incident'' incidentID) (\<lambda>_.
           tx_bind (tx_insert_snapshot (snapshot_row snapshotID incidentID raw ts)) (\<lambda>_.
           tx_bind (cancel_live_jobs incidentID) (\<lambda>_.
           tx_return ()))))) s)"

definition Fail :: "string \<Rightarrow> time \<Rightarrow> db \<Rightarrow> unit res \<times> db" where
  "Fail incidentID ts =
     run_tx
       (tx_bind (update_active_incident IncidentFailed incidentID ts) (\<lambda>updated.
        tx_bind (activeRow updated ''fail incident'' incidentID) (\<lambda>_.
        tx_bind (cancel_live_jobs incidentID) (\<lambda>_.
        tx_return ()))))"

text \<open>The state list of the audit retries has one entry more than the others, a former spelling.\<close>

definition is_active_or_legacy :: "string \<Rightarrow> bool" where
  "is_active_or_legacy st \<longleftrightarrow> is_active st \<or> st = ''AWAIT_AUDIT_EVENT''"

definition await_audit_event :: "string \<Rightarrow> time \<Rightarrow> nat tx" where
  "await_audit_event incidentID retryAt =
     tx_update_incidents (\<lambda>s r. ir_id r = incidentID \<and> is_active_or_legacy (ir_state r))
       (set_state IncidentAwaitingAuditEvent (unix retryAt))"

definition ScheduleAuditRetry :: "string \<Rightarrow> string \<Rightarrow> time \<Rightarrow> db \<Rightarrow> unit res \<times> db" where
  "ScheduleAuditRetry freshID incidentID retryAt =
     run_tx
       (tx_bind (await_audit_event incidentID retryAt) (\<lambda>updated.
        tx_bind (activeRow updated ''schedule audit retry'' incidentID) (\<lambda>_.
        tx_bind (tx_insert_job (job_columns (NewJob freshID incidentID retryAt))) (\<lambda>_.
        tx_return ()))))"

definition is_recoverable :: "string \<Rightarrow> bool" where
  "is_recoverable st \<longleftrightarrow> is_active st \<or> st = IncidentCompleted \<or> st = IncidentFailed"

definition recover_target :: "string \<Rightarrow> time \<Rightarrow> db \<Rightarrow> incident_row option" where
  "recover_target key ts s =
     max_by (\<lambda>r. (ir_alert_at r, ir_id r))
       (filter (\<lambda>r. ir_key r = key \<and> (is_recoverable (ir_state r) \<or> ir_state r = IncidentRecovered) \<and>
                    ir_alert_at r \<le> unix ts) (db_incidents s))"

definition Recover :: "string \<Rightarrow> time \<Rightarrow> db \<Rightarrow> (Incident \<times> bool) res \<times> db" where
  "Recover key ts =
     run_tx (tx_bind (tx_read (recover_target key ts)) (\<lambda>row.
       case row of
         None \<Rightarrow> tx_return (zero_incident, False)
       | Some r \<Rightarrow>
           if ir_state r = IncidentRecovered then tx_return (scanIncident r, False)
           else
             tx_bind (tx_update_incidents (\<lambda>s q. ir_id q = ir_id r \<and> is_recoverable (ir_state q))
                        (set_state IncidentRecovered (unix ts))) (\<lambda>updated.
             tx_bind (oneRow updated ''recover incident'' key) (\<lambda>_.
             tx_bind (cancel_live_jobs (ir_id r)) (\<lambda>_.
             tx_return ((scanIncident r)\<lparr>inc_state := IncidentRecovered, inc_updated_at := ts\<rparr>, True))))))"

definition CancelJobsForIncident :: "string \<Rightarrow> db \<Rightarrow> unit res \<times> db" where
  "CancelJobsForIncident incidentID =
     run_tx (tx_bind (cancel_live_jobs incidentID) (\<lambda>_. tx_return ()))"

section \<open>Jobs\<close>

definition claimable_jobs :: "int \<Rightarrow> db \<Rightarrow> job_row list" where
  "claimable_jobs now s = filter (\<lambda>j. job_incident_active s j \<and> claimable now j) (db_jobs s)"

definition claim_job_row :: "string \<Rightarrow> int \<Rightarrow> job_row \<Rightarrow> job_row" where
  "claim_job_row workerID leaseUntil j =
     j\<lparr>jr_status := JobRunning, jr_worker_id := workerID, jr_attempt := jr_attempt j + 1,
       jr_lease_until := leaseUntil\<rparr>"

definition claimed_job :: "string \<Rightarrow> time \<Rightarrow> job_row \<Rightarrow> Job" where
  "claimed_job workerID now j =
     (scanJob j)\<lparr>job_status := JobRunning, job_worker_id := workerID,
                 job_attempt := jr_attempt j + 1, job_lease_until := now + JobLeaseDuration\<rparr>"

text \<open>
  \<^verbatim>\<open>ClaimNext\<close> returns no job, and rolls back, when its update does not hit exactly one row.
\<close>

definition ClaimNext :: "string \<Rightarrow> time \<Rightarrow> db \<Rightarrow> Job option res \<times> db" where
  "ClaimNext workerID now s =
     run_tx (tx_bind (tx_read (\<lambda>s. min_by (\<lambda>j. (jr_run_after j, jr_id j))
                                  (claimable_jobs (unix now) s))) (\<lambda>row.
       case row of
         None \<Rightarrow> tx_return None
       | Some j \<Rightarrow>
           tx_bind (tx_update_jobs
               (\<lambda>s q. jr_id q = jr_id j \<and> claimable (unix now) q \<and> job_incident_active s q)
               (claim_job_row workerID (unix (now + JobLeaseDuration)))) (\<lambda>changed.
           if changed \<noteq> 1 then (\<lambda>_. Inr (None, s))
           else tx_return (Some (claimed_job workerID now j))))) s"

definition CompleteJob :: "Job \<Rightarrow> db \<Rightarrow> unit res \<times> db" where
  "CompleteJob job =
     run_tx (tx_bind (tx_update_jobs
         (\<lambda>s j. jr_id j = job_id job \<and> jr_worker_id j = job_worker_id job \<and>
                jr_lease_until j = unix (job_lease_until job) \<and> jr_status j = JobRunning \<and>
                job_incident_active s j) (close_job JobCompleted)) (\<lambda>changed.
       leaseRow changed ''complete job'' (job_id job)))"

definition CompleteJobAndIncident ::
    "(RCAResult \<Rightarrow> string res) \<Rightarrow> string \<Rightarrow> Job \<Rightarrow> string \<Rightarrow> RCAResult \<Rightarrow> time \<Rightarrow> db
       \<Rightarrow> unit res \<times> db" where
  "CompleteJobAndIncident marshal snapshotID job incidentID result ts s =
     (case marshal result of
        Inl err \<Rightarrow> (Inl (marshal_failed err), s)
      | Inr raw \<Rightarrow> run_tx
          (tx_bind (close_claimed_job job incidentID JobCompleted) (\<lambda>claimed.
           tx_bind (leaseRow claimed ''complete job'' (job_id job)) (\<lambda>_.
           tx_bind (update_active_incident IncidentCompleted incidentID ts) (\<lambda>updated.
           tx_bind (activeRow updated ''complete incident'' incidentID) (\<lambda>_.
           tx_bind (tx_insert_snapshot (snapshot_row snapshotID incidentID raw ts)) (\<lambda>_.
           tx_bind (cancel_other_jobs incidentID (job_id job)) (\<lambda>_.
           tx_return ()))))))) s)"

definition CompleteJobAndScheduleAuditRetry ::
    "string \<Rightarrow> Job \<Rightarrow> string \<Rightarrow> time \<Rightarrow> db \<Rightarrow> unit res \<times> db" where
  "CompleteJobAndScheduleAuditRetry freshID job incidentID retryAt =
     run_tx
       (tx_bind (close_claimed_job job incidentID JobCompleted) (\<lambda>claimed.
        tx_bind (leaseRow claimed ''complete job'' (job_id job)) (\<lambda>_.
        tx_bind (await_audit_event incidentID retryAt) (\<lambda>updated.
        tx_bind (activeRow updated ''schedule audit retry'' incidentID) (\<lambda>_.
        tx_bind (tx_insert_job (job_columns (NewJob freshID incidentID retryAt))) (\<lambda>_.
        tx_return ()))))))"

text \<open>The delay before the next attempt: five seconds per attempt made, at most thirty.\<close>

definition retry_delay :: "int \<Rightarrow> int" where
  "retry_delay attempt =
     (let delay = int64 (int64 (attempt * 5) * second)
      in if delay > 30 * second then 30 * second else delay)"

definition requeue_job :: "int \<Rightarrow> job_row \<Rightarrow> job_row" where
  "requeue_job runAfter j =
     j\<lparr>jr_status := JobQueued, jr_worker_id := '''', jr_lease_until := 0, jr_run_after := runAfter\<rparr>"

definition RetryOrFailJob :: "Job \<Rightarrow> time \<Rightarrow> int \<Rightarrow> db \<Rightarrow> bool res \<times> db" where
  "RetryOrFailJob job ts maxAttempts s =
     (if maxAttempts < 1 then (Inl (ErrNew ''max attempts must be positive''), s)
      else run_tx
        (if job_attempt job \<ge> maxAttempts then
           tx_bind (tx_update_jobs (\<lambda>s j. claim_row job (job_incident_id job) j)
                      (close_job JobFailed)) (\<lambda>changed.
           tx_bind (leaseRow changed ''fail job'' (job_id job)) (\<lambda>_.
           tx_bind (update_active_incident IncidentFailed (job_incident_id job) ts) (\<lambda>updated.
           tx_bind (activeRow updated ''fail incident'' (job_incident_id job)) (\<lambda>_.
           tx_bind (cancel_other_jobs (job_incident_id job) (job_id job)) (\<lambda>_.
           tx_return True)))))
         else
           tx_bind (tx_update_jobs
               (\<lambda>s j. claim_row job (job_incident_id job) j \<and> job_incident_active s j)
               (requeue_job (unix (ts + retry_delay (job_attempt job))))) (\<lambda>changed.
           tx_bind (leaseRow changed ''retry job'' (job_id job)) (\<lambda>_.
           tx_return False))) s)"

end
