(* ===== verification/StoreInv.thy ===== *)
theory StoreInv
  imports Store
begin

text \<open>
  What every repository operation keeps. \<^theory_text>\<open>wf_db\<close> is the type invariant of the database:
  unique identifiers, one active incident per key, known states and statuses, and a claim
  (worker and lease) only on a running job. \<^theory_text>\<open>db_le\<close> is the lifecycle: nothing is deleted,
  an incident keeps its identity and alert, recovery is final, a completed or failed incident
  can only recover, a card is set once, and a closed job never changes again. The relation
  \<^theory_text>\<open>db_step\<close> joins both; it is reflexive and transitive, so the locale of transactions
  applies to it, and each operation's lemma is an application of its rules.
\<close>

section \<open>Well-formed databases\<close>

definition job_wf :: "job_row \<Rightarrow> bool" where
  "job_wf j \<longleftrightarrow>
     jr_status j \<in> set job_statuses \<and> 0 \<le> jr_attempt j \<and>
     (jr_status j \<noteq> JobRunning \<longrightarrow> jr_worker_id j = '''' \<and> jr_lease_until j = 0) \<and>
     (jr_status j = JobRunning \<longrightarrow> 1 \<le> jr_attempt j)"

definition wf_db :: "db \<Rightarrow> bool" where
  "wf_db s \<longleftrightarrow>
     incidents_ok (db_incidents s) \<and>
     (\<forall>r \<in> set (db_incidents s). ir_state r \<in> set incident_states) \<and>
     distinct (map jr_id (db_jobs s)) \<and> (\<forall>j \<in> set (db_jobs s). job_wf j) \<and>
     distinct (map er_id (db_snapshots s)) \<and>
     distinct (map er_id (db_evidence s)) \<and> (\<forall>e \<in> set (db_evidence s). er_id e \<noteq> '''')"

section \<open>Lifecycles\<close>

definition incident_le :: "incident_row \<Rightarrow> incident_row \<Rightarrow> bool" where
  "incident_le r r' \<longleftrightarrow>
     ir_id r' = ir_id r \<and> ir_key r' = ir_key r \<and> ir_workspace r' = ir_workspace r \<and>
     ir_rule_id r' = ir_rule_id r \<and> ir_resource_id r' = ir_resource_id r \<and>
     ir_alert_at r' = ir_alert_at r \<and> ir_created_at r' = ir_created_at r \<and>
     (ir_message_id r \<noteq> '''' \<longrightarrow> ir_message_id r' = ir_message_id r) \<and>
     (ir_state r' = ir_state r \<or>
      ir_state r' \<noteq> IncidentReceived \<and>
      (is_active (ir_state r) \<or> is_recoverable (ir_state r) \<and> ir_state r' = IncidentRecovered))"

definition job_le :: "job_row \<Rightarrow> job_row \<Rightarrow> bool" where
  "job_le j j' \<longleftrightarrow>
     jr_id j' = jr_id j \<and> jr_incident_id j' = jr_incident_id j \<and>
     jr_attempt j \<le> jr_attempt j' \<and> (\<not> live j \<longrightarrow> j' = j)"

definition db_le :: "db \<Rightarrow> db \<Rightarrow> bool" where
  "db_le s s' \<longleftrightarrow>
     (\<forall>r \<in> set (db_incidents s). \<exists>r' \<in> set (db_incidents s'). incident_le r r') \<and>
     (\<forall>j \<in> set (db_jobs s). \<exists>j' \<in> set (db_jobs s'). job_le j j') \<and>
     set (db_snapshots s) \<subseteq> set (db_snapshots s')"

definition db_step :: "db \<Rightarrow> db \<Rightarrow> bool" where
  "db_step s s' \<longleftrightarrow> (wf_db s \<longrightarrow> wf_db s' \<and> db_le s s')"

lemma incident_le_refl [simp, intro]: "incident_le r r"
  by (simp add: incident_le_def)

lemma job_le_refl [simp, intro]: "job_le j j"
  by (simp add: job_le_def)

lemma incident_le_trans: "incident_le r r' \<Longrightarrow> incident_le r' r'' \<Longrightarrow> incident_le r r''"
  unfolding incident_le_def is_recoverable_def by (elim conjE disjE; simp)

lemma job_le_trans: "job_le j j' \<Longrightarrow> job_le j' j'' \<Longrightarrow> job_le j j''"
  unfolding job_le_def by auto

lemma db_le_refl [simp, intro]: "db_le s s"
  by (auto simp: db_le_def)

lemma db_le_trans: "db_le s s' \<Longrightarrow> db_le s' s'' \<Longrightarrow> db_le s s''"
  unfolding db_le_def by (meson incident_le_trans job_le_trans subset_trans)

interpretation ds: tx_preorder db_step
  by unfold_locales (auto simp: db_step_def intro: db_le_trans)

section \<open>Statements\<close>

lemma update_incidents_step:
  assumes "\<And>s r. p s r \<Longrightarrow> ir_state r \<in> set incident_states \<Longrightarrow>
     incident_le r (f r) \<and> ir_state (f r) \<in> set incident_states"
  shows "tx_rel db_step (tx_update_incidents p f)"
proof (rule tx_relI)
  fix s x s'
  assume "tx_update_incidents p f s = Inr (x, s')"
  then have s': "s' = s\<lparr>db_incidents := update_where (p s) f (db_incidents s)\<rparr>"
    and ok: "incidents_ok (update_where (p s) f (db_incidents s))"
    by (auto simp: tx_update_incidents_def Let_def split: if_splits)
  have "\<forall>r \<in> set (db_incidents s). \<exists>r' \<in> set (update_where (p s) f (db_incidents s)). incident_le r r'"
    if "wf_db s"
    using that assms by (intro update_where_related) (auto simp: wf_db_def)
  moreover have "\<forall>r' \<in> set (update_where (p s) f (db_incidents s)). ir_state r' \<in> set incident_states"
    if "wf_db s"
    using that assms by (intro update_where_all) (auto simp: wf_db_def)
  ultimately show "db_step s s'"
    using ok unfolding s' db_step_def wf_db_def db_le_def by auto
qed

lemma update_jobs_step:
  assumes "\<And>s j. p s j \<Longrightarrow> job_wf j \<Longrightarrow> job_le j (f j) \<and> job_wf (f j)"
  shows "tx_rel db_step (tx_update_jobs p f)"
proof (rule tx_relI)
  fix s x s'
  assume "tx_update_jobs p f s = Inr (x, s')"
  then have s': "s' = s\<lparr>db_jobs := update_where (p s) f (db_jobs s)\<rparr>"
    by (simp add: tx_update_jobs_def)
  have ids: "map jr_id (update_where (p s) f (db_jobs s)) = map jr_id (db_jobs s)" if "wf_db s"
    using that assms by (auto simp: update_where_def wf_db_def job_le_def)
  have "\<forall>j \<in> set (db_jobs s). \<exists>j' \<in> set (update_where (p s) f (db_jobs s)). job_le j j'"
    if "wf_db s"
    using that assms by (intro update_where_related) (auto simp: wf_db_def)
  moreover have "\<forall>j' \<in> set (update_where (p s) f (db_jobs s)). job_wf j'" if "wf_db s"
    using that assms by (intro update_where_all) (auto simp: wf_db_def)
  ultimately show "db_step s s'"
    using ids unfolding s' db_step_def wf_db_def db_le_def by auto
qed

lemma insert_incident_step:
  "ir_state r \<in> set incident_states \<Longrightarrow> tx_rel db_step (tx_insert_incident r)"
  by (rule tx_relI)
    (auto simp: tx_insert_incident_def db_step_def wf_db_def db_le_def split: if_splits)

lemma insert_job_step: "job_wf j \<Longrightarrow> tx_rel db_step (tx_insert_job j)"
  by (rule tx_relI)
    (auto simp: tx_insert_job_def db_step_def wf_db_def db_le_def split: if_splits)

lemma insert_snapshot_step: "tx_rel db_step (tx_insert_snapshot r)"
  by (rule tx_relI)
    (auto simp: tx_insert_snapshot_def db_step_def wf_db_def db_le_def split: if_splits)

lemma replace_evidence_step: "er_id r \<noteq> '''' \<Longrightarrow> tx_rel db_step (tx_replace_evidence r)"
  by (rule tx_relI)
    (auto simp: tx_replace_evidence_def db_step_def wf_db_def db_le_def distinct_map_filter)

lemma row_check_step:
  "tx_rel db_step (oneRow n op i)" "tx_rel db_step (activeRow n op i)"
  "tx_rel db_step (leaseRow n op i)"
  by (simp_all add: oneRow_def activeRow_def leaseRow_def ds.rel_return ds.rel_throw)

text \<open>The changes the operations make to a row.\<close>

lemma known_states [simp]:
  "IncidentReceived \<in> set incident_states" "IncidentInvestigating \<in> set incident_states"
  "IncidentAwaitingAuditEvent \<in> set incident_states" "IncidentCompleted \<in> set incident_states"
  "IncidentFailed \<in> set incident_states" "IncidentRecovered \<in> set incident_states"
  by (simp_all add: incident_states_def)

lemma known_statuses [simp]:
  "JobQueued \<in> set job_statuses" "JobRunning \<in> set job_statuses" "JobCompleted \<in> set job_statuses"
  "JobCancelled \<in> set job_statuses" "JobFailed \<in> set job_statuses"
  by (simp_all add: job_statuses_def)

lemma active_imp_recoverable: "is_active st \<Longrightarrow> is_recoverable st"
  by (simp add: is_recoverable_def)

lemma set_state_le:
  "is_active (ir_state r) \<Longrightarrow> st \<noteq> IncidentReceived \<Longrightarrow> incident_le r (set_state st ts r)"
  by (simp add: incident_le_def set_state_def)

lemma recover_le:
  "is_recoverable (ir_state r) \<Longrightarrow> incident_le r (set_state IncidentRecovered ts r)"
  by (simp add: incident_le_def set_state_def)

lemma close_job_step:
  assumes "\<And>s j. p s j \<Longrightarrow> live j" and "st \<in> set job_statuses" and "st \<noteq> JobRunning"
  shows "tx_rel db_step (tx_update_jobs p (close_job st))"
  using assms
  by (intro update_jobs_step) (fastforce simp: job_le_def job_wf_def close_job_def)

lemma claim_row_live: "claim_row job i j \<Longrightarrow> live j"
  by (simp add: claim_row_def live_def)

lemma touch_claim_step: "tx_rel db_step (touch_claim job)"
  unfolding touch_claim_def by (rule update_jobs_step) simp

lemma cancel_step: "tx_rel db_step (cancel_live_jobs i)" "tx_rel db_step (cancel_other_jobs i k)"
  unfolding cancel_live_jobs_def cancel_other_jobs_def by (rule close_job_step; simp)+

lemma close_claimed_step:
  "st \<in> set job_statuses \<Longrightarrow> st \<noteq> JobRunning \<Longrightarrow> tx_rel db_step (close_claimed_job job i st)"
  unfolding close_claimed_job_def by (rule close_job_step) (auto dest: claim_row_live)

lemma update_active_step:
  "st \<in> set incident_states \<Longrightarrow> st \<noteq> IncidentReceived \<Longrightarrow>
     tx_rel db_step (update_active_incident st i ts)"
  unfolding update_active_incident_def
  by (rule update_incidents_step) (auto simp: set_state_le, simp add: set_state_def)

lemma legacy_state_unknown: "''AWAIT_AUDIT_EVENT'' \<notin> set incident_states"
  by (simp add: incident_states_def incident_state_defs)

lemma await_audit_step: "tx_rel db_step (await_audit_event i ts)"
  unfolding await_audit_event_def
proof (rule update_incidents_step)
  fix s :: db and r :: incident_row
  assume "ir_id r = i \<and> is_active_or_legacy (ir_state r)" and "ir_state r \<in> set incident_states"
  then have "is_active (ir_state r)"
    using legacy_state_unknown by (metis is_active_or_legacy_def)
  then show "incident_le r (set_state IncidentAwaitingAuditEvent (unix ts) r) \<and>
      ir_state (set_state IncidentAwaitingAuditEvent (unix ts) r) \<in> set incident_states"
    using set_state_le [of r IncidentAwaitingAuditEvent] by (simp add: set_state_def)
qed

lemma new_job_wf [simp]: "job_wf (job_columns (NewJob k i t))"
  by (simp add: job_wf_def job_columns_def NewJob_def)

lemmas [step_rules] =
  ds.rel_run ds.rel_rules row_check_step touch_claim_step cancel_step close_claimed_step
  update_active_step await_audit_step insert_job_step insert_snapshot_step

section \<open>Operations\<close>

lemma CreateOrGetIncident_step:
  assumes "inc_state inc \<in> set incident_states"
  shows "db_step s (snd (CreateOrGetIncident inc s))"
proof -
  have "db_step s (snd (run_tx (tx_insert_incident (incident_columns inc)) s))"
    using assms by (intro ds.rel_run insert_incident_step) (simp add: incident_columns_def)
  then show ?thesis
    by (auto simp: CreateOrGetIncident_def split: sum.splits option.splits prod.splits)
qed

lemma Enqueue_step: "db_step s (snd (Enqueue k i t s))"
  unfolding Enqueue_def by (intro step_rules) simp

lemma MarkInvestigating_step: "db_step s (snd (MarkInvestigatingForClaim job t s))"
proof -
  let ?m = "tx_update_incidents
     (\<lambda>s r. ir_id r = job_incident_id job \<and>
        (ir_state r = IncidentReceived \<or> ir_state r = IncidentAwaitingAuditEvent) \<and>
        (\<exists>j \<in> set (db_jobs s). claim_row job (job_incident_id job) j))
     (set_state IncidentInvestigating (unix t))"
  have "tx_rel db_step ?m"
    by (rule update_incidents_step) (auto simp: set_state_def incident_le_def)
  then have "db_step s (snd (run_tx ?m s))" by (rule ds.rel_run)
  then show ?thesis
    by (auto simp: MarkInvestigatingForClaim_def CheckActiveClaim_def split: sum.splits prod.splits)
qed

lemma set_message_step:
  "(\<And>s r. p s r \<Longrightarrow> ir_message_id r = '''') \<Longrightarrow>
     tx_rel db_step (tx_update_incidents p (\<lambda>r. r\<lparr>ir_message_id := m, ir_updated_at := t\<rparr>))"
  by (rule update_incidents_step) (auto simp: incident_le_def)

lemma SetFeishuMessageID_step: "db_step s (snd (SetFeishuMessageID i m t s))"
  unfolding SetFeishuMessageID_def
  by (auto simp: ds.R_refl intro!: step_rules set_message_step)

lemma SetFeishuMessageIDForClaim_step: "db_step s (snd (SetFeishuMessageIDForClaim job m t s))"
  unfolding SetFeishuMessageIDForClaim_def
  by (auto simp: ds.R_refl intro!: step_rules set_message_step)

lemma card_fence_step: "tx_rel db_step (card_fence job)"
  unfolding card_fence_def
  by (intro step_rules update_incidents_step) auto

lemma UpdateActiveClaimCard_step:
  "db_step s (fst (snd (UpdateActiveClaimCard job update (s, c))))"
  unfolding UpdateActiveClaimCard_def
  by (auto simp: ds.R_refl split: sum.splits prod.splits dest: tx_relD [OF card_fence_step])

lemma tx_store_evidence_step: "tx_rel db_step (tx_store_evidence marshal i t items)"
  by (induction items)
    (auto split: sum.splits intro!: ds.rel_rules replace_evidence_step)

lemma StoreEvidence_step: "db_step s (snd (StoreEvidence marshal i items t s))"
  unfolding StoreEvidence_def by (rule ds.rel_run [OF tx_store_evidence_step])

lemma Complete_step: "db_step s (snd (Complete marshal k i res t s))"
  unfolding Complete_def
  by (auto simp: ds.R_refl split: sum.splits intro!: step_rules)

lemma Fail_step: "db_step s (snd (Fail i t s))"
  unfolding Fail_def by (intro step_rules) auto

lemma ScheduleAuditRetry_step: "db_step s (snd (ScheduleAuditRetry k i t s))"
  unfolding ScheduleAuditRetry_def by (intro step_rules) auto

lemma Recover_step: "db_step s (snd (Recover key t s))"
proof -
  have "tx_rel db_step (tx_update_incidents (\<lambda>s q. ir_id q = i \<and> is_recoverable (ir_state q))
          (set_state IncidentRecovered (unix t)))" for i
    by (rule update_incidents_step) (auto simp: recover_le, simp add: set_state_def)
  then show ?thesis
    unfolding Recover_def by (intro step_rules) auto
qed

lemma CancelJobsForIncident_step: "db_step s (snd (CancelJobsForIncident i s))"
  unfolding CancelJobsForIncident_def by (intro step_rules)

lemma claim_job_row_ok:
  "claimable now j \<Longrightarrow> job_wf j \<Longrightarrow>
     job_le j (claim_job_row w l j) \<and> job_wf (claim_job_row w l j)"
  by (auto simp: claim_job_row_def job_le_def job_wf_def claimable_def live_def)

lemma ClaimNext_step: "db_step s (snd (ClaimNext w now s))"
proof -
  have upd: "tx_rel db_step (tx_update_jobs
      (\<lambda>s q. jr_id q = i \<and> claimable n q \<and> job_incident_active s q) (claim_job_row w l))" for i n l
    by (rule update_jobs_step) (auto dest: claim_job_row_ok)
  show ?thesis
    unfolding ClaimNext_def
    by (auto simp: tx_defs ds.R_refl split: option.splits sum.splits if_splits
             dest: tx_relD [OF upd])
qed

lemma CompleteJob_step: "db_step s (snd (CompleteJob job s))"
  unfolding CompleteJob_def
  by (intro step_rules close_job_step) (auto simp: live_def)

lemma CompleteJobAndIncident_step:
  "db_step s (snd (CompleteJobAndIncident marshal k job i res t s))"
  unfolding CompleteJobAndIncident_def
  by (auto simp: ds.R_refl split: sum.splits intro!: step_rules)

lemma CompleteJobAndScheduleAuditRetry_step:
  "db_step s (snd (CompleteJobAndScheduleAuditRetry k job i t s))"
  unfolding CompleteJobAndScheduleAuditRetry_def by (intro step_rules) auto

lemma requeue_ok:
  "claim_row job i j \<Longrightarrow> job_wf j \<Longrightarrow> job_le j (requeue_job t j) \<and> job_wf (requeue_job t j)"
  by (auto simp: claim_row_def requeue_job_def job_le_def job_wf_def live_def)

lemma RetryOrFailJob_step: "db_step s (snd (RetryOrFailJob job t n s))"
proof -
  have "tx_rel db_step (tx_update_jobs (\<lambda>s j. claim_row job i j) (close_job JobFailed))" for i
    by (rule close_job_step) (auto dest: claim_row_live)
  moreover have "tx_rel db_step (tx_update_jobs
      (\<lambda>s j. claim_row job i j \<and> job_incident_active s j) (requeue_job u))" for i u
    by (rule update_jobs_step) (blast dest: requeue_ok)
  ultimately show ?thesis
    unfolding RetryOrFailJob_def by (auto simp: ds.R_refl intro!: step_rules)
qed

end
