(* ===== verification/StoreProps.thy ===== *)
theory StoreProps
  imports StoreInv
begin

text \<open>
  The behaviour of the repository: any sequence of calls from an empty database keeps it
  well-formed and moves incidents and jobs forward only; \<^verbatim>\<open>ClaimNext\<close> hands out the earliest
  claimable job and fences every earlier claim of it; an operation under a lost claim fails and
  changes nothing; and the outcome of each closing operation on the incident and all its jobs.
\<close>

section \<open>Sequences of calls\<close>

datatype store_op =
    OpCreateOrGet string time string string string time
  | OpEnqueue string string time
  | OpClaimNext string time
  | OpMarkInvestigating Job time
  | OpSetMessage string string time
  | OpSetMessageForClaim Job string time
  | OpCardUpdate Job
  | OpStoreEvidence string "Evidence list" time
  | OpComplete string string RCAResult time
  | OpFail string time
  | OpScheduleAuditRetry string string time
  | OpRecover string time
  | OpCompleteJob Job
  | OpCompleteJobAndIncident string Job string RCAResult time
  | OpCompleteJobAndScheduleAuditRetry string Job string time
  | OpRetryOrFail Job time int
  | OpCancelJobs string

text \<open>
  One call, with the JSON encoders of evidence and results as parameters. A new incident is
  always built by \<^verbatim>\<open>domain.NewIncident\<close>, as the gateway does.
\<close>

fun exec_op ::
    "(Evidence \<Rightarrow> string res) \<Rightarrow> (RCAResult \<Rightarrow> string res) \<Rightarrow> store_op \<Rightarrow> db \<Rightarrow> db" where
  "exec_op mE mR (OpCreateOrGet k now w r i t) s = snd (CreateOrGetIncident (NewIncident k now w r i t) s)"
| "exec_op mE mR (OpEnqueue k i t) s = snd (Enqueue k i t s)"
| "exec_op mE mR (OpClaimNext w now) s = snd (ClaimNext w now s)"
| "exec_op mE mR (OpMarkInvestigating job t) s = snd (MarkInvestigatingForClaim job t s)"
| "exec_op mE mR (OpSetMessage i m t) s = snd (SetFeishuMessageID i m t s)"
| "exec_op mE mR (OpSetMessageForClaim job m t) s = snd (SetFeishuMessageIDForClaim job m t s)"
| "exec_op mE mR (OpCardUpdate job) s =
     fst (snd (UpdateActiveClaimCard job (\<lambda>_ c. (Inr (), c)) (s, ())))"
| "exec_op mE mR (OpStoreEvidence i items t) s = snd (StoreEvidence mE i items t s)"
| "exec_op mE mR (OpComplete k i res t) s = snd (Complete mR k i res t s)"
| "exec_op mE mR (OpFail i t) s = snd (Fail i t s)"
| "exec_op mE mR (OpScheduleAuditRetry k i t) s = snd (ScheduleAuditRetry k i t s)"
| "exec_op mE mR (OpRecover key t) s = snd (Recover key t s)"
| "exec_op mE mR (OpCompleteJob job) s = snd (CompleteJob job s)"
| "exec_op mE mR (OpCompleteJobAndIncident k job i res t) s =
     snd (CompleteJobAndIncident mR k job i res t s)"
| "exec_op mE mR (OpCompleteJobAndScheduleAuditRetry k job i t) s =
     snd (CompleteJobAndScheduleAuditRetry k job i t s)"
| "exec_op mE mR (OpRetryOrFail job t n) s = snd (RetryOrFailJob job t n s)"
| "exec_op mE mR (OpCancelJobs i) s = snd (CancelJobsForIncident i s)"

definition run_ops ::
    "(Evidence \<Rightarrow> string res) \<Rightarrow> (RCAResult \<Rightarrow> string res) \<Rightarrow> store_op list \<Rightarrow> db \<Rightarrow> db" where
  "run_ops mE mR ops s = foldl (\<lambda>s op. exec_op mE mR op s) s ops"

lemma NewIncident_state [simp]: "inc_state (NewIncident k now w r i t) = IncidentReceived"
  by (simp add: NewIncident_def)

lemma exec_op_step: "db_step s (exec_op mE mR op s)"
  by (cases op)
    (simp_all add: CreateOrGetIncident_step Enqueue_step ClaimNext_step MarkInvestigating_step
      SetFeishuMessageID_step SetFeishuMessageIDForClaim_step UpdateActiveClaimCard_step
      StoreEvidence_step Complete_step Fail_step ScheduleAuditRetry_step Recover_step
      CompleteJob_step CompleteJobAndIncident_step CompleteJobAndScheduleAuditRetry_step
      RetryOrFailJob_step CancelJobsForIncident_step)

lemma run_ops_step: "db_step s (run_ops mE mR ops s)"
proof (induction ops arbitrary: s)
  case Nil
  show ?case by (simp add: run_ops_def ds.R_refl)
next
  case (Cons op ops)
  have "db_step (exec_op mE mR op s) (run_ops mE mR ops (exec_op mE mR op s))" by (rule Cons.IH)
  with exec_op_step [of s] show ?case
    by (simp add: run_ops_def) (metis ds.R_trans)
qed

lemma wf_empty_db [simp]: "wf_db empty_db"
  by (simp add: wf_db_def empty_db_def incidents_ok_def)

lemma run_ops_append: "run_ops mE mR (ops @ ops') s = run_ops mE mR ops' (run_ops mE mR ops s)"
  by (simp add: run_ops_def)

lemma wf_run_ops: "wf_db s \<Longrightarrow> wf_db (run_ops mE mR ops s)"
  using run_ops_step [of s mE mR ops] by (simp add: db_step_def)

lemma db_le_run_ops: "wf_db s \<Longrightarrow> db_le s (run_ops mE mR ops s)"
  using run_ops_step [of s mE mR ops] by (simp add: db_step_def)


text \<open>
  C12 (reachable_rows_well_typed). In every reachable database each incident has one of the
  six states and each job one of the five statuses; a job that is not running carries no worker
  and no lease, and a running one has been attempted at least once.
\<close>

theorem reachable_rows_well_typed:
  fixes mE mR ops
  defines "s \<equiv> run_ops mE mR ops empty_db"
  shows "(\<forall>r \<in> set (db_incidents s). ir_state r \<in> set incident_states) \<and>
    (\<forall>j \<in> set (db_jobs s). jr_status j \<in> set job_statuses \<and>
       (if jr_status j = JobRunning then 1 \<le> jr_attempt j
        else 0 \<le> jr_attempt j \<and> jr_worker_id j = '''' \<and> jr_lease_until j = 0))"
  using wf_run_ops [OF wf_empty_db, of mE mR ops]
  by (simp add: s_def wf_db_def job_wf_def)

text \<open>
  C4 (recovery_is_final). Once an incident has recovered, no later sequence of repository
  calls, by any worker, moves it to another state, changes its identity or its card.
\<close>

theorem recovery_is_final:
  assumes "r \<in> set (db_incidents (run_ops mE mR ops empty_db))"
    and "ir_state r = IncidentRecovered"
  shows "\<exists>r' \<in> set (db_incidents (run_ops mE mR (ops @ later) empty_db)).
    ir_id r' = ir_id r \<and> ir_state r' = IncidentRecovered \<and> ir_key r' = ir_key r \<and>
    (ir_message_id r \<noteq> '''' \<longrightarrow> ir_message_id r' = ir_message_id r)"
proof -
  have "db_le (run_ops mE mR ops empty_db) (run_ops mE mR (ops @ later) empty_db)"
    unfolding run_ops_append by (intro db_le_run_ops wf_run_ops) simp
  with assms(1) obtain r' where "r' \<in> set (db_incidents (run_ops mE mR (ops @ later) empty_db))"
    and "incident_le r r'" by (auto simp: db_le_def)
  with assms(2) show ?thesis
    by (auto simp: incident_le_def is_recoverable_def intro!: bexI [of _ r'])
qed

text \<open>
  C11 (closed_jobs_frozen). A job that is completed, cancelled or failed is never written again,
  and the attempt counter of any job never decreases.
\<close>

theorem closed_jobs_frozen:
  assumes "j \<in> set (db_jobs (run_ops mE mR ops empty_db))"
  shows "\<exists>j' \<in> set (db_jobs (run_ops mE mR (ops @ later) empty_db)).
    jr_id j' = jr_id j \<and> jr_incident_id j' = jr_incident_id j \<and> jr_attempt j \<le> jr_attempt j' \<and>
    (if jr_status j = JobQueued \<or> jr_status j = JobRunning then True else j' = j)"
proof -
  have "db_le (run_ops mE mR ops empty_db) (run_ops mE mR (ops @ later) empty_db)"
    unfolding run_ops_append by (intro db_le_run_ops wf_run_ops) simp
  with assms obtain j' where "j' \<in> set (db_jobs (run_ops mE mR (ops @ later) empty_db))"
    and "job_le j j'" by (auto simp: db_le_def)
  then show ?thesis
    by (intro bexI [of _ j']) (auto simp: job_le_def live_def)
qed

section \<open>Claims\<close>

text \<open>A row carries the fencing token of a claim.\<close>

definition holds_token :: "Job \<Rightarrow> job_row \<Rightarrow> bool" where
  "holds_token job j \<longleftrightarrow>
     jr_id j = job_id job \<and> jr_status j = JobRunning \<and>
     jr_worker_id j = job_worker_id job \<and> jr_lease_until j = unix (job_lease_until job)"

lemma claim_row_holds_token: "claim_row job i j \<longleftrightarrow> holds_token job j \<and> jr_incident_id j = i"
  by (auto simp: claim_row_def holds_token_def)

lemma wf_job_ids: "wf_db s \<Longrightarrow> distinct (map jr_id (db_jobs s))"
  by (simp add: wf_db_def)

lemma wf_incident_ids: "wf_db s \<Longrightarrow> distinct (map ir_id (db_incidents s))"
  by (simp add: wf_db_def incidents_ok_def)

lemma lease_seconds: "unix (now + JobLeaseDuration) = unix now + 300"
  using unix_add_seconds [of now 300] by (simp add: JobLeaseDuration_def)

text \<open>
  What \<^verbatim>\<open>ClaimNext\<close> does on a well-formed database: nothing if no job is claimable;
  otherwise it turns the least claimable job into a running one and touches no other row.
\<close>

lemma ClaimNext_none:
  "claimable_jobs (unix now) s = [] \<Longrightarrow> ClaimNext w now s = (Inr None, s)"
  by (simp add: ClaimNext_def tx_defs)

lemma ClaimNext_some:
  assumes wf: "wf_db s"
    and j: "min_by (\<lambda>j. (jr_run_after j, jr_id j)) (claimable_jobs (unix now) s) = Some j"
  shows "ClaimNext w now s =
    (Inr (Some (claimed_job w now j)),
     s\<lparr>db_jobs := update_where (\<lambda>q. jr_id q = jr_id j)
                   (claim_job_row w (unix (now + JobLeaseDuration))) (db_jobs s)\<rparr>)"
proof -
  let ?p = "\<lambda>q. jr_id q = jr_id j \<and> claimable (unix now) q \<and> job_incident_active s q"
  from min_by_in [OF j] have j_in: "j \<in> set (db_jobs s)" and "claimable (unix now) j"
    and "job_incident_active s j" by (auto simp: claimable_jobs_def)
  then have p_iff: "?p q \<longleftrightarrow> jr_id q = jr_id j" if "q \<in> set (db_jobs s)" for q
    using that distinct_key_eq [OF wf_job_ids [OF wf], of q j] by auto
  have "count_where ?p (db_jobs s) = 1"
    using count_where_one_iff [OF wf_job_ids [OF wf], of ?p "jr_id j"] p_iff j_in by auto
  moreover have "update_where ?p f (db_jobs s) = update_where (\<lambda>q. jr_id q = jr_id j) f (db_jobs s)"
    for f by (rule update_where_cong) (rule p_iff)
  ultimately show ?thesis
    using j by (simp add: ClaimNext_def tx_defs tx_update_jobs_def)
qed

lemma ClaimNext_SomeE:
  assumes "wf_db s" and "ClaimNext w now s = (Inr (Some job), s')"
  obtains j where "min_by (\<lambda>j. (jr_run_after j, jr_id j)) (claimable_jobs (unix now) s) = Some j"
    and "job = claimed_job w now j"
    and "s' = s\<lparr>db_jobs := update_where (\<lambda>q. jr_id q = jr_id j)
                   (claim_job_row w (unix (now + JobLeaseDuration))) (db_jobs s)\<rparr>"
proof (cases "min_by (\<lambda>j. (jr_run_after j, jr_id j)) (claimable_jobs (unix now) s)")
  case None
  then have "claimable_jobs (unix now) s = []" by simp
  with assms(2) show thesis by (simp add: ClaimNext_none)
next
  case (Some j)
  with ClaimNext_some [OF assms(1) Some, of w] assms(2) that show thesis by auto
qed

text \<open>
  C8 (ClaimNext_earliest). A claim returns a queued job whose time has come or a running job
  whose lease has expired, of an active incident, and no other claimable job has an earlier
  \<^verbatim>\<open>run_after\<close> (ties by id). It only changes that row: running, held by this worker for
  five minutes, with one attempt more.
\<close>

theorem ClaimNext_earliest:
  assumes "wf_db s" and "ClaimNext w now s = (Inr (Some job), s')"
  shows "\<exists>j \<in> set (db_jobs s).
    jr_id j = job_id job \<and> claimable (unix now) j \<and> incident_active s (jr_incident_id j) \<and>
    (\<forall>q \<in> set (db_jobs s). claimable (unix now) q \<and> incident_active s (jr_incident_id q) \<longrightarrow>
       (jr_run_after j, jr_id j) \<le> (jr_run_after q, jr_id q)) \<and>
    db_incidents s' = db_incidents s \<and>
    db_jobs s' = map (\<lambda>q. if jr_id q = job_id job
       then q\<lparr>jr_status := JobRunning, jr_worker_id := w, jr_attempt := jr_attempt q + 1,
              jr_lease_until := unix now + 300\<rparr> else q) (db_jobs s) \<and>
    job_attempt job = jr_attempt j + 1 \<and> job_worker_id job = w \<and>
    job_lease_until job = now + 5 * 60 * second"
proof -
  from assms obtain j where
    min: "min_by (\<lambda>j. (jr_run_after j, jr_id j)) (claimable_jobs (unix now) s) = Some j"
    and job: "job = claimed_job w now j"
    and s': "s' = s\<lparr>db_jobs := update_where (\<lambda>q. jr_id q = jr_id j)
                   (claim_job_row w (unix (now + JobLeaseDuration))) (db_jobs s)\<rparr>"
    by (rule ClaimNext_SomeE)
  from min_by_in [OF min] min_by_least [OF min] show ?thesis
    unfolding s' job
    by (intro bexI [of _ j])
      (auto simp: claimable_jobs_def job_incident_active_def claimed_job_def scanJob_def
        update_where_def claim_job_row_def unix_add_seconds JobLeaseDuration_def)
qed

text \<open>No job is handed out exactly when none is claimable.\<close>

theorem ClaimNext_none_iff:
  assumes "wf_db s"
  shows "fst (ClaimNext w now s) = Inr None \<longleftrightarrow>
    \<not> (\<exists>j \<in> set (db_jobs s). claimable (unix now) j \<and> incident_active s (jr_incident_id j))"
proof (cases "min_by (\<lambda>j. (jr_run_after j, jr_id j)) (claimable_jobs (unix now) s)")
  case None
  then have e: "claimable_jobs (unix now) s = []" by simp
  then show ?thesis
    using ClaimNext_none [OF e] by (auto simp: claimable_jobs_def job_incident_active_def filter_empty_conv)
next
  case (Some j)
  from min_by_in [OF Some] ClaimNext_some [OF assms Some, of w] show ?thesis
    by (auto simp: claimable_jobs_def job_incident_active_def)
qed

text \<open>
  C2 (reclaim_fences_old_claim). When a worker claims a job whose row still carries the token
  of an earlier claim (its lease ran out), no row carries the old token any more, and the new
  holder's token is there: the new lease is later than the old one, which had expired.
\<close>

theorem reclaim_fences_old_claim:
  assumes "wf_db s" and "j \<in> set (db_jobs s)" and "holds_token old j"
    and "ClaimNext w now s = (Inr (Some new), s')" and "job_id new = job_id old"
  shows "(\<forall>q \<in> set (db_jobs s'). \<not> holds_token old q) \<and>
    (\<exists>q \<in> set (db_jobs s'). holds_token new q)"
proof -
  from assms(1,4) obtain k where
    min: "min_by (\<lambda>j. (jr_run_after j, jr_id j)) (claimable_jobs (unix now) s) = Some k"
    and new: "new = claimed_job w now k"
    and s': "s' = s\<lparr>db_jobs := update_where (\<lambda>q. jr_id q = jr_id k)
                   (claim_job_row w (unix (now + JobLeaseDuration))) (db_jobs s)\<rparr>"
    by (rule ClaimNext_SomeE)
  from min_by_in [OF min] have k: "k \<in> set (db_jobs s)" "claimable (unix now) k"
    by (auto simp: claimable_jobs_def)
  from new assms(3,5) have "jr_id k = jr_id j"
    by (simp add: claimed_job_def scanJob_def holds_token_def)
  with k assms(1,2) have "k = j" by (metis distinct_key_eq wf_job_ids)
  with k assms(3) have "unix (job_lease_until old) \<le> unix now"
    by (auto simp: claimable_def holds_token_def)
  moreover have "jr_lease_until q = unix now + 300"
    if "q \<in> set (db_jobs s')" and "jr_id q = job_id old" for q
    using that assms(3) \<open>k = j\<close>
    by (auto simp: s' set_update_where holds_token_def claim_job_row_def lease_seconds)
  ultimately have "\<forall>q \<in> set (db_jobs s'). \<not> holds_token old q"
    by (fastforce simp: holds_token_def)
  moreover have "\<exists>q \<in> set (db_jobs s'). holds_token new q"
  proof (rule bexI)
    let ?q = "claim_job_row w (unix (now + JobLeaseDuration)) k"
    show "?q \<in> set (db_jobs s')"
      using k(1) by (auto simp: s' set_update_where)
    show "holds_token new ?q"
      by (simp add: new holds_token_def claim_job_row_def claimed_job_def scanJob_def)
  qed
  ultimately show ?thesis by blast
qed

text \<open>An error that tells the worker that its claim or the incident is gone.\<close>

definition inactive_error :: "'a res \<Rightarrow> bool" where
  "inactive_error r \<longleftrightarrow>
     (case r of Inl e \<Rightarrow> errors_is e ErrIncidentInactive \<or> errors_is e ErrJobLeaseLost | Inr _ \<Rightarrow> False)"

definition no_token :: "Job \<Rightarrow> db \<Rightarrow> bool" where
  "no_token job s \<longleftrightarrow> (\<forall>j \<in> set (db_jobs s). \<not> holds_token job j)"

lemma no_token_count:
  "no_token job s \<Longrightarrow> (\<And>j. p j \<Longrightarrow> holds_token job j) \<Longrightarrow> count_where p (db_jobs s) = 0"
  by (auto simp: no_token_def)

lemma no_token_update:
  "no_token job s \<Longrightarrow> (\<And>j. p s j \<Longrightarrow> holds_token job j) \<Longrightarrow>
     tx_update_jobs p f s = Inr (0, s)"
proof -
  assume *: "no_token job s" "\<And>j. p s j \<Longrightarrow> holds_token job j"
  then have "update_where (p s) f (db_jobs s) = db_jobs s"
    by (intro update_where_none) (auto simp: no_token_def)
  with no_token_count [OF *] show ?thesis by (simp add: tx_update_jobs_def)
qed

lemma no_token_updates:
  assumes "no_token job s"
  shows "touch_claim job s = Inr (0, s)" "close_claimed_job job i st s = Inr (0, s)"
    "tx_update_jobs (\<lambda>s j. claim_row job i j) f s = Inr (0, s)"
    "tx_update_jobs (\<lambda>s j. claim_row job i j \<and> job_incident_active s j) f s = Inr (0, s)"
  unfolding touch_claim_def close_claimed_job_def
  by (rule no_token_update [OF assms]; simp add: claim_row_holds_token)+

lemma no_token_CheckActiveClaim:
  "no_token job s \<Longrightarrow>
     CheckActiveClaim job s =
       (Inl (ErrWrap (''check active job claim '' @ job_id job @ '': '') ErrJobLeaseLost ''''), s)"
  by (auto simp: CheckActiveClaim_def no_token_def claim_row_holds_token)

lemma no_token_CompleteJob:
  assumes "no_token job s"
  shows "CompleteJob job s =
    (Inl (ErrWrap (''complete job '' @ job_id job @ '': '') ErrJobLeaseLost ''''), s)"
proof -
  have "tx_update_jobs (\<lambda>s j. jr_id j = job_id job \<and> jr_worker_id j = job_worker_id job \<and>
          jr_lease_until j = unix (job_lease_until job) \<and> jr_status j = JobRunning \<and>
          job_incident_active s j) (close_job JobCompleted) s = Inr (0, s)"
    by (rule no_token_update [OF assms]) (simp add: holds_token_def)
  then show ?thesis by (simp add: CompleteJob_def tx_defs leaseRow_def)
qed

lemma no_token_MarkInvestigating:
  assumes "no_token job s" and "wf_db s"
  shows "MarkInvestigatingForClaim job t s =
    (Inl (ErrWrap (''check active job claim '' @ job_id job @ '': '') ErrJobLeaseLost ''''), s)"
proof -
  have "\<not> (\<exists>j \<in> set (db_jobs s). claim_row job (job_incident_id job) j)"
    using assms(1) by (auto simp: no_token_def claim_row_holds_token)
  with assms show ?thesis
    by (simp add: MarkInvestigatingForClaim_def tx_update_incidents_def run_tx_def Let_def
        wf_db_def no_token_CheckActiveClaim)
qed

text \<open>
  C3 (lost_claim_changes_nothing). Under a claim whose token no row carries, every
  claim-fenced operation of the repository reports that the claim (or the incident) is gone
  and leaves the database as it was; in particular the card callback never runs.
\<close>

theorem lost_claim_changes_nothing:
  assumes "wf_db s" and "\<forall>j \<in> set (db_jobs s). \<not> holds_token job j"
    and "m \<noteq> ''''" and "marshal result = Inr raw" and "1 \<le> n"
  shows "(\<forall>op \<in> {CheckActiveClaim job, MarkInvestigatingForClaim job t,
                SetFeishuMessageIDForClaim job m t, CompleteJob job,
                CompleteJobAndIncident marshal k job i result t,
                CompleteJobAndScheduleAuditRetry k job i t}.
            inactive_error (fst (op s)) \<and> snd (op s) = s) \<and>
    inactive_error (fst (RetryOrFailJob job t n s)) \<and> snd (RetryOrFailJob job t n s) = s \<and>
    inactive_error (fst (UpdateActiveClaimCard job update (s, c))) \<and>
    snd (UpdateActiveClaimCard job update (s, c)) = (s, c)"
proof -
  have nt: "no_token job s" using assms(2) by (simp add: no_token_def)
  note up = no_token_updates [OF nt] and ch = no_token_CheckActiveClaim [OF nt]
    no_token_CompleteJob [OF nt] no_token_MarkInvestigating [OF nt assms(1)]
  have "inactive_error (fst (UpdateActiveClaimCard job update (s, c))) \<and>
      snd (UpdateActiveClaimCard job update (s, c)) = (s, c)"
    by (auto simp: UpdateActiveClaimCard_def card_fence_def tx_defs up leaseRow_def inactive_error_def
        split: option.splits)
  moreover have "inactive_error (fst (RetryOrFailJob job t n s)) \<and> snd (RetryOrFailJob job t n s) = s"
    using assms(5) by (simp add: RetryOrFailJob_def tx_defs up leaseRow_def inactive_error_def)
  ultimately show ?thesis
    using assms(3,4)
    by (simp add: ch inactive_error_def SetFeishuMessageIDForClaim_def CompleteJobAndIncident_def
        CompleteJobAndScheduleAuditRetry_def tx_defs up leaseRow_def)
qed

end
