(* ===== verification/WorkerWorld.thy ===== *)
theory WorkerWorld
  imports Worker StoreProps
begin

text \<open>
  What the worker promises whatever its collaborators do. The locale
  \<^theory_text>\<open>worker_services\<close> states what the worker needs of them: each call keeps a state
  predicate and a reflexive, transitive relation on worlds, a claim carries the worker's own
  identifier, and a read incident has the requested id. Inside it, \<^const>\<open>RunOne\<close> keeps the
  predicate and the relation.

  The locale is interpreted on the repository of \<^theory_text>\<open>Store\<close> under an arbitrary
  environment: before every call other processes may run any repository calls, the driver may
  fail before or after the effect, every service may answer anything, and the clock may read
  anything. The world logs every card the worker sends with the database at that moment.
\<close>

section \<open>Calls that keep a relation\<close>

definition keeps :: "('w \<Rightarrow> bool) \<Rightarrow> ('w \<Rightarrow> 'w \<Rightarrow> bool) \<Rightarrow> ('w \<Rightarrow> 'b \<times> 'w) \<Rightarrow> 'w \<Rightarrow> bool" where
  "keeps ok R m w \<longleftrightarrow> (ok w \<longrightarrow> ok (snd (m w)) \<and> R w (snd (m w)))"

lemma keepsI: "(\<And>r w'. ok w \<Longrightarrow> m w = (r, w') \<Longrightarrow> ok w' \<and> R w w') \<Longrightarrow> keeps ok R m w"
  by (simp add: keeps_def prod_eq_iff)

lemma keepsD: "keeps ok R m w \<Longrightarrow> ok w \<Longrightarrow> m w = (r, w') \<Longrightarrow> ok w' \<and> R w w'"
  by (simp add: keeps_def)

text \<open>A card that concludes an investigation shows a result that passed the validation.\<close>

definition conclusive :: "Incident \<Rightarrow> bool" where
  "conclusive inc \<longleftrightarrow>
     inc_state inc = IncidentCompleted \<or> inc_state inc = IncidentAwaitingAuditEvent"

definition presentable :: "Incident \<Rightarrow> RCAResult \<Rightarrow> bool" where
  "presentable inc res \<longleftrightarrow>
     (conclusive inc \<longrightarrow> (\<exists>known. ValidateResult res (Some known) = Inr ()))"

lemma presentable_other [simp]:
  "presentable (inc\<lparr>inc_state := IncidentInvestigating\<rparr>) res"
  "presentable (inc\<lparr>inc_state := IncidentFailed\<rparr>) res"
  by (simp_all add: presentable_def conclusive_def)

lemma presentable_validated:
  "ValidateResult res (Some known) = Inr () \<Longrightarrow> presentable inc res"
  by (auto simp: presentable_def)

locale worker_services =
  fixes wk :: "'w Worker" and ok :: "'w \<Rightarrow> bool" and R :: "'w \<Rightarrow> 'w \<Rightarrow> bool"
    and recovered :: "string \<Rightarrow> 'w \<Rightarrow> bool"
  assumes R_refl: "R w w"
    and R_trans: "R w w' \<Longrightarrow> R w' w'' \<Longrightarrow> R w w''"
    and recovered_stable: "R w w' \<Longrightarrow> recovered i w \<Longrightarrow> recovered i w'"
    and k_claim: "keeps ok R (rp_ClaimNext (wk_repo wk) (wk_id wk) t) w"
    and claim_mine: "ok w \<Longrightarrow> rp_ClaimNext (wk_repo wk) (wk_id wk) t w = (Inr (Some job), w') \<Longrightarrow>
      job_worker_id job = wk_id wk"
    and k_check: "keeps ok R (rp_CheckActiveClaim (wk_repo wk) job) w"
    and k_read: "keeps ok R (rp_IncidentByID (wk_repo wk) i) w"
    and read_id: "ok w \<Longrightarrow> rp_IncidentByID (wk_repo wk) i w = (Inr inc, w') \<Longrightarrow>
      inc_id inc = i \<and> (inc_state inc = IncidentRecovered \<longrightarrow> recovered i w')"
    and k_mark: "keeps ok R (rp_MarkInvestigatingForClaim (wk_repo wk) job t) w"
    and k_message: "keeps ok R (rp_SetFeishuMessageID (wk_repo wk) i m t) w"
    and k_message_claim: "keeps ok R (rp_SetFeishuMessageIDForClaim (wk_repo wk) job m t) w"
    and k_card: "job_worker_id job = wk_id wk \<Longrightarrow> inc_id inc = job_incident_id job \<Longrightarrow>
      presentable inc res \<Longrightarrow> keeps ok R (updateCard wk job inc res) w"
    and k_store: "keeps ok R (rp_StoreEvidence (wk_repo wk) i items t) w"
    and k_complete: "keeps ok R (rp_CompleteJobAndIncident (wk_repo wk) job i res t) w"
    and k_audit: "keeps ok R (rp_CompleteJobAndScheduleAuditRetry (wk_repo wk) job i t) w"
    and k_retry: "keeps ok R (rp_RetryOrFailJob (wk_repo wk) job t n) w"
    and k_create: "keeps ok R (cd_CreateIncidentCard (wk_cards wk) inc) w"
    and k_recovery: "recovered (inc_id inc) w \<Longrightarrow> keeps ok R (show_recovery wk inc) w"
    and k_query: "(form, query) \<in> set (evidence_queries wk) \<Longrightarrow> keeps ok R (query i) w"
    and k_run: "keeps ok R (wk_runner wk i collections) w"
begin

abbreviation keep where "keep \<equiv> keeps ok R"

lemma keep_pure [simp, intro]: "keep done_ok w" "keep (\<lambda>w. (x, w)) w"
  by (simp_all add: keeps_def done_ok_def R_refl)

lemma keep_attempt:
  assumes "keep m w"
    and "\<And>e w'. m w = (Inl e, w') \<Longrightarrow> ok w \<Longrightarrow> R w w' \<Longrightarrow> keep (h e) w'"
    and "\<And>x w'. m w = (Inr x, w') \<Longrightarrow> ok w \<Longrightarrow> R w w' \<Longrightarrow> keep (k x) w'"
  shows "keep (attempt m h k) w"
proof (rule keepsI)
  fix r w''
  assume w: "ok w" and run: "attempt m h k w = (r, w'')"
  obtain y w' where m: "m w = (y, w')" by (cases "m w")
  from keepsD [OF assms(1) w m] have w': "ok w'" "R w w'" by simp_all
  show "ok w'' \<and> R w w''"
  proof (cases y)
    case (Inl e)
    with m run have "h e w' = (r, w'')" by (simp add: attempt_def)
    with assms(2) m w w' Inl show ?thesis using keepsD [of ok R "h e" w'] R_trans by blast
  next
    case (Inr x)
    with m run have "k x w' = (r, w'')" by (simp add: attempt_def)
    with assms(3) m w w' Inr show ?thesis using keepsD [of ok R "k x" w'] R_trans by blast
  qed
qed

lemma read_inc_id:
  "rp_IncidentByID (wk_repo wk) i w = (Inr inc, w') \<Longrightarrow> ok w \<Longrightarrow> inc_id inc = i"
  using read_id by blast

lemma read_recovered:
  "rp_IncidentByID (wk_repo wk) i w = (Inr inc, w') \<Longrightarrow> ok w \<Longrightarrow>
     inc_state inc = IncidentRecovered \<Longrightarrow> recovered (inc_id inc) w'"
  using read_id by blast

lemma keep_retry_after: "keep (retry_after wk job cause) w"
proof -
  have "keep (attempt (rp_RetryOrFailJob (wk_repo wk) job t 3)
     (\<lambda>err. if isInactive err then done_ok else (\<lambda>w. (Inl (f err), w)))
     (\<lambda>failed w. (Inl e, w))) w" for t f e
    by (rule keep_attempt [OF k_retry]) auto
  then show ?thesis by (simp add: keeps_def retry_after_def)
qed

lemma keep_persistenceFailure: "keep (persistenceFailure wk job cause) w"
proof -
  have "keep (attempt (rp_RetryOrFailJob (wk_repo wk) job t 3)
     (\<lambda>err. if isInactive err then done_ok else (\<lambda>w. (Inl (f err), w)))
     (\<lambda>_ w. (Inl e, w))) w" for t f e
    by (rule keep_attempt [OF k_retry]) auto
  then show ?thesis by (simp add: keeps_def persistenceFailure_def done_ok_def R_refl)
qed

text \<open>The job and the incident a path works on.\<close>

abbreviation mine where
  "mine job inc \<equiv> job_worker_id job = wk_id wk \<and> inc_id inc = job_incident_id job"

lemma keep_fail: "mine job inc \<Longrightarrow> keep (fail_rca wk inc job cause) w"
  unfolding fail_rca_def by (auto intro!: keep_attempt keep_retry_after k_card)

lemma keep_finish: "keep (finishRecoveredCardCreate wk i m t) w"
  unfolding finishRecoveredCardCreate_def
proof (rule keep_attempt [OF k_read]; clarsimp)
  fix inc w'
  assume "ok w" "rp_IncidentByID (wk_repo wk) i w = (Inr inc, w')" "inc_state inc = IncidentRecovered"
  then have r: "recovered i w'" using read_id by blast
  show "keep (attempt (rp_SetFeishuMessageID (wk_repo wk) i m t) (\<lambda>err w. (Inl err, w))
      (\<lambda>_. attempt (rp_IncidentByID (wk_repo wk) i) (\<lambda>err w. (Inl err, w)) (show_recovery wk))) w'"
  proof (intro keep_attempt k_message k_read keep_pure)
    fix x w2 inc2 w3
    assume "R w' w2" "ok w2" "R w2 w3" "rp_IncidentByID (wk_repo wk) i w2 = (Inr inc2, w3)"
    with r have "recovered (inc_id inc2) w3" using recovered_stable read_id by metis
    then show "keep (show_recovery wk inc2) w3" by (rule k_recovery)
  qed
qed

lemma keep_collect_loop:
  "(\<And>form query w. (form, query) \<in> set qs \<Longrightarrow> keep (query i) w) \<Longrightarrow>
     keep (collect_loop qs i cs es) w"
proof (induction qs arbitrary: cs es w)
  case Nil
  show ?case by (simp add: keeps_def R_refl)
next
  case (Cons q qs)
  obtain form query where q: "q = (form, query)" by (cases q)
  have eq: "collect_loop (q # qs) i cs es = attempt (query i) (\<lambda>err w. (Inl err, w))
      (\<lambda>items. collect_loop qs i (cs @ [\<lparr>ec_form = form, ec_evidence = items\<rparr>]) (es @ items))"
    by (rule ext) (simp add: q attempt_def split: prod.splits sum.splits)
  show ?case unfolding eq
    by (rule keep_attempt; (rule Cons.prems [of form] Cons.IH keep_pure)?) (auto simp: q intro: Cons.prems)
qed

lemma keep_collect: "keep (collectEvidence wk i) w"
  unfolding collectEvidence_def by (rule keep_collect_loop) (rule k_query)

lemma keep_conclude:
  "mine job inc \<Longrightarrow> ValidateResult res (Some known) = Inr () \<Longrightarrow> keep (conclude wk t job inc res) w"
  unfolding conclude_def Let_def
  by (auto intro!: keep_attempt k_card presentable_validated [of res known] k_audit k_complete keep_fail keep_persistenceFailure)

lemma keep_investigate: "mine job inc \<Longrightarrow> keep (investigate wk t job inc) w"
  unfolding investigate_def
  by (auto intro!: keep_attempt keep_collect k_store k_run keep_fail keep_persistenceFailure
        keep_conclude split: prod.splits sum.splits)

lemma keep_start: "mine job inc \<Longrightarrow> keep (start_investigation wk t job inc) w"
  unfolding start_investigation_def Let_def
  by (auto intro!: keep_attempt k_mark k_card keep_fail keep_persistenceFailure keep_investigate)

lemma keep_create_card: "mine job inc \<Longrightarrow> keep (create_card wk t job inc) w"
  unfolding create_card_def
  by (auto intro!: keep_attempt k_check k_create k_message_claim k_read keep_fail
        keep_persistenceFailure keep_finish k_recovery keep_start dest: read_inc_id read_recovered)

lemma keep_run_claimed: "job_worker_id job = wk_id wk \<Longrightarrow> keep (run_claimed wk t job) w"
  unfolding run_claimed_def
  by (auto intro!: keep_attempt k_read keep_persistenceFailure keep_create_card keep_start
        dest: read_inc_id)

theorem keep_RunOne: "keep (RunOne wk) w"
proof -
  have "keep (attempt (rp_ClaimNext (wk_repo wk) (wk_id wk) t) (\<lambda>err w. (Inl err, w))
      (\<lambda>claimed. case claimed of None \<Rightarrow> done_ok | Some job \<Rightarrow> run_claimed wk t job)) w" for t
    by (rule keep_attempt [OF k_claim])
      (auto split: option.splits intro!: keep_run_claimed dest: claim_mine)
  then show ?thesis by (simp add: keeps_def RunOne_def Let_def)
qed

end

end
