(* ===== verification/WorkerEnv.thy ===== *)
theory WorkerEnv
  imports WorkerWorld
begin

text \<open>
  The worker on the repository of \<^theory_text>\<open>Store\<close>, in an arbitrary environment. The
  environment says, for each call the worker makes, which repository calls other processes ran
  before it, what the clock reads, whether the driver fails (before the effect or after it) and
  what the services answer. \<^verbatim>\<open>UpdateActiveClaimCard\<close> holds SQLite's write lock while its
  callback runs, so no other process writes then.
\<close>

section \<open>World and environment\<close>

datatype sent =
    Created Incident db
  | Updated string Incident RCAResult db

record event =
  ev_ops :: "store_op list"
  ev_now :: time
  ev_fault :: "(bool \<times> go_error) option"
  ev_fresh :: string
  ev_create :: "string res"
  ev_update :: "unit res"
  ev_items :: "Evidence list res"
  ev_result :: "RCAResult res"

record environment =
  en_event :: "nat \<Rightarrow> event"
  en_evidence :: "Evidence \<Rightarrow> string res"
  en_results :: "RCAResult \<Rightarrow> string res"

record world =
  w_db :: db
  w_step :: nat
  w_locked :: bool
  w_log :: "sent list"

definition event_of :: "environment \<Rightarrow> world \<Rightarrow> event" where
  "event_of env w = en_event env (w_step w)"

text \<open>What other processes do before a call, unless the worker holds the lock.\<close>

definition disturb :: "environment \<Rightarrow> world \<Rightarrow> world" where
  "disturb env w = w\<lparr>w_step := Suc (w_step w),
     w_db := (if w_locked w then w_db w
              else run_ops (en_evidence env) (en_results env) (ev_ops (event_of env w)) (w_db w))\<rparr>"

section \<open>Collaborators\<close>

definition repo_call ::
    "environment \<Rightarrow> (event \<Rightarrow> db \<Rightarrow> 'a res \<times> db) \<Rightarrow> world \<Rightarrow> 'a res \<times> world" where
  "repo_call env f w =
     (let e = event_of env w; w = disturb env w in
      case f e (w_db w) of (r, s) \<Rightarrow>
        (case ev_fault e of
           None \<Rightarrow> (r, w\<lparr>w_db := s\<rparr>)
         | Some (effect, err) \<Rightarrow> (Inl err, if effect then w\<lparr>w_db := s\<rparr> else w)))"

definition card_update_call ::
    "environment \<Rightarrow> Job \<Rightarrow> (Incident \<Rightarrow> world \<Rightarrow> unit res \<times> world) \<Rightarrow> world \<Rightarrow> unit res \<times> world" where
  "card_update_call env job update w =
     (let e = event_of env w; w = disturb env w in
      case UpdateActiveClaimCard job update (w_db w, w\<lparr>w_locked := True\<rparr>) of (r, (s, w')) \<Rightarrow>
        (case ev_fault e of
           None \<Rightarrow> (r, w'\<lparr>w_locked := False, w_db := s\<rparr>)
         | Some (effect, err) \<Rightarrow>
             (Inl err, if effect then w'\<lparr>w_locked := False, w_db := s\<rparr> else w)))"

definition send_create :: "environment \<Rightarrow> Incident \<Rightarrow> world \<Rightarrow> string res \<times> world" where
  "send_create env inc w =
     (let e = event_of env w; w = disturb env w in
      (ev_create e, w\<lparr>w_log := w_log w @ [Created inc (w_db w)]\<rparr>))"

definition send_update ::
    "environment \<Rightarrow> string \<Rightarrow> Incident \<Rightarrow> RCAResult \<Rightarrow> world \<Rightarrow> unit res \<times> world" where
  "send_update env m inc res w =
     (let e = event_of env w; w = disturb env w in
      (ev_update e, w\<lparr>w_log := w_log w @ [Updated m inc res (w_db w)]\<rparr>))"

definition query_call :: "environment \<Rightarrow> string \<Rightarrow> world \<Rightarrow> Evidence list res \<times> world" where
  "query_call env i w = (ev_items (event_of env w), disturb env w)"

definition run_call ::
    "environment \<Rightarrow> string \<Rightarrow> EvidenceCollection list \<Rightarrow> world \<Rightarrow> RCAResult res \<times> world" where
  "run_call env i collections w = (ev_result (event_of env w), disturb env w)"

definition sqlite_repo :: "environment \<Rightarrow> world Repository" where
  "sqlite_repo env =
     \<lparr>rp_ClaimNext = (\<lambda>k t. repo_call env (\<lambda>e. ClaimNext k t)),
      rp_CheckActiveClaim = (\<lambda>job. repo_call env (\<lambda>e. CheckActiveClaim job)),
      rp_IncidentByID = (\<lambda>i. repo_call env (\<lambda>e. IncidentByID i)),
      rp_MarkInvestigatingForClaim =
        (\<lambda>job t. repo_call env (\<lambda>e. MarkInvestigatingForClaim job t)),
      rp_SetFeishuMessageID = (\<lambda>i m t. repo_call env (\<lambda>e. SetFeishuMessageID i m t)),
      rp_SetFeishuMessageIDForClaim =
        (\<lambda>job m t. repo_call env (\<lambda>e. SetFeishuMessageIDForClaim job m t)),
      rp_UpdateActiveClaimCard = card_update_call env,
      rp_StoreEvidence = (\<lambda>i items t. repo_call env (\<lambda>e. StoreEvidence (en_evidence env) i items t)),
      rp_Complete =
        (\<lambda>i res t. repo_call env (\<lambda>e. Complete (en_results env) (ev_fresh e) i res t)),
      rp_ScheduleAuditRetry =
        (\<lambda>i t. repo_call env (\<lambda>e. ScheduleAuditRetry (ev_fresh e) i t)),
      rp_CompleteJobAndIncident = (\<lambda>job i res t.
        repo_call env (\<lambda>e. CompleteJobAndIncident (en_results env) (ev_fresh e) job i res t)),
      rp_CompleteJobAndScheduleAuditRetry = (\<lambda>job i t.
        repo_call env (\<lambda>e. CompleteJobAndScheduleAuditRetry (ev_fresh e) job i t)),
      rp_RetryOrFailJob = (\<lambda>job t n. repo_call env (\<lambda>e. RetryOrFailJob job t n))\<rparr>"

definition sqlite_worker :: "environment \<Rightarrow> string \<Rightarrow> world Worker" where
  "sqlite_worker env workerID =
     New (sqlite_repo env)
       \<lparr>cd_CreateIncidentCard = send_create env, cd_UpdateIncidentCard = send_update env\<rparr>
       \<lparr>eq_Context = query_call env, eq_Metrics = query_call env,
        eq_Logs = query_call env, eq_Changes = query_call env\<rparr>
       (run_call env) workerID (\<lambda>w. ev_now (event_of env w))"

lemma sqlite_worker_simps [simp]:
  "wk_repo (sqlite_worker env wid) = sqlite_repo env"
  "cd_CreateIncidentCard (wk_cards (sqlite_worker env wid)) = send_create env"
  "cd_UpdateIncidentCard (wk_cards (sqlite_worker env wid)) = send_update env"
  "wk_runner (sqlite_worker env wid) = run_call env"
  "wk_id (sqlite_worker env wid) = wid"
  "wk_now (sqlite_worker env wid) = (\<lambda>w. ev_now (event_of env w))"
  "wk_audit_delay (sqlite_worker env wid) = 120 * second"
  "evidence_queries (sqlite_worker env wid) =
     [(''incident context'', query_call env), (''metrics query'', query_call env),
      (''logs query'', query_call env), (''changes query'', query_call env)]"
  by (simp_all add: sqlite_worker_def New_def evidence_queries_def)

section \<open>The relation on worlds\<close>

text \<open>
  A card update is justified when the worker holds a running claim on the still active
  incident and any conclusion it shows was validated, or when the card tells the recovery of a recovered incident.
\<close>

definition recovered_in :: "string \<Rightarrow> db \<Rightarrow> bool" where
  "recovered_in i s \<longleftrightarrow> (\<exists>r \<in> set (db_incidents s). ir_id r = i \<and> ir_state r = IncidentRecovered)"

definition leased_to :: "string \<Rightarrow> string \<Rightarrow> db \<Rightarrow> bool" where
  "leased_to wid i s \<longleftrightarrow>
     (\<exists>j \<in> set (db_jobs s). jr_incident_id j = i \<and> jr_status j = JobRunning \<and> jr_worker_id j = wid)"

fun justified :: "string \<Rightarrow> sent \<Rightarrow> bool" where
  "justified wid (Created inc s) = True"
| "justified wid (Updated m inc res s) =
     (leased_to wid (inc_id inc) s \<and> incident_active s (inc_id inc) \<and> presentable inc res \<or>
      res = recovery_result \<and> recovered_in (inc_id inc) s)"

definition w_ok :: "world \<Rightarrow> bool" where
  "w_ok w \<longleftrightarrow> wf_db (w_db w) \<and> \<not> w_locked w"

definition w_le :: "string \<Rightarrow> world \<Rightarrow> world \<Rightarrow> bool" where
  "w_le wid w w' \<longleftrightarrow>
     db_le (w_db w) (w_db w') \<and>
     (\<exists>new. w_log w' = w_log w @ new \<and> (\<forall>e \<in> set new. justified wid e))"

lemma w_le_refl [simp]: "w_le wid w w"
  by (simp add: w_le_def)

lemma w_le_trans:
  assumes "w_le wid w w'" and "w_le wid w' w''"
  shows "w_le wid w w''"
proof -
  from assms(1) obtain a where a: "w_log w' = w_log w @ a" "\<forall>e \<in> set a. justified wid e"
    and le: "db_le (w_db w) (w_db w')" by (auto simp: w_le_def)
  from assms(2) obtain b where b: "w_log w'' = w_log w' @ b" "\<forall>e \<in> set b. justified wid e"
    and le': "db_le (w_db w') (w_db w'')" by (auto simp: w_le_def)
  show ?thesis
    unfolding w_le_def using a b le le'
    by (intro conjI exI [of _ "a @ b"]) (auto intro: db_le_trans)
qed

lemma recovered_in_mono: "db_le s s' \<Longrightarrow> recovered_in i s \<Longrightarrow> recovered_in i s'"
proof -
  assume le: "db_le s s'" and "recovered_in i s"
  then obtain r where "r \<in> set (db_incidents s)" "ir_id r = i" "ir_state r = IncidentRecovered"
    by (auto simp: recovered_in_def)
  moreover from le this(1) obtain r' where "r' \<in> set (db_incidents s')" "incident_le r r'"
    unfolding db_le_def by blast
  ultimately show ?thesis
    unfolding recovered_in_def incident_le_def is_recoverable_def by (intro bexI [of _ r']) auto
qed

section \<open>Every call keeps it\<close>

lemma disturb_fields [simp]:
  "w_locked (disturb env w) = w_locked w" "w_log (disturb env w) = w_log w"
  by (simp_all add: disturb_def)

lemma disturb_step: "db_step (w_db w) (w_db (disturb env w))"
  by (simp add: disturb_def ds.R_refl run_ops_step)

lemma disturb_keeps: "w_ok w \<Longrightarrow> w_ok (disturb env w) \<and> w_le wid w (disturb env w)"
  using disturb_step [of w env] by (simp add: w_ok_def w_le_def db_step_def)

lemma db_change_keeps:
  "w_ok w \<Longrightarrow> db_step (w_db w) s \<Longrightarrow> w_ok (w\<lparr>w_db := s\<rparr>) \<and> w_le wid w (w\<lparr>w_db := s\<rparr>)"
  by (simp add: w_ok_def w_le_def db_step_def)

lemma repo_call_keeps:
  assumes "\<And>e s. db_step s (snd (f e s))"
  shows "keeps w_ok (w_le wid) (repo_call env f) w"
proof (rule keepsI)
  fix r w'
  assume w: "w_ok w" and run: "repo_call env f w = (r, w')"
  define e where "e = event_of env w"
  define w1 where "w1 = disturb env w"
  have w1: "w_ok w1" "w_le wid w w1" using disturb_keeps [OF w] by (simp_all add: w1_def)
  have ch: "w_ok (w1\<lparr>w_db := snd (f e (w_db w1))\<rparr>) \<and> w_le wid w1 (w1\<lparr>w_db := snd (f e (w_db w1))\<rparr>)"
    using w1(1) assms by (rule db_change_keeps)
  have "w' = w1 \<or> w' = w1\<lparr>w_db := snd (f e (w_db w1))\<rparr>"
    using run unfolding repo_call_def e_def [symmetric] w1_def [symmetric]
    by (auto simp: Let_def split: prod.splits option.splits if_splits)
  with w1 ch show "w_ok w' \<and> w_le wid w w'" by (auto intro: w_le_trans)
qed

text \<open>A successful call returns what the operation returned on the disturbed database.\<close>

lemma repo_call_Inr:
  assumes "repo_call env f w = (Inr x, w')"
  shows "f (event_of env w) (w_db (disturb env w)) = (Inr x, w_db w') \<and> w_log w' = w_log w"
  using assms by (auto simp: repo_call_def Let_def split: prod.splits option.splits if_splits)

lemma card_fence_held:
  assumes "card_fence job s = Inr (inc, s')"
  shows "s' = s \<and> incident_active s (job_incident_id job) \<and>
    leased_to (job_worker_id job) (job_incident_id job) s"
proof -
  from assms obtain r where r: "find (\<lambda>r. ir_id r = job_incident_id job \<and> is_active (ir_state r))
        (db_incidents s) = Some r"
    and n: "count_where (\<lambda>j. claim_row job (job_incident_id job) j \<and> job_incident_active s j)
        (db_jobs s) = 1" and "s' = s"
    by (auto simp: card_fence_def touch_claim_def tx_update_jobs_def tx_update_incidents_def tx_defs
        leaseRow_def activeRow_def Let_def split: option.splits sum.splits if_splits)
  from n have "0 < count_where (\<lambda>j. claim_row job (job_incident_id job) j \<and> job_incident_active s j)
        (db_jobs s)" by simp
  with find_SomeD [OF r] \<open>s' = s\<close> show ?thesis
    by (auto simp: count_where_pos incident_active_def leased_to_def claim_row_def)
qed

lemma card_update_cases:
  assumes "UpdateActiveClaimCard job u (s, c) = (r, (s', c'))"
  shows "s' = s \<and> ((\<exists>e. card_fence job s = Inl e \<and> r = Inl e \<and> c' = c) \<or>
    (\<exists>inc. card_fence job s = Inr (inc, s) \<and> u inc c = (r, c')))"
proof (cases "card_fence job s")
  case (Inl e)
  with assms show ?thesis by (simp add: UpdateActiveClaimCard_def)
next
  case (Inr p)
  obtain inc t where p: "p = (inc, t)" by (cases p)
  with Inr have "t = s" using card_fence_held by simp
  with Inr p assms show ?thesis
    by (auto simp: UpdateActiveClaimCard_def split: prod.splits sum.splits)
qed

lemma send_update_locked:
  "w_locked w \<Longrightarrow> send_update env m inc res w =
     (ev_update (event_of env w),
      w\<lparr>w_step := Suc (w_step w), w_log := w_log w @ [Updated m inc res (w_db w)]\<rparr>)"
  by (simp add: send_update_def disturb_def Let_def)

text \<open>A card update either sends nothing or sends one card under the fences.\<close>

lemma card_update_world:
  assumes "updateCard (sqlite_worker env wid) job inc res w = (r, w')" and "\<not> w_locked w"
  defines "w1 \<equiv> disturb env w"
  shows "w_db w' = w_db w1 \<and> \<not> w_locked w' \<and> w_log w' = w_log w \<or>
    w_db w' = w_db w1 \<and> \<not> w_locked w' \<and>
    w_log w' = w_log w @ [Updated (inc_message_id inc) inc res (w_db w1)] \<and>
    incident_active (w_db w1) (job_incident_id job) \<and>
    leased_to (job_worker_id job) (job_incident_id job) (w_db w1)"
proof -
  let ?u = "\<lambda>_. send_update env (inc_message_id inc) inc res"
  obtain q s' c' where u: "UpdateActiveClaimCard job ?u (w_db w1, w1\<lparr>w_locked := True\<rparr>) = (q, (s', c'))"
    by (metis prod_cases3)
  note cs = card_update_cases [OF u]
  have w': "w' = w1 \<or> w' = c'\<lparr>w_locked := False, w_db := s'\<rparr>"
    using assms(1) u unfolding updateCard_def w1_def
    by (auto simp: sqlite_repo_def card_update_call_def Let_def split: option.splits if_splits)
  show ?thesis
  proof (cases "w' = w1")
    case True
    with assms(2) show ?thesis by (simp add: w1_def)
  next
    case False
    with w' have "w' = c'\<lparr>w_locked := False, w_db := s'\<rparr>" by simp
    with cs show ?thesis
      by (auto simp: send_update_locked w1_def dest!: card_fence_held)
  qed
qed

lemma card_update_keeps:
  assumes "job_worker_id job = wid" and "inc_id inc = job_incident_id job" and "presentable inc res"
  shows "keeps w_ok (w_le wid) (updateCard (sqlite_worker env wid) job inc res) w"
proof (rule keepsI)
  fix r w'
  assume w: "w_ok w" and run: "updateCard (sqlite_worker env wid) job inc res w = (r, w')"
  have w1: "w_ok (disturb env w)" "w_le wid w (disturb env w)"
    using disturb_keeps [OF w] by simp_all
  from w have "\<not> w_locked w" by (simp add: w_ok_def)
  from card_update_world [OF run this] assms w w1 show "w_ok w' \<and> w_le wid w w'"
    by (auto simp: w_ok_def w_le_def)
qed

lemma send_keeps:
  "keeps w_ok (w_le wid) (send_create env inc) w"
  "recovered_in (inc_id inc) (w_db w) \<Longrightarrow>
     keeps w_ok (w_le wid) (show_recovery (sqlite_worker env wid) inc) w"
proof -
  show "keeps w_ok (w_le wid) (send_create env inc) w"
  proof (rule keepsI)
    fix r w'
    assume w: "w_ok w" and "send_create env inc w = (r, w')"
    then have "w_db w' = w_db (disturb env w)" "w_locked w' = w_locked w"
      "w_log w' = w_log w @ [Created inc (w_db (disturb env w))]"
      by (auto simp: send_create_def Let_def)
    with disturb_keeps [OF w, of env wid] show "w_ok w' \<and> w_le wid w w'"
      by (auto simp: w_ok_def w_le_def)
  qed
next
  assume rec: "recovered_in (inc_id inc) (w_db w)"
  show "keeps w_ok (w_le wid) (show_recovery (sqlite_worker env wid) inc) w"
  proof (rule keepsI)
    fix r w'
    assume w: "w_ok w" and "show_recovery (sqlite_worker env wid) inc w = (r, w')"
    then have "w_db w' = w_db (disturb env w)" "w_locked w' = w_locked w"
      "w_log w' = w_log w @ [Updated (inc_message_id inc) inc recovery_result (w_db (disturb env w))]"
      by (auto simp: show_recovery_def send_update_def Let_def)
    moreover have "recovered_in (inc_id inc) (w_db (disturb env w))"
      using rec disturb_keeps [OF w, of env wid] by (auto simp: w_le_def intro: recovered_in_mono)
    ultimately show "w_ok w' \<and> w_le wid w w'"
      using disturb_keeps [OF w, of env wid] by (auto simp: w_ok_def w_le_def)
  qed
qed

lemma query_keeps:
  "keeps w_ok (w_le wid) (query_call env i) w" "keeps w_ok (w_le wid) (run_call env i cs) w"
  by (rule keepsI, auto simp: query_call_def run_call_def dest: disturb_keeps)+

lemma read_steps:
  "db_step s (snd (CheckActiveClaim job s))" "db_step s (snd (IncidentByID i s))"
  by (auto simp: CheckActiveClaim_def IncidentByID_def ds.R_refl split: option.splits)

lemma IncidentByID_row:
  assumes "IncidentByID i s = (Inr inc, s')"
  shows "inc_id inc = i \<and> s' = s \<and> (inc_state inc = IncidentRecovered \<longrightarrow> recovered_in i s)"
  using assms
  by (auto simp: IncidentByID_def scanIncident_def recovered_in_def split: option.splits
      dest: find_SomeD)

lemma ClaimNext_worker:
  assumes "wf_db s" and "ClaimNext k t s = (Inr (Some job), s')"
  shows "job_worker_id job = k"
  using assms by (auto elim: ClaimNext_SomeE simp: claimed_job_def)

interpretation sw: worker_services "sqlite_worker env wid" w_ok "w_le wid"
  "\<lambda>i w. recovered_in i (w_db w)" for env wid
proof (unfold_locales, goal_cases)
  case (1 w) show ?case by simp
next
  case 2 then show ?case by (rule w_le_trans)
next
  case 3 then show ?case by (auto simp: w_le_def intro: recovered_in_mono)
next
  case (5 w t job w')
  have "wf_db (w_db (disturb env w))"
    using disturb_keeps [OF 5(1), of env wid] by (simp add: w_ok_def)
  with repo_call_Inr 5(2) show ?case
    by (fastforce simp: sqlite_repo_def dest: ClaimNext_worker)
next
  case (8 w i inc w')
  then show ?case
    by (auto simp: sqlite_repo_def dest!: repo_call_Inr IncidentByID_row)
next
  case 12 then show ?case by (simp add: card_update_keeps)
next
  case 18 then show ?case by (simp add: send_keeps(2))
qed (auto simp: sqlite_repo_def send_keeps query_keeps intro!: repo_call_keeps read_steps
      ClaimNext_step MarkInvestigating_step SetFeishuMessageID_step SetFeishuMessageIDForClaim_step
      StoreEvidence_step CompleteJobAndIncident_step CompleteJobAndScheduleAuditRetry_step
      RetryOrFailJob_step)

end
