(* ===== verification/Gateway.thy ===== *)
theory Gateway
  imports Inbound WorkerEnv
begin

text \<open>
  The gateway of \<^verbatim>\<open>internal/httpapi/server.go\<close>: its routes, the authorisation, the size
  limit, the ingress of CloudMonitor events over a repository and an optional notifier, and the
  capture of fixtures. A handler takes the request and the world and returns the response and
  the new world.
\<close>

section \<open>Requests and responses\<close>

text \<open>
  What a handler reads of a request: the method, the cleaned path, the first
  \<^verbatim>\<open>token\<close> of the query (empty when there is none), the bytes the client sends, and the
  error with which the body breaks off, if it does.
\<close>

record request =
  rq_method :: string
  rq_path :: string
  rq_token :: string
  rq_body :: string
  rq_body_error :: "go_error option"

record response =
  rs_status :: int
  rs_content_type :: string
  rs_body :: string

definition maxCallbackBytes :: nat where "maxCallbackBytes = 256 * 1024"

text \<open>\<^verbatim>\<open>http.MaxBytesReader\<close>: one byte more than the limit is an error.\<close>

definition read_body :: "request \<Rightarrow> string res" where
  "read_body r =
     (if length (rq_body r) > maxCallbackBytes then Inl (ErrNew ''http: request body too large'')
      else case rq_body_error r of Some err \<Rightarrow> Inl err | None \<Rightarrow> Inr (rq_body r))"

definition writeJSON :: "int \<Rightarrow> (string \<times> json) list \<Rightarrow> response" where
  "writeJSON status ms =
     \<lparr>rs_status = status, rs_content_type = ''application/json'', rs_body = encode_line (go_map ms)\<rparr>"

text \<open>The answers of \<^verbatim>\<open>http.ServeMux\<close> itself.\<close>

definition not_found :: response where
  "not_found = \<lparr>rs_status = 404, rs_content_type = ''text/plain; charset=utf-8'',
     rs_body = ''404 page not found'' @ [CHR 0x0A]\<rparr>"

definition method_not_allowed :: response where
  "method_not_allowed = \<lparr>rs_status = 405, rs_content_type = ''text/plain; charset=utf-8'',
     rs_body = ''Method Not Allowed'' @ [CHR 0x0A]\<rparr>"

section \<open>The interfaces of the gateway\<close>

record 'w incidentRepository =
  gr_CreateOrGetIncident :: "Incident \<Rightarrow> 'w \<Rightarrow> (Incident \<times> bool) res \<times> 'w"
  gr_Enqueue :: "string \<Rightarrow> time \<Rightarrow> 'w \<Rightarrow> unit res \<times> 'w"
  gr_Recover :: "string \<Rightarrow> time \<Rightarrow> 'w \<Rightarrow> (Incident \<times> bool) res \<times> 'w"

type_synonym 'w RecoveryNotifier = "string \<Rightarrow> Incident \<Rightarrow> RCAResult \<Rightarrow> 'w \<Rightarrow> unit res \<times> 'w"

text \<open>
  The arguments of \<^verbatim>\<open>newGateway\<close>, the capture (\<^theory_text>\<open>Save\<close> on the world), and the
  identifier and clock that \<^verbatim>\<open>domain.NewIncident\<close> draws.
\<close>

record 'w gateway =
  gt_token :: string
  gt_capture_dir :: string
  gt_repo :: "'w incidentRepository option"
  gt_notifier :: "'w RecoveryNotifier option"
  gt_save :: "string \<Rightarrow> string \<Rightarrow> 'w \<Rightarrow> string res \<times> 'w"
  gt_fresh :: "'w \<Rightarrow> string"
  gt_now :: "'w \<Rightarrow> time"

section \<open>Handlers\<close>

definition authorized :: "request \<Rightarrow> string \<Rightarrow> bool" where
  "authorized r callbackToken \<longleftrightarrow> rq_token r = callbackToken"

definition refused :: response where
  "refused = writeJSON 401 [(''accepted'', JBool False)]"

definition error_response :: "int \<Rightarrow> string \<Rightarrow> response" where
  "error_response status message = writeJSON status [(''error'', JStr message)]"

definition recovery_response :: "string \<Rightarrow> response" where
  "recovery_response state = writeJSON 202 [(''accepted'', JBool True), (''state'', JStr state)]"

definition incident_response :: "string \<Rightarrow> bool \<Rightarrow> response" where
  "incident_response i duplicate =
     writeJSON 202 [(''accepted'', JBool True), (''incident_id'', JStr i), (''duplicate'', JBool duplicate)]"

text \<open>The recovery branch of the ingress.\<close>

definition handle_recovery ::
    "'w incidentRepository \<Rightarrow> 'w RecoveryNotifier option \<Rightarrow> Incident \<Rightarrow> time \<Rightarrow> 'w \<Rightarrow> response \<times> 'w" where
  "handle_recovery repo notifier key_of eventAt w =
     (case gr_Recover repo (inc_key key_of) eventAt w of
        (Inl err, w) \<Rightarrow> (error_response 500 ''persist recovery'', w)
      | (Inr (incident, recovered), w) \<Rightarrow>
          if \<not> recovered \<and> inc_id incident = '''' then (recovery_response ''recovery_ignored'', w)
          else (case (if inc_message_id incident \<noteq> '''' then notifier else None) of
                  None \<Rightarrow> (recovery_response ''recovered'', w)
                | Some notify \<Rightarrow>
                    (case notify (inc_message_id incident) incident
                            (empty_result\<lparr>rca_summary := RecoverySummary\<rparr>) w of
                       (Inl err, w) \<Rightarrow> (error_response 500 ''notify recovery'', w)
                     | (Inr _, w) \<Rightarrow> (recovery_response ''recovered'', w))))"

text \<open>The branch of a new or repeated alert.\<close>

definition handle_alert ::
    "'w incidentRepository \<Rightarrow> Incident \<Rightarrow> time \<Rightarrow> 'w \<Rightarrow> response \<times> 'w" where
  "handle_alert repo candidate eventAt w =
     (case gr_CreateOrGetIncident repo candidate w of
        (Inl err, w) \<Rightarrow> (error_response 500 ''persist incident'', w)
      | (Inr (incident, created), w) \<Rightarrow>
          if created then
            (case gr_Enqueue repo (inc_id incident) eventAt w of
               (Inl err, w) \<Rightarrow> (error_response 500 ''queue incident'', w)
             | (Inr _, w) \<Rightarrow> (incident_response (inc_id incident) False, w))
          else (incident_response (inc_id incident) True, w))"

definition cloudmonitor_ingress ::
    "'w gateway \<Rightarrow> 'w incidentRepository \<Rightarrow> request \<Rightarrow> 'w \<Rightarrow> response \<times> 'w" where
  "cloudmonitor_ingress g repo r w =
     (if \<not> authorized r (gt_token g) then (refused, w)
      else case read_body r of
        Inl err \<Rightarrow> (error_response 400 ''read callback body'', w)
      | Inr raw \<Rightarrow>
        (case ParseCloudMonitorEvent raw of
           Inl err \<Rightarrow> (error_response 400 ''invalid CloudMonitor callback'', w)
         | Inr event \<Rightarrow>
           (let alert = cm_alert event;
                incident = NewIncident (gt_fresh g w) (gt_now g w) (al_workspace alert)
                             (al_rule_id alert) (al_resource_id alert) (al_event_at alert)
            in if cm_transition event = AlertRecovered
               then handle_recovery repo (gt_notifier g) incident (al_event_at alert) w
               else handle_alert repo incident (al_event_at alert) w)))"

definition capture_handler :: "'w gateway \<Rightarrow> request \<Rightarrow> 'w \<Rightarrow> response \<times> 'w" where
  "capture_handler g r w =
     (if \<not> authorized r (gt_token g) then (refused, w)
      else case read_body r of
        Inl err \<Rightarrow> (error_response 400 ''read callback body'', w)
      | Inr raw \<Rightarrow>
        (case gt_save g (gt_capture_dir g) raw w of
           (Inl err, w) \<Rightarrow> (error_response 400 (err_text err), w)
         | (Inr fixture, w) \<Rightarrow>
             (writeJSON 202 [(''accepted'', JBool True), (''fixture_id'', JStr fixture)], w)))"

definition healthz :: response where
  "healthz = writeJSON 200 [(''ok'', JBool True)]"

definition post_only :: "request \<Rightarrow> response \<times> 'w \<Rightarrow> 'w \<Rightarrow> response \<times> 'w" where
  "post_only r answer w = (if rq_method r = ''POST'' then answer else (method_not_allowed, w))"

definition ingress_path :: string where "ingress_path = ''/v1/inbound/cloudmonitor''"
definition capture_path :: string where "capture_path = ''/v1/inbound/cloudmonitor/capture''"

text \<open>A \<^verbatim>\<open>GET\<close> pattern of the mux also takes \<^verbatim>\<open>HEAD\<close>.\<close>

definition newGateway :: "'w gateway \<Rightarrow> request \<Rightarrow> 'w \<Rightarrow> response \<times> 'w" where
  "newGateway g r w =
     (if rq_path r = ''/healthz'' then
        (if rq_method r = ''GET'' \<or> rq_method r = ''HEAD'' then healthz else method_not_allowed, w)
      else if rq_path r = ingress_path then
        (case gt_repo g of
           None \<Rightarrow> (not_found, w)
         | Some repo \<Rightarrow> post_only r (cloudmonitor_ingress g repo r w) w)
      else if rq_path r = capture_path then
        (if gt_capture_dir g = '''' then (not_found, w) else post_only r (capture_handler g r w) w)
      else (not_found, w))"

section \<open>Refusals\<close>

lemma status_simps [simp]:
  "rs_status refused = 401" "rs_status (error_response n m) = n" "rs_status (recovery_response st) = 202"
  "rs_status (incident_response i d) = 202" "rs_status healthz = 200" "rs_status not_found = 404"
  "rs_status method_not_allowed = 405" "rs_status (writeJSON n ms) = n"
  by (simp_all add: refused_def error_response_def recovery_response_def incident_response_def
      healthz_def not_found_def method_not_allowed_def writeJSON_def)

lemma handler_status:
  "rs_status (fst (handle_recovery repo nt inc t w)) \<in> {202, 500}"
  "rs_status (fst (handle_alert repo inc t w)) \<in> {202, 500}"
  by (auto simp: handle_recovery_def handle_alert_def split: prod.splits sum.splits option.splits)

lemma ingress_refusal:
  assumes "cloudmonitor_ingress g repo r w = (resp, w')" and "rs_status resp \<notin> {202, 500}"
  shows "w' = w"
proof -
  have other: "handle_recovery repo nt inc t w \<noteq> (resp, w')" "handle_alert repo inc t w \<noteq> (resp, w')"
    for nt inc t
    using assms(2) handler_status(1) [of repo nt inc t w] handler_status(2) [of repo inc t w]
    by (metis fst_conv)+
  show ?thesis
    using assms(1) other by (auto simp: cloudmonitor_ingress_def Let_def split: if_splits sum.splits)
qed

text \<open>The three ways a request ends.\<close>

lemma newGateway_cases:
  assumes "newGateway g r w = (resp, w')"
  obtains (mux) "w' = w" "resp = healthz \<or> resp = not_found \<or> resp = method_not_allowed"
    | (ingress) repo where "gt_repo g = Some repo" "rq_path r = ingress_path" "rq_method r = ''POST''"
        "cloudmonitor_ingress g repo r w = (resp, w')"
    | (capture) "rq_path r = capture_path" "rq_method r = ''POST''" "capture_handler g r w = (resp, w')"
  using assms unfolding newGateway_def post_only_def
  by (cases "gt_repo g") (simp_all split: if_splits)

lemma unauthorized_refused:
  "rq_token r \<noteq> gt_token g \<Longrightarrow> cloudmonitor_ingress g repo r w = (refused, w)"
  "rq_token r \<noteq> gt_token g \<Longrightarrow> capture_handler g r w = (refused, w)"
  by (simp_all add: cloudmonitor_ingress_def capture_handler_def authorized_def)

lemma oversized_refused:
  assumes "maxCallbackBytes < length (rq_body r)"
  shows "cloudmonitor_ingress g repo r w = (if authorized r (gt_token g) then error_response 400 ''read callback body'' else refused, w)"
    "capture_handler g r w = (if authorized r (gt_token g) then error_response 400 ''read callback body'' else refused, w)"
  using assms by (simp_all add: cloudmonitor_ingress_def capture_handler_def read_body_def)

text \<open>
  C29 (refused_requests_change_nothing). A request that the gateway answers with anything but
  success or an internal error changes nothing, except that a capture may fail while it writes
  its own new file; a request to either callback route without the token is answered 401, or
  404 or 405, and changes nothing there too; and a body over 256 KiB is never accepted.
\<close>

theorem refused_requests_change_nothing:
  assumes "newGateway g r w = (resp, w')"
  shows "(rs_status resp \<notin> {202, 500} \<and> rq_path r \<noteq> ''/v1/inbound/cloudmonitor/capture'' \<longrightarrow> w' = w) \<and>
    (rq_token r \<noteq> gt_token g \<longrightarrow> w' = w \<and> rs_status resp \<in> {200, 401, 404, 405}) \<and>
    (262144 < length (rq_body r) \<longrightarrow> w' = w \<and> rs_status resp \<in> {200, 400, 401, 404, 405})"
proof (intro conjI impI)
  assume "rs_status resp \<notin> {202, 500} \<and> rq_path r \<noteq> ''/v1/inbound/cloudmonitor/capture''"
  then have st: "rs_status resp \<notin> {202, 500}" and "rq_path r \<noteq> capture_path"
    unfolding capture_path_def by blast+
  with assms show "w' = w"
    by (cases rule: newGateway_cases) (auto dest: ingress_refusal [OF _ st])
next
  assume u: "rq_token r \<noteq> gt_token g"
  from assms show "w' = w" "rs_status resp \<in> {200, 401, 404, 405}"
    by (cases rule: newGateway_cases; auto simp: unauthorized_refused [OF u])+
next
  assume "262144 < length (rq_body r)"
  then have big: "maxCallbackBytes < length (rq_body r)" by (simp add: maxCallbackBytes_def)
  from assms show "w' = w" "rs_status resp \<in> {200, 400, 401, 404, 405}"
    by (cases rule: newGateway_cases; auto simp: oversized_refused [OF big] split: if_splits)+
qed

end
