(* ===== verification/StoreOutcomes.thy ===== *)
theory StoreOutcomes
  imports StoreProps
begin

text \<open>
  What each closing operation of the repository does to the incident and to all of its jobs, and
  when it succeeds: completion, audit retry, retry or failure, recovery, the creation of
  incidents, and the evidence records. The statements' effects on a well-formed database come
  first; the operations compose them.
\<close>

section \<open>Effects of the statements\<close>

lemma incidents_ok_update:
  assumes "incidents_ok rows"
    and "\<And>r. r \<in> set rows \<Longrightarrow> p r \<Longrightarrow>
      ir_id (f r) = ir_id r \<and> ir_key (f r) = ir_key r \<and>
      (is_active (ir_state (f r)) \<longrightarrow> is_active (ir_state r))"
  shows "incidents_ok (update_where p f rows)"
proof -
  let ?act = "filter (\<lambda>r. is_active (ir_state r))"
  have "map ir_id (update_where p f rows) = map ir_id rows"
    using assms(2) by (simp add: update_where_def)
  moreover have "distinct (map ir_key (?act rows)) \<Longrightarrow>
      distinct (map ir_key (?act (update_where p f rows))) \<and>
      set (map ir_key (?act (update_where p f rows))) \<subseteq> set (map ir_key (?act rows))"
    using assms(2)
  proof (induction rows)
    case Nil
    show ?case by (simp add: update_where_def)
  next
    case (Cons r rows)
    then have IH: "distinct (map ir_key (?act (update_where p f rows)))"
      "set (map ir_key (?act (update_where p f rows))) \<subseteq> set (map ir_key (?act rows))"
      by (auto split: if_splits)
    show ?case
      using Cons.prems(1) Cons.prems(2) [of r] IH
      by (cases "p r"; cases "is_active (ir_state r)"; cases "is_active (ir_state (f r))")
        (auto simp: update_where_def)
  qed
  ultimately show ?thesis using assms(1) by (simp add: incidents_ok_def)
qed

lemma update_incidents_ok:
  assumes "wf_db s"
    and "\<And>r. r \<in> set (db_incidents s) \<Longrightarrow> p s r \<Longrightarrow>
      ir_id (f r) = ir_id r \<and> ir_key (f r) = ir_key r \<and>
      (is_active (ir_state (f r)) \<longrightarrow> is_active (ir_state r))"
  shows "tx_update_incidents p f s =
    Inr (count_where (p s) (db_incidents s),
         s\<lparr>db_incidents := update_where (p s) f (db_incidents s)\<rparr>)"
  using assms incidents_ok_update [of "db_incidents s" "p s" f]
  by (simp add: tx_update_incidents_def Let_def wf_db_def)

lemma count_incident:
  assumes "wf_db s" and "r \<in> set (db_incidents s)" and "p r"
    and "\<And>r. p r \<Longrightarrow> ir_id r = i"
  shows "count_where p (db_incidents s) = Suc 0"
  using count_where_one_iff [OF wf_incident_ids [OF assms(1)], of p i] assms(2-4) by auto

lemma count_job:
  assumes "wf_db s" and "j \<in> set (db_jobs s)" and "p j" and "\<And>j. p j \<Longrightarrow> jr_id j = k"
  shows "count_where p (db_jobs s) = Suc 0"
  using count_where_one_iff [OF wf_job_ids [OF assms(1)], of p k] assms(2-4) by auto

text \<open>A state change of the active incident with a given id.\<close>

lemma update_active_effect:
  assumes "wf_db s" and "r \<in> set (db_incidents s)" and "ir_id r = i" and "is_active (ir_state r)"
  shows "update_active_incident st i ts s =
    Inr (Suc 0, s\<lparr>db_incidents := update_where (\<lambda>q. ir_id q = i) (set_state st (unix ts))
                                   (db_incidents s)\<rparr>)"
proof -
  let ?p = "\<lambda>q. ir_id q = i \<and> is_active (ir_state q)"
  have "?p q \<longleftrightarrow> ir_id q = i" if "q \<in> set (db_incidents s)" for q
    using that assms distinct_key_eq [OF wf_incident_ids [OF assms(1)], of q r] by auto
  then have "update_where ?p f (db_incidents s) = update_where (\<lambda>q. ir_id q = i) f (db_incidents s)"
    for f by (rule update_where_cong)
  moreover have "count_where ?p (db_incidents s) = Suc 0"
    using assms by (intro count_incident [where r = r and i = i]) auto
  moreover have "update_active_incident st i ts s =
     Inr (count_where ?p (db_incidents s),
       s\<lparr>db_incidents := update_where ?p (set_state st (unix ts)) (db_incidents s)\<rparr>)"
    unfolding update_active_incident_def using assms(1)
    by (intro update_incidents_ok [where p = "\<lambda>_. ?p"]) (auto simp: set_state_def)
  ultimately show ?thesis by simp
qed

lemma update_active_missing:
  assumes "wf_db s" and "\<not> incident_active s i"
  shows "update_active_incident st i ts s = Inr (0, s)"
proof -
  have none: "\<not> (ir_id q = i \<and> is_active (ir_state q))" if "q \<in> set (db_incidents s)" for q
    using that assms(2) by (auto simp: incident_active_def)
  then have *: "count_where (\<lambda>q. ir_id q = i \<and> is_active (ir_state q)) (db_incidents s) = 0"
    unfolding count_where_zero by blast
  have "update_where (\<lambda>q. ir_id q = i \<and> is_active (ir_state q)) f (db_incidents s) = db_incidents s" for f
    by (rule update_where_none) (rule none)
  then show ?thesis
    unfolding update_active_incident_def using assms(1) *
    by (simp add: tx_update_incidents_def Let_def wf_db_def)
qed


lemma update_job_effect:
  assumes "wf_db s" and "j \<in> set (db_jobs s)" and "p s j" and "\<And>q. p s q \<Longrightarrow> jr_id q = jr_id j"
  shows "tx_update_jobs p f s =
    Inr (Suc 0, s\<lparr>db_jobs := update_where (\<lambda>q. jr_id q = jr_id j) f (db_jobs s)\<rparr>)"
proof -
  have "p s q \<longleftrightarrow> jr_id q = jr_id j" if "q \<in> set (db_jobs s)" for q
    using that assms(2-4) distinct_key_eq [OF wf_job_ids [OF assms(1)]] by metis
  then have "update_where (p s) f (db_jobs s) = update_where (\<lambda>q. jr_id q = jr_id j) f (db_jobs s)"
    by (rule update_where_cong)
  moreover have "count_where (p s) (db_jobs s) = Suc 0"
    using assms by (rule count_job)
  ultimately show ?thesis by (simp add: tx_update_jobs_def)
qed

lemma update_jobs_missing:
  assumes "\<And>q. q \<in> set (db_jobs s) \<Longrightarrow> \<not> p s q"
  shows "tx_update_jobs p f s = Inr (0, s)"
proof -
  have "update_where (p s) f (db_jobs s) = db_jobs s"
    by (rule update_where_none) (rule assms)
  moreover have "count_where (p s) (db_jobs s) = 0"
    unfolding count_where_zero using assms by blast
  ultimately show ?thesis by (simp add: tx_update_jobs_def)
qed

lemma update_where_twice:
  assumes "\<And>x. k (f x) = k x" "\<And>x. q x \<Longrightarrow> k x \<noteq> v" 
  shows "update_where q g (update_where (\<lambda>x. k x = v) f xs) =
    map (\<lambda>x. if k x = v then f x else if q x then g x else x) xs"
  using assms by (auto simp: update_where_def)

section \<open>Completing an incident\<close>

lemma wf_incidents_only:
  "wf_db s \<Longrightarrow> wf_db (s\<lparr>db_jobs := js\<rparr>) \<longleftrightarrow> distinct (map jr_id js) \<and> (\<forall>j \<in> set js. job_wf j)"
  by (simp add: wf_db_def)

lemma close_job_wf:
  "job_wf j \<Longrightarrow> st \<in> set job_statuses \<Longrightarrow> st \<noteq> JobRunning \<Longrightarrow> job_wf (close_job st j)"
  by (simp add: job_wf_def close_job_def)

lemma close_job_fields [simp]:
  "jr_id (close_job st j) = jr_id j" "jr_incident_id (close_job st j) = jr_incident_id j"
  "jr_status (close_job st j) = st"
  by (simp_all add: close_job_def)

lemma set_state_fields [simp]:
  "ir_id (set_state st ts r) = ir_id r" "ir_key (set_state st ts r) = ir_key r"
  "ir_state (set_state st ts r) = st" "ir_message_id (set_state st ts r) = ir_message_id r"
  "ir_alert_at (set_state st ts r) = ir_alert_at r"
  by (simp_all add: set_state_def)

lemma wf_close_jobs:
  assumes "wf_db s" and "st \<in> set job_statuses" and "st \<noteq> JobRunning"
  shows "wf_db (s\<lparr>db_jobs := update_where p (close_job st) (db_jobs s)\<rparr>)"
proof -
  have "map jr_id (update_where p (close_job st) (db_jobs s)) = map jr_id (db_jobs s)"
    by (rule map_update_where) simp
  moreover have "\<forall>j \<in> set (update_where p (close_job st) (db_jobs s)). job_wf j"
    using assms by (intro update_where_all close_job_wf) (auto simp: wf_db_def)
  ultimately show ?thesis
    using assms(1) by (simp add: wf_incidents_only wf_job_ids)
qed

lemma incident_active_jobs [simp]:
  "incident_active (s\<lparr>db_jobs := js\<rparr>) i = incident_active s i"
  by (simp add: incident_active_def)

text \<open>
  The jobs after a claim of the incident closed: the claimed job has the given status, every
  other queued or running job of the incident is cancelled, all other jobs are as before.
\<close>

definition settled_jobs :: "string \<Rightarrow> string \<Rightarrow> string \<Rightarrow> job_row list \<Rightarrow> job_row list" where
  "settled_jobs jobID incidentID status js =
     map (\<lambda>j. if jr_id j = jobID then close_job status j
              else if jr_incident_id j = incidentID \<and> live j then close_job JobCancelled j else j) js"

lemma cancel_other_settles:
  assumes "db_jobs u = update_where (\<lambda>q. jr_id q = k) (close_job st) js"
  shows "cancel_other_jobs i k u =
     Inr (count_where (\<lambda>j. jr_incident_id j = i \<and> jr_id j \<noteq> k \<and> live j) (db_jobs u),
          u\<lparr>db_jobs := settled_jobs k i st js\<rparr>)"
proof -
  have "update_where (\<lambda>j. jr_incident_id j = i \<and> jr_id j \<noteq> k \<and> live j) (close_job JobCancelled)
      (db_jobs u) = settled_jobs k i st js"
    by (auto simp: assms update_where_def settled_jobs_def)
  then show ?thesis
    by (simp add: cancel_other_jobs_def tx_update_jobs_def)
qed

lemma settled_jobs_not_live:
  assumes "j \<in> set (settled_jobs k i st js)" and "jr_incident_id j = i" and "st \<noteq> JobQueued"
    and "st \<noteq> JobRunning"
  shows "\<not> live j"
proof -
  from assms(1) obtain j0 where j: "j = (if jr_id j0 = k then close_job st j0
      else if jr_incident_id j0 = i \<and> live j0 then close_job JobCancelled j0 else j0)"
    unfolding settled_jobs_def set_map by (elim imageE)
  show ?thesis
    using assms(2-4) unfolding j by (simp add: live_def split: if_splits)
qed

text \<open>The claim a completion needs: the row has the token and belongs to the incident.\<close>

definition claim_held :: "Job \<Rightarrow> string \<Rightarrow> db \<Rightarrow> bool" where
  "claim_held job i s \<longleftrightarrow> (\<exists>j \<in> set (db_jobs s). claim_row job i j) \<and> incident_active s i"

lemma close_claimed_effect:
  assumes "wf_db s" and "claim_held job i s"
  shows "close_claimed_job job i st s =
    Inr (Suc 0, s\<lparr>db_jobs := update_where (\<lambda>q. jr_id q = job_id job) (close_job st) (db_jobs s)\<rparr>)"
proof -
  from assms(2) obtain j where j: "j \<in> set (db_jobs s)" "claim_row job i j"
    and "incident_active s i" by (auto simp: claim_held_def)
  then have "tx_update_jobs (\<lambda>s j. claim_row job i j \<and> job_incident_active s j) (close_job st) s =
    Inr (Suc 0, s\<lparr>db_jobs := update_where (\<lambda>q. jr_id q = jr_id j) (close_job st) (db_jobs s)\<rparr>)"
    by (intro update_job_effect [OF assms(1)]) (auto simp: claim_row_def job_incident_active_def)
  with j show ?thesis by (simp add: close_claimed_job_def claim_row_def)
qed

lemma close_claimed_missing:
  "\<not> claim_held job i s \<Longrightarrow> close_claimed_job job i st s = Inr (0, s)"
  unfolding close_claimed_job_def
  by (rule update_jobs_missing) (auto simp: claim_held_def job_incident_active_def claim_row_def)

lemma CompleteJobAndIncident_effect:
  assumes wf: "wf_db s" and m: "marshal result = Inr raw" and c: "claim_held job i s"
    and fresh: "k \<notin> set (map er_id (db_snapshots s))"
  shows "CompleteJobAndIncident marshal k job i result t s =
    (Inr (), s\<lparr>db_incidents := update_where (\<lambda>r. ir_id r = i)
                                 (set_state IncidentCompleted (unix t)) (db_incidents s),
               db_jobs := settled_jobs (job_id job) i JobCompleted (db_jobs s),
               db_snapshots := db_snapshots s @ [snapshot_row k i raw t]\<rparr>)"
proof -
  from c obtain r where r: "r \<in> set (db_incidents s)" "ir_id r = i" "is_active (ir_state r)"
    by (auto simp: claim_held_def incident_active_def)
  let ?s1 = "s\<lparr>db_jobs := update_where (\<lambda>q. jr_id q = job_id job) (close_job JobCompleted) (db_jobs s)\<rparr>"
  have "wf_db ?s1" by (rule wf_close_jobs [OF wf]) simp_all
  then have upd: "update_active_incident IncidentCompleted i t ?s1 =
      Inr (Suc 0, ?s1\<lparr>db_incidents := update_where (\<lambda>q. ir_id q = i)
             (set_state IncidentCompleted (unix t)) (db_incidents s)\<rparr>)"
    using update_active_effect [of ?s1 r i] r by simp
  have snap: "tx_insert_snapshot (snapshot_row k i raw t) u =
      Inr ((), u\<lparr>db_snapshots := db_snapshots s @ [snapshot_row k i raw t]\<rparr>)"
    if "db_snapshots u = db_snapshots s" for u
    using fresh that by (simp add: tx_insert_snapshot_def snapshot_row_def)
  show ?thesis
    using m close_claimed_effect [OF wf c, of JobCompleted] upd
    by (simp add: CompleteJobAndIncident_def tx_defs leaseRow_def activeRow_def snap
        cancel_other_settles [where js = "db_jobs s"])
qed

lemma CompleteJobAndIncident_no_claim:
  assumes "marshal result = Inr raw" and "\<not> claim_held job i s"
  shows "CompleteJobAndIncident marshal k job i result t s =
    (Inl (ErrWrap (''complete job '' @ job_id job @ '': '') ErrJobLeaseLost ''''), s)"
  using assms by (simp add: CompleteJobAndIncident_def tx_defs close_claimed_missing leaseRow_def)

text \<open>
  C5 (completion_needs_the_claim). A worker can complete an incident exactly when its claim is
  still in the job's row and the incident is active (the snapshot identifier being unused).
  Completion is one transaction: the incident is completed, the claimed job is completed, every
  other job of the incident that was queued or running is cancelled, the result is stored as a
  new snapshot; without the claim the answer is a lost lease and nothing changes.
\<close>

theorem completion_needs_the_claim:
  assumes "wf_db s" and "marshal result = Inr raw" and "k \<notin> set (map er_id (db_snapshots s))"
  shows "CompleteJobAndIncident marshal k job i result t s =
    (if (\<exists>j \<in> set (db_jobs s). claim_row job i j) \<and> incident_active s i
     then (Inr (), s\<lparr>
       db_incidents := map (\<lambda>r. if ir_id r = i
          then r\<lparr>ir_state := IncidentCompleted, ir_updated_at := unix t\<rparr> else r) (db_incidents s),
       db_jobs := map (\<lambda>j.
          if jr_id j = job_id job
          then j\<lparr>jr_status := JobCompleted, jr_worker_id := '''', jr_lease_until := 0\<rparr>
          else if jr_incident_id j = i \<and> (jr_status j = JobQueued \<or> jr_status j = JobRunning)
          then j\<lparr>jr_status := JobCancelled, jr_worker_id := '''', jr_lease_until := 0\<rparr>
          else j) (db_jobs s),
       db_snapshots := db_snapshots s @
         [\<lparr>er_id = k, er_incident_id = i, er_evidence_json = raw, er_created_at = unix t\<rparr>]\<rparr>)
     else (Inl (ErrWrap (''complete job '' @ job_id job @ '': '') ErrJobLeaseLost ''''), s))"
proof (cases "claim_held job i s")
  case True
  note effect = CompleteJobAndIncident_effect [where marshal = marshal, OF assms(1,2) True assms(3),
      unfolded settled_jobs_def update_where_def set_state_def close_job_def live_def snapshot_row_def]
  show ?thesis
    unfolding effect if_P [OF True [unfolded claim_held_def]] ..
next
  case False
  note no_claim = CompleteJobAndIncident_no_claim [where marshal = marshal, OF assms(2) False]
  show ?thesis
    unfolding no_claim if_not_P [OF False [unfolded claim_held_def]] ..
qed

section \<open>Retrying or failing a job\<close>

lemma retry_delay_small:
  assumes "0 \<le> a" and "a \<le> 2 ^ 30"
  shows "retry_delay a = min (a * 5 * second) (30 * second)"
proof -
  have "int64 (a * 5) = a * 5"
    using assms by (intro int64_id) auto
  moreover have "int64 (a * 5 * second) = a * 5 * second"
    using assms by (intro int64_id) (auto simp: second_def)
  ultimately show ?thesis by (simp add: retry_delay_def Let_def min_def)
qed

lemma retry_effect:
  assumes "wf_db s" and "claim_held job (job_incident_id job) s"
    and "1 \<le> n" and "job_attempt job < n"
  shows "RetryOrFailJob job t n s =
    (Inr False, s\<lparr>db_jobs := update_where (\<lambda>q. jr_id q = job_id job)
       (requeue_job (unix (t + retry_delay (job_attempt job)))) (db_jobs s)\<rparr>)"
proof -
  let ?i = "job_incident_id job"
  from assms(2) obtain j where j: "j \<in> set (db_jobs s)" "claim_row job ?i j"
    and "incident_active s ?i" by (auto simp: claim_held_def)
  then have "tx_update_jobs (\<lambda>s j. claim_row job ?i j \<and> job_incident_active s j) f s =
      Inr (Suc 0, s\<lparr>db_jobs := update_where (\<lambda>q. jr_id q = jr_id j) f (db_jobs s)\<rparr>)" for f
    by (intro update_job_effect [OF assms(1)]) (auto simp: claim_row_def job_incident_active_def)
  with j assms(3,4) show ?thesis
    by (simp add: RetryOrFailJob_def tx_defs leaseRow_def claim_row_def)
qed

lemma fail_effect:
  assumes "wf_db s" and "claim_held job (job_incident_id job) s"
    and "1 \<le> n" and "n \<le> job_attempt job"
  shows "RetryOrFailJob job t n s =
    (Inr True, s\<lparr>
       db_incidents := update_where (\<lambda>r. ir_id r = job_incident_id job)
         (set_state IncidentFailed (unix t)) (db_incidents s),
       db_jobs := settled_jobs (job_id job) (job_incident_id job) JobFailed (db_jobs s)\<rparr>)"
proof -
  let ?i = "job_incident_id job"
  from assms(2) obtain j r where j: "j \<in> set (db_jobs s)" "claim_row job ?i j"
    and r: "r \<in> set (db_incidents s)" "ir_id r = ?i" "is_active (ir_state r)"
    by (auto simp: claim_held_def incident_active_def)
  from j have "tx_update_jobs (\<lambda>s j. claim_row job ?i j) (close_job JobFailed) s =
      Inr (Suc 0, s\<lparr>db_jobs := update_where (\<lambda>q. jr_id q = jr_id j) (close_job JobFailed) (db_jobs s)\<rparr>)"
    by (intro update_job_effect [OF assms(1)]) (auto simp: claim_row_def)
  moreover have "jr_id j = job_id job" using j by (simp add: claim_row_def)
  moreover let ?s1 = "s\<lparr>db_jobs := update_where (\<lambda>q. jr_id q = job_id job) (close_job JobFailed) (db_jobs s)\<rparr>"
  have "update_active_incident IncidentFailed ?i t ?s1 =
      Inr (Suc 0, ?s1\<lparr>db_incidents := update_where (\<lambda>q. ir_id q = ?i)
             (set_state IncidentFailed (unix t)) (db_incidents s)\<rparr>)"
    using update_active_effect [of ?s1 r ?i] wf_close_jobs [OF assms(1)] r by simp
  ultimately show ?thesis
    using assms(3,4)
    by (simp add: RetryOrFailJob_def tx_defs leaseRow_def activeRow_def
        cancel_other_settles [where js = "db_jobs s"])
qed

text \<open>
  C6 (retry_then_fail). When the work on a held claim fails, the job goes back to the queue
  with a delay of five seconds per attempt made, thirty at most, as long as fewer attempts than
  allowed were made; otherwise the job and its incident fail in one transaction and no queued or
  running job of the incident is left. No other incident is touched.
\<close>

theorem retry_then_fail:
  assumes "wf_db s" and "(\<exists>j \<in> set (db_jobs s). claim_row job (job_incident_id job) j)"
    and "incident_active s (job_incident_id job)"
    and "1 \<le> job_attempt job" and "1 \<le> n" and "n \<le> 2 ^ 30"
  shows "\<exists>s'. RetryOrFailJob job t n s = (Inr (n \<le> job_attempt job), s') \<and>
    (if job_attempt job < n then
       db_incidents s' = db_incidents s \<and>
       (\<exists>j \<in> set (db_jobs s'). jr_id j = job_id job \<and> jr_status j = JobQueued \<and>
          jr_run_after j = unix (t + min (job_attempt job * 5 * second) (30 * second)))
     else
       (\<forall>r \<in> set (db_incidents s'). ir_id r = job_incident_id job \<longrightarrow> ir_state r = IncidentFailed) \<and>
       (\<forall>j \<in> set (db_jobs s'). jr_id j = job_id job \<longrightarrow> jr_status j = JobFailed) \<and>
       (\<forall>j \<in> set (db_jobs s'). jr_incident_id j = job_incident_id job \<longrightarrow>
          jr_status j \<noteq> JobQueued \<and> jr_status j \<noteq> JobRunning) \<and>
       filter (\<lambda>r. ir_id r \<noteq> job_incident_id job) (db_incidents s') =
         filter (\<lambda>r. ir_id r \<noteq> job_incident_id job) (db_incidents s))"
proof (cases "job_attempt job < n")
  case True
  from assms(2,3) have c: "claim_held job (job_incident_id job) s" by (simp add: claim_held_def)
  from assms(2) obtain j where j: "j \<in> set (db_jobs s)" "jr_id j = job_id job"
    by (auto simp: claim_row_def)
  let ?f = "requeue_job (unix (t + retry_delay (job_attempt job)))"
  have "?f j \<in> set (update_where (\<lambda>q. jr_id q = job_id job) ?f (db_jobs s))"
    using j by (auto simp: set_update_where)
  moreover have "retry_delay (job_attempt job) = min (job_attempt job * 5 * second) (30 * second)"
    using True assms(4,6) by (intro retry_delay_small) auto
  ultimately show ?thesis
    using retry_effect [OF assms(1) c assms(5) True, of t] True j(2)
    by (auto simp: requeue_job_def intro!: bexI [of _ "?f j"])
next
  case False
  from assms(2,3) have c: "claim_held job (job_incident_id job) s" by (simp add: claim_held_def)
  have "filter (\<lambda>r. ir_id r \<noteq> i) (update_where (\<lambda>r. ir_id r = i) (set_state st u) rows) =
      filter (\<lambda>r. ir_id r \<noteq> i) rows" for i st u rows
    by (induction rows) (simp_all add: update_where_def)
  then show ?thesis
    using fail_effect [OF assms(1) c assms(5), of t] False settled_jobs_not_live
    by (auto simp: set_update_where settled_jobs_def live_def)
qed

section \<open>Waiting for an audit event\<close>

lemma await_audit_effect:
  assumes "wf_db s" and "r \<in> set (db_incidents s)" and "ir_id r = i" and "is_active (ir_state r)"
  shows "await_audit_event i ts s =
    Inr (Suc 0, s\<lparr>db_incidents := update_where (\<lambda>q. ir_id q = i)
                     (set_state IncidentAwaitingAuditEvent (unix ts)) (db_incidents s)\<rparr>)"
proof -
  have "is_active_or_legacy (ir_state q) = is_active (ir_state q)" if "q \<in> set (db_incidents s)" for q
    using that assms(1) legacy_state_unknown unfolding is_active_or_legacy_def wf_db_def by metis
  then have p: "(ir_id q = i \<and> is_active_or_legacy (ir_state q)) = (ir_id q = i \<and> is_active (ir_state q))"
    if "q \<in> set (db_incidents s)" for q using that by blast
  have "await_audit_event i ts s = update_active_incident IncidentAwaitingAuditEvent i ts s"
    unfolding await_audit_event_def update_active_incident_def tx_update_incidents_def
    by (simp only: update_where_cong [where xs = "db_incidents s", OF p]
        count_where_cong [where xs = "db_incidents s", OF p])
  with update_active_effect [OF assms] show ?thesis by simp
qed

text \<open>
  C10 (audit_retry_outcome). With its claim held and a fresh job id, a worker that waits for an
  audit event closes its job as completed, moves the incident to waiting and queues exactly one
  new job for the retry time, in one transaction.
\<close>

theorem audit_retry_outcome:
  assumes "wf_db s" and "(\<exists>j \<in> set (db_jobs s). claim_row job i j)" and "incident_active s i"
    and "k \<notin> set (map jr_id (db_jobs s))"
  shows "CompleteJobAndScheduleAuditRetry k job i retryAt s =
    (Inr (), s\<lparr>
       db_incidents := map (\<lambda>r. if ir_id r = i
          then r\<lparr>ir_state := IncidentAwaitingAuditEvent, ir_updated_at := unix retryAt\<rparr> else r)
          (db_incidents s),
       db_jobs := map (\<lambda>j. if jr_id j = job_id job
          then j\<lparr>jr_status := JobCompleted, jr_worker_id := '''', jr_lease_until := 0\<rparr> else j)
          (db_jobs s) @
          [\<lparr>jr_id = k, jr_incident_id = i, jr_status = JobQueued, jr_worker_id = '''',
            jr_attempt = 0, jr_run_after = unix retryAt, jr_lease_until = 0\<rparr>]\<rparr>)"
proof -
  from assms(2,3) have c: "claim_held job i s" by (simp add: claim_held_def)
  from assms(3) obtain r where r: "r \<in> set (db_incidents s)" "ir_id r = i" "is_active (ir_state r)"
    by (auto simp: incident_active_def)
  let ?jobs = "update_where (\<lambda>q. jr_id q = job_id job) (close_job JobCompleted) (db_jobs s)"
  have "wf_db (s\<lparr>db_jobs := ?jobs\<rparr>)" by (rule wf_close_jobs [OF assms(1)]) simp_all
  then have upd: "await_audit_event i retryAt (s\<lparr>db_jobs := ?jobs\<rparr>) =
      Inr (Suc 0, s\<lparr>db_jobs := ?jobs, db_incidents := update_where (\<lambda>q. ir_id q = i)
             (set_state IncidentAwaitingAuditEvent (unix retryAt)) (db_incidents s)\<rparr>)"
    using await_audit_effect [of "s\<lparr>db_jobs := ?jobs\<rparr>" r i] r by simp
  have "map jr_id ?jobs = map jr_id (db_jobs s)" by (rule map_update_where) simp
  then have ins: "tx_insert_job (job_columns (NewJob k i retryAt)) u =
      Inr ((), u\<lparr>db_jobs := ?jobs @ [job_columns (NewJob k i retryAt)]\<rparr>)" if "db_jobs u = ?jobs" for u
    using assms(4) that by (simp add: tx_insert_job_def job_columns_def NewJob_def del: set_map)
  have "CompleteJobAndScheduleAuditRetry k job i retryAt s =
      (Inr (), s\<lparr>db_incidents := update_where (\<lambda>q. ir_id q = i)
             (set_state IncidentAwaitingAuditEvent (unix retryAt)) (db_incidents s),
          db_jobs := ?jobs @ [job_columns (NewJob k i retryAt)]\<rparr>)"
    using close_claimed_effect [OF assms(1) c, of JobCompleted] upd
    by (simp add: CompleteJobAndScheduleAuditRetry_def tx_defs leaseRow_def activeRow_def ins)
  then show ?thesis
    unfolding update_where_def set_state_def close_job_def job_columns_def NewJob_def by simp
qed

section \<open>Recovery\<close>

lemma recover_target_in:
  "recover_target key ts s = Some r \<Longrightarrow>
     r \<in> set (db_incidents s) \<and> ir_key r = key \<and> ir_alert_at r \<le> unix ts \<and>
     (is_recoverable (ir_state r) \<or> ir_state r = IncidentRecovered)"
  unfolding recover_target_def by (drule max_by_in) auto

lemma recover_update_effect:
  assumes "wf_db s" and "r \<in> set (db_incidents s)" and "is_recoverable (ir_state r)"
  shows "tx_update_incidents (\<lambda>s q. ir_id q = ir_id r \<and> is_recoverable (ir_state q))
      (set_state IncidentRecovered ts) s =
    Inr (Suc 0, s\<lparr>db_incidents := update_where (\<lambda>q. ir_id q = ir_id r)
                     (set_state IncidentRecovered ts) (db_incidents s)\<rparr>)"
proof -
  let ?p = "\<lambda>q. ir_id q = ir_id r \<and> is_recoverable (ir_state q)"
  have "?p q \<longleftrightarrow> ir_id q = ir_id r" if "q \<in> set (db_incidents s)" for q
    using that assms(2,3) distinct_key_eq [OF wf_incident_ids [OF assms(1)]] by metis
  then have "update_where ?p f (db_incidents s) = update_where (\<lambda>q. ir_id q = ir_id r) f (db_incidents s)"
    for f by (rule update_where_cong)
  moreover have "count_where ?p (db_incidents s) = Suc 0"
    using assms by (intro count_incident [where r = r and i = "ir_id r"]) auto
  ultimately show ?thesis
    using update_incidents_ok [OF assms(1), of "\<lambda>_. ?p" "set_state IncidentRecovered ts"] by simp
qed

lemma Recover_effect:
  assumes "wf_db s" and "recover_target key ts s = Some r" and "ir_state r \<noteq> IncidentRecovered"
  shows "Recover key ts s =
    (Inr ((scanIncident r)\<lparr>inc_state := IncidentRecovered, inc_updated_at := ts\<rparr>, True),
     s\<lparr>db_incidents := update_where (\<lambda>q. ir_id q = ir_id r)
         (set_state IncidentRecovered (unix ts)) (db_incidents s),
       db_jobs := update_where (\<lambda>j. jr_incident_id j = ir_id r \<and> live j) (close_job JobCancelled)
         (db_jobs s)\<rparr>)"
  using recover_target_in [OF assms(2)] recover_update_effect [OF assms(1), of r] assms(2,3)
  by (simp add: Recover_def tx_defs oneRow_def cancel_live_jobs_def tx_update_jobs_def)


section \<open>Creating incidents\<close>

lemma active_by_key_None:
  "active_by_key key s = None \<longleftrightarrow>
     key \<notin> set (map ir_key (filter (\<lambda>r. is_active (ir_state r)) (db_incidents s)))"
  by (auto simp: active_by_key_def find_None_iff_all)

lemma insert_active_incident:
  assumes "wf_db s" and "inc_id inc \<notin> set (map ir_id (db_incidents s))" and "is_active (inc_state inc)"
  shows "tx_insert_incident (incident_columns inc) s =
    (if active_by_key (inc_key inc) s = None
     then Inr ((), s\<lparr>db_incidents := db_incidents s @ [incident_columns inc]\<rparr>)
     else Inl (ErrNew ''UNIQUE constraint failed: incidents.incident_key''))"
proof -
  have "incidents_ok (db_incidents s @ [incident_columns inc]) \<longleftrightarrow> active_by_key (inc_key inc) s = None"
    using assms by (auto simp: incidents_ok_def wf_db_def incident_columns_def active_by_key_None)
  then show ?thesis
    using assms(2) by (simp add: tx_insert_incident_def incident_columns_def)
qed

text \<open>
  C9 (alerts_are_deduplicated). An alert with a fresh incident id opens an incident exactly when
  no incident of its key is active; otherwise the active one is returned, marked as not created,
  and the database stays as it was.
\<close>

theorem alerts_are_deduplicated:
  assumes "wf_db s" and "freshID \<notin> set (map ir_id (db_incidents s))"
  shows "CreateOrGetIncident (NewIncident freshID now w rule resource alertAt) s =
    (case find (\<lambda>r. ir_key r = incident_key w rule resource \<and> is_active (ir_state r))
            (db_incidents s) of
       Some r \<Rightarrow> (Inr (scanIncident r, False), s)
     | None \<Rightarrow> (Inr (NewIncident freshID now w rule resource alertAt, True),
         s\<lparr>db_incidents := db_incidents s @
             [\<lparr>ir_id = freshID, ir_key = incident_key w rule resource, ir_workspace = w,
               ir_rule_id = rule, ir_resource_id = resource, ir_state = IncidentReceived,
               ir_message_id = '''', ir_alert_at = unix alertAt, ir_created_at = unix now,
               ir_updated_at = unix now\<rparr>]\<rparr>))"
  using insert_active_incident [OF assms(1), of "NewIncident freshID now w rule resource alertAt"]
    assms(2)
  by (auto simp: CreateOrGetIncident_def run_tx_def NewIncident_def active_by_key_def
      incident_columns_def split: option.splits)

section \<open>Evidence records\<close>

lemma find_filter_other:
  "k \<noteq> k' \<Longrightarrow> find (\<lambda>r. er_id r = k) (filter (\<lambda>e. er_id e \<noteq> k') rows @ [x]) =
     (if er_id x = k \<and> find (\<lambda>r. er_id r = k) rows = None then Some x
      else find (\<lambda>r. er_id r = k) rows)"
  by (induction rows) auto

lemma find_filter_same:
  "find (\<lambda>r. er_id r = k) (filter (\<lambda>e. er_id e \<noteq> k) rows @ [x]) =
     (if er_id x = k then Some x else None)"
  by (induction rows) auto

lemma OpenEvidence_replace:
  assumes "tx_replace_evidence \<lparr>er_id = k', er_incident_id = i, er_evidence_json = raw,
      er_created_at = t\<rparr> s = Inr ((), s')"
  shows "fst (OpenEvidence unmarshal k s') =
    (if k = k' then fst (case unmarshal raw of
         Inl err \<Rightarrow> (Inl (ErrWrap ''decode stored evidence: '' err ''''), s)
       | Inr item \<Rightarrow> (Inr item, s))
     else fst (OpenEvidence unmarshal k s))"
proof (cases "k = k'")
  case True
  with assms show ?thesis
    by (auto simp: tx_replace_evidence_def OpenEvidence_def find_filter_same split: sum.splits)
next
  case False
  with assms show ?thesis
    by (auto simp: tx_replace_evidence_def OpenEvidence_def find_filter_other
        split: option.splits sum.splits)
qed

lemma find_snoc: "find p (xs @ [x]) = (case find p xs of None \<Rightarrow> if p x then Some x else None | y \<Rightarrow> y)"
  by (induction xs) auto

lemma tx_store_evidence_lookup:
  assumes "\<And>item raw. item \<in> set items \<Longrightarrow> marshal item = Inr raw \<Longrightarrow> unmarshal raw = Inr item"
    and "tx_store_evidence marshal i t items s = Inr ((), s')"
  shows "fst (OpenEvidence unmarshal k s') =
    (case find (\<lambda>e. ev_id e = k) (rev items) of
       Some e \<Rightarrow> Inr e | None \<Rightarrow> fst (OpenEvidence unmarshal k s))"
  using assms
proof (induction items arbitrary: s)
  case Nil
  then show ?case by (simp add: tx_return_def)
next
  case (Cons item items)
  from Cons.prems(2) obtain raw s1 where m: "marshal item = Inr raw"
    and rep: "tx_replace_evidence \<lparr>er_id = ev_id item, er_incident_id = i, er_evidence_json = raw,
        er_created_at = unix t\<rparr> s = Inr ((), s1)"
    and rest: "tx_store_evidence marshal i t items s1 = Inr ((), s')"
    by (auto simp: tx_bind_Inr tx_throw_def split: if_splits sum.splits)
  from Cons.prems(1) [OF _ m] show ?case
    using Cons.IH [OF _ rest] Cons.prems(1) OpenEvidence_replace [OF rep, of unmarshal k]
    by (auto simp: find_snoc split: option.splits)
qed

text \<open>For codecs that read back what they wrote, ids open to the last item stored under them.\<close>

lemma StoreEvidence_lookup:
  assumes "\<And>item raw. item \<in> set items \<Longrightarrow> marshal item = Inr raw \<Longrightarrow> unmarshal raw = Inr item"
    and "StoreEvidence marshal i items t s = (Inr (), s')"
  shows "fst (OpenEvidence unmarshal k s') =
    (case find (\<lambda>e. ev_id e = k) (rev items) of
       Some e \<Rightarrow> Inr e | None \<Rightarrow> fst (OpenEvidence unmarshal k s))"
proof -
  from assms(2) have "tx_store_evidence marshal i t items s = Inr ((), s')"
    by (simp add: StoreEvidence_def run_tx_Inr)
  with assms(1) show ?thesis by (rule tx_store_evidence_lookup)
qed

end
