(* ===== verification/WorkerProps.thy ===== *)
theory WorkerProps
  imports WorkerEnv StoreOutcomes
begin

text \<open>
  The properties of the RCA worker: under every environment it keeps the store's invariant and
  lifecycles and sends only justified cards; in a quiet environment (no other process, no driver
  failure) an attempt on a fresh incident never leaves its claim behind, and an attempt on an
  incident that is already under investigation does nothing at all, so such an incident never
  finishes.
\<close>

section \<open>Every environment\<close>

lemma RunOne_world:
  assumes "wf_db (w_db w)" and "\<not> w_locked w" and "RunOne (sqlite_worker env wid) w = (r, w')"
  obtains new where "w_ok w'" and "db_le (w_db w) (w_db w')" and "w_log w' = w_log w @ new"
    and "\<forall>e \<in> set new. justified wid e"
  using sw.keep_RunOne [of wid env w] assms by (auto simp: keeps_def w_ok_def w_le_def)

lemma ValidateResult_shape:
  "ValidateResult res known = Inr () \<Longrightarrow>
     containsHan (rca_summary res) \<and> containsHan (rca_root_cause res) \<and>
     0 \<le> rca_confidence res \<and> rca_confidence res \<le> 1 \<and> rca_evidence_ids res \<noteq> []"
  by (auto simp: ValidateResult_def split: if_splits sum.splits)


text \<open>
  C14 (card_updates_are_justified). Every card a worker updates in a turn is sent while the
  worker holds a running claim on that incident and the incident is active (the database is the
  one at the moment of sending), or it tells the recovery of a recovered incident: a worker that
  lost its lease, or an incident that closed meanwhile, never changes a card. The log only grows.
\<close>

theorem card_updates_are_justified:
  assumes "wf_db (w_db w)" and "\<not> w_locked w"
    and "RunOne (sqlite_worker env wid) w = (r, w')"
  shows "\<exists>new. w_log w' = w_log w @ new \<and>
    \<not> (\<exists>m inc res s. Updated m inc res s \<in> set new \<and>
         \<not> ((\<exists>j \<in> set (db_jobs s). jr_incident_id j = inc_id inc \<and> jr_status j = JobRunning \<and>
                 jr_worker_id j = wid) \<and> incident_active s (inc_id inc) \<or>
             res = recovery_result \<and>
             (\<exists>row \<in> set (db_incidents s). ir_id row = inc_id inc \<and> ir_state row = IncidentRecovered)))"
proof -
  from RunOne_world [OF assms] obtain new where new: "w_log w' = w_log w @ new"
    and j: "\<forall>e \<in> set new. justified wid e" by metis
  have "leased_to wid (inc_id inc) s \<and> incident_active s (inc_id inc) \<or>
      res = recovery_result \<and> recovered_in (inc_id inc) s"
    if "Updated m inc res s \<in> set new" for m inc res s
    using j that by fastforce
  with new show ?thesis
    unfolding leased_to_def recovered_in_def by (intro exI [of _ new]) blast
qed



section \<open>Undisturbed environments\<close>

text \<open>No other process calls the repository and the driver does not fail.\<close>

definition undisturbed :: "environment \<Rightarrow> bool" where
  "undisturbed env \<longleftrightarrow> (\<forall>n. ev_ops (en_event env n) = [] \<and> ev_fault (en_event env n) = None)"

lemma disturb_undisturbed: "undisturbed env \<Longrightarrow> disturb env w = w\<lparr>w_step := Suc (w_step w)\<rparr>"
  by (simp add: disturb_def event_of_def undisturbed_def run_ops_def)

lemma repo_call_undisturbed:
  "undisturbed env \<Longrightarrow> repo_call env f w =
     (case f (event_of env w) (w_db w) of (r, s) \<Rightarrow> (r, w\<lparr>w_step := Suc (w_step w), w_db := s\<rparr>))"
  by (simp add: repo_call_def disturb_undisturbed Let_def undisturbed_def event_of_def split: prod.splits)

lemma ClaimNext_holds:
  assumes "wf_db s" and "ClaimNext k t s = (Inr (Some job), s')"
  shows "wf_db s' \<and> claim_held job (job_incident_id job) s' \<and> 1 \<le> job_attempt job \<and>
    db_incidents s' = db_incidents s"
proof -
  from assms obtain j where
    min: "min_by (\<lambda>j. (jr_run_after j, jr_id j)) (claimable_jobs (unix t) s) = Some j"
    and job: "job = claimed_job k t j"
    and s': "s' = s\<lparr>db_jobs := update_where (\<lambda>q. jr_id q = jr_id j)
                   (claim_job_row k (unix (t + JobLeaseDuration))) (db_jobs s)\<rparr>"
    by (rule ClaimNext_SomeE)
  from min_by_in [OF min] have j: "j \<in> set (db_jobs s)" "job_incident_active s j"
    by (auto simp: claimable_jobs_def)
  have "wf_db s'" using ClaimNext_step [of s k t] assms by (simp add: db_step_def)
  moreover have "claim_held job (job_incident_id job) s'"
    unfolding claim_held_def
  proof
    show "\<exists>q \<in> set (db_jobs s'). claim_row job (job_incident_id job) q"
      using j(1) by (intro bexI [of _ "claim_job_row k (unix (t + JobLeaseDuration)) j"])
        (auto simp: s' set_update_where job claim_row_def claim_job_row_def claimed_job_def scanJob_def)
    show "incident_active s' (job_incident_id job)"
      using j(2) by (simp add: s' job job_incident_active_def claimed_job_def scanJob_def incident_active_def)
  qed
  moreover have "1 \<le> job_attempt job"
    using assms(1) j(1) by (auto simp: job claimed_job_def wf_db_def job_wf_def)
  ultimately show ?thesis by (simp add: s')
qed

lemma update_incidents_missing:
  assumes "wf_db s" and "\<And>q. q \<in> set (db_incidents s) \<Longrightarrow> \<not> p s q"
  shows "tx_update_incidents p f s = Inr (0, s)"
proof -
  have "update_where (p s) f (db_incidents s) = db_incidents s"
    using assms(2) by (rule update_where_none)
  moreover have "count_where (p s) (db_incidents s) = 0"
    unfolding count_where_zero using assms(2) by blast
  ultimately show ?thesis
    using assms(1) by (simp add: tx_update_incidents_def Let_def wf_db_def)
qed

lemma MarkInvestigating_again:
  assumes "wf_db s" and "r \<in> set (db_incidents s)" and "ir_id r = job_incident_id job"
    and "ir_state r = IncidentInvestigating" and "claim_held job (job_incident_id job) s"
  shows "MarkInvestigatingForClaim job t s = (Inl ErrIncidentInactive, s)"
proof -
  have "CheckActiveClaim job s = (Inr (), s)"
    using assms(5) by (auto simp: CheckActiveClaim_def claim_held_def job_incident_active_def claim_row_def)
  moreover have "tx_update_incidents (\<lambda>s q. ir_id q = job_incident_id job \<and>
      (ir_state q = IncidentReceived \<or> ir_state q = IncidentAwaitingAuditEvent) \<and>
      (\<exists>j \<in> set (db_jobs s). claim_row job (job_incident_id job) j)) f s = Inr (0, s)" for f
    using assms(1)
  proof (rule update_incidents_missing)
    fix q assume "q \<in> set (db_incidents s)"
    with distinct_key_eq [OF wf_incident_ids [OF assms(1)] this assms(2)] assms(3,4)
    show "\<not> (ir_id q = job_incident_id job \<and>
      (ir_state q = IncidentReceived \<or> ir_state q = IncidentAwaitingAuditEvent) \<and>
      (\<exists>j \<in> set (db_jobs s). claim_row job (job_incident_id job) j))" by auto
  qed
  ultimately show ?thesis
    by (simp add: MarkInvestigatingForClaim_def run_tx_def)
qed

lemma IncidentByID_wf:
  assumes "wf_db s" and "r \<in> set (db_incidents s)" and "ir_id r = i"
  shows "IncidentByID i s = (Inr (scanIncident r), s)"
proof -
  have "find (\<lambda>q. ir_id q = ir_id r) (db_incidents s) = Some r"
    by (rule find_key [OF wf_incident_ids [OF assms(1)] assms(2)])
  with assms(3) show ?thesis by (simp add: IncidentByID_def)
qed

text \<open>A turn that claims a job of an incident that is under investigation and has its card.\<close>

lemma RunOne_again:
  assumes env: "undisturbed env" and wf: "wf_db (w_db w)"
    and claim: "ClaimNext wid (ev_now (event_of env w)) (w_db w) = (Inr (Some job), s1)"
    and r: "r \<in> set (db_incidents (w_db w))" "ir_id r = job_incident_id job"
      "ir_state r = IncidentInvestigating" "ir_message_id r \<noteq> ''''"
  shows "RunOne (sqlite_worker env wid) w =
    (Inr (), w\<lparr>w_step := Suc (Suc (Suc (w_step w))), w_db := s1\<rparr>)"
proof -
  from ClaimNext_holds [OF wf claim] have s1: "wf_db s1" "claim_held job (job_incident_id job) s1"
    and inc: "db_incidents s1 = db_incidents (w_db w)" by simp_all
  have read: "IncidentByID (job_incident_id job) s1 = (Inr (scanIncident r), s1)"
    using s1(1) r inc by (intro IncidentByID_wf) auto
  have mark: "MarkInvestigatingForClaim job t s1 = (Inl ErrIncidentInactive, s1)" for t
    using r inc s1 by (intro MarkInvestigating_again [of _ r]) auto
  have card: "inc_message_id (scanIncident r) \<noteq> ''''"
    using r(4) by (simp add: scanIncident_def)
  show ?thesis
    using card
    by (simp add: RunOne_def attempt_def sqlite_repo_def repo_call_undisturbed [OF env] claim Let_def
        run_claimed_def read start_investigation_def mark isInactive_def done_ok_def)
qed

text \<open>
  A worker that claims a job of an incident in state
  INVESTIGATING that has its card (the state a failed or crashed attempt leaves behind) reports
  success without collecting evidence, updating the card, completing, retrying or failing
  anything: the only trace of its turn is the claim itself, which runs for another five minutes.
\<close>

theorem second_investigation_does_nothing:
  assumes "undisturbed env" and "wf_db (w_db w)"
    and "ClaimNext wid (ev_now (event_of env w)) (w_db w) = (Inr (Some job), s1)"
    and "r \<in> set (db_incidents (w_db w))" and "ir_id r = job_incident_id job"
    and "ir_state r = IncidentInvestigating" and "ir_message_id r \<noteq> ''''"
    and "RunOne (sqlite_worker env wid) w = (res, w')"
  shows "res = Inr () \<and> w_db w' = s1 \<and> w_log w' = w_log w \<and>
    (\<exists>j \<in> set (db_jobs (w_db w')). jr_id j = job_id job \<and> jr_status j = JobRunning)"
proof -
  from RunOne_again [OF assms(1-7)] assms(8) have "res = Inr ()" "w_db w' = s1" "w_log w' = w_log w"
    by auto
  moreover from ClaimNext_holds [OF assms(2,3)]
  have "\<exists>j \<in> set (db_jobs s1). jr_id j = job_id job \<and> jr_status j = JobRunning"
    by (auto simp: claim_held_def claim_row_def)
  ultimately show ?thesis by simp
qed

text \<open>The poll loop of one worker: any number of turns, the environment moving on.\<close>

fun polls :: "environment \<Rightarrow> string \<Rightarrow> nat \<Rightarrow> world \<Rightarrow> world" where
  "polls env wid 0 w = w"
| "polls env wid (Suc n) w = polls env wid n (snd (RunOne (sqlite_worker env wid) w))"

definition stuck :: "string \<Rightarrow> db \<Rightarrow> bool" where
  "stuck i s \<longleftrightarrow> wf_db s \<and> (\<forall>j \<in> set (db_jobs s). jr_incident_id j = i) \<and>
     (\<exists>r \<in> set (db_incidents s). ir_id r = i \<and> ir_state r = IncidentInvestigating \<and> ir_message_id r \<noteq> '''')"

lemma ClaimNext_cases:
  assumes "wf_db s"
  obtains (idle) "ClaimNext k t s = (Inr None, s)"
    | (claim) job s' j where "ClaimNext k t s = (Inr (Some job), s')" and "j \<in> set (db_jobs s)"
        and "job = claimed_job k t j"
        and "s' = s\<lparr>db_jobs := update_where (\<lambda>q. jr_id q = jr_id j)
                   (claim_job_row k (unix (t + JobLeaseDuration))) (db_jobs s)\<rparr>"
proof (cases "min_by (\<lambda>j. (jr_run_after j, jr_id j)) (claimable_jobs (unix t) s)")
  case None
  then show thesis by (intro idle ClaimNext_none) simp
next
  case (Some j)
  with min_by_in [OF Some] show thesis
    by (intro claim [OF ClaimNext_some [OF assms Some]]) (auto simp: claimable_jobs_def)
qed

lemma RunOne_stuck:
  assumes env: "undisturbed env" and w: "stuck i (w_db w)"
  shows "stuck i (w_db (snd (RunOne (sqlite_worker env wid) w))) \<and>
    w_log (snd (RunOne (sqlite_worker env wid) w)) = w_log w"
proof -
  from w obtain r where r: "r \<in> set (db_incidents (w_db w))" "ir_id r = i"
      "ir_state r = IncidentInvestigating" "ir_message_id r \<noteq> ''''"
    and wf: "wf_db (w_db w)" and jobs: "\<forall>j \<in> set (db_jobs (w_db w)). jr_incident_id j = i"
    by (auto simp: stuck_def)
  from wf show ?thesis
  proof (rule ClaimNext_cases [where k = wid and t = "ev_now (event_of env w)"])
    assume "ClaimNext wid (ev_now (event_of env w)) (w_db w) = (Inr None, w_db w)"
    then have "RunOne (sqlite_worker env wid) w = (Inr (), w\<lparr>w_step := Suc (w_step w)\<rparr>)"
      by (simp add: RunOne_def attempt_def sqlite_repo_def repo_call_undisturbed [OF env] Let_def done_ok_def)
    with w show ?thesis by simp
  next
    fix job s' j
    assume claim: "ClaimNext wid (ev_now (event_of env w)) (w_db w) = (Inr (Some job), s')"
      and j: "j \<in> set (db_jobs (w_db w))" and job: "job = claimed_job wid (ev_now (event_of env w)) j"
      and s': "s' = (w_db w)\<lparr>db_jobs := update_where (\<lambda>q. jr_id q = jr_id j)
           (claim_job_row wid (unix (ev_now (event_of env w) + JobLeaseDuration))) (db_jobs (w_db w))\<rparr>"
    have "ir_id r = job_incident_id job"
      using r(2) j jobs by (simp add: job claimed_job_def scanJob_def)
    note run = RunOne_again [OF env wf claim r(1) this r(3,4)]
    have "\<forall>q \<in> set (db_jobs s'). jr_incident_id q = i"
      using jobs by (auto simp: s' claim_job_row_def elim!: update_whereE)
    moreover from ClaimNext_holds [OF wf claim] r
    have "wf_db s'" "r \<in> set (db_incidents s')" by simp_all
    ultimately have "stuck i s'" using r unfolding stuck_def by blast
    with run show ?thesis by simp
  qed
qed

text \<open>
  C19 (interrupted_incident_never_finishes). If the only incident with jobs is INVESTIGATING with
  its card, then after any number of further turns of the worker, at any times and with any
  answers of the services, it still is INVESTIGATING and no card was sent: the attempt limit of
  three is never applied and the alert is never answered.
\<close>

theorem interrupted_incident_never_finishes:
  assumes "undisturbed env" and "wf_db (w_db w)"
    and "\<forall>j \<in> set (db_jobs (w_db w)). jr_incident_id j = i"
    and "r \<in> set (db_incidents (w_db w))" and "ir_id r = i"
    and "ir_state r = IncidentInvestigating" and "ir_message_id r \<noteq> ''''"
  shows "(\<exists>r' \<in> set (db_incidents (w_db (polls env wid n w))).
      ir_id r' = i \<and> ir_state r' = IncidentInvestigating) \<and>
    w_log (polls env wid n w) = w_log w"
proof -
  have "stuck i (w_db w) \<Longrightarrow> stuck i (w_db (polls env wid n w)) \<and> w_log (polls env wid n w) = w_log w"
    for w
  proof (induction n arbitrary: w)
    case (Suc n)
    from RunOne_stuck [OF assms(1) Suc.prems, of wid] Suc.IH show ?case by simp
  qed simp
  moreover have "stuck i (w_db w)" using assms unfolding stuck_def by blast
  ultimately show ?thesis unfolding stuck_def by blast
qed

end
