(* ===== verification/GatewayStore.thy ===== *)
theory GatewayStore
  imports Gateway WorkerProps StoreOutcomes
begin

text \<open>
  What the gateway promises over its collaborators. The locale \<^theory_text>\<open>gateway_services\<close> states
  what a handler needs of the repository, the notifier and the capture: each call keeps a state
  predicate and a relation on worlds, and a recovery that names an incident leaves it recovered.
  Inside it every request keeps both. The locale is interpreted on the repository of
  \<^theory_text>\<open>Store\<close> in an arbitrary environment, the same one the worker runs in, so that gateway
  and worker share the database. Without interference an alert gets exactly one job, and a job
  that could not be queued is never queued by later deliveries.
\<close>

section \<open>The interface\<close>

locale gateway_services =
  fixes gw :: "'w gateway" and ok :: "'w \<Rightarrow> bool" and R :: "'w \<Rightarrow> 'w \<Rightarrow> bool"
    and recovered :: "string \<Rightarrow> 'w \<Rightarrow> bool"
  assumes R_refl: "R w w"
    and R_trans: "R w w' \<Longrightarrow> R w' w'' \<Longrightarrow> R w w''"
    and k_create: "gt_repo gw = Some repo \<Longrightarrow> inc_state inc = IncidentReceived \<Longrightarrow>
      keeps ok R (gr_CreateOrGetIncident repo inc) w"
    and k_enqueue: "gt_repo gw = Some repo \<Longrightarrow> keeps ok R (gr_Enqueue repo i t) w"
    and k_recover: "gt_repo gw = Some repo \<Longrightarrow> keeps ok R (gr_Recover repo key t) w"
    and recover_done: "gt_repo gw = Some repo \<Longrightarrow> ok w \<Longrightarrow>
      gr_Recover repo key t w = (Inr (inc, done), w') \<Longrightarrow> done \<or> inc_id inc \<noteq> '''' \<Longrightarrow>
      recovered (inc_id inc) w'"
    and k_notify: "gt_notifier gw = Some notify \<Longrightarrow> recovered (inc_id inc) w \<Longrightarrow>
      keeps ok R (notify m inc recovery_result) w"
    and k_save: "keeps ok R (gt_save gw dir raw) w"
begin

lemma keep_recovery:
  assumes "gt_repo gw = Some repo"
  shows "keeps ok R (handle_recovery repo (gt_notifier gw) inc t) w"
proof (rule keepsI)
  fix resp w'
  assume w: "ok w" and run: "handle_recovery repo (gt_notifier gw) inc t w = (resp, w')"
  obtain q w1 where q: "gr_Recover repo (inc_key inc) t w = (q, w1)" by fastforce
  note r1 = keepsD [OF k_recover [OF assms] w q]
  consider (stop) "w' = w1"
    | (notified) i b notify u where "q = Inr (i, b)" "b \<or> inc_id i \<noteq> ''''" "gt_notifier gw = Some notify"
        "notify (inc_message_id i) i recovery_result w1 = (u, w')"
    using run q unfolding handle_recovery_def
    by (auto simp: recovery_result_def [symmetric] split: sum.splits prod.splits option.splits if_splits)
  then show "ok w' \<and> R w w'"
  proof cases
    case notified
    have "recovered (inc_id i) w1"
      using recover_done [OF assms w] q notified(1,2) by blast
    from keepsD [OF k_notify [OF notified(3) this]] r1 notified(4) show ?thesis
      by (blast intro: R_trans)
  qed (use r1 in simp)
qed

lemma keep_alert:
  assumes "gt_repo gw = Some repo" and "inc_state inc = IncidentReceived"
  shows "keeps ok R (handle_alert repo inc t) w"
proof (rule keepsI)
  fix resp w'
  assume w: "ok w" and run: "handle_alert repo inc t w = (resp, w')"
  obtain q w1 where q: "gr_CreateOrGetIncident repo inc w = (q, w1)" by fastforce
  note r1 = keepsD [OF k_create [OF assms] w q]
  consider (stop) "w' = w1" | (queued) i u where "gr_Enqueue repo i t w1 = (u, w')"
    using run q unfolding handle_alert_def by (auto split: sum.splits prod.splits if_splits)
  then show "ok w' \<and> R w w'"
  proof cases
    case queued
    with keepsD [OF k_enqueue [OF assms(1)], of w1 i t] r1 show ?thesis by (blast intro: R_trans)
  qed (use r1 in simp)
qed

lemma keep_ingress:
  assumes "gt_repo gw = Some repo"
  shows "keeps ok R (cloudmonitor_ingress gw repo r) w"
proof (rule keepsI)
  fix resp w'
  assume w: "ok w" and run: "cloudmonitor_ingress gw repo r w = (resp, w')"
  consider "w' = w" | inc t where "handle_recovery repo (gt_notifier gw) inc t w = (resp, w')"
    | inc t where "inc_state inc = IncidentReceived" "handle_alert repo inc t w = (resp, w')"
    using run unfolding cloudmonitor_ingress_def
    by (auto simp: Let_def split: if_splits sum.splits) (metis NewIncident_state)
  then show "ok w' \<and> R w w'"
    by cases (use w keepsD [OF keep_recovery [OF assms] w] keepsD [OF keep_alert [OF assms] w] in \<open>auto simp: R_refl\<close>)
qed

lemma keep_capture: "keeps ok R (capture_handler gw r) w"
proof (rule keepsI)
  fix resp w'
  assume w: "ok w" and run: "capture_handler gw r w = (resp, w')"
  consider "w' = w" | raw u where "gt_save gw (gt_capture_dir gw) raw w = (u, w')"
    using run unfolding capture_handler_def by (auto split: if_splits sum.splits prod.splits)
  then show "ok w' \<and> R w w'"
    by cases (use w keepsD [OF k_save w] in \<open>auto simp: R_refl\<close>)
qed

lemma keep_request: "keeps ok R (newGateway gw r) w"
proof (rule keepsI)
  fix resp w'
  assume w: "ok w" and "newGateway gw r w = (resp, w')"
  from this(2) show "ok w' \<and> R w w'"
    by (cases rule: newGateway_cases)
      (use w keepsD [OF keep_ingress w] keepsD [OF keep_capture w] in \<open>auto simp: R_refl\<close>)
qed

end

section \<open>The gateway on the store\<close>

definition sqlite_gateway_repo :: "environment \<Rightarrow> world incidentRepository" where
  "sqlite_gateway_repo env =
     \<lparr>gr_CreateOrGetIncident = (\<lambda>inc. repo_call env (\<lambda>e. CreateOrGetIncident inc)),
      gr_Enqueue = (\<lambda>i t. repo_call env (\<lambda>e. Enqueue (ev_fresh e) i t)),
      gr_Recover = (\<lambda>key t. repo_call env (\<lambda>e. Recover key t))\<rparr>"

text \<open>
  The configuration: the token, the capture directory, whether a notifier exists, and what the
  capture answers (its files are not part of this world).
\<close>

record gateway_config =
  gc_token :: string
  gc_capture_dir :: string
  gc_notify :: bool
  gc_save :: "string \<Rightarrow> string \<Rightarrow> string res"

definition sqlite_gateway :: "gateway_config \<Rightarrow> environment \<Rightarrow> world gateway" where
  "sqlite_gateway c env =
     \<lparr>gt_token = gc_token c, gt_capture_dir = gc_capture_dir c,
      gt_repo = Some (sqlite_gateway_repo env),
      gt_notifier = (if gc_notify c then Some (send_update env) else None),
      gt_save = (\<lambda>dir raw w. (gc_save c dir raw, w)),
      gt_fresh = (\<lambda>w. ev_fresh (event_of env w)), gt_now = (\<lambda>w. ev_now (event_of env w))\<rparr>"

lemma Recover_recovered:
  assumes "wf_db s" and "Recover key t s = (Inr (inc, d), s')" and "d \<or> inc_id inc \<noteq> ''''"
  shows "recovered_in (inc_id inc) s'"
proof (cases "recover_target key t s")
  case None
  with assms(2,3) show ?thesis by (auto simp: Recover_def tx_defs zero_incident_def)
next
  case (Some r)
  note r = recover_target_in [OF Some]
  show ?thesis
  proof (cases "ir_state r = IncidentRecovered")
    case True
    with assms(2) Some have "inc = scanIncident r" "s' = s" by (auto simp: Recover_def tx_defs)
    with True r show ?thesis by (auto simp: recovered_in_def scanIncident_def)
  next
    case False
    let ?r = "set_state IncidentRecovered (unix t) r"
    have "?r \<in> set (update_where (\<lambda>q. ir_id q = ir_id r) (set_state IncidentRecovered (unix t)) (db_incidents s))"
      using r by (auto simp: set_update_where intro!: bexI [of _ r])
    moreover have "db_incidents s' = update_where (\<lambda>q. ir_id q = ir_id r)
        (set_state IncidentRecovered (unix t)) (db_incidents s)" "inc_id inc = ir_id r"
      using Recover_effect [OF assms(1) Some False] assms(2) by (auto simp: scanIncident_def)
    ultimately show ?thesis
      unfolding recovered_in_def by (intro bexI [of _ ?r]) auto
  qed
qed

lemma notify_keeps:
  assumes "recovered_in (inc_id inc) (w_db w)"
  shows "keeps w_ok (w_le wid) (send_update env m inc recovery_result) w"
proof (rule keepsI)
  fix r w'
  assume w: "w_ok w" and "send_update env m inc recovery_result w = (r, w')"
  then have "w_db w' = w_db (disturb env w)" "w_locked w' = w_locked w"
    "w_log w' = w_log w @ [Updated m inc recovery_result (w_db (disturb env w))]"
    by (auto simp: send_update_def Let_def)
  moreover have "recovered_in (inc_id inc) (w_db (disturb env w))"
    using assms disturb_keeps [OF w, of env wid] by (auto simp: w_le_def intro: recovered_in_mono)
  ultimately show "w_ok w' \<and> w_le wid w w'"
    using disturb_keeps [OF w, of env wid] by (auto simp: w_ok_def w_le_def)
qed

interpretation sg: gateway_services "sqlite_gateway c env" w_ok "w_le wid"
  "\<lambda>i w. recovered_in i (w_db w)" for c env wid
proof (unfold_locales, goal_cases)
  case (1 w) show ?case by simp
next
  case 2 then show ?case by (rule w_le_trans)
next
  case (6 repo w key t inc d w')
  then have call: "repo_call env (\<lambda>e. Recover key t) w = (Inr (inc, d), w')"
    by (auto simp: sqlite_gateway_def sqlite_gateway_repo_def)
  have "wf_db (w_db (disturb env w))"
    using disturb_keeps [OF 6(2), of env wid] by (simp add: w_ok_def)
  with repo_call_Inr [OF call] 6(4) show ?case by (auto intro: Recover_recovered)
next
  case 7 then show ?case by (auto simp: sqlite_gateway_def notify_keeps split: if_splits)
next
  case 8 then show ?case by (rule keepsI) (auto simp: sqlite_gateway_def)
qed (auto simp: sqlite_gateway_def sqlite_gateway_repo_def incident_states_def
      intro!: repo_call_keeps CreateOrGetIncident_step Enqueue_step Recover_step)

text \<open>
  C28 (gateway_cards_tell_recoveries). Whatever other processes do between its calls, whatever
  fails and whatever the request, the gateway keeps the database well-formed and moves incidents
  and jobs forward only, and every card it sends tells the recovery of an incident that is
  recovered in the database at that moment.
\<close>

theorem gateway_cards_tell_recoveries:
  assumes "wf_db (w_db w)" and "\<not> w_locked w"
    and "newGateway (sqlite_gateway c env) r w = (resp, w')"
  shows "wf_db (w_db w') \<and> db_le (w_db w) (w_db w') \<and>
    (\<exists>new. w_log w' = w_log w @ new \<and>
       (\<forall>m inc res s. Updated m inc res s \<in> set new \<longrightarrow>
          res = recovery_result \<and>
          (\<exists>row \<in> set (db_incidents s). ir_id row = inc_id inc \<and> ir_state row = IncidentRecovered)))"
proof -
  have w: "w_ok w" using assms(1,2) by (simp add: w_ok_def)
  note keep = keepsD [OF sg.keep_request w assms(3)]
  from keep obtain new where new: "w_log w' = w_log w @ new" by (auto simp: w_le_def)
  have just: "justified wid e" if "e \<in> set new" for wid e
    using keep [of wid] new that by (auto simp: w_le_def)
  have "res = recovery_result \<and> recovered_in (inc_id inc) s"
    if "Updated m inc res s \<in> set new" for m inc res s
  proof -
    obtain wid where "wid \<notin> jr_worker_id ` set (db_jobs s)"
      using ex_new_if_finite [OF infinite_UNIV_listI] by (metis finite_imageI finite_set)
    then have "\<not> leased_to wid (inc_id inc) s" by (auto simp: leased_to_def)
    with just [OF that, of wid] show ?thesis by simp
  qed
  with keep new show ?thesis
    unfolding recovered_in_def w_ok_def w_le_def by blast
qed


section \<open>Alerts without interference\<close>

text \<open>A request the ingress accepts, and the event it carries.\<close>

definition delivers :: "string \<Rightarrow> request \<Rightarrow> CloudMonitorEvent \<Rightarrow> bool" where
  "delivers callbackToken r ev \<longleftrightarrow>
     rq_path r = ingress_path \<and> rq_method r = ''POST'' \<and> rq_token r = callbackToken \<and>
     length (rq_body r) \<le> maxCallbackBytes \<and> rq_body_error r = None \<and>
     ParseCloudMonitorEvent (rq_body r) = Inr ev"

definition candidate :: "string \<Rightarrow> time \<Rightarrow> Alert \<Rightarrow> Incident" where
  "candidate k now al = NewIncident k now (al_workspace al) (al_rule_id al) (al_resource_id al) (al_event_at al)"

definition alert_key :: "Alert \<Rightarrow> string" where
  "alert_key al = incident_key (al_workspace al) (al_rule_id al) (al_resource_id al)"

lemma delivers_alert:
  assumes "delivers (gc_token c) r ev" and "cm_transition ev = AlertOccurred"
  shows "newGateway (sqlite_gateway c env) r w =
    handle_alert (sqlite_gateway_repo env)
      (candidate (ev_fresh (event_of env w)) (ev_now (event_of env w)) (cm_alert ev))
      (al_event_at (cm_alert ev)) w"
  using assms
  by (simp add: delivers_def newGateway_def post_only_def ingress_path_def cloudmonitor_ingress_def
      authorized_def read_body_def sqlite_gateway_def candidate_def Let_def AlertOccurred_def AlertRecovered_def)

lemma calm_repo_call:
  assumes "ev_ops (event_of env w) = []"
  shows "repo_call env f w =
    (case ev_fault (event_of env w) of
       None \<Rightarrow> (fst (f (event_of env w) (w_db w)),
                w\<lparr>w_step := Suc (w_step w), w_db := snd (f (event_of env w) (w_db w))\<rparr>)
     | Some (effect, err) \<Rightarrow> (Inl err, w\<lparr>w_step := Suc (w_step w),
          w_db := (if effect then snd (f (event_of env w) (w_db w)) else w_db w)\<rparr>))"
  using assms
  by (auto simp: repo_call_def disturb_def Let_def run_ops_def split: prod.splits option.splits)

definition opened_row :: "string \<Rightarrow> time \<Rightarrow> Alert \<Rightarrow> incident_row" where
  "opened_row k now al =
     \<lparr>ir_id = k, ir_key = alert_key al, ir_workspace = al_workspace al, ir_rule_id = al_rule_id al,
      ir_resource_id = al_resource_id al, ir_state = IncidentReceived, ir_message_id = '''',
      ir_alert_at = unix (al_event_at al), ir_created_at = unix now, ir_updated_at = unix now\<rparr>"

lemma create_candidate:
  assumes "wf_db s" and "k \<notin> set (map ir_id (db_incidents s))"
  shows "CreateOrGetIncident (candidate k now al) s =
    (case active_by_key (alert_key al) s of
       Some r \<Rightarrow> (Inr (scanIncident r, False), s)
     | None \<Rightarrow> (Inr (candidate k now al, True), s\<lparr>db_incidents := db_incidents s @ [opened_row k now al]\<rparr>))"
proof -
  have cols: "incident_columns (candidate k now al) = opened_row k now al"
    by (simp add: incident_columns_def candidate_def opened_row_def alert_key_def NewIncident_def)
  have key: "inc_key (candidate k now al) = alert_key al" "inc_id (candidate k now al) = k"
    "is_active (inc_state (candidate k now al))"
    by (simp_all add: candidate_def alert_key_def NewIncident_def)
  show ?thesis
    using insert_active_incident [OF assms(1), of "candidate k now al"] assms(2)
    by (auto simp: CreateOrGetIncident_def run_tx_def key cols split: option.splits)
qed


lemma enqueue_fresh:
  assumes "k \<notin> set (map jr_id (db_jobs s))"
  shows "Enqueue k i t s = (Inr (), s\<lparr>db_jobs := db_jobs s @ [job_columns (NewJob k i t)]\<rparr>)"
  using assms
  by (simp add: Enqueue_def run_tx_def tx_insert_job_def job_columns_def NewJob_def del: set_map)

lemma gateway_repo_simps [simp]:
  "gr_CreateOrGetIncident (sqlite_gateway_repo env) inc = repo_call env (\<lambda>e. CreateOrGetIncident inc)"
  "gr_Enqueue (sqlite_gateway_repo env) i t = repo_call env (\<lambda>e. Enqueue (ev_fresh e) i t)"
  by (simp_all add: sqlite_gateway_repo_def)

lemma scanIncident_id [simp]: "inc_id (scanIncident r) = ir_id r"
  by (simp add: scanIncident_def)

lemma candidate_id [simp]: "inc_id (candidate k now al) = k"
  by (simp add: candidate_def NewIncident_def)

lemma undisturbed_events:
  "undisturbed env \<Longrightarrow> ev_ops (event_of env w) = [] \<and> ev_fault (event_of env w) = None"
  by (simp add: undisturbed_def event_of_def)

text \<open>A repeated alert.\<close>

lemma duplicate_alert:
  assumes "wf_db (w_db w)" and "undisturbed env" and "ev_fresh (event_of env w) \<notin> set (map ir_id (db_incidents (w_db w)))"
    and "active_by_key (alert_key al) (w_db w) = Some row"
  shows "handle_alert (sqlite_gateway_repo env) (candidate (ev_fresh (event_of env w)) now al) t w =
    (incident_response (ir_id row) True, w\<lparr>w_step := Suc (w_step w)\<rparr>)"
  using assms(4) undisturbed_events [OF assms(2), of w] create_candidate [OF assms(1,3), of now al]
  by (simp add: handle_alert_def calm_repo_call)

text \<open>A new alert, in full.\<close>

lemma new_alert_world:
  assumes "wf_db (w_db w)" and "undisturbed env"
    and "delivers (gc_token c) r ev" and "cm_transition ev = AlertOccurred"
    and "ev_fresh (event_of env w) \<notin> set (map ir_id (db_incidents (w_db w)))"
    and "ev_fresh (en_event env (Suc (w_step w))) \<notin> set (map jr_id (db_jobs (w_db w)))"
    and "active_by_key (alert_key (cm_alert ev)) (w_db w) = None"
  shows "newGateway (sqlite_gateway c env) r w =
    (incident_response (ev_fresh (event_of env w)) False,
     w\<lparr>w_step := Suc (Suc (w_step w)),
       w_db := (w_db w)\<lparr>
         db_incidents := db_incidents (w_db w) @
           [opened_row (ev_fresh (event_of env w)) (ev_now (event_of env w)) (cm_alert ev)],
         db_jobs := db_jobs (w_db w) @
           [job_columns (NewJob (ev_fresh (en_event env (Suc (w_step w)))) (ev_fresh (event_of env w))
              (al_event_at (cm_alert ev)))]\<rparr>\<rparr>)"
proof -
  let ?w1 = "w\<lparr>w_step := Suc (w_step w),
    w_db := (w_db w)\<lparr>db_incidents := db_incidents (w_db w) @
      [opened_row (ev_fresh (event_of env w)) (ev_now (event_of env w)) (cm_alert ev)]\<rparr>\<rparr>"
  have "event_of env ?w1 = en_event env (Suc (w_step w))" by (simp add: event_of_def)
  then show ?thesis
    using create_candidate [OF assms(1,5), of "ev_now (event_of env w)" "cm_alert ev"] assms(6,7) enqueue_fresh
      undisturbed_events [OF assms(2), of w] undisturbed_events [OF assms(2), of ?w1]
    by (simp add: delivers_alert [OF assms(3,4)] handle_alert_def calm_repo_call)
qed

text \<open>
  C26 (new_alert_gets_one_job). Without interference, a delivery of an alert whose key has an
  active incident is answered as a duplicate of it and leaves the database as it was; any other
  delivery is answered with the id of a new incident, and adds to the database that incident,
  received, and exactly one job for it, queued to run from the time of the alert, nothing else.
\<close>

theorem new_alert_gets_one_job:
  assumes "wf_db (w_db w)" and "undisturbed env"
    and "delivers (gc_token c) r ev" and "cm_transition ev = AlertOccurred"
    and "ev_fresh (event_of env w) \<notin> set (map ir_id (db_incidents (w_db w)))"
    and "ev_fresh (en_event env (Suc (w_step w))) \<notin> set (map jr_id (db_jobs (w_db w)))"
    and "newGateway (sqlite_gateway c env) r w = (resp, w')"
  shows "case find (\<lambda>row. ir_key row = alert_key (cm_alert ev) \<and> is_active (ir_state row)) (db_incidents (w_db w)) of
      Some row \<Rightarrow> resp = incident_response (ir_id row) True \<and> w_db w' = w_db w
    | None \<Rightarrow>
        (\<exists>row job. resp = incident_response (ir_id row) False \<and>
           w_db w' = (w_db w)\<lparr>db_incidents := db_incidents (w_db w) @ [row], db_jobs := db_jobs (w_db w) @ [job]\<rparr> \<and>
           ir_key row = alert_key (cm_alert ev) \<and> ir_state row = IncidentReceived \<and>
           ir_alert_at row = unix (al_event_at (cm_alert ev)) \<and>
           jr_incident_id job = ir_id row \<and> jr_status job = JobQueued \<and> jr_attempt job = 0 \<and>
           jr_run_after job = unix (al_event_at (cm_alert ev)))"
proof -
  let ?al = "cm_alert ev"
  let ?k = "ev_fresh (event_of env w)" and ?now = "ev_now (event_of env w)"
  have run: "handle_alert (sqlite_gateway_repo env) (candidate ?k ?now ?al) (al_event_at ?al) w = (resp, w')"
    using assms(7) by (simp add: delivers_alert [OF assms(3,4)])
  show ?thesis
  proof (cases "active_by_key (alert_key ?al) (w_db w)")
    case (Some row)
    with duplicate_alert [OF assms(1,2,5) Some] run show ?thesis
      by (auto simp: active_by_key_def)
  next
    case None
    let ?row = "opened_row ?k ?now ?al"
    let ?job = "job_columns (NewJob (ev_fresh (en_event env (Suc (w_step w)))) ?k (al_event_at ?al))"
    from new_alert_world [OF assms(1-6) None] assms(7) None show ?thesis
      unfolding active_by_key_def
      by (auto simp: opened_row_def job_columns_def NewJob_def intro!: exI [of _ ?row] exI [of _ ?job])
  qed
qed

text \<open>
  C27 (lost_enqueue_is_never_repaired). Opening the incident and queueing its job are two
  transactions. When the second one fails, the delivery is answered 500, but the incident stays
  open without a job, and every later delivery of the alert, even by a healthy gateway, is
  answered 202 as a duplicate and still queues nothing.
\<close>

theorem lost_enqueue_is_never_repaired:
  assumes "wf_db (w_db w)" and "delivers (gc_token c) r ev" and "cm_transition ev = AlertOccurred"
    and "active_by_key (alert_key (cm_alert ev)) (w_db w) = None"
    and "ev_ops (event_of env w) = []" and "ev_fault (event_of env w) = None"
    and "ev_fresh (event_of env w) = k" and "k \<notin> set (map ir_id (db_incidents (w_db w)))"
    and "k \<notin> set (map jr_incident_id (db_jobs (w_db w)))"
    and "ev_ops (en_event env (Suc (w_step w))) = []"
    and "ev_fault (en_event env (Suc (w_step w))) = Some (False, err)"
    and "newGateway (sqlite_gateway c env) r w = (resp, w')"
  shows "resp = error_response 500 ''queue incident'' \<and> incident_active (w_db w') k \<and>
    k \<notin> set (map jr_incident_id (db_jobs (w_db w'))) \<and>
    (\<forall>env' r' ev' wl resp' w''.
       delivers (gc_token c) r' ev' \<and> cm_transition ev' = AlertOccurred \<and>
       alert_key (cm_alert ev') = alert_key (cm_alert ev) \<and>
       undisturbed env' \<and> w_db wl = w_db w' \<and>
       ev_fresh (event_of env' wl) \<notin> set (map ir_id (db_incidents (w_db w'))) \<and>
       newGateway (sqlite_gateway c env') r' wl = (resp', w'') \<longrightarrow>
         resp' = incident_response k True \<and> w_db w'' = w_db w')"
proof -
  let ?al = "cm_alert ev" and ?now = "ev_now (event_of env w)"
  let ?row = "opened_row k ?now ?al"
  let ?s = "(w_db w)\<lparr>db_incidents := db_incidents (w_db w) @ [?row]\<rparr>"
  let ?w1 = "w\<lparr>w_step := Suc (w_step w), w_db := ?s\<rparr>"
  have k: "ev_fresh (event_of env w) \<notin> set (map ir_id (db_incidents (w_db w)))" using assms(7,8) by simp
  have run: "handle_alert (sqlite_gateway_repo env) (candidate k ?now ?al) (al_event_at ?al) w = (resp, w')"
    using assms(12) by (simp add: delivers_alert [OF assms(2,3)] assms(7))
  have next_event: "event_of env ?w1 = en_event env (Suc (w_step w))" by (simp add: event_of_def)
  have res: "resp = error_response 500 ''queue incident'' \<and> w_db w' = ?s"
    using run create_candidate [OF assms(1,8), of ?now ?al] assms(4-6,10,11)
    by (auto simp: handle_alert_def calm_repo_call next_event)
  have "db_step (w_db w) ?s"
    using CreateOrGetIncident_step [of "candidate k ?now ?al" "w_db w"] create_candidate [OF assms(1,8), of ?now ?al] assms(4)
    by (simp add: candidate_def incident_states_def)
  with assms(1) have wf: "wf_db ?s" by (simp add: db_step_def)
  have act: "active_by_key (alert_key ?al) ?s = Some ?row"
    using assms(4) by (simp add: active_by_key_def find_snoc opened_row_def)
  have later: "resp' = incident_response k True \<and> w_db w'' = w_db w'"
    if d: "delivers (gc_token c) r' ev'" "cm_transition ev' = AlertOccurred"
      and key: "alert_key (cm_alert ev') = alert_key ?al" and env': "undisturbed env'" and wl: "w_db wl = w_db w'"
      and fr: "ev_fresh (event_of env' wl) \<notin> set (map ir_id (db_incidents (w_db w')))"
      and g: "newGateway (sqlite_gateway c env') r' wl = (resp', w'')" for env' r' ev' wl resp' w''
  proof -
    have s: "w_db wl = ?s" using res wl by simp
    have "handle_alert (sqlite_gateway_repo env') (candidate (ev_fresh (event_of env' wl)) (ev_now (event_of env' wl)) (cm_alert ev'))
        (al_event_at (cm_alert ev')) wl = (incident_response (ir_id ?row) True, wl\<lparr>w_step := Suc (w_step wl)\<rparr>)"
      using fr wl act key wf s by (intro duplicate_alert [OF _ env']) simp_all
    with g wl show ?thesis by (auto simp: delivers_alert [OF d] opened_row_def)
  qed
  have "?row \<in> set (db_incidents ?s)" "ir_id ?row = k" "is_active (ir_state ?row)"
    by (simp_all add: opened_row_def)
  then have "incident_active ?s k" unfolding incident_active_def by blast
  moreover have "k \<notin> set (map jr_incident_id (db_jobs ?s))" using assms(9) by simp
  ultimately have now: "resp = error_response 500 ''queue incident''" "incident_active (w_db w') k"
    "k \<notin> set (map jr_incident_id (db_jobs (w_db w')))"
    using res by simp_all
  show ?thesis
    by (intro conjI now allI impI; elim conjE; drule (6) later; simp)
qed

end
