(* ===== verification/WorkerSettle.thy ===== *)
theory WorkerSettle
  imports WorkerProps
begin

text \<open>
  A turn of the worker without interference settles its claim: whatever the services answer, at
  the end the claimed job is queued again, completed or failed. First what each operation does
  when the claim is held, then each stage of the turn.
\<close>

section \<open>Operations under a held claim\<close>

lemma claim_held_incidents:
  assumes "claim_held job i s"
    and "\<And>r. ir_id (f r) = ir_id r" and "\<And>r. is_active (ir_state r) \<Longrightarrow> is_active (ir_state (f r))"
  shows "claim_held job i (s\<lparr>db_incidents := update_where p f (db_incidents s)\<rparr>)"
proof -
  from assms(1) obtain r where r: "r \<in> set (db_incidents s)" "ir_id r = i" "is_active (ir_state r)"
    by (auto simp: claim_held_def incident_active_def)
  let ?r = "if p r then f r else r"
  have "?r \<in> set (update_where p f (db_incidents s))" "ir_id ?r = i" "is_active (ir_state ?r)"
    using r assms(2,3) by (auto simp: set_update_where)
  with assms(1) show ?thesis unfolding claim_held_def incident_active_def by auto
qed

lemma touch_claim_ok:
  assumes "wf_db s" and "claim_held job (job_incident_id job) s"
  shows "touch_claim job s = Inr (Suc 0, s)"
proof -
  from assms(2) obtain j where j: "j \<in> set (db_jobs s)" "claim_row job (job_incident_id job) j"
    and "incident_active s (job_incident_id job)" by (auto simp: claim_held_def)
  then have "tx_update_jobs (\<lambda>s j. claim_row job (job_incident_id job) j \<and> job_incident_active s j)
      (\<lambda>j. j) s = Inr (Suc 0, s\<lparr>db_jobs := update_where (\<lambda>q. jr_id q = jr_id j) (\<lambda>j. j) (db_jobs s)\<rparr>)"
    by (intro update_job_effect [OF assms(1)]) (auto simp: claim_row_def job_incident_active_def)
  then show ?thesis by (simp add: touch_claim_def)
qed

lemma update_incident_effect:
  assumes "wf_db s" and "r \<in> set (db_incidents s)" and "p s r" and "\<And>q. p s q \<Longrightarrow> ir_id q = ir_id r"
    and "\<And>q. ir_id (f q) = ir_id q \<and> ir_key (f q) = ir_key q"
    and "is_active (ir_state r)"
  shows "tx_update_incidents p f s =
    Inr (Suc 0, s\<lparr>db_incidents := update_where (\<lambda>q. ir_id q = ir_id r) f (db_incidents s)\<rparr>)"
proof -
  have p: "p s q \<longleftrightarrow> ir_id q = ir_id r" if "q \<in> set (db_incidents s)" for q
    using that assms(2-4) distinct_key_eq [OF wf_incident_ids [OF assms(1)], of q r] by metis
  then have "update_where (p s) f (db_incidents s) = update_where (\<lambda>q. ir_id q = ir_id r) f (db_incidents s)"
    by (rule update_where_cong)
  moreover have "count_where (p s) (db_incidents s) = Suc 0"
    by (rule count_incident [OF assms(1,2), where i = "ir_id r"]) (rule assms(3), rule assms(4))
  moreover have "tx_update_incidents p f s =
     Inr (count_where (p s) (db_incidents s), s\<lparr>db_incidents := update_where (p s) f (db_incidents s)\<rparr>)"
    using assms(1)
  proof (rule update_incidents_ok)
    fix q assume "q \<in> set (db_incidents s)" and "p s q"
    with p assms(2) distinct_key_eq [OF wf_incident_ids [OF assms(1)]] have "q = r" by metis
    with assms(5,6) show "ir_id (f q) = ir_id q \<and> ir_key (f q) = ir_key q \<and>
        (is_active (ir_state (f q)) \<longrightarrow> is_active (ir_state q))" by simp
  qed
  ultimately show ?thesis by simp
qed

lemma held_row:
  assumes "claim_held job i s"
  obtains r where "r \<in> set (db_incidents s)" and "ir_id r = i" and "is_active (ir_state r)"
  using assms by (auto simp: claim_held_def incident_active_def)

lemma card_fence_ok:
  assumes "wf_db s" and "claim_held job (job_incident_id job) s"
  shows "\<exists>inc. card_fence job s = Inr (inc, s)"
proof -
  let ?i = "job_incident_id job"
  obtain r where r: "r \<in> set (db_incidents s)" "ir_id r = ?i" "is_active (ir_state r)"
    using assms(2) by (rule held_row)
  then obtain q where q: "find (\<lambda>r. ir_id r = ?i \<and> is_active (ir_state r)) (db_incidents s) = Some q"
    using find_None_iff_all [of "\<lambda>r. ir_id r = ?i \<and> is_active (ir_state r)" "db_incidents s"]
    by (metis option.exhaust)
  have "tx_update_incidents (\<lambda>s r. ir_id r = ?i \<and> is_active (ir_state r)) (\<lambda>r. r) s = Inr (Suc 0, s)"
    using update_incident_effect [OF assms(1) r(1), of "\<lambda>s r. ir_id r = ?i \<and> is_active (ir_state r)"
        "\<lambda>r. r"] r by simp
  with q touch_claim_ok [OF assms] show ?thesis
    by (simp add: card_fence_def tx_defs leaseRow_def activeRow_def)
qed

lemma MarkInvestigating_ok:
  assumes "wf_db s" and "claim_held job (job_incident_id job) s"
    and "r \<in> set (db_incidents s)" and "ir_id r = job_incident_id job"
    and "ir_state r = IncidentReceived \<or> ir_state r = IncidentAwaitingAuditEvent"
  shows "MarkInvestigatingForClaim job t s = (Inr (), s\<lparr>db_incidents :=
    update_where (\<lambda>q. ir_id q = job_incident_id job) (set_state IncidentInvestigating (unix t))
      (db_incidents s)\<rparr>)"
proof -
  have "tx_update_incidents (\<lambda>s r. ir_id r = job_incident_id job \<and>
      (ir_state r = IncidentReceived \<or> ir_state r = IncidentAwaitingAuditEvent) \<and>
      (\<exists>j \<in> set (db_jobs s). claim_row job (job_incident_id job) j))
      (set_state IncidentInvestigating (unix t)) s =
    Inr (Suc 0, s\<lparr>db_incidents := update_where (\<lambda>q. ir_id q = ir_id r)
      (set_state IncidentInvestigating (unix t)) (db_incidents s)\<rparr>)"
    using assms by (intro update_incident_effect) (auto simp: claim_held_def)
  with assms(4) show ?thesis by (simp add: MarkInvestigatingForClaim_def run_tx_def)
qed

lemma SetMessage_ok:
  assumes "wf_db s" and "claim_held job (job_incident_id job) s" and "m \<noteq> ''''"
    and "r \<in> set (db_incidents s)" and "ir_id r = job_incident_id job" and "ir_message_id r = ''''"
  shows "SetFeishuMessageIDForClaim job m t s = (Inr (), s\<lparr>db_incidents :=
    update_where (\<lambda>q. ir_id q = job_incident_id job)
      (\<lambda>r. r\<lparr>ir_message_id := m, ir_updated_at := unix t\<rparr>) (db_incidents s)\<rparr>)"
proof -
  obtain r' where r': "r' \<in> set (db_incidents s)" "ir_id r' = job_incident_id job" "is_active (ir_state r')"
    using assms(2) by (rule held_row)
  then have "r' = r" using assms(4,5) distinct_key_eq [OF wf_incident_ids [OF assms(1)]] by metis
  with r' have act: "is_active (ir_state r)" by simp
  have "tx_update_incidents (\<lambda>s r. ir_id r = job_incident_id job \<and> ir_message_id r = '''' \<and>
      is_active (ir_state r)) (\<lambda>r. r\<lparr>ir_message_id := m, ir_updated_at := unix t\<rparr>) s =
    Inr (Suc 0, s\<lparr>db_incidents := update_where (\<lambda>q. ir_id q = ir_id r)
      (\<lambda>r. r\<lparr>ir_message_id := m, ir_updated_at := unix t\<rparr>) (db_incidents s)\<rparr>)"
    using assms act by (intro update_incident_effect) auto
  with assms(3,5) touch_claim_ok [OF assms(1,2)] show ?thesis
    by (simp add: SetFeishuMessageIDForClaim_def tx_defs leaseRow_def activeRow_def)
qed

text \<open>An error of the store's own sentinels, or not.\<close>

lemma not_inactive [simp]:
  "\<not> isInactive (ErrNew t)" "isInactive (ErrWrap p e q) = isInactive e" "\<not> isInactive ErrNoRows"
  by (simp_all add: isInactive_def)

lemma tx_store_evidence_rows:
  assumes "\<And>e err. marshal e = Inl err \<Longrightarrow> \<not> isInactive err"
  shows "case tx_store_evidence marshal i t items s of
     Inl err \<Rightarrow> \<not> isInactive err
   | Inr (_, s') \<Rightarrow> db_jobs s' = db_jobs s \<and> db_incidents s' = db_incidents s"
proof (induction items arbitrary: s)
  case (Cons item items)
  show ?case
  proof (cases "ev_id item = '''' \<or> (\<exists>err. marshal item = Inl err)")
    case True
    with assms show ?thesis by (auto simp: tx_throw_def)
  next
    case False
    then obtain raw where raw: "marshal item = Inr raw" by (cases "marshal item") auto
    let ?s = "s\<lparr>db_evidence := filter (\<lambda>e. er_id e \<noteq> ev_id item) (db_evidence s) @
       [\<lparr>er_id = ev_id item, er_incident_id = i, er_evidence_json = raw, er_created_at = unix t\<rparr>]\<rparr>"
    have "tx_store_evidence marshal i t (item # items) s = tx_store_evidence marshal i t items ?s"
      using False raw by (simp add: tx_bind_def tx_replace_evidence_def)
    moreover have "db_jobs ?s = db_jobs s" "db_incidents ?s = db_incidents s" by simp_all
    ultimately show ?thesis using Cons.IH [of ?s] by (simp split: sum.splits prod.splits)
  qed
qed (simp add: tx_defs)

lemma no_token_after:
  assumes "\<And>j. j \<in> set (db_jobs s') \<Longrightarrow> jr_id j = job_id job \<Longrightarrow> jr_status j \<noteq> JobRunning"
  shows "no_token job s'"
  using assms by (auto simp: no_token_def holds_token_def)

lemma no_token_settled:
  "st \<noteq> JobRunning \<Longrightarrow> no_token job (s\<lparr>db_incidents := is, db_jobs := settled_jobs (job_id job) i st js\<rparr>)"
  by (rule no_token_after) (auto simp: settled_jobs_def)

lemma Retry_settles:
  assumes "wf_db s" and "claim_held job (job_incident_id job) s"
  shows "\<exists>b s'. RetryOrFailJob job t 3 s = (Inr b, s') \<and> no_token job s'"
proof (cases "job_attempt job < 3")
  case True
  have "no_token job (s\<lparr>db_jobs := update_where (\<lambda>q. jr_id q = job_id job)
       (requeue_job (unix (t + retry_delay (job_attempt job)))) (db_jobs s)\<rparr>)"
    by (rule no_token_after) (auto simp: requeue_job_def elim!: update_whereE)
  then show ?thesis
    using True by (intro exI conjI) (rule retry_effect [OF assms], simp_all)
next
  case False
  then have "1 \<le> (3 :: int)" and "3 \<le> job_attempt job" by simp_all
  note e = fail_effect [OF assms this, of t]
  show ?thesis unfolding e by (intro exI conjI, rule refl, rule no_token_settled) simp
qed

lemma Complete_settles:
  assumes "wf_db s" and c: "claim_held job (job_incident_id job) s"
    and "\<And>r err. marshal r = Inl err \<Longrightarrow> \<not> isInactive err"
  shows "\<exists>s'. CompleteJobAndIncident marshal k job (job_incident_id job) res t s = (Inr (), s') \<and>
      no_token job s' \<or>
    (\<exists>err. CompleteJobAndIncident marshal k job (job_incident_id job) res t s = (Inl err, s) \<and>
      \<not> isInactive err)"
proof (cases "marshal res")
  case (Inl err)
  with assms(3) show ?thesis by (simp add: CompleteJobAndIncident_def marshal_failed_def)
next
  case (Inr raw)
  show ?thesis
  proof (cases "k \<in> set (map er_id (db_snapshots s))")
    case False
    have "no_token job (s\<lparr>db_incidents := is,
        db_jobs := settled_jobs (job_id job) i JobCompleted (db_jobs s), db_snapshots := sn\<rparr>)" for "is" sn i
      by (rule no_token_after) (auto simp: settled_jobs_def)
    with CompleteJobAndIncident_effect [where marshal = marshal, OF assms(1) Inr c False, of t]
    show ?thesis by simp
  next
    case True
    obtain r where r: "r \<in> set (db_incidents s)" "ir_id r = job_incident_id job" "is_active (ir_state r)"
      using c by (rule held_row)
    let ?s1 = "s\<lparr>db_jobs := update_where (\<lambda>q. jr_id q = job_id job) (close_job JobCompleted) (db_jobs s)\<rparr>"
    have "wf_db ?s1" by (rule wf_close_jobs [OF assms(1)]) simp_all
    from update_active_effect [OF this, of r] r True Inr close_claimed_effect [OF assms(1) c, of JobCompleted]
    show ?thesis
      by (simp add: CompleteJobAndIncident_def tx_defs leaseRow_def activeRow_def tx_insert_snapshot_def
          snapshot_row_def)
  qed
qed

lemma Audit_settles:
  assumes "wf_db s" and c: "claim_held job (job_incident_id job) s"
  shows "\<exists>s'. CompleteJobAndScheduleAuditRetry k job (job_incident_id job) t s = (Inr (), s') \<and>
      no_token job s' \<or>
    (\<exists>err. CompleteJobAndScheduleAuditRetry k job (job_incident_id job) t s = (Inl err, s) \<and>
      \<not> isInactive err)"
proof -
  let ?i = "job_incident_id job"
  let ?jobs = "update_where (\<lambda>q. jr_id q = job_id job) (close_job JobCompleted) (db_jobs s)"
  obtain r where r: "r \<in> set (db_incidents s)" "ir_id r = ?i" "is_active (ir_state r)"
    using c by (rule held_row)
  have "wf_db (s\<lparr>db_jobs := ?jobs\<rparr>)" by (rule wf_close_jobs [OF assms(1)]) simp_all
  then have upd: "await_audit_event ?i t (s\<lparr>db_jobs := ?jobs\<rparr>) =
      Inr (Suc 0, s\<lparr>db_jobs := ?jobs, db_incidents := update_where (\<lambda>q. ir_id q = ?i)
             (set_state IncidentAwaitingAuditEvent (unix t)) (db_incidents s)\<rparr>)"
    using await_audit_effect [of "s\<lparr>db_jobs := ?jobs\<rparr>" r ?i] r by simp
  have nt: "no_token job (s\<lparr>db_incidents := is, db_jobs := ?jobs @ [job_columns (NewJob k i t)]\<rparr>)" for "is" i
    by (rule no_token_after) (auto simp: job_columns_def NewJob_def elim!: update_whereE)
  show ?thesis
    using close_claimed_effect [OF assms(1) c, of JobCompleted] upd nt [where i = ?i]
    by (cases "k \<in> jr_id ` set ?jobs")
      (simp_all add: CompleteJobAndScheduleAuditRetry_def tx_defs leaseRow_def activeRow_def
        tx_insert_job_def job_columns_def NewJob_def)
qed

section \<open>Stages of a turn\<close>

text \<open>
  A calm environment: undisturbed, and the errors of the card service and of the JSON encoder
  are not the store's own sentinels.
\<close>

definition calm :: "environment \<Rightarrow> bool" where
  "calm env \<longleftrightarrow> undisturbed env \<and>
     (\<forall>n err. ev_update (en_event env n) = Inl err \<longrightarrow> \<not> isInactive err) \<and>
     (\<forall>e err. en_evidence env e = Inl err \<longrightarrow> \<not> isInactive err) \<and>
     (\<forall>r err. en_results env r = Inl err \<longrightarrow> \<not> isInactive err)"

lemma calm_undisturbed: "calm env \<Longrightarrow> undisturbed env"
  by (simp add: calm_def)

definition Held :: "Job \<Rightarrow> world \<Rightarrow> bool" where
  "Held job w \<longleftrightarrow> wf_db (w_db w) \<and> \<not> w_locked w \<and> claim_held job (job_incident_id job) (w_db w)"

definition settles :: "Job \<Rightarrow> (world \<Rightarrow> 'a \<times> world) \<Rightarrow> world \<Rightarrow> bool" where
  "settles job m w \<longleftrightarrow> no_token job (w_db (snd (m w)))"

lemma settles_attempt:
  assumes "\<And>e w'. m w = (Inl e, w') \<Longrightarrow> settles job (h e) w'"
    and "\<And>x w'. m w = (Inr x, w') \<Longrightarrow> settles job (k x) w'"
  shows "settles job (attempt m h k) w"
  using assms by (auto simp: settles_def attempt_def split: prod.splits sum.splits)

lemma Held_step: "Held job w \<Longrightarrow> undisturbed env \<Longrightarrow> Held job (disturb env w)"
  by (simp add: disturb_undisturbed Held_def)

lemma retry_call:
  assumes "calm env" and "Held job w"
  shows "\<exists>b w'. repo_call env (\<lambda>e. RetryOrFailJob job t 3) w = (Inr b, w') \<and> no_token job (w_db w')"
proof -
  from assms(2) Retry_settles [of "w_db w" job t] obtain b s' where
    "RetryOrFailJob job t 3 (w_db w) = (Inr b, s')" "no_token job s'" by (auto simp: Held_def)
  then show ?thesis by (simp add: repo_call_undisturbed [OF calm_undisturbed [OF assms(1)]])
qed

lemma retry_after_settles:
  assumes "calm env" and "Held job w"
  shows "settles job (retry_after (sqlite_worker env wid) job cause) w"
  using retry_call [OF assms, of "ev_now (event_of env w)"]
  by (auto simp: settles_def retry_after_def attempt_def sqlite_repo_def)

lemma persistenceFailure_settles:
  assumes "calm env" and "Held job w" and "\<not> isInactive cause"
  shows "settles job (persistenceFailure (sqlite_worker env wid) job cause) w"
  using retry_call [OF assms(1,2), of "ev_now (event_of env w)"] assms(3)
  by (auto simp: settles_def persistenceFailure_def attempt_def sqlite_repo_def)

lemma card_call:
  assumes env: "calm env" and w: "Held job w"
    and run: "updateCard (sqlite_worker env wid) job inc res w = (r, w')"
  shows "Held job w' \<and> w_db w' = w_db w \<and> r = ev_update (en_event env (Suc (w_step w))) \<and>
    (\<forall>err. r = Inl err \<longrightarrow> \<not> isInactive err)"
proof -
  from w obtain q where "card_fence job (w_db w) = Inr (q, w_db w)"
    using card_fence_ok by (metis Held_def)
  moreover have "undisturbed env" "\<And>n. ev_fault (en_event env n) = None"
    using env by (simp_all add: calm_def undisturbed_def)
  ultimately have "r = ev_update (en_event env (Suc (w_step w))) \<and> w_db w' = w_db w \<and> \<not> w_locked w'"
    using run
    by (auto simp: updateCard_def sqlite_repo_def card_update_call_def disturb_undisturbed Let_def
        UpdateActiveClaimCard_def send_update_locked event_of_def split: sum.splits)
  with env w show ?thesis by (auto simp: calm_def Held_def)
qed

lemma fail_settles:
  assumes "calm env" and "Held job w"
  shows "settles job (fail_rca (sqlite_worker env wid) inc job cause) w"
  unfolding fail_rca_def
  by (auto intro!: settles_attempt retry_after_settles [OF assms(1)] assms(2) dest!: card_call [OF assms])

lemma complete_call:
  assumes "calm env" and "Held job w"
    and "repo_call env (\<lambda>e. CompleteJobAndIncident (en_results env) (ev_fresh e) job
      (job_incident_id job) res t) w = (r, w')"
  shows "case r of Inl err \<Rightarrow> \<not> isInactive err \<and> Held job w' | Inr _ \<Rightarrow> no_token job (w_db w')"
proof -
  have m: "\<And>r err. en_results env r = Inl err \<Longrightarrow> \<not> isInactive err"
    using assms(1) by (auto simp: calm_def)
  from assms(2) have s: "wf_db (w_db w)" "claim_held job (job_incident_id job) (w_db w)"
    by (auto simp: Held_def)
  let ?c = "CompleteJobAndIncident (en_results env) (ev_fresh (event_of env w)) job
      (job_incident_id job) res t (w_db w)"
  have "\<exists>s'. ?c = (Inr (), s') \<and> no_token job s' \<or> (\<exists>err. ?c = (Inl err, w_db w) \<and> \<not> isInactive err)"
    by (rule Complete_settles [OF s]) (rule m)
  with assms(2,3) show ?thesis
    by (auto simp: repo_call_undisturbed [OF calm_undisturbed [OF assms(1)]] Held_def)
qed

lemma audit_call:
  assumes "calm env" and "Held job w"
    and "repo_call env (\<lambda>e. CompleteJobAndScheduleAuditRetry (ev_fresh e) job
      (job_incident_id job) t) w = (r, w')"
  shows "case r of Inl err \<Rightarrow> \<not> isInactive err \<and> Held job w' | Inr _ \<Rightarrow> no_token job (w_db w')"
proof -
  from assms(2) have s: "wf_db (w_db w)" "claim_held job (job_incident_id job) (w_db w)"
    by (auto simp: Held_def)
  from Audit_settles [OF s, of "ev_fresh (event_of env w)" t] assms(2,3)
  show ?thesis
    by (auto simp: repo_call_undisturbed [OF calm_undisturbed [OF assms(1)]] Held_def)
qed

lemma done_settles: "no_token job (w_db w) \<Longrightarrow> settles job done_ok w"
  by (simp add: settles_def done_ok_def)

text \<open>The handler of an error that is not a sentinel never takes the silent branch.\<close>

lemma settles_handled:
  "\<not> isInactive e \<Longrightarrow> settles job m w \<Longrightarrow> settles job (if isInactive e then m' else m) w"
  by simp

lemma settles_card:
  assumes "calm env" and "Held job w"
    and "\<And>e w'. Held job w' \<Longrightarrow> settles job (h e) w'"
    and "\<And>w'. Held job w' \<Longrightarrow> settles job (k ()) w'"
  shows "settles job (attempt (updateCard (sqlite_worker env wid) job inc res)
    (\<lambda>e. if isInactive e then done_ok else h e) k) w"
proof (rule settles_attempt)
  fix e w' assume "updateCard (sqlite_worker env wid) job inc res w = (Inl e, w')"
  with card_call [OF assms(1,2)] assms(3) show "settles job (if isInactive e then done_ok else h e) w'"
    by simp
next
  fix x w' assume "updateCard (sqlite_worker env wid) job inc res w = (Inr x, w')"
  with card_call [OF assms(1,2)] assms(4) show "settles job (k x) w'" by simp
qed

lemma settles_closing:
  assumes "calm env" and "Held job w"
    and "\<And>r w'. m w = (r, w') \<Longrightarrow>
      case r of Inl err \<Rightarrow> \<not> isInactive err \<and> Held job w' | Inr _ \<Rightarrow> no_token job (w_db w')"
  shows "settles job (attempt m
    (\<lambda>e. if isInactive e then done_ok else persistenceFailure (sqlite_worker env wid) job e)
    (\<lambda>_. done_ok)) w"
proof (rule settles_attempt)
  fix e w' assume "m w = (Inl e, w')"
  with assms(3) have "\<not> isInactive e" "Held job w'" by fastforce+
  with persistenceFailure_settles [OF assms(1)]
  show "settles job (if isInactive e then done_ok else persistenceFailure (sqlite_worker env wid) job e) w'"
    by simp
next
  fix x w' assume "m w = (Inr x, w')"
  with assms(3) have "no_token job (w_db w')" by fastforce
  then show "settles job done_ok w'" by (rule done_settles)
qed

lemma conclude_settles:
  assumes "calm env" and "Held job w" and "inc_id inc = job_incident_id job"
  shows "settles job (conclude (sqlite_worker env wid) t job inc res) w"
proof (cases "rca_pending_audit res")
  case True
  then show ?thesis
    unfolding conclude_def Let_def if_P [OF True]
    by (intro settles_card [OF assms(1,2)] fail_settles [OF assms(1)] settles_closing [OF assms(1)])
      (simp_all add: sqlite_repo_def assms(3) audit_call [OF assms(1)])
next
  case False
  then show ?thesis
    unfolding conclude_def Let_def if_not_P [OF False]
    by (intro settles_card [OF assms(1,2)] fail_settles [OF assms(1)] settles_closing [OF assms(1)])
      (simp_all add: sqlite_repo_def assms(3) complete_call [OF assms(1)])
qed

lemma query_call_step:
  "undisturbed env \<Longrightarrow> query_call env i w = (ev_items (event_of env w), w\<lparr>w_step := Suc (w_step w)\<rparr>)"
  "undisturbed env \<Longrightarrow> run_call env i cs w = (ev_result (event_of env w), w\<lparr>w_step := Suc (w_step w)\<rparr>)"
  by (simp_all add: query_call_def run_call_def disturb_undisturbed)

lemma collect_call:
  assumes "undisturbed env" and "collectEvidence (sqlite_worker env wid) i w = (r, w')"
  shows "w_db w' = w_db w \<and> w_locked w' = w_locked w \<and> w_log w' = w_log w"
  using assms(2)
  by (auto simp: collectEvidence_def query_call_step [OF assms(1)] split: sum.splits)

lemma store_call:
  assumes "calm env" and "Held job w"
    and "repo_call env (\<lambda>e. StoreEvidence (en_evidence env) i items t) w = (r, w')"
  shows "Held job w' \<and> (\<forall>err. r = Inl err \<longrightarrow> \<not> isInactive err)"
proof -
  have m: "\<And>e err. en_evidence env e = Inl err \<Longrightarrow> \<not> isInactive err"
    using assms(1) by (auto simp: calm_def)
  let ?s = "snd (StoreEvidence (en_evidence env) i items t (w_db w))"
  have "wf_db ?s"
    using StoreEvidence_step [of "w_db w"] assms(2) by (simp add: Held_def db_step_def)
  moreover have "db_jobs ?s = db_jobs (w_db w)" "db_incidents ?s = db_incidents (w_db w)"
    and "\<forall>err. r = Inl err \<longrightarrow> \<not> isInactive err" and "w' = w\<lparr>w_step := Suc (w_step w), w_db := ?s\<rparr>"
    using tx_store_evidence_rows [where marshal = "en_evidence env" and i = i and t = t and
        items = items and s = "w_db w", OF m] assms(3)
    by (auto simp: StoreEvidence_def run_tx_def repo_call_undisturbed [OF calm_undisturbed [OF assms(1)]]
        split: sum.splits prod.splits)
  ultimately show ?thesis
    using assms(2) by (auto simp: Held_def claim_held_def incident_active_def)
qed

lemma investigate_settles:
  assumes env: "calm env" and w: "Held job w" and inc: "inc_id inc = job_incident_id job"
  shows "settles job (investigate (sqlite_worker env wid) t job inc) w"
proof -
  have collected: "Held job w'" if "collectEvidence (sqlite_worker env wid) i w = (r, w')" for i r w'
    using collect_call [OF calm_undisturbed [OF env] that] w by (simp add: Held_def)
  have ran: "Held job w2" if "run_call env i cs w1 = (r, w2)" "Held job w1" for i cs r w1 w2
    using that by (auto simp: query_call_step [OF calm_undisturbed [OF env]] Held_def)
  have validated: "settles job (\<lambda>w. case ValidateResult res k of
      Inl err \<Rightarrow> fail_rca (sqlite_worker env wid) inc job err w
    | Inr _ \<Rightarrow> conclude (sqlite_worker env wid) t job inc res w) w'" if "Held job w'" for res k w'
    using fail_settles [OF env that] conclude_settles [OF env that inc]
    by (simp add: settles_def split: sum.splits)
  have analysed: "settles job (attempt (run_call env i cs) (fail_rca (sqlite_worker env wid) inc job)
      (\<lambda>res. case ValidateResult res (k res) of
         Inl err \<Rightarrow> fail_rca (sqlite_worker env wid) inc job err
       | Inr _ \<Rightarrow> conclude (sqlite_worker env wid) t job inc res)) w1" if "Held job w1" for i cs k w1
  proof (rule settles_attempt)
    fix res w2 assume "run_call env i cs w1 = (Inr res, w2)"
    with ran that have "Held job w2" by blast
    with validated [of w2 res "k res"]
    show "settles job (case ValidateResult res (k res) of
         Inl err \<Rightarrow> fail_rca (sqlite_worker env wid) inc job err
       | Inr _ \<Rightarrow> conclude (sqlite_worker env wid) t job inc res) w2"
      by (simp add: settles_def split: sum.splits)
  qed (use ran that fail_settles [OF env] in blast)
  show ?thesis
    unfolding investigate_def
  proof (rule settles_attempt, goal_cases)
    case (1 e w')
    then show ?case by (rule fail_settles [OF env collected])
  next
    case (2 x w')
    then have w': "Held job w'" by (rule collected)
    obtain cs items where x: "x = (cs, items)" by (cases x)
    have "settles job (attempt (repo_call env (\<lambda>e. StoreEvidence (en_evidence env) (inc_id inc) items t))
       (\<lambda>err. if isInactive err then done_ok else persistenceFailure (sqlite_worker env wid) job err)
       (\<lambda>_. attempt (run_call env (inc_id inc) cs) (fail_rca (sqlite_worker env wid) inc job)
          (\<lambda>res. case ValidateResult res (Some (known_evidence items)) of
             Inl err \<Rightarrow> fail_rca (sqlite_worker env wid) inc job err
           | Inr _ \<Rightarrow> conclude (sqlite_worker env wid) t job inc res))) w'"
      by (rule settles_attempt; drule store_call [OF env w'])
        (auto intro: persistenceFailure_settles [OF env] analysed)
    then show ?case by (simp add: x sqlite_repo_def)
  qed
qed

text \<open>The incident of the claimed job has not been under investigation since its last alert.\<close>

definition Fresh :: "Job \<Rightarrow> world \<Rightarrow> bool" where
  "Fresh job w \<longleftrightarrow> Held job w \<and>
     (\<exists>r \<in> set (db_incidents (w_db w)). ir_id r = job_incident_id job \<and>
        (ir_state r = IncidentReceived \<or> ir_state r = IncidentAwaitingAuditEvent))"

lemma Fresh_Held: "Fresh job w \<Longrightarrow> Held job w"
  by (simp add: Fresh_def)

lemma mark_call:
  assumes "undisturbed env" and "Fresh job w"
  shows "\<exists>w'. repo_call env (\<lambda>e. MarkInvestigatingForClaim job t) w = (Inr (), w') \<and> Held job w'"
proof -
  from assms(2) obtain r where r: "r \<in> set (db_incidents (w_db w))" "ir_id r = job_incident_id job"
      "ir_state r = IncidentReceived \<or> ir_state r = IncidentAwaitingAuditEvent"
    and h: "wf_db (w_db w)" "\<not> w_locked w" "claim_held job (job_incident_id job) (w_db w)"
    by (auto simp: Fresh_def Held_def)
  note m = MarkInvestigating_ok [OF h(1,3) r, of t]
  have "wf_db (snd (MarkInvestigatingForClaim job t (w_db w)))"
    using MarkInvestigating_step [of "w_db w" job t] h(1) by (simp add: db_step_def)
  moreover have "claim_held job (job_incident_id job) (snd (MarkInvestigatingForClaim job t (w_db w)))"
    unfolding m snd_conv using h(3) by (rule claim_held_incidents) simp_all
  ultimately show ?thesis
    using h(2) by (simp add: repo_call_undisturbed [OF assms(1)] m Held_def)
qed

lemma start_settles:
  assumes env: "calm env" and w: "Fresh job w" and inc: "inc_id inc = job_incident_id job"
  shows "settles job (start_investigation (sqlite_worker env wid) t job inc) w"
  unfolding start_investigation_def Let_def sqlite_worker_simps
proof (rule settles_attempt, goal_cases)
  case (1 e w')
  with mark_call [OF calm_undisturbed [OF env] w, of t] show ?case by (simp add: sqlite_repo_def)
next
  case (2 x w')
  with mark_call [OF calm_undisturbed [OF env] w, of t] have "Held job w'"
    by (auto simp: sqlite_repo_def)
  then show ?case
    by (intro settles_card [OF env] fail_settles [OF env] investigate_settles [OF env]) (simp_all add: inc)
qed

text \<open>Reading the incident and checking the claim leave everything in place.\<close>

lemma check_call:
  assumes "undisturbed env" and "Fresh job w"
  shows "repo_call env (\<lambda>e. CheckActiveClaim job) w = (Inr (), w\<lparr>w_step := Suc (w_step w)\<rparr>)"
proof -
  from assms(2) have "CheckActiveClaim job (w_db w) = (Inr (), w_db w)"
    by (auto simp: Fresh_def Held_def CheckActiveClaim_def claim_held_def job_incident_active_def claim_row_def)
  then show ?thesis by (simp add: repo_call_undisturbed [OF assms(1)])
qed

lemma Fresh_w_step [simp]:
  "Fresh job (w\<lparr>w_step := n\<rparr>) = Fresh job w" "Fresh job (w\<lparr>w_step := n, w_log := l\<rparr>) = Fresh job w"
  by (simp_all add: Fresh_def Held_def)

lemma Held_w_step [simp]:
  "Held job (w\<lparr>w_step := n\<rparr>) = Held job w" "Held job (w\<lparr>w_step := n, w_log := l\<rparr>) = Held job w"
  by (simp_all add: Held_def)

lemma read_call:
  assumes "undisturbed env" and "Fresh job w"
  obtains r where "r \<in> set (db_incidents (w_db w))" and "ir_id r = job_incident_id job"
    and "ir_state r = IncidentReceived \<or> ir_state r = IncidentAwaitingAuditEvent"
    and "repo_call env (\<lambda>e. IncidentByID (job_incident_id job)) w =
      (Inr (scanIncident r), w\<lparr>w_step := Suc (w_step w)\<rparr>)"
proof -
  from assms(2) obtain r where r: "r \<in> set (db_incidents (w_db w))" "ir_id r = job_incident_id job"
      "ir_state r = IncidentReceived \<or> ir_state r = IncidentAwaitingAuditEvent"
    and "wf_db (w_db w)" by (auto simp: Fresh_def Held_def)
  then have "IncidentByID (job_incident_id job) (w_db w) = (Inr (scanIncident r), w_db w)"
    by (intro IncidentByID_wf)
  with r that show thesis by (simp add: repo_call_undisturbed [OF assms(1)])
qed

lemma scanIncident_fields [simp]:
  "inc_id (scanIncident r) = ir_id r" "inc_state (scanIncident r) = ir_state r"
  "inc_message_id (scanIncident r) = ir_message_id r"
  by (simp_all add: scanIncident_def)

lemma message_call:
  assumes "undisturbed env" and "Fresh job w" and "r \<in> set (db_incidents (w_db w))"
    and "ir_id r = job_incident_id job" and "ir_message_id r = ''''"
    and "repo_call env (\<lambda>e. SetFeishuMessageIDForClaim job m t) w = (q, w')"
  shows "Fresh job w' \<and> (\<forall>err. q = Inl err \<longrightarrow> \<not> isInactive err)"
proof (cases "m = ''''")
  case True
  with assms show ?thesis
    by (auto simp: repo_call_undisturbed [OF assms(1)] SetFeishuMessageIDForClaim_def Fresh_def Held_def)
next
  case False
  from assms(2) have h: "wf_db (w_db w)" "\<not> w_locked w" "claim_held job (job_incident_id job) (w_db w)"
    by (auto simp: Fresh_def Held_def)
  note m = SetMessage_ok [OF h(1,3) False assms(3-5), of t]
  let ?f = "\<lambda>r. r\<lparr>ir_message_id := m, ir_updated_at := unix t\<rparr>"
  from assms(2) obtain r0 where r0: "r0 \<in> set (db_incidents (w_db w))" "ir_id r0 = job_incident_id job"
    "ir_state r0 = IncidentReceived \<or> ir_state r0 = IncidentAwaitingAuditEvent"
    by (auto simp: Fresh_def)
  have "wf_db (snd (SetFeishuMessageIDForClaim job m t (w_db w)))"
    using SetFeishuMessageIDForClaim_step [of "w_db w" job m t] h(1) by (simp add: db_step_def)
  moreover have "claim_held job (job_incident_id job) (snd (SetFeishuMessageIDForClaim job m t (w_db w)))"
    unfolding m snd_conv using h(3) by (rule claim_held_incidents) simp_all
  moreover have "?f r0 \<in> set (db_incidents (snd (SetFeishuMessageIDForClaim job m t (w_db w))))"
    unfolding m using r0(1,2) by (auto simp: set_update_where)
  then have "\<exists>r \<in> set (db_incidents (snd (SetFeishuMessageIDForClaim job m t (w_db w)))).
      ir_id r = job_incident_id job \<and>
      (ir_state r = IncidentReceived \<or> ir_state r = IncidentAwaitingAuditEvent)"
    using r0(2,3) by (intro bexI [of _ "?f r0"]) simp_all
  ultimately show ?thesis
    using h(2) assms(6) by (auto simp: repo_call_undisturbed [OF assms(1)] m Fresh_def Held_def)
qed

lemma create_settles:
  assumes env: "calm env" and w: "Fresh job w" and inc: "inc_id inc = job_incident_id job"
    and r: "r \<in> set (db_incidents (w_db w))" "ir_id r = job_incident_id job" "ir_message_id r = ''''"
  shows "settles job (create_card (sqlite_worker env wid) t job inc) w"
proof -
  note calm = calm_undisturbed [OF env]
  have stored: "settles job (attempt (repo_call env (\<lambda>e. IncidentByID (job_incident_id job)))
      (persistenceFailure (sqlite_worker env wid) job)
      (\<lambda>inc. if inc_state inc = IncidentRecovered then show_recovery (sqlite_worker env wid) inc
         else start_investigation (sqlite_worker env wid) t job inc)) w'" if "Fresh job w'" for w'
    using calm that
  proof (rule read_call)
    fix q
    assume "ir_id q = job_incident_id job"
      and "ir_state q = IncidentReceived \<or> ir_state q = IncidentAwaitingAuditEvent"
      and "repo_call env (\<lambda>e. IncidentByID (job_incident_id job)) w' =
        (Inr (scanIncident q), w'\<lparr>w_step := Suc (w_step w')\<rparr>)"
    with that show ?thesis
      by (intro settles_attempt) (auto intro!: start_settles [OF env])
  qed
  have sent: "w' = w1\<lparr>w_step := Suc (w_step w1), w_log := w_log w1 @ [Created inc (w_db w1)]\<rparr>"
    if "send_create env inc w1 = (q, w')" for w1 w' q
    using that by (auto simp: send_create_def Let_def disturb_undisturbed [OF calm])
  show ?thesis
    unfolding create_card_def sqlite_worker_simps
  proof (rule settles_attempt, goal_cases)
    case (1 e w')
    with check_call [OF calm w] show ?case by (simp add: sqlite_repo_def)
  next
    case (2 x w1)
    with check_call [OF calm w] w r have w1: "Fresh job w1" "r \<in> set (db_incidents (w_db w1))"
      by (auto simp: sqlite_repo_def)
    show ?case
    proof (rule settles_attempt, goal_cases)
      case (1 e w2)
      from sent [OF 1] w1 have "Fresh job w2" by simp
      then show ?case by (intro fail_settles [OF env] Fresh_Held)
    next
      case (2 m w2)
      from sent [OF 2] w1 have w2: "Fresh job w2" "r \<in> set (db_incidents (w_db w2))" by simp_all
      show ?case
      proof (rule settles_attempt, goal_cases)
        case (1 e w3)
        with message_call [OF calm w2 r(2,3), of m t "Inl e" w3]
        have "Held job w3" "\<not> isInactive e" by (simp_all add: sqlite_repo_def Fresh_def)
        then show ?case by (simp add: persistenceFailure_settles [OF env])
      next
        case (2 y w3)
        with message_call [OF calm w2 r(2,3), of m t "Inr y" w3] have "Fresh job w3"
          by (simp add: sqlite_repo_def)
        with stored show ?case by (simp add: sqlite_repo_def inc)
      qed
    qed
  qed
qed

lemma run_claimed_settles:
  assumes env: "calm env" and w: "Fresh job w"
  shows "settles job (run_claimed (sqlite_worker env wid) t job) w"
  using calm_undisturbed [OF env] w
proof (rule read_call)
  fix r
  assume r: "r \<in> set (db_incidents (w_db w))" "ir_id r = job_incident_id job"
    and read: "repo_call env (\<lambda>e. IncidentByID (job_incident_id job)) w =
      (Inr (scanIncident r), w\<lparr>w_step := Suc (w_step w)\<rparr>)"
  show ?thesis
    unfolding run_claimed_def
  proof (rule settles_attempt, goal_cases)
    case (1 e w')
    with read show ?case by (simp add: sqlite_repo_def)
  next
    case (2 inc w')
    with read have "inc = scanIncident r" "w' = w\<lparr>w_step := Suc (w_step w)\<rparr>"
      by (simp_all add: sqlite_repo_def)
    with w r show ?case
      by (auto intro!: start_settles [OF env] create_settles [OF env])
  qed
qed

text \<open>
  C18 (turn_settles_its_claim). In a calm environment a worker that claims a job of an incident
  in state RECEIVED or AWAITING_AUDIT_EVENT never keeps the claim: whatever cards, evidence, the
  analysis and its validation answer, when the turn ends no job row carries its token, the job
  having been queued again, completed, or failed.
\<close>

theorem turn_settles_its_claim:
  assumes "calm env" and "wf_db (w_db w)" and "\<not> w_locked w"
    and "ClaimNext wid (ev_now (event_of env w)) (w_db w) = (Inr (Some job), s1)"
    and "r \<in> set (db_incidents (w_db w))" and "ir_id r = job_incident_id job"
    and "ir_state r = IncidentReceived \<or> ir_state r = IncidentAwaitingAuditEvent"
    and "RunOne (sqlite_worker env wid) w = (res, w')"
  shows "\<not> (\<exists>j \<in> set (db_jobs (w_db w')). holds_token job j)"
proof -
  let ?w1 = "w\<lparr>w_step := Suc (w_step w), w_db := s1\<rparr>"
  from ClaimNext_holds [OF assms(2,4)] assms(3,5-7) have "Fresh job ?w1"
    by (auto simp: Fresh_def Held_def)
  with run_claimed_settles [OF assms(1), of job ?w1 wid "ev_now (event_of env w)"]
  have "no_token job (w_db (snd (run_claimed (sqlite_worker env wid) (ev_now (event_of env w)) job ?w1)))"
    by (simp add: settles_def)
  moreover have "RunOne (sqlite_worker env wid) w =
      run_claimed (sqlite_worker env wid) (ev_now (event_of env w)) job ?w1"
    using assms(4)
    by (simp add: RunOne_def attempt_def sqlite_repo_def repo_call_undisturbed [OF calm_undisturbed [OF assms(1)]])
  ultimately have "no_token job (w_db (snd (RunOne (sqlite_worker env wid) w)))" by simp
  then show ?thesis unfolding assms(8) by (simp add: no_token_def)
qed

end
