(* ===== verification/WorkerHealthy.thy ===== *)
theory WorkerHealthy
  imports WorkerSettle
begin

text \<open>
  The successful turn of the worker: when every service answers and the analysis passes the
  validation, the claimed incident is completed, its result stored and nothing of it left in the
  queue.
\<close>

text \<open>A calm environment in which every call succeeds and the analysis concludes.\<close>

definition healthy :: "environment \<Rightarrow> Evidence list \<Rightarrow> RCAResult \<Rightarrow> string \<Rightarrow> bool" where
  "healthy env items res raw \<longleftrightarrow>
     undisturbed env \<and>
     (\<forall>n. ev_update (en_event env n) = Inr () \<and> ev_items (en_event env n) = Inr items \<and>
          ev_result (en_event env n) = Inr res \<and>
          (\<exists>m. ev_create (en_event env n) = Inr m \<and> m \<noteq> '''')) \<and>
     (\<forall>e \<in> set items. ev_id e \<noteq> '''' \<and> (\<exists>t. en_evidence env e = Inr t)) \<and>
     en_results env res = Inr raw \<and>
     ValidateResult res (Some (known_evidence items)) = Inr () \<and> \<not> rca_pending_audit res"

text \<open>
  What a turn leaves alone: the rows of other incidents and their jobs, and the snapshots that
  were there. A frame also holds the step at which the turn began.
\<close>

type_synonym rows = "incident_row list \<times> job_row list \<times> evidence_row list"

definition rows_of :: "Job \<Rightarrow> db \<Rightarrow> rows" where
  "rows_of job s =
     (filter (\<lambda>r. ir_id r \<noteq> job_incident_id job) (db_incidents s),
      filter (\<lambda>j. jr_incident_id j \<noteq> job_incident_id job) (db_jobs s), db_snapshots s)"

definition fresh_ids :: "environment \<Rightarrow> nat \<times> rows \<Rightarrow> bool" where
  "fresh_ids env fr \<longleftrightarrow>
     (\<forall>n \<ge> fst fr. ev_fresh (en_event env n) \<notin> set (map er_id (snd (snd (snd fr)))))"

definition framed :: "Job \<Rightarrow> nat \<times> rows \<Rightarrow> world \<Rightarrow> bool" where
  "framed job fr w \<longleftrightarrow> fst fr \<le> w_step w \<and> rows_of job (w_db w) = snd fr"

lemma framed_step [simp]:
  "framed job fr w \<Longrightarrow> framed job fr (w\<lparr>w_step := Suc (w_step w)\<rparr>)"
  "framed job fr w \<Longrightarrow> framed job fr (w\<lparr>w_step := Suc (w_step w), w_log := l\<rparr>)"
  by (simp_all add: framed_def)

lemma filter_update_where:
  "(\<And>x. p x \<Longrightarrow> \<not> q x \<and> \<not> q (f x)) \<Longrightarrow> filter q (update_where p f xs) = filter q xs"
  by (induction xs) (auto simp: update_where_def)

lemma framed_incidents:
  assumes "framed job fr w" and "\<And>r. ir_id (f r) = ir_id r"
  shows "framed job fr (w\<lparr>w_step := Suc (w_step w), w_db := (w_db w)\<lparr>db_incidents :=
    update_where (\<lambda>q. ir_id q = job_incident_id job) f (db_incidents (w_db w))\<rparr>\<rparr>)"
  using assms by (simp add: framed_def rows_of_def filter_update_where)

text \<open>A held claim, inside a frame.\<close>

definition Ready :: "Job \<Rightarrow> nat \<times> rows \<Rightarrow> world \<Rightarrow> bool" where
  "Ready job fr w \<longleftrightarrow>
     wf_db (w_db w) \<and> \<not> w_locked w \<and> claim_held job (job_incident_id job) (w_db w) \<and> framed job fr w"

definition returns :: "(world \<Rightarrow> 'a res \<times> world) \<Rightarrow> world \<Rightarrow> ('a \<Rightarrow> world \<Rightarrow> bool) \<Rightarrow> bool" where
  "returns m w P \<longleftrightarrow> (\<exists>x w'. m w = (Inr x, w') \<and> P x w')"

lemma returns_attempt:
  "returns m w P \<Longrightarrow> (\<And>x w'. P x w' \<Longrightarrow> returns (k x) w' Q) \<Longrightarrow> returns (attempt m h k) w Q"
  by (fastforce simp: returns_def attempt_def)

lemma healthy_undisturbed: "healthy env items res raw \<Longrightarrow> undisturbed env"
  by (simp add: healthy_def)

lemma healthy_card:
  assumes "healthy env items res raw" and "Ready job fr w"
  shows "returns (updateCard (sqlite_worker env wid) job inc res') w (\<lambda>_. Ready job fr)"
proof -
  from assms(2) obtain q where "card_fence job (w_db w) = Inr (q, w_db w)"
    using card_fence_ok by (metis Ready_def)
  moreover have "undisturbed env" "\<And>n. ev_fault (en_event env n) = None"
    "\<And>n. ev_update (en_event env n) = Inr ()"
    using assms(1) by (simp_all add: healthy_def undisturbed_def)
  ultimately show ?thesis
    using assms(2)
    by (auto simp: returns_def updateCard_def sqlite_repo_def card_update_call_def disturb_undisturbed
        Let_def UpdateActiveClaimCard_def send_update_locked event_of_def Ready_def framed_def)
qed

lemma tx_store_evidence_ok:
  assumes "\<forall>e \<in> set items. ev_id e \<noteq> '''' \<and> (\<exists>t. marshal e = Inr t)"
  shows "\<exists>s'. tx_store_evidence marshal i t items s = Inr ((), s') \<and>
    db_jobs s' = db_jobs s \<and> db_incidents s' = db_incidents s \<and> db_snapshots s' = db_snapshots s"
  using assms
proof (induction items arbitrary: s)
  case (Cons item items)
  then obtain raw where raw: "marshal item = Inr raw" and id: "ev_id item \<noteq> ''''" by auto
  let ?s = "s\<lparr>db_evidence := filter (\<lambda>e. er_id e \<noteq> ev_id item) (db_evidence s) @
       [\<lparr>er_id = ev_id item, er_incident_id = i, er_evidence_json = raw, er_created_at = unix t\<rparr>]\<rparr>"
  have "tx_store_evidence marshal i t (item # items) s = tx_store_evidence marshal i t items ?s"
    using raw id by (simp add: tx_bind_def tx_replace_evidence_def)
  with Cons.IH [of ?s] Cons.prems show ?case by simp
qed (simp add: tx_defs)

lemma healthy_store:
  assumes env: "healthy env items res raw" and w: "Ready job fr w" and sub: "set es \<subseteq> set items"
  shows "returns (repo_call env (\<lambda>e. StoreEvidence (en_evidence env) i es t)) w (\<lambda>_. Ready job fr)"
proof -
  have "\<forall>e \<in> set es. ev_id e \<noteq> '''' \<and> (\<exists>t. en_evidence env e = Inr t)"
    using env sub by (auto simp: healthy_def)
  from tx_store_evidence_ok [OF this, of i t "w_db w"] obtain s' where
    s': "StoreEvidence (en_evidence env) i es t (w_db w) = (Inr (), s')"
    and fr: "db_jobs s' = db_jobs (w_db w)" "db_incidents s' = db_incidents (w_db w)"
      "db_snapshots s' = db_snapshots (w_db w)"
    by (auto simp: StoreEvidence_def run_tx_def)
  have "wf_db s'"
    using StoreEvidence_step [of "w_db w" "en_evidence env" i es t] w s' by (simp add: Ready_def db_step_def)
  with fr w s' show ?thesis
    by (simp add: returns_def repo_call_undisturbed [OF healthy_undisturbed [OF env]] Ready_def framed_def
        rows_of_def claim_held_def incident_active_def)
qed

lemma healthy_collect:
  assumes "healthy env items res raw" and "Ready job fr w"
  shows "returns (collectEvidence (sqlite_worker env wid) i) w
    (\<lambda>(cs, es) w'. Ready job fr w' \<and> set es = set items)"
proof -
  have "\<And>n. ev_items (en_event env n) = Inr items" using assms(1) by (simp add: healthy_def)
  then show ?thesis
    using assms(2)
    by (simp add: returns_def collectEvidence_def query_call_step [OF healthy_undisturbed [OF assms(1)]]
        event_of_def Ready_def framed_def)
qed

text \<open>What is left of the incident when its analysis is complete.\<close>

definition completed_in :: "environment \<Rightarrow> Job \<Rightarrow> string \<Rightarrow> nat \<times> rows \<Rightarrow> world \<Rightarrow> bool" where
  "completed_in env job raw fr w \<longleftrightarrow>
     wf_db (w_db w) \<and> \<not> w_locked w \<and>
     (\<exists>r \<in> set (db_incidents (w_db w)). ir_id r = job_incident_id job \<and> ir_state r = IncidentCompleted) \<and>
     (\<exists>j \<in> set (db_jobs (w_db w)). jr_id j = job_id job \<and> jr_status j = JobCompleted) \<and>
     \<not> (\<exists>j \<in> set (db_jobs (w_db w)). jr_incident_id j = job_incident_id job \<and> live j) \<and>
     (\<exists>e n. rows_of job (w_db w) = (fst (snd fr), fst (snd (snd fr)), snd (snd (snd fr)) @ [e]) \<and>
        er_incident_id e = job_incident_id job \<and> er_evidence_json e = raw \<and>
        er_id e = ev_fresh (en_event env n) \<and> fst fr \<le> n \<and> n < w_step w)"

lemma filter_map_same:
  "(\<And>x. x \<in> set xs \<Longrightarrow> p (f x) = p x) \<Longrightarrow> (\<And>x. x \<in> set xs \<Longrightarrow> p x \<Longrightarrow> f x = x) \<Longrightarrow>
    filter p (map f xs) = filter p xs"
  by (induction xs) auto

lemma settled_jobs_frame:
  assumes "distinct (map jr_id js)" and "j \<in> set js" and "jr_id j = k" and "jr_incident_id j = i"
  shows "filter (\<lambda>j. jr_incident_id j \<noteq> i) (settled_jobs k i st js) = filter (\<lambda>j. jr_incident_id j \<noteq> i) js"
proof -
  have "jr_incident_id q = i" if "q \<in> set js" "jr_id q = k" for q
    using that assms distinct_key_eq [OF assms(1)] by metis
  then show ?thesis
    unfolding settled_jobs_def by (intro filter_map_same) (auto simp: close_job_def)
qed

lemma healthy_complete:
  assumes env: "healthy env items res raw" and w: "Ready job fr w"
    and fresh: "fresh_ids env fr"
  shows "returns (repo_call env (\<lambda>e. CompleteJobAndIncident (en_results env) (ev_fresh e) job
      (job_incident_id job) res t)) w (\<lambda>_. completed_in env job raw fr)"
proof -
  let ?i = "job_incident_id job" and ?k = "ev_fresh (event_of env w)"
  from w have s: "wf_db (w_db w)" "claim_held job ?i (w_db w)" "\<not> w_locked w"
    and fr: "fst fr \<le> w_step w" "rows_of job (w_db w) = snd fr"
    by (auto simp: Ready_def framed_def)
  have m: "en_results env res = Inr raw" using env by (simp add: healthy_def)
  have "?k \<notin> set (map er_id (db_snapshots (w_db w)))"
    using fresh fr(1) unfolding fresh_ids_def fr(2) [symmetric] by (simp add: event_of_def rows_of_def)
  note eff = CompleteJobAndIncident_effect [where marshal = "en_results env", OF s(1) m s(2) this, of t]
  obtain r where r: "r \<in> set (db_incidents (w_db w))" "ir_id r = ?i"
    using s(2) by (rule held_row)
  from s(2) obtain j where j: "j \<in> set (db_jobs (w_db w))" "jr_id j = job_id job" "jr_incident_id j = ?i"
    by (auto simp: claim_held_def claim_row_def)
  let ?s = "snd (CompleteJobAndIncident (en_results env) ?k job ?i res t (w_db w))"
  have "set_state IncidentCompleted (unix t) r \<in> set (db_incidents ?s)"
    unfolding eff using r by (auto simp: set_update_where)
  then have "\<exists>r \<in> set (db_incidents ?s). ir_id r = ?i \<and> ir_state r = IncidentCompleted"
    using r(2) by (intro bexI) simp_all
  moreover have "close_job JobCompleted j \<in> set (db_jobs ?s)"
    unfolding eff using j by (auto simp: settled_jobs_def intro!: image_eqI [of _ _ j])
  then have "\<exists>j \<in> set (db_jobs ?s). jr_id j = job_id job \<and> jr_status j = JobCompleted"
    using j(2) by (intro bexI) simp_all
  moreover have "\<not> (\<exists>j \<in> set (db_jobs ?s). jr_incident_id j = ?i \<and> live j)"
    unfolding eff using settled_jobs_not_live [of _ "job_id job" ?i JobCompleted] by auto
  moreover have "rows_of job ?s = (fst (snd fr), fst (snd (snd fr)), snd (snd (snd fr)) @ [snapshot_row ?k ?i raw t])"
    using settled_jobs_frame [OF wf_job_ids [OF s(1)] j]
    unfolding eff fr(2) [symmetric] by (simp add: rows_of_def filter_update_where)
  moreover have "wf_db ?s"
    using CompleteJobAndIncident_step [of "w_db w" "en_results env" ?k job ?i res t] s(1) by (simp add: db_step_def)
  moreover have "er_incident_id (snapshot_row ?k ?i raw t) = ?i" "er_evidence_json (snapshot_row ?k ?i raw t) = raw"
    "er_id (snapshot_row ?k ?i raw t) = ev_fresh (en_event env (w_step w))"
    by (simp_all add: snapshot_row_def event_of_def)
  ultimately have "completed_in env job raw fr (w\<lparr>w_step := Suc (w_step w), w_db := ?s\<rparr>)"
    using s(3) fr(1) unfolding completed_in_def
    by (intro conjI exI [of _ "snapshot_row ?k ?i raw t"] exI [of _ "w_step w"]) simp_all
  moreover have "repo_call env (\<lambda>e. CompleteJobAndIncident (en_results env) (ev_fresh e) job ?i res t) w =
      (Inr (), w\<lparr>w_step := Suc (w_step w), w_db := ?s\<rparr>)"
    by (simp add: eff repo_call_undisturbed [OF healthy_undisturbed [OF env]])
  ultimately show ?thesis unfolding returns_def by blast
qed

lemma healthy_conclude:
  assumes env: "healthy env items res raw" and w: "Ready job fr w"
    and fresh: "fresh_ids env fr"
    and inc: "inc_id inc = job_incident_id job"
  shows "returns (conclude (sqlite_worker env wid) t job inc res) w
    (\<lambda>_. completed_in env job raw fr)"
proof -
  have np: "\<not> rca_pending_audit res" using env by (simp add: healthy_def)
  show ?thesis
    unfolding conclude_def Let_def if_not_P [OF np]
  proof (rule returns_attempt [OF healthy_card [OF env w]], rule returns_attempt)
    fix x w'
    assume "Ready job fr w'"
    with healthy_complete [OF env _ fresh, of job w' t]
    show "returns (rp_CompleteJobAndIncident (wk_repo (sqlite_worker env wid)) job
        (inc_id (inc\<lparr>inc_state := IncidentCompleted\<rparr>)) res t) w'
        (\<lambda>_. completed_in env job raw fr)"
      by (simp add: sqlite_repo_def inc)
  qed (simp add: returns_def done_ok_def)
qed

lemma healthy_investigate:
  assumes env: "healthy env items res raw" and w: "Ready job fr w"
    and fresh: "fresh_ids env fr"
    and inc: "inc_id inc = job_incident_id job"
  shows "returns (investigate (sqlite_worker env wid) t job inc) w
    (\<lambda>_. completed_in env job raw fr)"
  unfolding investigate_def
proof (rule returns_attempt [OF healthy_collect [OF env w]], clarify)
  fix cs es w1
  assume w1: "Ready job fr w1" and es: "set es = set items"
  have known: "known_evidence es = known_evidence items"
    using es by (auto simp: known_evidence_def fun_eq_iff)
  have run: "returns (wk_runner (sqlite_worker env wid) i cs') w2
      (\<lambda>x w'. x = res \<and> Ready job fr w')" if "Ready job fr w2" for i cs' w2
  proof -
    have "\<And>n. ev_result (en_event env n) = Inr res" using env by (simp add: healthy_def)
    with that show ?thesis
      by (simp add: returns_def query_call_step [OF healthy_undisturbed [OF env]] event_of_def Ready_def framed_def)
  qed
  show "returns (attempt (rp_StoreEvidence (wk_repo (sqlite_worker env wid)) (inc_id inc) es t)
      (\<lambda>err. if isInactive err then done_ok else persistenceFailure (sqlite_worker env wid) job err)
      (\<lambda>_. attempt (wk_runner (sqlite_worker env wid) (inc_id inc) cs)
         (fail_rca (sqlite_worker env wid) inc job)
         (\<lambda>result. case ValidateResult result (Some (known_evidence es)) of
            Inl err \<Rightarrow> fail_rca (sqlite_worker env wid) inc job err
          | Inr _ \<Rightarrow> conclude (sqlite_worker env wid) t job inc result))) w1
      (\<lambda>_. completed_in env job raw fr)"
  proof (rule returns_attempt)
    show "returns (rp_StoreEvidence (wk_repo (sqlite_worker env wid)) (inc_id inc) es t) w1
        (\<lambda>_. Ready job fr)"
      using healthy_store [OF env w1] es by (simp add: sqlite_repo_def)
  next
    fix x w2
    assume w2: "Ready job fr w2"
    show "returns (attempt (wk_runner (sqlite_worker env wid) (inc_id inc) cs)
         (fail_rca (sqlite_worker env wid) inc job)
         (\<lambda>result. case ValidateResult result (Some (known_evidence es)) of
            Inl err \<Rightarrow> fail_rca (sqlite_worker env wid) inc job err
          | Inr _ \<Rightarrow> conclude (sqlite_worker env wid) t job inc result)) w2
        (\<lambda>_. completed_in env job raw fr)"
    proof (rule returns_attempt [OF run [OF w2]], clarify)
      fix w3
      assume w3: "Ready job fr w3"
      have "ValidateResult res (Some (known_evidence items)) = Inr ()"
        using env by (simp add: healthy_def)
      with healthy_conclude [OF env w3 fresh inc, of wid t]
      show "returns (case ValidateResult res (Some (known_evidence es)) of
            Inl err \<Rightarrow> fail_rca (sqlite_worker env wid) inc job err
          | Inr _ \<Rightarrow> conclude (sqlite_worker env wid) t job inc res) w3
        (\<lambda>_. completed_in env job raw fr)"
        by (simp add: known)
    qed
  qed
qed

lemma Ready_iff: "Ready job fr w \<longleftrightarrow> Held job w \<and> framed job fr w"
  by (auto simp: Ready_def Held_def)

definition Begun :: "Job \<Rightarrow> nat \<times> rows \<Rightarrow> world \<Rightarrow> bool" where
  "Begun job fr w \<longleftrightarrow> Fresh job w \<and> framed job fr w"

lemma healthy_start:
  assumes env: "healthy env items res raw" and w: "Begun job fr w"
    and fresh: "fresh_ids env fr"
    and inc: "inc_id inc = job_incident_id job"
  shows "returns (start_investigation (sqlite_worker env wid) t job inc) w
    (\<lambda>_. completed_in env job raw fr)"
  unfolding start_investigation_def Let_def
proof (rule returns_attempt)
  from w obtain r where r: "r \<in> set (db_incidents (w_db w))" "ir_id r = job_incident_id job"
      "ir_state r = IncidentReceived \<or> ir_state r = IncidentAwaitingAuditEvent"
    and h: "wf_db (w_db w)" "claim_held job (job_incident_id job) (w_db w)"
    by (auto simp: Begun_def Fresh_def Held_def)
  from mark_call [OF healthy_undisturbed [OF env], of job w t] w
  obtain w' where m: "repo_call env (\<lambda>e. MarkInvestigatingForClaim job t) w = (Inr (), w')"
    and "Held job w'" by (auto simp: Begun_def)
  moreover have "framed job fr w'"
    using m w by (auto simp: repo_call_undisturbed [OF healthy_undisturbed [OF env]] Begun_def
        MarkInvestigating_ok [OF h r] intro!: framed_incidents)
  ultimately show "returns (rp_MarkInvestigatingForClaim (wk_repo (sqlite_worker env wid)) job t) w
      (\<lambda>_. Ready job fr)"
    by (simp add: returns_def sqlite_repo_def Ready_iff)
next
  fix x w1
  assume w1: "Ready job fr w1"
  show "returns (attempt (updateCard (sqlite_worker env wid) job
        (inc\<lparr>inc_state := IncidentInvestigating\<rparr>) empty_result)
      (\<lambda>err. if isInactive err then done_ok else fail_rca (sqlite_worker env wid)
         (inc\<lparr>inc_state := IncidentInvestigating\<rparr>) job err)
      (\<lambda>_. investigate (sqlite_worker env wid) t job (inc\<lparr>inc_state := IncidentInvestigating\<rparr>))) w1
    (\<lambda>_. completed_in env job raw fr)"
    by (rule returns_attempt [OF healthy_card [OF env w1]], rule healthy_investigate [OF env _ fresh])
      (simp_all add: inc)
qed

lemma healthy_message:
  assumes env: "healthy env items res raw" and w: "Begun job fr w" and m: "m \<noteq> ''''"
    and r: "r \<in> set (db_incidents (w_db w))" "ir_id r = job_incident_id job" "ir_message_id r = ''''"
  shows "returns (repo_call env (\<lambda>e. SetFeishuMessageIDForClaim job m t)) w (\<lambda>_. Begun job fr)"
proof -
  from w have f: "Fresh job w" and h: "wf_db (w_db w)" "claim_held job (job_incident_id job) (w_db w)"
    by (auto simp: Begun_def Fresh_def Held_def)
  note ok = SetMessage_ok [OF h m r, of t]
  have "repo_call env (\<lambda>e. SetFeishuMessageIDForClaim job m t) w =
      (Inr (), w\<lparr>w_step := Suc (w_step w), w_db := snd (SetFeishuMessageIDForClaim job m t (w_db w))\<rparr>)"
    by (simp add: repo_call_undisturbed [OF healthy_undisturbed [OF env]] ok)
  with message_call [OF healthy_undisturbed [OF env] f r this] w show ?thesis
    by (simp add: returns_def Begun_def ok framed_incidents)
qed

lemma healthy_read:
  assumes env: "healthy env items res raw" and w: "Begun job fr w"
  shows "returns (repo_call env (\<lambda>e. IncidentByID (job_incident_id job))) w
    (\<lambda>inc w'. Begun job fr w' \<and> inc_id inc = job_incident_id job \<and>
       inc_state inc \<noteq> IncidentRecovered \<and>
       (\<exists>r \<in> set (db_incidents (w_db w')). ir_id r = job_incident_id job \<and>
          ir_message_id r = inc_message_id inc))"
proof -
  from w have "Fresh job w" by (simp add: Begun_def)
  with healthy_undisturbed [OF env] show ?thesis
  proof (rule read_call)
    fix r
    assume "r \<in> set (db_incidents (w_db w))" "ir_id r = job_incident_id job"
      and "ir_state r = IncidentReceived \<or> ir_state r = IncidentAwaitingAuditEvent"
      and "repo_call env (\<lambda>e. IncidentByID (job_incident_id job)) w =
        (Inr (scanIncident r), w\<lparr>w_step := Suc (w_step w)\<rparr>)"
    with w show ?thesis by (auto simp: returns_def Begun_def)
  qed
qed

lemma healthy_create:
  assumes env: "healthy env items res raw" and w: "Begun job fr w"
    and fresh: "fresh_ids env fr"
    and inc: "inc_id inc = job_incident_id job"
    and r: "r \<in> set (db_incidents (w_db w))" "ir_id r = job_incident_id job" "ir_message_id r = ''''"
  shows "returns (create_card (sqlite_worker env wid) t job inc) w
    (\<lambda>_. completed_in env job raw fr)"
proof -
  note calm = healthy_undisturbed [OF env]
  let ?Q = "\<lambda>w'. Begun job fr w' \<and> r \<in> set (db_incidents (w_db w'))"
  have check: "returns (repo_call env (\<lambda>e. CheckActiveClaim job)) w (\<lambda>_. ?Q)"
    using check_call [OF calm, of job w] w r by (simp add: returns_def Begun_def)
  have create: "returns (send_create env inc) w1 (\<lambda>m w'. m \<noteq> '''' \<and> ?Q w')" if "?Q w1" for w1
  proof -
    obtain m where "ev_create (event_of env w1) = Inr m" "m \<noteq> ''''"
      using env by (auto simp: healthy_def event_of_def)
    with that show ?thesis
      by (simp add: returns_def send_create_def Let_def disturb_undisturbed [OF calm] Begun_def)
  qed
  have read: "returns (repo_call env (\<lambda>e. IncidentByID (job_incident_id job))) w3
      (\<lambda>inc' w'. Begun job fr w' \<and> inc_id inc' = job_incident_id job \<and>
         inc_state inc' \<noteq> IncidentRecovered)" if "Begun job fr w3" for w3
    using healthy_read [OF env that] unfolding returns_def by blast
  have rest: "returns (if inc_state inc' = IncidentRecovered then show_recovery (sqlite_worker env wid) inc'
      else start_investigation (sqlite_worker env wid) t job inc') w4
      (\<lambda>_. completed_in env job raw fr)"
    if "Begun job fr w4" "inc_id inc' = job_incident_id job" "inc_state inc' \<noteq> IncidentRecovered"
    for inc' w4
    using healthy_start [OF env that(1) fresh that(2)] that(3) by simp
  show ?thesis
    unfolding create_card_def sqlite_worker_simps
    by (rule returns_attempt [where P = "\<lambda>_. ?Q"], use check in \<open>simp add: sqlite_repo_def\<close>,
        rule returns_attempt [OF create], assumption,
        rule returns_attempt [where P = "\<lambda>_. Begun job fr"],
        use healthy_message [OF env _ _ _ r(2,3)] in \<open>simp add: sqlite_repo_def\<close>,
        rule returns_attempt [where P = "\<lambda>inc' w'. Begun job fr w' \<and>
          inc_id inc' = job_incident_id job \<and> inc_state inc' \<noteq> IncidentRecovered"],
        use read in \<open>simp add: sqlite_repo_def inc\<close>, use rest in simp)
qed

lemma healthy_run_claimed:
  assumes env: "healthy env items res raw" and w: "Begun job fr w"
    and fresh: "fresh_ids env fr"
  shows "returns (run_claimed (sqlite_worker env wid) t job) w
    (\<lambda>_. completed_in env job raw fr)"
  unfolding run_claimed_def sqlite_worker_simps
proof (rule returns_attempt)
  show "returns (rp_IncidentByID (sqlite_repo env) (job_incident_id job)) w
    (\<lambda>inc w'. Begun job fr w' \<and> inc_id inc = job_incident_id job \<and>
       inc_state inc \<noteq> IncidentRecovered \<and>
       (\<exists>r \<in> set (db_incidents (w_db w')). ir_id r = job_incident_id job \<and>
          ir_message_id r = inc_message_id inc))"
    using healthy_read [OF env w] by (simp add: sqlite_repo_def)
next
  fix inc :: Incident and w1
  assume a: "Begun job fr w1 \<and> inc_id inc = job_incident_id job \<and>
       inc_state inc \<noteq> IncidentRecovered \<and>
       (\<exists>r \<in> set (db_incidents (w_db w1)). ir_id r = job_incident_id job \<and>
          ir_message_id r = inc_message_id inc)"
  then obtain r where "r \<in> set (db_incidents (w_db w1))" "ir_id r = job_incident_id job"
    "ir_message_id r = inc_message_id inc" by blast
  with a healthy_create [OF env _ fresh, of job w1 inc r] healthy_start [OF env _ fresh, of job w1 inc]
  show "returns (if inc_message_id inc = '''' then create_card (sqlite_worker env wid) t job inc
      else start_investigation (sqlite_worker env wid) t job inc) w1
      (\<lambda>_. completed_in env job raw fr)"
    by auto
qed

lemma healthy_turn:
  assumes env: "healthy env items result raw" and w: "wf_db (w_db w)" "\<not> w_locked w"
    and claim: "ClaimNext wid (ev_now (event_of env w)) (w_db w) = (Inr (Some job), s1)"
    and r: "r \<in> set (db_incidents (w_db w))" "ir_id r = job_incident_id job"
      "ir_state r = IncidentReceived \<or> ir_state r = IncidentAwaitingAuditEvent"
    and fresh: "fresh_ids env (w_step w, rows_of job (w_db w))"
  shows "returns (RunOne (sqlite_worker env wid)) w
    (\<lambda>_. completed_in env job raw (w_step w, rows_of job (w_db w)))"
proof -
  let ?w1 = "w\<lparr>w_step := Suc (w_step w), w_db := s1\<rparr>" and ?fr = "(w_step w, rows_of job (w_db w))"
  obtain j where j: "min_by (\<lambda>j. (jr_run_after j, jr_id j)) (claimable_jobs (unix (ev_now (event_of env w))) (w_db w)) = Some j"
    and job: "job = claimed_job wid (ev_now (event_of env w)) j"
    and s1: "s1 = (w_db w)\<lparr>db_jobs := update_where (\<lambda>q. jr_id q = jr_id j)
                   (claim_job_row wid (unix (ev_now (event_of env w) + JobLeaseDuration))) (db_jobs (w_db w))\<rparr>"
    using w(1) claim by (rule ClaimNext_SomeE)
  have "j \<in> set (db_jobs (w_db w))" using min_by_in [OF j] by (simp add: claimable_jobs_def)
  then have "jr_incident_id q = job_incident_id job" if "q \<in> set (db_jobs (w_db w))" "jr_id q = jr_id j" for q
    using that distinct_key_eq [OF wf_job_ids [OF w(1)], of q j] by (simp add: job claimed_job_def scanJob_def)
  then have "filter (\<lambda>j. jr_incident_id j \<noteq> job_incident_id job) (db_jobs s1) =
      filter (\<lambda>j. jr_incident_id j \<noteq> job_incident_id job) (db_jobs (w_db w))"
    unfolding s1 by (auto simp: update_where_def claim_job_row_def intro!: filter_map_same split: if_splits)
  then have "rows_of job s1 = rows_of job (w_db w)"
    by (simp add: rows_of_def s1)
  with ClaimNext_holds [OF w(1) claim] w(2) r have "Begun job ?fr ?w1"
    by (auto simp: Begun_def Fresh_def Held_def framed_def)
  from healthy_run_claimed [OF env this fresh, of wid "ev_now (event_of env w)"] claim
  show ?thesis
    by (simp add: returns_def RunOne_def attempt_def sqlite_repo_def
        repo_call_undisturbed [OF healthy_undisturbed [OF env]])
qed

text \<open>
  C16 (healthy_turn_completes_the_incident). When every service answers, the analysis passes the
  validation against the collected evidence and concludes, and snapshot ids are fresh, a turn on
  a received (or waiting) incident succeeds: the incident is completed, its job is completed, no
  queued or running job of it is left and the encoded result is stored as a snapshot, whether or
  not the incident already had its card. The rows of other incidents and their jobs are untouched.
\<close>

theorem healthy_turn_completes_the_incident:
  assumes "healthy env items result raw" and "wf_db (w_db w)" and "\<not> w_locked w"
    and "ClaimNext wid (ev_now (event_of env w)) (w_db w) = (Inr (Some job), s1)"
    and "r \<in> set (db_incidents (w_db w))" and "ir_id r = job_incident_id job"
    and "ir_state r = IncidentReceived \<or> ir_state r = IncidentAwaitingAuditEvent"
    and "\<And>n. ev_fresh (en_event env n) \<notin> set (map er_id (db_snapshots (w_db w)))"
    and "RunOne (sqlite_worker env wid) w = (res, w')"
  shows "res = Inr () \<and>
    (\<exists>r' \<in> set (db_incidents (w_db w')). ir_id r' = ir_id r \<and> ir_state r' = IncidentCompleted) \<and>
    (\<exists>j \<in> set (db_jobs (w_db w')). jr_id j = job_id job \<and> jr_status j = JobCompleted) \<and>
    \<not> (\<exists>j \<in> set (db_jobs (w_db w')). jr_incident_id j = ir_id r \<and>
         (jr_status j = JobQueued \<or> jr_status j = JobRunning)) \<and>
    (\<exists>e. er_incident_id e = ir_id r \<and> er_evidence_json e = raw \<and>
       db_snapshots (w_db w') = db_snapshots (w_db w) @ [e]) \<and>
    filter (\<lambda>q. ir_id q \<noteq> ir_id r) (db_incidents (w_db w')) =
      filter (\<lambda>q. ir_id q \<noteq> ir_id r) (db_incidents (w_db w)) \<and>
    filter (\<lambda>j. jr_incident_id j \<noteq> ir_id r) (db_jobs (w_db w')) =
      filter (\<lambda>j. jr_incident_id j \<noteq> ir_id r) (db_jobs (w_db w))"
proof -
  have "fresh_ids env (w_step w, rows_of job (w_db w))"
    using assms(8) by (simp add: fresh_ids_def rows_of_def)
  from healthy_turn [OF assms(1-7) this] show ?thesis
    unfolding returns_def assms(9) completed_in_def live_def assms(6) by (auto simp: rows_of_def)
qed

end
