(* ===== verification/StoreWitnesses.thy ===== *)
theory StoreWitnesses
  imports StoreOutcomes
begin

text \<open>
  Concrete runs that satisfy the hypotheses of the store's theorems: one alert, its job, a claim
  by one worker and, where the theorem is about it, a second worker's claim after the lease.
\<close>

definition demo_encode :: "RCAResult \<Rightarrow> string res" where
  "demo_encode r = Inr ''{}''"

definition demo_evidence :: Evidence where
  "demo_evidence =
     \<lparr>ev_id = ''e1'', ev_type = ''metric'', ev_observed_at = 0, ev_source = ''cms'',
      ev_query_ref = ''q'', ev_summary = ''ok'', ev_raw_ref = ''sha256:0''\<rparr>"

definition demo_marshal :: "Evidence \<Rightarrow> string res" where
  "demo_marshal e = (if e = demo_evidence then Inr ''raw'' else Inl (ErrNew ''unsupported''))"

definition demo_unmarshal :: "string \<Rightarrow> Evidence res" where
  "demo_unmarshal raw = (if raw = ''raw'' then Inr demo_evidence else Inl (ErrNew ''invalid''))"

definition demo_ops :: "store_op list" where
  "demo_ops =
     [OpCreateOrGet ''i1'' (100 * second) ''ws'' ''rule'' ''host'' (100 * second),
      OpEnqueue ''j1'' ''i1'' (100 * second)]"

definition queued_db :: db where
  "queued_db = run_ops demo_marshal demo_encode demo_ops empty_db"

definition demo_claim :: Job where
  "demo_claim =
     \<lparr>job_id = ''j1'', job_incident_id = ''i1'', job_status = JobRunning, job_worker_id = ''w1'',
      job_attempt = 1, job_run_after = 100 * second, job_lease_until = 500 * second\<rparr>"

definition claimed_db :: db where
  "claimed_db = snd (ClaimNext ''w1'' (200 * second) queued_db)"

definition reclaimed_db :: db where
  "reclaimed_db = snd (ClaimNext ''w2'' (600 * second) claimed_db)"

lemma wf_queued_db [simp]: "wf_db queued_db"
  by (simp add: queued_db_def wf_run_ops)

lemma wf_claimed_db [simp]: "wf_db claimed_db"
  using ClaimNext_step [of queued_db "''w1''" "200 * second"] by (simp add: claimed_db_def db_step_def)

lemma wf_reclaimed_db [simp]: "wf_db reclaimed_db"
  using ClaimNext_step [of claimed_db "''w2''" "600 * second"] by (simp add: reclaimed_db_def db_step_def)

lemma queued_db_eq:
  "queued_db = \<lparr>db_incidents = [\<lparr>ir_id = ''i1'', ir_key = ''ws:rule:host'', ir_workspace = ''ws'',
       ir_rule_id = ''rule'', ir_resource_id = ''host'', ir_state = ''RECEIVED'', ir_message_id = '''',
       ir_alert_at = 100, ir_created_at = 100, ir_updated_at = 100\<rparr>],
     db_jobs = [\<lparr>jr_id = ''j1'', jr_incident_id = ''i1'', jr_status = ''QUEUED'', jr_worker_id = '''',
       jr_attempt = 0, jr_run_after = 100, jr_lease_until = 0\<rparr>],
     db_snapshots = [], db_evidence = []\<rparr>"
  by code_simp

lemma claimed_db_eq:
  "claimed_db = queued_db\<lparr>db_jobs := [\<lparr>jr_id = ''j1'', jr_incident_id = ''i1'', jr_status = ''RUNNING'',
       jr_worker_id = ''w1'', jr_attempt = 1, jr_run_after = 100, jr_lease_until = 500\<rparr>]\<rparr>"
  by code_simp

lemma reclaimed_db_eq:
  "reclaimed_db = queued_db\<lparr>db_jobs := [\<lparr>jr_id = ''j1'', jr_incident_id = ''i1'', jr_status = ''RUNNING'',
       jr_worker_id = ''w2'', jr_attempt = 2, jr_run_after = 100, jr_lease_until = 900\<rparr>]\<rparr>"
  by code_simp

lemma claimed_db_claim:
  "(\<exists>j \<in> set (db_jobs claimed_db). claim_row demo_claim ''i1'' j)" "incident_active claimed_db ''i1''"
  by code_simp+

section \<open>Witnesses\<close>

definition recover_ops :: "store_op list" where
  "recover_ops = demo_ops @ [OpRecover ''ws:rule:host'' (150 * second)]"

lemma recovered_row:
  "\<lparr>ir_id = ''i1'', ir_key = ''ws:rule:host'', ir_workspace = ''ws'',
       ir_rule_id = ''rule'', ir_resource_id = ''host'', ir_state = IncidentRecovered,
       ir_message_id = '''', ir_alert_at = 100, ir_created_at = 100, ir_updated_at = 150\<rparr>
     \<in> set (db_incidents (run_ops demo_marshal demo_encode recover_ops empty_db))"
  by code_simp

lemma recovery_is_final_witness:
  "\<exists>r' \<in> set (db_incidents (run_ops demo_marshal demo_encode
       (recover_ops @ [OpFail ''i1'' (200 * second)]) empty_db)).
     ir_id r' = ''i1'' \<and> ir_state r' = IncidentRecovered"
  using recovery_is_final [OF recovered_row, of "[OpFail ''i1'' (200 * second)]"] by auto

lemma closed_jobs_frozen_witness:
  "\<exists>j' \<in> set (db_jobs (run_ops demo_marshal demo_encode
       (recover_ops @ [OpClaimNext ''w1'' (200 * second)]) empty_db)).
     jr_id j' = ''j1'' \<and> jr_status j' = JobCancelled"
proof -
  let ?j = "\<lparr>jr_id = ''j1'', jr_incident_id = ''i1'', jr_status = JobCancelled, jr_worker_id = '''',
       jr_attempt = 0, jr_run_after = 100, jr_lease_until = 0\<rparr>"
  have "?j \<in> set (db_jobs (run_ops demo_marshal demo_encode recover_ops empty_db))" by code_simp
  from closed_jobs_frozen [OF this, of "[OpClaimNext ''w1'' (200 * second)]"]
  obtain j' where "j' \<in> set (db_jobs (run_ops demo_marshal demo_encode
       (recover_ops @ [OpClaimNext ''w1'' (200 * second)]) empty_db))" and "j' = ?j"
    by auto
  then show ?thesis by (intro bexI [of _ j']) simp_all
qed

lemma ClaimNext_demo:
  "ClaimNext ''w1'' (200 * second) queued_db = (Inr (Some demo_claim), claimed_db)"
  unfolding claimed_db_def by code_simp

lemma ClaimNext_earliest_witness:
  "\<exists>j \<in> set (db_jobs queued_db). jr_id j = ''j1'' \<and> claimable 200 j"
proof -
  have "unix (200 * second) = 200" by code_simp
  with ClaimNext_earliest [OF wf_queued_db ClaimNext_demo] show ?thesis
    by (auto simp: demo_claim_def)
qed

lemma ClaimNext_none_iff_witness:
  "\<not> (\<exists>j \<in> set (db_jobs queued_db). claimable (unix (99 * second)) j \<and>
        incident_active queued_db (jr_incident_id j))"
proof -
  have "fst (ClaimNext ''w1'' (99 * second) queued_db) = Inr None" by code_simp
  with ClaimNext_none_iff [OF wf_queued_db, of "''w1''" "99 * second"] show ?thesis by simp
qed

definition demo_reclaim :: Job where
  "demo_reclaim = demo_claim\<lparr>job_worker_id := ''w2'', job_attempt := 2, job_lease_until := 900 * second\<rparr>"

lemma reclaim_fences_old_claim_witness:
  "no_token demo_claim reclaimed_db \<and> (\<exists>q \<in> set (db_jobs reclaimed_db). holds_token demo_reclaim q)"
proof -
  let ?j = "\<lparr>jr_id = ''j1'', jr_incident_id = ''i1'', jr_status = ''RUNNING'',
       jr_worker_id = ''w1'', jr_attempt = 1, jr_run_after = 100, jr_lease_until = 500\<rparr>"
  have "?j \<in> set (db_jobs claimed_db)" by code_simp
  moreover have "holds_token demo_claim ?j" by code_simp
  moreover have "ClaimNext ''w2'' (600 * second) claimed_db = (Inr (Some demo_reclaim), reclaimed_db)"
    unfolding reclaimed_db_def by code_simp
  moreover have "job_id demo_reclaim = job_id demo_claim" by code_simp
  ultimately show ?thesis
    unfolding no_token_def by (rule reclaim_fences_old_claim [OF wf_claimed_db])
qed

definition demo_result :: RCAResult where
  "demo_result = empty_result\<lparr>rca_summary := ''s'', rca_confidence := 1\<rparr>"

lemma lost_claim_tail: "A \<and> B \<and> C \<and> D \<Longrightarrow> A \<and> D"
  by blast

lemma lost_claim_changes_nothing_witness:
  "inactive_error (fst (RetryOrFailJob demo_claim 0 3 reclaimed_db)) \<and>
     snd (UpdateActiveClaimCard demo_claim (\<lambda>_ n. (Inr (), Suc n)) (reclaimed_db, 0)) = (reclaimed_db, 0)"
proof -
  have "\<forall>j \<in> set (db_jobs reclaimed_db). \<not> holds_token demo_claim j" by code_simp
  moreover have "''m'' \<noteq> ''''" by simp
  moreover have "demo_encode demo_result = Inr ''{}''" by (simp add: demo_encode_def)
  moreover have "(1::int) \<le> 3" by simp
  ultimately show ?thesis
    by (rule lost_claim_changes_nothing [OF wf_reclaimed_db,
          where t = 0 and update = "\<lambda>_ n. (Inr (), Suc n)" and c = 0, THEN conjunct2, THEN lost_claim_tail])
qed

lemma completion_needs_the_claim_witness:
  "fst (CompleteJobAndIncident demo_encode ''k1'' demo_claim ''i1'' demo_result 0 claimed_db) = Inr ()"
proof -
  have "demo_encode demo_result = Inr ''{}''" by (simp add: demo_encode_def)
  moreover have "''k1'' \<notin> set (map er_id (db_snapshots claimed_db))" by code_simp
  ultimately show ?thesis
    using completion_needs_the_claim [OF wf_claimed_db, of demo_encode demo_result "''{}''" "''k1''" demo_claim "''i1''" 0]
      claimed_db_claim by simp
qed

lemma retry_then_fail_witness:
  "fst (RetryOrFailJob demo_claim 0 3 claimed_db) = Inr False"
proof -
  have i: "job_incident_id demo_claim = ''i1''" and a: "job_attempt demo_claim = 1"
    by (simp_all add: demo_claim_def)
  from retry_then_fail [OF wf_claimed_db, of demo_claim 3 0] claimed_db_claim
  show ?thesis by (auto simp: i a)
qed

lemma audit_retry_outcome_witness:
  "fst (CompleteJobAndScheduleAuditRetry ''j2'' demo_claim ''i1'' 0 claimed_db) = Inr ()"
proof -
  have "''j2'' \<notin> set (map jr_id (db_jobs claimed_db))" by code_simp
  from audit_retry_outcome [OF wf_claimed_db claimed_db_claim this, of 0] show ?thesis by simp
qed


lemma alerts_are_deduplicated_witness:
  "CreateOrGetIncident (NewIncident ''i2'' 0 ''ws'' ''rule'' ''host'' 0) claimed_db =
     (Inr (scanIncident (hd (db_incidents claimed_db)), False), claimed_db)"
proof -
  have "''i2'' \<notin> set (map ir_id (db_incidents claimed_db))" by code_simp
  moreover have "find (\<lambda>r. ir_key r = incident_key ''ws'' ''rule'' ''host'' \<and> is_active (ir_state r))
      (db_incidents claimed_db) = Some (hd (db_incidents claimed_db))" by code_simp
  ultimately show ?thesis
    using alerts_are_deduplicated [OF wf_claimed_db, of "''i2''" 0 "''ws''" "''rule''" "''host''" 0]
    by simp
qed

lemma reachable_rows_well_typed_witness:
  "ir_state (hd (db_incidents (run_ops demo_marshal demo_encode recover_ops empty_db)))
     \<in> set incident_states"
proof -
  have "hd (db_incidents (run_ops demo_marshal demo_encode recover_ops empty_db))
      \<in> set (db_incidents (run_ops demo_marshal demo_encode recover_ops empty_db))"
    by (rule hd_in_set) (use recovered_row in auto)
  with reachable_rows_well_typed [of demo_marshal demo_encode recover_ops] show ?thesis by blast
qed

end
