(* ===== verification/WorkerWitnesses.thy ===== *)
theory WorkerWitnesses
  imports WorkerHealthy StoreWitnesses
begin

text \<open>
  Concrete turns of the worker on the database of one queued alert: a healthy one, one whose
  evidence queries fail, and one that loses its claim to another worker in the middle.
\<close>


definition worker_result :: RCAResult where
  "worker_result =
     \<lparr>rca_summary = han, rca_confidence = 1 / 2, rca_root_cause = han, rca_evidence_ids = [''e1''],
      rca_next_actions = [han], rca_pending_audit = False\<rparr>"

definition demo_event :: event where
  "demo_event =
     \<lparr>ev_ops = [], ev_now = 200 * second, ev_fault = None, ev_fresh = ''s1'', ev_create = Inr ''om1'',
      ev_update = Inr (), ev_items = Inr [demo_evidence], ev_result = Inr worker_result\<rparr>"

definition demo_env :: environment where
  "demo_env =
     \<lparr>en_event = (\<lambda>n. demo_event), en_evidence = demo_marshal, en_results = demo_encode\<rparr>"

definition failing_env :: environment where
  "failing_env = demo_env\<lparr>en_event := (\<lambda>n. demo_event\<lparr>ev_items := Inl (ErrNew ''timeout'')\<rparr>)\<rparr>"

text \<open>Another worker claims the job after the lease, before the sixth call of this one.\<close>

definition racing_env :: environment where
  "racing_env = demo_env\<lparr>en_event := (\<lambda>n. if n = 6
     then demo_event\<lparr>ev_ops := [OpClaimNext ''w2'' (600 * second)]\<rparr> else demo_event)\<rparr>"

definition start_world :: "db \<Rightarrow> world" where
  "start_world s = \<lparr>w_db = s, w_step = 0, w_locked = False, w_log = []\<rparr>"

definition turn :: "environment \<Rightarrow> db \<Rightarrow> unit res \<times> world" where
  "turn env s = RunOne (sqlite_worker env ''w1'') (start_world s)"

lemma start_world_simps [simp]:
  "w_db (start_world s) = s" "w_step (start_world s) = 0" "\<not> w_locked (start_world s)"
  "w_log (start_world s) = []"
  by (simp_all add: start_world_def)

lemma turn_eq: "RunOne (sqlite_worker env ''w1'') (start_world s) = (fst (turn env s), snd (turn env s))"
  by (simp add: turn_def)

section \<open>Witnesses\<close>


lemma card_updates_are_justified_witness:
  "\<not> (\<exists>m inc res s. Updated m inc res s \<in> set (w_log (snd (turn racing_env queued_db))) \<and>
      \<not> ((\<exists>j \<in> set (db_jobs s). jr_incident_id j = inc_id inc \<and> jr_status j = JobRunning \<and>
              jr_worker_id j = ''w1'') \<and> incident_active s (inc_id inc) \<or>
          res = recovery_result \<and>
          (\<exists>row \<in> set (db_incidents s). ir_id row = inc_id inc \<and> ir_state row = IncidentRecovered)))"
  using card_updates_are_justified [OF _ _ turn_eq [of racing_env queued_db]] by auto



text \<open>The database after a turn whose evidence queries failed: the job waits for its second attempt.\<close>

definition stuck_ops :: "store_op list" where
  "stuck_ops = demo_ops @
     [OpClaimNext ''w1'' (200 * second), OpSetMessageForClaim demo_claim ''om1'' (200 * second),
      OpMarkInvestigating demo_claim (200 * second), OpRetryOrFail demo_claim (200 * second) 3]"

definition stuck_db :: db where
  "stuck_db = run_ops demo_marshal demo_encode stuck_ops empty_db"

definition later_env :: environment where
  "later_env = demo_env\<lparr>en_event := (\<lambda>n. demo_event\<lparr>ev_now := 300 * second\<rparr>)\<rparr>"

lemma stuck_db_eq:
  "stuck_db = \<lparr>db_incidents = [\<lparr>ir_id = ''i1'', ir_key = ''ws:rule:host'', ir_workspace = ''ws'',
       ir_rule_id = ''rule'', ir_resource_id = ''host'', ir_state = ''INVESTIGATING'',
       ir_message_id = ''om1'', ir_alert_at = 100, ir_created_at = 100, ir_updated_at = 200\<rparr>],
     db_jobs = [\<lparr>jr_id = ''j1'', jr_incident_id = ''i1'', jr_status = ''QUEUED'', jr_worker_id = '''',
       jr_attempt = 1, jr_run_after = 205, jr_lease_until = 0\<rparr>],
     db_snapshots = [], db_evidence = []\<rparr>"
  by code_simp

lemma wf_stuck_db [simp]: "wf_db stuck_db"
  by (simp add: stuck_db_def wf_run_ops)

lemma undisturbed_demo [simp]: "undisturbed demo_env" "undisturbed later_env" "undisturbed failing_env"
  by (simp_all add: undisturbed_def demo_env_def later_env_def failing_env_def demo_event_def)

definition second_claim :: Job where
  "second_claim = demo_claim\<lparr>job_attempt := 2, job_run_after := 205 * second,
     job_lease_until := 600 * second\<rparr>"

definition reclaimed_stuck_db :: db where
  "reclaimed_stuck_db = snd (ClaimNext ''w1'' (300 * second) stuck_db)"

lemma ClaimNext_stuck:
  "ClaimNext ''w1'' (300 * second) stuck_db = (Inr (Some second_claim), reclaimed_stuck_db)"
  unfolding reclaimed_stuck_db_def stuck_db_eq by code_simp

lemma later_now: "ev_now (event_of later_env (start_world s)) = 300 * second"
  by (simp add: event_of_def later_env_def demo_env_def)

lemma stuck_row:
  "hd (db_incidents stuck_db) \<in> set (db_incidents stuck_db)" "ir_id (hd (db_incidents stuck_db)) = ''i1''"
  "ir_state (hd (db_incidents stuck_db)) = IncidentInvestigating"
  "ir_message_id (hd (db_incidents stuck_db)) \<noteq> ''''"
  by (simp_all add: stuck_db_eq IncidentInvestigating_def)

lemma second_investigation_does_nothing_witness:
  "fst (turn later_env stuck_db) = Inr () \<and> w_log (snd (turn later_env stuck_db)) = [] \<and>
     (\<exists>j \<in> set (db_jobs (w_db (snd (turn later_env stuck_db)))). jr_id j = ''j1'' \<and> jr_status j = JobRunning)"
proof -
  have "ClaimNext ''w1'' (ev_now (event_of later_env (start_world stuck_db))) (w_db (start_world stuck_db)) =
      (Inr (Some second_claim), reclaimed_stuck_db)"
    by (simp add: later_now ClaimNext_stuck)
  moreover have "ir_id (hd (db_incidents stuck_db)) = job_incident_id second_claim"
    by (simp add: stuck_row second_claim_def demo_claim_def)
  ultimately have "fst (turn later_env stuck_db) = Inr () \<and>
      w_db (snd (turn later_env stuck_db)) = reclaimed_stuck_db \<and>
      w_log (snd (turn later_env stuck_db)) = w_log (start_world stuck_db) \<and>
      (\<exists>j \<in> set (db_jobs (w_db (snd (turn later_env stuck_db)))).
         jr_id j = job_id second_claim \<and> jr_status j = JobRunning)"
    by (intro second_investigation_does_nothing [OF undisturbed_demo(2) _ _ _ _ stuck_row(3,4) turn_eq])
      (simp_all add: stuck_row)
  moreover have "job_id second_claim = ''j1''" by (simp add: second_claim_def demo_claim_def)
  ultimately show ?thesis by (metis start_world_simps(4))
qed

lemma interrupted_incident_never_finishes_witness:
  "\<exists>r \<in> set (db_incidents (w_db (polls later_env ''w1'' 1000 (start_world stuck_db)))).
     ir_id r = ''i1'' \<and> ir_state r = IncidentInvestigating"
proof -
  have "\<forall>j \<in> set (db_jobs (w_db (start_world stuck_db))). jr_incident_id j = ''i1''"
    by (simp add: stuck_db_eq)
  from interrupted_incident_never_finishes [OF undisturbed_demo(2) _ this _ stuck_row(2-4)] stuck_row(1)
  show ?thesis by simp
qed

lemma queued_row:
  "hd (db_incidents queued_db) \<in> set (db_incidents queued_db)" "ir_id (hd (db_incidents queued_db)) = ''i1''"
  "ir_state (hd (db_incidents queued_db)) = IncidentReceived"
  by (simp_all add: queued_db_eq IncidentReceived_def)

lemma turn_settles_its_claim_witness:
  "\<not> (\<exists>j \<in> set (db_jobs (w_db (snd (turn failing_env queued_db)))). holds_token demo_claim j)"
proof -
  have "calm failing_env"
    by (simp add: calm_def) (simp add: failing_env_def demo_env_def demo_event_def demo_marshal_def demo_encode_def)
  moreover have "ClaimNext ''w1'' (ev_now (event_of failing_env (start_world queued_db)))
      (w_db (start_world queued_db)) = (Inr (Some demo_claim), claimed_db)"
    using ClaimNext_demo by (simp add: event_of_def failing_env_def demo_event_def)
  ultimately show ?thesis
    using queued_row
    by (intro turn_settles_its_claim [OF _ _ _ _ _ _ _ turn_eq, where r = "hd (db_incidents queued_db)"])
      (simp_all add: demo_claim_def)
qed

lemma worker_result_valid: "ValidateResult worker_result (Some (known_evidence [demo_evidence])) = Inr ()"
proof -
  have "containsHan han" "TrimSpace han = han"
    by (simp_all add: containsHan_def TrimSpace_def is_space_def han_runes)
  moreover have "han \<noteq> ''''" by (simp add: han_def utf8_def)
  ultimately show ?thesis
    by (simp add: ValidateResult_def worker_result_def known_evidence_def demo_evidence_def)
qed

lemma healthy_turn_completes_the_incident_witness:
  "fst (turn demo_env queued_db) = Inr () \<and>
     (\<exists>r \<in> set (db_incidents (w_db (snd (turn demo_env queued_db)))).
        ir_id r = ''i1'' \<and> ir_state r = IncidentCompleted)"
proof -
  have "healthy demo_env [demo_evidence] worker_result ''{}''"
    using worker_result_valid
    by (simp add: healthy_def)
      (simp add: demo_env_def demo_event_def demo_marshal_def demo_encode_def demo_evidence_def
        worker_result_def)
  moreover have "ClaimNext ''w1'' (ev_now (event_of demo_env (start_world queued_db)))
      (w_db (start_world queued_db)) = (Inr (Some demo_claim), claimed_db)"
    using ClaimNext_demo by (simp add: event_of_def demo_env_def demo_event_def)
  moreover have "db_snapshots (w_db (start_world queued_db)) = []"
    by (simp add: queued_db_eq)
  moreover have "ir_id (hd (db_incidents queued_db)) = job_incident_id demo_claim"
    by (simp add: queued_row demo_claim_def)
  ultimately show ?thesis
    using healthy_turn_completes_the_incident [OF _ _ _ _ _ _ _ _ turn_eq,
        where r = "hd (db_incidents queued_db)"] queued_row by simp
qed

end
