(* ===== verification/GatewayWitnesses.thy ===== *)
theory GatewayWitnesses
  imports GatewayStore WorkerWitnesses
begin

text \<open>Concrete deliveries to the gateway: an alert on an empty database, and its repetition.\<close>

definition alert_body :: string where
  "alert_body = ''{\"type\":\"alert\",\"status\":\"OCCURRED\",\"workspace\":\"ws\",\"ruleId\":\"r\",\"alertEntityId\":\"i\",\"timestamp\":5000}''"

definition alert_event :: CloudMonitorEvent where
  "alert_event =
     \<lparr>cm_alert = \<lparr>al_workspace = ''ws'', al_rule_id = ''r'', al_resource_id = ''i'',
        al_state = ''OCCURRED'', al_event_at = 5 * second\<rparr>, cm_transition = AlertOccurred\<rparr>"

lemma alert_body_decoded:
  "decode_value alert_body = Inr (JObj [(''type'', JStr ''alert''), (''status'', JStr ''OCCURRED''),
     (''workspace'', JStr ''ws''), (''ruleId'', JStr ''r''), (''alertEntityId'', JStr ''i''),
     (''timestamp'', JNum ''5000'')], [])"
  by (simp add: alert_body_def json_eval)

lemma alert_upper: "ToUpper ''alert'' = ''ALERT''" "ToUpper ''OCCURRED'' = ''OCCURRED''"
  by (simp_all add: ToUpper_def upper_rune_def encode_rune_def chr_def runes_ascii byte_def) code_simp+

lemma alert_body_event: "ParseCloudMonitorEvent alert_body = Inr alert_event"
  by (simp add: ParseCloudMonitorEvent_def decode_payload_def alert_body_decoded struct_value_def
      field_of_def payload_fields_def set_payload_field_def put_def string_field_def int64_field_def
      int64_literal_def is_digit_def byte_def digit_value_def empty_payload_def event_of_payload_def
      alert_upper Let_def AlertOccurred_def AlertRecovered_def cloudMonitorEventTime_def alert_event_def second_def)


definition alert_request :: request where
  "alert_request =
     \<lparr>rq_method = ''POST'', rq_path = ingress_path, rq_token = ''t'', rq_body = alert_body, rq_body_error = None\<rparr>"

definition demo_config :: gateway_config where
  "demo_config =
     \<lparr>gc_token = ''t'', gc_capture_dir = '''', gc_notify = True, gc_save = (\<lambda>dir raw. Inr ''f'')\<rparr>"

definition answer :: "environment \<Rightarrow> request \<Rightarrow> db \<Rightarrow> response \<times> world" where
  "answer env r s = newGateway (sqlite_gateway demo_config env) r (start_world s)"

lemma answer_eq:
  "newGateway (sqlite_gateway demo_config env) r (start_world s) = (fst (answer env r s), snd (answer env r s))"
  by (simp add: answer_def)

lemma alert_delivered: "delivers (gc_token demo_config) alert_request alert_event"
  by (simp add: delivers_def alert_request_def demo_config_def alert_body_event maxCallbackBytes_def)
    (simp add: alert_body_def)

lemma alert_occurred: "cm_transition alert_event = AlertOccurred"
  by (simp add: alert_event_def)

section \<open>Witnesses\<close>

lemma refused_requests_change_nothing_witness:
  "snd (answer demo_env (alert_request\<lparr>rq_token := ''guess''\<rparr>) empty_db) = start_world empty_db"
  using refused_requests_change_nothing [OF answer_eq [of demo_env "alert_request\<lparr>rq_token := ''guess''\<rparr>" empty_db]]
  by (simp add: alert_request_def demo_config_def sqlite_gateway_def)

lemma gateway_cards_tell_recoveries_witness:
  "wf_db (w_db (snd (answer racing_env alert_request queued_db))) \<and>
     db_le queued_db (w_db (snd (answer racing_env alert_request queued_db)))"
  using gateway_cards_tell_recoveries [OF _ _ answer_eq [of racing_env alert_request queued_db]] by simp

lemma demo_env_undisturbed: "undisturbed demo_env"
  by (simp add: undisturbed_def demo_env_def demo_event_def)

lemma demo_env_fresh: "ev_fresh (en_event demo_env n) = ''s1''"
  by (simp add: demo_env_def demo_event_def)

lemma empty_db_fields [simp]: "db_incidents empty_db = []" "db_jobs empty_db = []"
  by (simp_all add: empty_db_def)

lemma new_alert_gets_one_job_witness:
  "\<exists>row job. fst (answer demo_env alert_request empty_db) = incident_response (ir_id row) False \<and>
     w_db (snd (answer demo_env alert_request empty_db)) = empty_db\<lparr>db_incidents := [row], db_jobs := [job]\<rparr> \<and>
     ir_state row = IncidentReceived \<and> jr_status job = JobQueued \<and> jr_run_after job = 5"
  using new_alert_gets_one_job [OF _ demo_env_undisturbed alert_delivered alert_occurred _ _ answer_eq [of demo_env alert_request empty_db]]
  by (simp add: alert_event_def unix_def second_def) blast

definition broken_queue_env :: environment where
  "broken_queue_env = demo_env\<lparr>en_event := (\<lambda>n. if n = 1
     then demo_event\<lparr>ev_fault := Some (False, ErrNew ''disk full'')\<rparr> else demo_event)\<rparr>"

lemma lost_enqueue_is_never_repaired_witness:
  "fst (answer broken_queue_env alert_request empty_db) = error_response 500 ''queue incident'' \<and>
   incident_active (w_db (snd (answer broken_queue_env alert_request empty_db))) ''s1''"
proof -
  have events: "ev_ops (event_of broken_queue_env (start_world empty_db)) = []"
    "ev_fault (event_of broken_queue_env (start_world empty_db)) = None"
    "ev_fresh (event_of broken_queue_env (start_world empty_db)) = ''s1''"
    "ev_ops (en_event broken_queue_env (Suc (w_step (start_world empty_db)))) = []"
    "ev_fault (en_event broken_queue_env (Suc (w_step (start_world empty_db)))) = Some (False, ErrNew ''disk full'')"
    by (simp_all add: event_of_def broken_queue_env_def demo_env_def demo_event_def)
  have none: "active_by_key (alert_key (cm_alert alert_event)) (w_db (start_world empty_db)) = None"
    "''s1'' \<notin> set (map ir_id (db_incidents (w_db (start_world empty_db))))"
    "''s1'' \<notin> set (map jr_incident_id (db_jobs (w_db (start_world empty_db))))"
    "wf_db (w_db (start_world empty_db))"
    by (simp_all add: active_by_key_def)
  show ?thesis
    using lost_enqueue_is_never_repaired [OF none(4) alert_delivered alert_occurred none(1) events(1-3) none(2,3)
        events(4,5) answer_eq [of broken_queue_env alert_request empty_db]] by blast
qed

end
