(* ===== verification/Config.thy ===== *)
theory Config
  imports Domain GoText
begin

text \<open>
  The configuration of \<^verbatim>\<open>internal/config/config.go\<close>: \<^verbatim>\<open>Load\<close> with its checks and
  defaults, and the incident bindings. YAML is read by a third-party package: the decoders are
  the parameters \<^theory_text>\<open>yaml\<close>, a file is what \<^verbatim>\<open>os.ReadFile\<close> returned, and the
  environment is a function with the empty text for unset names. A Go map is the list of its
  entries in the order of the iteration at hand.
\<close>

section \<open>Expanding the environment\<close>

text \<open>\<^verbatim>\<open>os.ExpandEnv\<close>.\<close>

definition isShellSpecialVar :: "char \<Rightarrow> bool" where
  "isShellSpecialVar c \<longleftrightarrow> c \<in> set ''*#$@!?-0123456789''"

definition isAlphaNum :: "char \<Rightarrow> bool" where
  "isAlphaNum c \<longleftrightarrow>
     c = CHR ''_'' \<or> (48 \<le> byte c \<and> byte c \<le> 57) \<or> (97 \<le> byte c \<and> byte c \<le> 122) \<or>
     (65 \<le> byte c \<and> byte c \<le> 90)"

text \<open>The name after a dollar sign and how many characters it takes.\<close>

definition getShellName :: "string \<Rightarrow> string \<times> nat" where
  "getShellName s =
     (if take 1 s = ''{'' then
        (if length s > 2 \<and> isShellSpecialVar (s ! 1) \<and> s ! 2 = CHR ''}'' then ([s ! 1], 3)
         else
           (let name = takeWhile (\<lambda>c. c \<noteq> CHR ''}'') (drop 1 s)
            in if Suc (length name) < length s
               then (if name = '''' then ('''', 2) else (name, length name + 2))
               else ('''', 1)))
      else if s \<noteq> [] \<and> isShellSpecialVar (hd s) then ([hd s], 1)
      else (takeWhile isAlphaNum s, length (takeWhile isAlphaNum s)))"

function ExpandEnv :: "(string \<Rightarrow> string) \<Rightarrow> string \<Rightarrow> string" where
  "ExpandEnv env [] = []"
| "ExpandEnv env (c # s) =
     (if c = CHR ''$'' \<and> s \<noteq> [] then
        (case getShellName s of (name, w) \<Rightarrow>
           (if name = '''' then (if w > 0 then [] else [c]) else env name) @ ExpandEnv env (drop w s))
      else c # ExpandEnv env s)"
  by pat_completeness auto
termination by (relation "measure (\<lambda>(env, s). length s)") auto

section \<open>Configuration\<close>

record Config =
  cf_ListenAddr :: string
  cf_CallbackToken :: string
  cf_CallbackCaptureDir :: string
  cf_StateDB :: string
  cf_EvidenceBindingsPath :: string
  cf_IncidentBindingsPath :: string
  cf_Workspace :: string
  cf_Region :: string
  cf_ECSRAMRoleName :: string
  cf_SLSProject :: string
  cf_SLSLogstore :: string
  cf_AppID :: string
  cf_AppSecret :: string
  cf_ChatID :: string
  cf_Enabled :: bool
  cf_MaxTurns :: int
  cf_TimeoutSeconds :: int
  cf_PollSeconds :: int

definition Load ::
    "(string \<Rightarrow> Config res) \<Rightarrow> (string \<Rightarrow> string) \<Rightarrow> string res \<Rightarrow> Config res" where
  "Load yaml env file =
     (case file of
        Inl err \<Rightarrow> Inl err
      | Inr raw \<Rightarrow>
        (case yaml (ExpandEnv env raw) of
           Inl err \<Rightarrow> Inl err
         | Inr cfg \<Rightarrow>
           if cf_StateDB cfg = '''' \<or> cf_MaxTurns cfg < 1
           then Inl (ErrNew ''state_db and worker.max_turns are required'')
           else if cf_Enabled cfg \<and>
             (cf_Workspace cfg = '''' \<or> cf_Region cfg = '''' \<or> cf_SLSProject cfg = '''' \<or>
              cf_SLSLogstore cfg = '''' \<or> cf_EvidenceBindingsPath cfg = '''' \<or> cf_IncidentBindingsPath cfg = '''')
           then Inl (ErrNew ''worker.enabled requires aliyun workspace, region, SLS project/logstore, evidence_bindings_path, and incident_bindings_path'')
           else if cf_Enabled cfg \<and> cf_PollSeconds cfg < 1
           then Inl (ErrNew ''worker.enabled requires worker.poll_seconds greater than zero'')
           else
             (let cfg = (if cf_ListenAddr cfg = '''' then cfg\<lparr>cf_ListenAddr := ''127.0.0.1:8080''\<rparr> else cfg);
                  cfg = (if cf_TimeoutSeconds cfg < 1 then cfg\<lparr>cf_TimeoutSeconds := 300\<rparr> else cfg)
              in Inr cfg)))"

section \<open>Incident bindings\<close>

record IncidentBinding =
  ib_Workspace :: string
  ib_RuleID :: string
  ib_ResourceID :: string
  ib_Selectors :: "(string \<times> string) list"

definition nul :: string where "nul = [CHR 0x00]"

definition incidentBindingKey :: "IncidentBinding \<Rightarrow> string" where
  "incidentBindingKey b = ib_Workspace b @ nul @ ib_RuleID b @ nul @ ib_ResourceID b"

definition IncidentBindingKey :: "IncidentBinding \<Rightarrow> string" where
  "IncidentBindingKey b = incidentBindingKey b"

fun check_selector_texts :: "string \<Rightarrow> (string \<times> string) list \<Rightarrow> unit res" where
  "check_selector_texts key [] = Inr ()"
| "check_selector_texts key ((name, v) # rest) =
     (if TrimSpace name = '''' \<or> TrimSpace v = ''''
      then Inl (ErrNew (''incident binding '' @ quoted key @ '' contains empty selector''))
      else check_selector_texts key rest)"

fun check_bindings :: "string list \<Rightarrow> IncidentBinding list \<Rightarrow> unit res" where
  "check_bindings seen [] = Inr ()"
| "check_bindings seen (b # rest) =
     (if TrimSpace (ib_Workspace b) = '''' \<or> TrimSpace (ib_RuleID b) = '''' \<or> TrimSpace (ib_ResourceID b) = ''''
      then Inl (ErrNew ''incident binding workspace, rule_id, and resource_id are required'')
      else
        (let key = incidentBindingKey b
         in if key \<in> set seen then Inl (ErrNew (''duplicate incident binding '' @ quoted key))
            else if ib_Selectors b = []
            then Inl (ErrNew (''incident binding '' @ quoted key @ '' selectors are required''))
            else case check_selector_texts key (ib_Selectors b) of
                   Inl err \<Rightarrow> Inl err
                 | Inr _ \<Rightarrow> check_bindings (key # seen) rest))"

definition ValidateIncidentBindings :: "IncidentBinding list \<Rightarrow> unit res" where
  "ValidateIncidentBindings bindings =
     (if bindings = [] then Inl (ErrNew ''at least one incident binding is required'')
      else check_bindings [] bindings)"

definition LoadIncidentBindings ::
    "(string \<Rightarrow> IncidentBinding list res) \<Rightarrow> (string \<Rightarrow> string) \<Rightarrow> string res \<Rightarrow> IncidentBinding list res" where
  "LoadIncidentBindings yaml env file =
     (case file of
        Inl err \<Rightarrow> Inl err
      | Inr raw \<Rightarrow>
        (case yaml (ExpandEnv env raw) of
           Inl err \<Rightarrow> Inl (ErrWrap ''parse incident bindings: '' err '''')
         | Inr bindings \<Rightarrow>
           (case ValidateIncidentBindings bindings of
              Inl err \<Rightarrow> Inl err
            | Inr _ \<Rightarrow> Inr bindings)))"

section \<open>Lemmas\<close>

lemma check_selector_texts_iff:
  "check_selector_texts key xs = Inr () \<longleftrightarrow>
     (\<forall>(name, v) \<in> set xs. TrimSpace name \<noteq> '''' \<and> TrimSpace v \<noteq> '''')"
  by (induction xs) (auto split: if_splits)

lemma check_bindings_iff:
  "check_bindings seen bs = Inr () \<longleftrightarrow>
     distinct (map incidentBindingKey bs) \<and> set seen \<inter> incidentBindingKey ` set bs = {} \<and>
     (\<forall>b \<in> set bs. TrimSpace (ib_Workspace b) \<noteq> '''' \<and> TrimSpace (ib_RuleID b) \<noteq> '''' \<and>
        TrimSpace (ib_ResourceID b) \<noteq> '''' \<and> ib_Selectors b \<noteq> [] \<and>
        (\<forall>(name, v) \<in> set (ib_Selectors b). TrimSpace name \<noteq> '''' \<and> TrimSpace v \<noteq> ''''))"
proof (induction bs arbitrary: seen)
  case (Cons b bs)
  show ?case
    using Cons.IH [of "incidentBindingKey b # seen"] check_selector_texts_iff [of "incidentBindingKey b" "ib_Selectors b"]
    by (cases "check_selector_texts (incidentBindingKey b) (ib_Selectors b)") (auto simp: Let_def)
qed simp

text \<open>The key tells bindings apart whose texts hold no NUL.\<close>

lemma incidentBindingKey_eqD:
  assumes "incidentBindingKey a = incidentBindingKey b"
    and "CHR 0x00 \<notin> set (ib_Workspace a)" "CHR 0x00 \<notin> set (ib_Workspace b)"
    and "CHR 0x00 \<notin> set (ib_RuleID a)" "CHR 0x00 \<notin> set (ib_RuleID b)"
  shows "ib_Workspace a = ib_Workspace b \<and> ib_RuleID a = ib_RuleID b \<and> ib_ResourceID a = ib_ResourceID b"
proof -
  from assms(1) have "ib_Workspace a @ CHR 0x00 # (ib_RuleID a @ CHR 0x00 # ib_ResourceID a) =
      ib_Workspace b @ CHR 0x00 # (ib_RuleID b @ CHR 0x00 # ib_ResourceID b)"
    by (simp add: incidentBindingKey_def nul_def)
  from append_sep_inject [OF this assms(2,3)]
  have "ib_Workspace a = ib_Workspace b"
    and "ib_RuleID a @ CHR 0x00 # ib_ResourceID a = ib_RuleID b @ CHR 0x00 # ib_ResourceID b" by simp_all
  with append_sep_inject [OF this(2) assms(4,5)] show ?thesis by simp
qed

lemma Load_fields:
  assumes "Load yaml env file = Inr cfg"
  shows "cf_StateDB cfg \<noteq> ''''" "1 \<le> cf_MaxTurns cfg" "1 \<le> cf_TimeoutSeconds cfg" "cf_ListenAddr cfg \<noteq> ''''"
    "cf_Enabled cfg \<Longrightarrow> 1 \<le> cf_PollSeconds cfg \<and> cf_Workspace cfg \<noteq> '''' \<and> cf_Region cfg \<noteq> '''' \<and>
       cf_SLSProject cfg \<noteq> '''' \<and> cf_SLSLogstore cfg \<noteq> ''''"
  using assms by (auto simp: Load_def Let_def split: sum.splits if_splits)

end
