(* ===== verification/EvidenceService.thy ===== *)
theory EvidenceService
  imports WorkerWorld Config "HOL-Library.Multiset"
begin

text \<open>
  The evidence service of \<^verbatim>\<open>internal/evidence\<close>: the registry of reviewed bindings and its
  checks (\<^verbatim>\<open>registry.go\<close>), the resolution of a class of evidence for an incident
  (\<^verbatim>\<open>service.go\<close>) and their types (\<^verbatim>\<open>types.go\<close>). YAML is read by a third-party
  package, the parameter \<^theory_text>\<open>yaml\<close>; a Go map is the list of its entries in the order of
  the iteration at hand.
\<close>

section \<open>Types\<close>

definition ContextClass :: string where "ContextClass = ''context''"
definition MetricsClass :: string where "MetricsClass = ''metrics''"
definition LogsClass :: string where "LogsClass = ''logs''"
definition ChangesClass :: string where "ChangesClass = ''changes''"

type_synonym Selectors = "(string \<times> string) list"

text \<open>\<^verbatim>\<open>Credentials\<close> has type \<^verbatim>\<open>any\<close>: all the code asks is whether it is there.\<close>

record Binding =
  bd_ID :: string
  bd_EvidenceClass :: string
  bd_Target :: string
  bd_Provider :: string
  bd_QueryTemplate :: string
  bd_SelectorMapping :: "(string \<times> string) list"
  bd_ConsoleLinkTemplate :: string
  bd_QueryURL :: string
  bd_Credentials :: bool
  bd_ShellCommand :: string

record Window =
  wn_Start :: time
  wn_End :: time

record IncidentContext =
  ic_Selectors :: Selectors
  ic_Window :: Window

type_synonym 'w IncidentSource = "string \<Rightarrow> 'w \<Rightarrow> IncidentContext res \<times> 'w"
type_synonym 'w Provider = "Binding \<Rightarrow> Selectors \<Rightarrow> Window \<Rightarrow> 'w \<Rightarrow> Evidence list res \<times> 'w"
type_synonym 'w EvidenceLookup = "string \<Rightarrow> 'w \<Rightarrow> Evidence res \<times> 'w"

text \<open>\<^verbatim>\<open>m[key]\<close> of a map of texts: the empty text when the key is missing.\<close>

definition at_key :: "(string \<times> string) list \<Rightarrow> string \<Rightarrow> string" where
  "at_key m key = (case map_of m key of None \<Rightarrow> '''' | Some v \<Rightarrow> v)"

section \<open>Registry\<close>

definition allowedSelectors :: "string list" where
  "allowedSelectors =
     [''endpoint_id'', ''probe_task_id'', ''instance_id'', ''account_id'', ''region_id'',
      ''security_group_id'', ''resource_id'', ''host'']"

definition allowedTemplates :: "(string \<times> string list) list" where
  "allowedTemplates =
     [(''aliyun.umodel'', [''endpoint_context_v1'', ''endpoint_topology_v1'']),
      (''aliyun.synthetic_probe'', [''availability_window_v1'']),
      (''aliyun.cloudmonitor'', [''ecs_normal_state_window_v1'']),
      (''aliyun.sls'', [''nginx_access_by_window_v1'', ''nginx_error_by_window_v1'']),
      (''aliyun.actiontrail'', [''security_group_change_window_v1''])]"

definition template_allowed :: "string \<Rightarrow> string \<Rightarrow> bool" where
  "template_allowed provider template =
     (case map_of allowedTemplates provider of None \<Rightarrow> False | Some ts \<Rightarrow> template \<in> set ts)"

fun check_mapping :: "string \<Rightarrow> (string \<times> string) list \<Rightarrow> unit res" where
  "check_mapping i [] = Inr ()"
| "check_mapping i ((selector, field) # rest) =
     (if selector \<notin> set allowedSelectors \<or> field \<notin> set allowedSelectors
      then Inl (ErrNew (''binding '' @ quoted i @ '': selector '' @ quoted selector @ '' -> '' @ quoted field @ '' is not allowlisted''))
      else check_mapping i rest)"

definition validateBinding :: "Binding \<Rightarrow> unit res" where
  "validateBinding b =
     (if bd_QueryURL b \<noteq> '''' then Inl (ErrNew (''binding '' @ quoted (bd_ID b) @ '': query_url is not supported''))
      else if bd_Credentials b then Inl (ErrNew (''binding '' @ quoted (bd_ID b) @ '': credentials are not supported''))
      else if bd_ShellCommand b \<noteq> '''' then Inl (ErrNew (''binding '' @ quoted (bd_ID b) @ '': shell_command is not supported''))
      else if bd_ID b = '''' \<or> bd_Target b = '''' \<or> bd_Provider b = '''' \<or> bd_QueryTemplate b = ''''
      then Inl (ErrNew ''binding id, target, provider, and query_template are required'')
      else if bd_EvidenceClass b \<noteq> ContextClass \<and> bd_EvidenceClass b \<noteq> MetricsClass \<and>
              bd_EvidenceClass b \<noteq> LogsClass \<and> bd_EvidenceClass b \<noteq> ChangesClass
      then Inl (ErrNew (''binding '' @ quoted (bd_ID b) @ '': unsupported evidence_class '' @ quoted (bd_EvidenceClass b)))
      else if \<not> template_allowed (bd_Provider b) (bd_QueryTemplate b)
      then Inl (ErrNew (''binding '' @ quoted (bd_ID b) @ '': provider/template '' @ bd_Provider b @ ''/'' @
             bd_QueryTemplate b @ '' is not allowlisted''))
      else if bd_SelectorMapping b = []
      then Inl (ErrNew (''binding '' @ quoted (bd_ID b) @ '': selector_mapping is required''))
      else case check_mapping (bd_ID b) (bd_SelectorMapping b) of
        Inl err \<Rightarrow> Inl err
      | Inr _ \<Rightarrow>
          if CHR 0x0A \<in> set (bd_ConsoleLinkTemplate b) \<or> CHR 0x0D \<in> set (bd_ConsoleLinkTemplate b)
          then Inl (ErrNew (''binding '' @ quoted (bd_ID b) @ '': console_link_template must be one line''))
          else Inr ())"

text \<open>A registry is the list of the entries of its map: bindings with different ids.\<close>

type_synonym Registry = "Binding list"

fun add_bindings :: "Registry \<Rightarrow> Binding list \<Rightarrow> Registry res" where
  "add_bindings registry [] = Inr registry"
| "add_bindings registry (b # rest) =
     (case validateBinding b of
        Inl err \<Rightarrow> Inl err
      | Inr _ \<Rightarrow>
          if bd_ID b \<in> set (map bd_ID registry)
          then Inl (ErrNew (''duplicate binding id '' @ quoted (bd_ID b)))
          else add_bindings (registry @ [b]) rest)"

definition LoadRegistry :: "(string \<Rightarrow> Binding list res) \<Rightarrow> string res \<Rightarrow> Registry res" where
  "LoadRegistry yaml file =
     (case file of
        Inl err \<Rightarrow> Inl err
      | Inr raw \<Rightarrow>
        (case yaml raw of
           Inl err \<Rightarrow> Inl (ErrWrap ''parse evidence bindings: '' err '''')
         | Inr bindings \<Rightarrow>
           (case add_bindings [] bindings of
              Inl err \<Rightarrow> Inl err
            | Inr registry \<Rightarrow>
                if registry = [] then Inl (ErrNew ''at least one binding is required'')
                else Inr registry)))"

definition Registry_Binding :: "Registry \<Rightarrow> string \<Rightarrow> Binding option" where
  "Registry_Binding registry i = find (\<lambda>b. bd_ID b = i) registry"

definition BindingsFor :: "Registry \<Rightarrow> string \<Rightarrow> Binding list" where
  "BindingsFor registry class = sort_key bd_ID (filter (\<lambda>b. bd_EvidenceClass b = class) registry)"

section \<open>Service\<close>

record 'w Service =
  sv_registry :: Registry
  sv_incidents :: "'w IncidentSource"
  sv_providers :: "string \<Rightarrow> 'w Provider option"
  sv_lookup :: "'w EvidenceLookup option"

definition NewService ::
    "Registry \<Rightarrow> 'w IncidentSource \<Rightarrow> (string \<Rightarrow> 'w Provider option) \<Rightarrow> 'w Service" where
  "NewService registry incidents providers =
     \<lparr>sv_registry = registry, sv_incidents = incidents, sv_providers = providers, sv_lookup = None\<rparr>"

definition WithEvidenceLookup :: "'w Service \<Rightarrow> 'w EvidenceLookup \<Rightarrow> 'w Service" where
  "WithEvidenceLookup s lookup = s\<lparr>sv_lookup := Some lookup\<rparr>"

fun resolve_selectors_loop ::
    "string \<Rightarrow> Selectors \<Rightarrow> (string \<times> string) list \<Rightarrow> Selectors res" where
  "resolve_selectors_loop i incident [] = Inr []"
| "resolve_selectors_loop i incident ((selector, field) # rest) =
     (if at_key incident field = ''''
      then Inl (ErrNew (''binding '' @ quoted i @ '': missing selector '' @ quoted field))
      else case resolve_selectors_loop i incident rest of
        Inl err \<Rightarrow> Inl err
      | Inr selectors \<Rightarrow> Inr ((selector, at_key incident field) # selectors))"

definition resolveSelectors :: "Binding \<Rightarrow> Selectors \<Rightarrow> Selectors res" where
  "resolveSelectors b incident = resolve_selectors_loop (bd_ID b) incident (bd_SelectorMapping b)"

fun resolve_loop ::
    "'w Service \<Rightarrow> IncidentContext \<Rightarrow> Binding list \<Rightarrow> Evidence list \<Rightarrow> 'w \<Rightarrow> Evidence list res \<times> 'w" where
  "resolve_loop s ctx [] evidence w = (Inr evidence, w)"
| "resolve_loop s ctx (b # rest) evidence w =
     (case resolveSelectors b (ic_Selectors ctx) of
        Inl err \<Rightarrow> (Inl err, w)
      | Inr selectors \<Rightarrow>
        (case sv_providers s (bd_Provider b) of
           None \<Rightarrow> (Inl (ErrNew (''provider '' @ quoted (bd_Provider b) @ '' is not configured'')), w)
         | Some provider \<Rightarrow>
           (case provider b selectors (ic_Window ctx) w of
              (Inl err, w) \<Rightarrow> (Inl (ErrWrap (''resolve binding '' @ quoted (bd_ID b) @ '': '') err ''''), w)
            | (Inr items, w) \<Rightarrow> resolve_loop s ctx rest (evidence @ items) w)))"

definition resolve :: "'w Service \<Rightarrow> string \<Rightarrow> string \<Rightarrow> 'w \<Rightarrow> Evidence list res \<times> 'w" where
  "resolve s class incidentID w =
     (if incidentID = '''' then (Inl (ErrNew ''incident id is required''), w)
      else case sv_incidents s incidentID w of
        (Inl err, w) \<Rightarrow> (Inl (ErrWrap (''resolve incident '' @ incidentID @ '': '') err ''''), w)
      | (Inr ctx, w) \<Rightarrow> resolve_loop s ctx (BindingsFor (sv_registry s) class) [] w)"

definition sv_Context :: "'w Service \<Rightarrow> string \<Rightarrow> 'w \<Rightarrow> Evidence list res \<times> 'w" where
  "sv_Context s = resolve s ContextClass"

definition sv_Metrics :: "'w Service \<Rightarrow> string \<Rightarrow> 'w \<Rightarrow> Evidence list res \<times> 'w" where
  "sv_Metrics s = resolve s MetricsClass"

definition sv_Logs :: "'w Service \<Rightarrow> string \<Rightarrow> 'w \<Rightarrow> Evidence list res \<times> 'w" where
  "sv_Logs s = resolve s LogsClass"

definition sv_Changes :: "'w Service \<Rightarrow> string \<Rightarrow> 'w \<Rightarrow> Evidence list res \<times> 'w" where
  "sv_Changes s = resolve s ChangesClass"

definition sv_Open :: "'w Service \<Rightarrow> string \<Rightarrow> 'w \<Rightarrow> Evidence res \<times> 'w" where
  "sv_Open s evidenceID w =
     (if evidenceID = '''' then (Inl (ErrNew ''evidence id is required''), w)
      else case sv_lookup s of
        None \<Rightarrow> (Inl (ErrNew ''evidence lookup is not configured''), w)
      | Some lookup \<Rightarrow> lookup evidenceID w)"

section \<open>What a registry holds\<close>

lemma check_mapping_iff:
  "check_mapping i xs = Inr () \<longleftrightarrow> (\<forall>(s, f) \<in> set xs. s \<in> set allowedSelectors \<and> f \<in> set allowedSelectors)"
  by (induction xs) (auto split: if_splits)

lemma validateBinding_allowed:
  assumes "validateBinding b = Inr ()"
  shows "template_allowed (bd_Provider b) (bd_QueryTemplate b)" "bd_SelectorMapping b \<noteq> []"
    "\<forall>(s, f) \<in> set (bd_SelectorMapping b). s \<in> set allowedSelectors \<and> f \<in> set allowedSelectors"
    "bd_QueryURL b = ''''" "bd_ShellCommand b = ''''" "\<not> bd_Credentials b" "bd_ID b \<noteq> ''''"
  using assms check_mapping_iff [of "bd_ID b" "bd_SelectorMapping b"]
  by (auto simp: validateBinding_def split: if_splits sum.splits)

lemma add_bindings_ok:
  assumes "add_bindings registry bs = Inr registry'" and "distinct (map bd_ID registry)"
    and "\<forall>b \<in> set registry. validateBinding b = Inr ()"
  shows "distinct (map bd_ID registry') \<and> registry' = registry @ bs \<and>
    (\<forall>b \<in> set registry'. validateBinding b = Inr ())"
  using assms by (induction registry bs rule: add_bindings.induct) (auto split: sum.splits if_splits, blast)

lemma LoadRegistry_ok:
  assumes "LoadRegistry yaml file = Inr registry"
  shows "distinct (map bd_ID registry)" "registry \<noteq> []" "\<forall>b \<in> set registry. validateBinding b = Inr ()"
  using assms add_bindings_ok [of "[]"]
  by (auto simp: LoadRegistry_def split: sum.splits if_splits)

lemma set_BindingsFor: "set (BindingsFor registry class) = {b \<in> set registry. bd_EvidenceClass b = class}"
  by (auto simp: BindingsFor_def)

text \<open>The order in which the map is iterated does not matter.\<close>

lemma BindingsFor_order:
  assumes "mset registry = mset registry'" and "distinct (map bd_ID registry)"
  shows "BindingsFor registry class = BindingsFor registry' class"
proof -
  have "distinct (map bd_ID (filter (\<lambda>b. bd_EvidenceClass b = class) registry))"
    using assms(2) by (rule distinct_map_filter)
  then have "inj_on bd_ID (set (filter (\<lambda>b. bd_EvidenceClass b = class) registry))"
    by (simp add: distinct_map)
  with assms(1) show ?thesis
    unfolding BindingsFor_def by (intro sort_key_eq_sort_key) simp_all
qed

end
