(* ===== verification/Provider.thy ===== *)
theory Provider
  imports EvidenceService GoTime
begin

text \<open>
  The evidence provider of \<^verbatim>\<open>internal/provider\<close>: the builders of cloud requests
  (\<^verbatim>\<open>request_builders.go\<close>), the resolution of a binding into requests and evidence
  (\<^verbatim>\<open>aliyun.go\<close>), and the allowlisted client over the vendor's SDK
  (\<^verbatim>\<open>client.go\<close>). The SDK's calls and the digests MD5 and SHA-256 are parameters, as is
  the arithmetic of \<^verbatim>\<open>float64\<close>, which only enters the text of a summary.
\<close>

section \<open>Requests\<close>

text \<open>A value of type \<^verbatim>\<open>any\<close> in a request or a record, and what \<^verbatim>\<open>fmt.Sprint\<close> prints.\<close>

datatype go_any = GoString string | GoInt int | GoInt32 int | GoInt64 int | GoNil

fun Sprint :: "go_any \<Rightarrow> string" where
  "Sprint (GoString s) = s"
| "Sprint (GoInt i) = itoa i"
| "Sprint (GoInt32 i) = itoa i"
| "Sprint (GoInt64 i) = itoa i"
| "Sprint GoNil = ''<nil>''"

record AliyunRequest =
  ar_Service :: string
  ar_Operation :: string
  ar_Query :: "(string \<times> string) list"
  ar_Body :: "(string \<times> go_any) list"

type_synonym 'w AliyunAPI = "AliyunRequest \<Rightarrow> 'w \<Rightarrow> string res \<times> 'w"

record AliyunConfig =
  ac_Workspace :: string
  ac_Region :: string
  ac_ECSRAMRoleName :: string
  ac_SLSProject :: string
  ac_SLSLogstore :: string

text \<open>Conversion to \<^verbatim>\<open>int32\<close> keeps the low 32 bits.\<close>

definition int32 :: "int \<Rightarrow> int" where
  "int32 x = (x + 2 ^ 31) mod 2 ^ 32 - 2 ^ 31"

section \<open>Selectors\<close>

definition selector_rune :: "nat \<Rightarrow> bool" where
  "selector_rune r \<longleftrightarrow>
     (65 \<le> r \<and> r \<le> 90) \<or> (97 \<le> r \<and> r \<le> 122) \<or> (48 \<le> r \<and> r \<le> 57) \<or>
     r = 46 \<or> r = 95 \<or> r = 58 \<or> r = 45"

definition safeSelector :: "string \<Rightarrow> bool" where
  "safeSelector v \<longleftrightarrow>
     1 \<le> length (runes v) \<and> length (runes v) \<le> 256 \<and> list_all (\<lambda>x. selector_rune (fst x)) (runes v)"

definition validateSelectorValue :: "string \<Rightarrow> unit res" where
  "validateSelectorValue v =
     (if \<not> safeSelector v then Inl (ErrNew ''selector value contains unsupported characters'') else Inr ())"

fun validate_all :: "(string \<times> string) list \<Rightarrow> unit res" where
  "validate_all [] = Inr ()"
| "validate_all (kv # rest) =
     (case validateSelectorValue (snd kv) of Inl err \<Rightarrow> Inl err | Inr _ \<Rightarrow> validate_all rest)"

definition validateWindow :: "Window \<Rightarrow> unit res" where
  "validateWindow w =
     (if wn_Start w = zero_time \<or> wn_End w = zero_time \<or> \<not> wn_Start w < wn_End w
      then Inl (ErrNew ''invalid evidence window'') else Inr ())"

definition requiredSelector :: "Selectors \<Rightarrow> string \<Rightarrow> string res" where
  "requiredSelector selectors name =
     (let v = at_key selectors name
      in if v = '''' then Inl (ErrNew (''missing selector '' @ quoted name))
         else case validateSelectorValue v of Inl err \<Rightarrow> Inl err | Inr _ \<Rightarrow> Inr v)"

section \<open>Request builders\<close>

definition EndpointEntityID :: "(string \<Rightarrow> string) \<Rightarrow> string \<Rightarrow> string" where
  "EndpointEntityID md5 endpointID = hex_encode (md5 (''sre:sre.service_endpoint:'' @ endpointID))"

definition buildEntityStoreRequest :: "string \<Rightarrow> string \<Rightarrow> Window \<Rightarrow> AliyunRequest" where
  "buildEntityStoreRequest workspace query window =
     \<lparr>ar_Service = ''cms'', ar_Operation = ''GetEntityStoreData'',
      ar_Query = [(''Workspace'', workspace), (''From'', itoa (unix (wn_Start window))),
                  (''To'', itoa (unix (wn_End window))), (''Query'', query)],
      ar_Body = []\<rparr>"

definition context_query :: "string \<Rightarrow> string" where
  "context_query endpointID =
     ''.entity with(domain='' @ [CHR 0x27] @ ''sre'' @ [CHR 0x27] @ '', type='' @ [CHR 0x27] @
     ''sre.service_endpoint'' @ [CHR 0x27] @ '') | where endpoint_id = '' @ [CHR 0x27] @ endpointID @
     [CHR 0x27] @ '' | limit 0, 1''"

definition topology_query :: "string \<Rightarrow> string" where
  "topology_query entityID =
     ''.topo | graph-call getNeighborNodes('' @ [CHR 0x27] @ ''sequence_out'' @ [CHR 0x27] @
     '', 1, [(:\"sre@sre.service_endpoint\" {__entity_id__: '' @ [CHR 0x27] @ entityID @ [CHR 0x27] @
     ''})]) | where relationType = '' @ [CHR 0x27] @ ''runs_on'' @ [CHR 0x27]"

definition buildEntityStoreContextRequest :: "AliyunConfig \<Rightarrow> string \<Rightarrow> Window \<Rightarrow> AliyunRequest res" where
  "buildEntityStoreContextRequest config endpointID window =
     (if ac_Workspace config = ''''
      then Inl (ErrNew ''aliyun workspace is required for UModel context'')
      else Inr (buildEntityStoreRequest (ac_Workspace config) (context_query endpointID) window))"

definition buildEntityStoreTopologyRequest ::
    "(string \<Rightarrow> string) \<Rightarrow> AliyunConfig \<Rightarrow> string \<Rightarrow> Window \<Rightarrow> AliyunRequest res" where
  "buildEntityStoreTopologyRequest md5 config endpointID window =
     (if ac_Workspace config = ''''
      then Inl (ErrNew ''aliyun workspace is required for UModel topology context'')
      else Inr (buildEntityStoreRequest (ac_Workspace config)
                  (topology_query (EndpointEntityID md5 endpointID)) window))"

definition metrics_query :: "Window \<Rightarrow> string \<Rightarrow> (string \<times> string) list" where
  "metrics_query window regionID =
     [(''StartTime'', format_rfc3339 (wn_Start window)), (''EndTime'', format_rfc3339 (wn_End window)),
      (''RegionId'', regionID)]"

definition instance_query :: "string \<Rightarrow> (string \<times> string) list" where
  "instance_query instanceID =
     [(''Namespace'', ''acs_ecs_dashboard''), (''MetricName'', ''cpu_total''), (''Period'', ''60''),
      (''Dimensions'', ''[{\"instanceId\":\"'' @ instanceID @ ''\"}]'')]"

definition probe_query :: "string \<Rightarrow> (string \<times> string) list" where
  "probe_query probeTaskID = [(''Dimensions'', ''[{\"taskId\":\"'' @ probeTaskID @ ''\"}]'')]"

definition buildMetricsRequest :: "AliyunConfig \<Rightarrow> Selectors \<Rightarrow> Window \<Rightarrow> AliyunRequest res" where
  "buildMetricsRequest config selectors window =
     (let regionID = (if at_key selectors ''region_id'' \<noteq> '''' then at_key selectors ''region_id''
                      else ac_Region config)
      in case validateSelectorValue regionID of
        Inl err \<Rightarrow> Inl err
      | Inr _ \<Rightarrow>
        (let request = \<lparr>ar_Service = ''cms'', ar_Operation = ''DescribeMetricList'',
               ar_Query = metrics_query window regionID, ar_Body = []\<rparr>;
             instanceID = at_key selectors ''instance_id'';
             probeTaskID = at_key selectors ''probe_task_id''
         in if instanceID \<noteq> '''' then
              (case validateSelectorValue instanceID of
                 Inl err \<Rightarrow> Inl err
               | Inr _ \<Rightarrow> Inr (request\<lparr>ar_Query := ar_Query request @ instance_query instanceID\<rparr>))
            else if probeTaskID \<noteq> '''' then
              (case validateSelectorValue probeTaskID of
                 Inl err \<Rightarrow> Inl err
               | Inr _ \<Rightarrow> Inr (request\<lparr>ar_Query := ar_Query request @ probe_query probeTaskID\<rparr>))
            else Inl (ErrNew ''metrics binding requires instance_id or probe_task_id'')))"

definition nginx_query :: "string \<Rightarrow> string \<Rightarrow> string \<Rightarrow> string" where
  "nginx_query endpointID logKind instanceID =
     ''endpoint_id:\"'' @ endpointID @ ''\" AND log_kind:\"'' @ logKind @ ''\" AND instance_id:\"'' @
     instanceID @ ''\"''"

definition buildNginxLogsRequest ::
    "AliyunConfig \<Rightarrow> string \<Rightarrow> Selectors \<Rightarrow> Window \<Rightarrow> AliyunRequest res" where
  "buildNginxLogsRequest config logKind selectors window =
     (case requiredSelector selectors ''endpoint_id'' of
        Inl err \<Rightarrow> Inl err
      | Inr endpointID \<Rightarrow>
        (case requiredSelector selectors ''instance_id'' of
           Inl err \<Rightarrow> Inl err
         | Inr instanceID \<Rightarrow>
             if ac_SLSProject config = '''' \<or> ac_SLSLogstore config = ''''
             then Inl (ErrNew ''SLS project and logstore are required for Nginx logs'')
             else Inr \<lparr>ar_Service = ''sls'', ar_Operation = ''GetLogs'',
               ar_Query = [(''project'', ac_SLSProject config), (''logstore'', ac_SLSLogstore config)],
               ar_Body = [(''from'', GoInt32 (int32 (unix (wn_Start window)))),
                          (''to'', GoInt32 (int32 (unix (wn_End window)))),
                          (''query'', GoString (nginx_query endpointID logKind instanceID)),
                          (''line'', GoInt64 100)]\<rparr>))"

definition buildActionTrailRequest :: "string \<Rightarrow> Window \<Rightarrow> AliyunRequest" where
  "buildActionTrailRequest securityGroupID window =
     \<lparr>ar_Service = ''actiontrail'', ar_Operation = ''LookupEvents'',
      ar_Query = [(''ResourceName'', securityGroupID), (''EventRW'', ''Write''),
                  (''StartTime'', format_rfc3339 (wn_Start window)),
                  (''EndTime'', format_rfc3339 (wn_End window)), (''MaxResults'', ''50'')],
      ar_Body = []\<rparr>"

section \<open>Summaries\<close>

text \<open>
  \<^verbatim>\<open>float64\<close>: \<^verbatim>\<open>strconv.ParseFloat\<close> (no result on an error), the operations the
  summaries use, and the verb \<^verbatim>\<open>%.2f\<close>.
\<close>

record 'f float64 =
  fl_ParseFloat :: "string \<Rightarrow> 'f option"
  fl_of_nat :: "nat \<Rightarrow> 'f"
  fl_add :: "'f \<Rightarrow> 'f \<Rightarrow> 'f"
  fl_div :: "'f \<Rightarrow> 'f \<Rightarrow> 'f"
  fl_less :: "'f \<Rightarrow> 'f \<Rightarrow> bool"
  fl_leq :: "'f \<Rightarrow> 'f \<Rightarrow> bool"
  fl_format2 :: "'f \<Rightarrow> string"

text \<open>Decoding into \<^verbatim>\<open>any\<close> turns every number into a \<^verbatim>\<open>float64\<close>, or fails.\<close>

fun numbers_ok :: "'f float64 \<Rightarrow> json \<Rightarrow> bool" where
  "numbers_ok fl (JNum t) = (fl_ParseFloat fl t \<noteq> None)"
| "numbers_ok fl (JArr vs) = list_all (numbers_ok fl) vs"
| "numbers_ok fl (JObj ms) = list_all (\<lambda>kv. numbers_ok fl (snd kv)) ms"
| "numbers_ok fl v = True"

text \<open>A slice of maps.\<close>

fun object_members :: "json \<Rightarrow> (string \<times> json) list res" where
  "object_members JNull = Inr []"
| "object_members (JObj ms) = Inr ms"
| "object_members v = Inl type_error"

fun all_members :: "json list \<Rightarrow> (string \<times> json) list list res" where
  "all_members [] = Inr []"
| "all_members (v # vs) =
     (case object_members v of
        Inl err \<Rightarrow> Inl err
      | Inr ms \<Rightarrow> (case all_members vs of Inl err \<Rightarrow> Inl err | Inr mss \<Rightarrow> Inr (ms # mss)))"

definition map_slice :: "'f float64 \<Rightarrow> json \<Rightarrow> (string \<times> json) list list res" where
  "map_slice fl v =
     (case v of
        JNull \<Rightarrow> Inr []
      | JArr vs \<Rightarrow> if numbers_ok fl v then all_members vs else Inl type_error
      | _ \<Rightarrow> Inl type_error)"

definition entry :: "(string \<times> json) list \<Rightarrow> string \<Rightarrow> json option" where
  "entry ms key = map_of (rev ms) key"

fun numberValue :: "'f float64 \<Rightarrow> json option \<Rightarrow> 'f option" where
  "numberValue fl (Some (JNum t)) = fl_ParseFloat fl t"
| "numberValue fl (Some (JStr t)) = fl_ParseFloat fl t"
| "numberValue fl _ = None"

definition average :: "'f float64 \<Rightarrow> 'f list \<Rightarrow> 'f" where
  "average fl values = fl_div fl (foldl (fl_add fl) (fl_of_nat fl 0) values) (fl_of_nat fl (length values))"

definition maximum :: "'f float64 \<Rightarrow> 'f list \<Rightarrow> 'f" where
  "maximum fl values = foldl (\<lambda>result x. if fl_less fl result x then x else result) (hd values) (tl values)"

definition minimum :: "'f float64 \<Rightarrow> 'f list \<Rightarrow> 'f" where
  "minimum fl values = foldl (\<lambda>result x. if fl_less fl x result then x else result) (hd values) (tl values)"

text \<open>A second \<^verbatim>\<open>body\<close> object is merged into the map, a second array replaces the slice.\<close>

definition set_body_map :: "string \<Rightarrow> json \<Rightarrow> (string \<times> json) list \<Rightarrow> (string \<times> json) list res" where
  "set_body_map f v old =
     (case v of JNull \<Rightarrow> Inr [] | JObj ms \<Rightarrow> Inr (old @ ms) | _ \<Rightarrow> Inl type_error)"

definition set_body_slice ::
    "'f float64 \<Rightarrow> string \<Rightarrow> json \<Rightarrow> (string \<times> json) list list \<Rightarrow> (string \<times> json) list list res" where
  "set_body_slice fl f v old = map_slice fl v"

definition unmarshal_struct ::
    "string list \<Rightarrow> (string \<Rightarrow> json \<Rightarrow> 's \<Rightarrow> 's res) \<Rightarrow> 's \<Rightarrow> string \<Rightarrow> 's res" where
  "unmarshal_struct names set_field s raw =
     (case unmarshal_value raw of Inl err \<Rightarrow> Inl err | Inr v \<Rightarrow> struct_value names set_field v s)"

definition cpu_text :: "string" where
  "cpu_text = utf8 [228, 186, 145, 231, 155, 145, 230, 142, 167] @ '' ECS CPU'' @ utf8 [239, 188, 154]"

definition cpu_unreadable :: "string" where
  "cpu_unreadable = utf8 [229, 183, 178, 232, 175, 187, 229, 143, 150, 230, 151, 182, 233, 151, 180, 231, 170, 151,
    230, 149, 176, 230, 141, 174, 239, 188, 140, 231, 187, 159, 232, 174, 161, 232, 167, 163, 230,
    158, 144, 229, 164, 177, 232, 180, 165]"

definition cpu_no_points :: "string" where
  "cpu_no_points = utf8 [229, 183, 178, 232, 175, 187, 229, 143, 150, 230, 151, 182, 233, 151, 180, 231, 170, 151,
    230, 149, 176, 230, 141, 174, 239, 188, 140, 230, 156, 170, 232, 191, 148, 229, 155, 158, 230,
    149, 176, 230, 141, 174, 231, 130, 185, 229, 173, 151, 230, 174, 181]"

definition cpu_bad_points :: "string" where
  "cpu_bad_points = utf8 [229, 183, 178, 232, 175, 187, 229, 143, 150, 230, 151, 182, 233, 151, 180, 231, 170, 151,
    230, 149, 176, 230, 141, 174, 239, 188, 140, 230, 149, 176, 230, 141, 174, 231, 130, 185, 230,
    160, 188, 229, 188, 143, 230, 151, 160, 230, 179, 149, 232, 167, 163, 230, 158, 144]"

definition points_text :: "string" where
  "points_text = '' '' @ utf8 [228, 184, 170, 230, 149, 176, 230, 141, 174, 231, 130, 185]"

definition incomplete_text :: "string" where
  "incomplete_text = utf8 [239, 188, 140, 231, 188, 186, 229, 176, 145, 229, 174, 140, 230, 149, 180, 232, 129, 154,
    229, 144, 136, 229, 128, 188]"

definition average_text :: "string" where
  "average_text = utf8 [239, 188, 140, 229, 185, 179, 229, 157, 135, 229, 128, 188] @ '' ''"

definition maximum_text :: "string" where
  "maximum_text = ''%'' @ utf8 [239, 188, 140, 230, 156, 128, 229, 164, 167, 229, 128, 188] @ '' ''"

definition minimum_text :: "string" where
  "minimum_text = ''%'' @ utf8 [239, 188, 140, 230, 156, 128, 229, 176, 143, 229, 128, 188] @ '' ''"

definition nginx_text :: "string" where
  "nginx_text = ''Nginx access '' @ utf8 [230, 151, 165, 229, 191, 151, 239, 188, 154]"

definition nginx_unreadable :: "string" where
  "nginx_unreadable = utf8 [229, 183, 178, 232, 175, 187, 229, 143, 150, 230, 151, 182, 233, 151, 180, 231, 170, 151,
    230, 149, 176, 230, 141, 174, 239, 188, 140, 231, 187, 159, 232, 174, 161, 232, 167, 163, 230,
    158, 144, 229, 164, 177, 232, 180, 165]"

definition nginx_lines :: "string" where
  "nginx_lines = '' '' @ utf8 [230, 157, 161, 239, 188, 140] @ ''5xx '' @ utf8 [229, 147, 141, 229, 186, 148] @
    '' ''"

definition nginx_end :: "string" where
  "nginx_end = '' '' @ utf8 [230, 157, 161]"

definition summarizeECSCPU :: "'f float64 \<Rightarrow> string \<Rightarrow> string" where
  "summarizeECSCPU fl raw =
     (case unmarshal_struct [''body''] set_body_map [] raw of
        Inl err \<Rightarrow> cpu_text @ cpu_unreadable
      | Inr body \<Rightarrow>
        (case entry body ''Datapoints'' of
           None \<Rightarrow> cpu_text @ cpu_no_points
         | Some datapoints \<Rightarrow>
           (case string_field datapoints '''' of
              Inl err \<Rightarrow> cpu_text @ cpu_bad_points
            | Inr encoded \<Rightarrow>
              (case (case unmarshal_value encoded of Inl err \<Rightarrow> Inl err | Inr v \<Rightarrow> map_slice fl v) of
                 Inl err \<Rightarrow> cpu_text @ cpu_bad_points
               | Inr points \<Rightarrow>
                 if points = [] then cpu_text @ ''0'' @ points_text
                 else
                   (let pick = (\<lambda>key. List.map_filter (\<lambda>p. numberValue fl (entry p key)) points);
                        averages = pick ''Average''; maximums = pick ''Maximum''; minimums = pick ''Minimum'';
                        n = itoa (int (length points))
                    in if averages = [] \<or> maximums = [] \<or> minimums = []
                       then cpu_text @ n @ points_text @ incomplete_text
                       else cpu_text @ n @ points_text @ average_text @ fl_format2 fl (average fl averages) @
                         maximum_text @ fl_format2 fl (maximum fl maximums) @ minimum_text @
                         fl_format2 fl (minimum fl minimums) @ ''%'')))))"

definition is_5xx :: "'f float64 \<Rightarrow> (string \<times> json) list \<Rightarrow> bool" where
  "is_5xx fl e =
     list_ex (\<lambda>key. case numberValue fl (entry e key) of
                      None \<Rightarrow> False
                    | Some status \<Rightarrow> fl_leq fl (fl_of_nat fl 500) status \<and> fl_less fl status (fl_of_nat fl 600))
       [''http_code'', ''status'', ''status_code'']"

definition summarizeNginxAccess :: "'f float64 \<Rightarrow> string \<Rightarrow> string" where
  "summarizeNginxAccess fl raw =
     (case unmarshal_struct [''body''] (set_body_slice fl) [] raw of
        Inl err \<Rightarrow> nginx_text @ nginx_unreadable
      | Inr body \<Rightarrow>
          nginx_text @ itoa (int (length body)) @ nginx_lines @
          itoa (int (length (filter (is_5xx fl) body))) @ nginx_end)"


section \<open>Evidence\<close>

text \<open>The digests.\<close>

record digests =
  dg_md5 :: "string \<Rightarrow> string"
  dg_sha256 :: "string \<Rightarrow> string"

definition newEvidence ::
    "(string \<Rightarrow> string) \<Rightarrow> string \<Rightarrow> string \<Rightarrow> time \<Rightarrow> string \<Rightarrow> string \<Rightarrow> string \<Rightarrow> string \<Rightarrow> Evidence" where
  "newEvidence sha256 seed evidenceType observedAt source queryRef summary raw =
     (let hash = sha256 (seed @ '':'' @ queryRef @ '':'' @ raw)
      in \<lparr>ev_id = hex_encode (take 12 hash), ev_type = evidenceType, ev_observed_at = observedAt,
          ev_source = source, ev_query_ref = queryRef, ev_summary = TrimSpace summary,
          ev_raw_ref = ''sha256:'' @ hex_encode hash\<rparr>)"

record 'w AliyunProvider =
  ap_config :: AliyunConfig
  ap_cloud :: "'w AliyunAPI"

definition resolveTopologyContext ::
    "digests \<Rightarrow> 'w AliyunProvider \<Rightarrow> Binding \<Rightarrow> Selectors \<Rightarrow> Window \<Rightarrow> 'w \<Rightarrow> Evidence list res \<times> 'w" where
  "resolveTopologyContext dg p b selectors window w =
     (case requiredSelector selectors ''endpoint_id'' of
        Inl err \<Rightarrow> (Inl err, w)
      | Inr endpointID \<Rightarrow>
        (case buildEntityStoreTopologyRequest (dg_md5 dg) (ap_config p) endpointID window of
           Inl err \<Rightarrow> (Inl err, w)
         | Inr request \<Rightarrow>
           (case ap_cloud p request w of
              (Inl err, w) \<Rightarrow> (Inl err, w)
            | (Inr raw, w) \<Rightarrow>
                (Inr [newEvidence (dg_sha256 dg) (bd_ID b) ''context'' (wn_End window) ''cms:GetEntityStoreData''
                        ''cms:GetEntityStoreData:topology'' ''UModel endpoint topology resolved'' raw], w))))"

definition resolveContext ::
    "digests \<Rightarrow> 'w AliyunProvider \<Rightarrow> Binding \<Rightarrow> Selectors \<Rightarrow> Window \<Rightarrow> 'w \<Rightarrow> Evidence list res \<times> 'w" where
  "resolveContext dg p b selectors window w =
     (case requiredSelector selectors ''endpoint_id'' of
        Inl err \<Rightarrow> (Inl err, w)
      | Inr endpointID \<Rightarrow>
        (case buildEntityStoreContextRequest (ap_config p) endpointID window of
           Inl err \<Rightarrow> (Inl err, w)
         | Inr request \<Rightarrow>
           (case ap_cloud p request w of
              (Inl err, w) \<Rightarrow> (Inl err, w)
            | (Inr raw, w) \<Rightarrow>
                (Inr [newEvidence (dg_sha256 dg) (bd_ID b) ''context'' (wn_End window) ''cms:GetEntityStoreData''
                        ''cms:GetEntityStoreData'' ''UModel endpoint context resolved'' raw], w))))"

definition resolveMetrics ::
    "digests \<Rightarrow> 'f float64 \<Rightarrow> 'w AliyunProvider \<Rightarrow> Binding \<Rightarrow> Selectors \<Rightarrow> Window \<Rightarrow> 'w \<Rightarrow>
       Evidence list res \<times> 'w" where
  "resolveMetrics dg fl p b selectors window w =
     (case buildMetricsRequest (ap_config p) selectors window of
        Inl err \<Rightarrow> (Inl err, w)
      | Inr request \<Rightarrow>
        (case ap_cloud p request w of
           (Inl err, w) \<Rightarrow> (Inl err, w)
         | (Inr raw, w) \<Rightarrow>
             (Inr [newEvidence (dg_sha256 dg) (bd_ID b) ''metric'' (wn_End window) ''cms:DescribeMetricList''
                     ''cms:DescribeMetricList'' (summarizeECSCPU fl raw) raw], w)))"

definition log_kind :: "string \<Rightarrow> string option" where
  "log_kind template =
     (if template = ''nginx_access_by_window_v1'' then Some ''access''
      else if template = ''nginx_error_by_window_v1'' then Some ''error'' else None)"

definition resolveLogs ::
    "digests \<Rightarrow> 'f float64 \<Rightarrow> 'w AliyunProvider \<Rightarrow> Binding \<Rightarrow> Selectors \<Rightarrow> Window \<Rightarrow> 'w \<Rightarrow>
       Evidence list res \<times> 'w" where
  "resolveLogs dg fl p b selectors window w =
     (case log_kind (bd_QueryTemplate b) of
        None \<Rightarrow> (Inl (ErrNew (''unsupported Nginx log template '' @ quoted (bd_QueryTemplate b))), w)
      | Some kind \<Rightarrow>
        (case buildNginxLogsRequest (ap_config p) kind selectors window of
           Inl err \<Rightarrow> (Inl err, w)
         | Inr request \<Rightarrow>
           (case ap_cloud p request w of
              (Inl err, w) \<Rightarrow> (Inl err, w)
            | (Inr raw, w) \<Rightarrow>
                (Inr [newEvidence (dg_sha256 dg) (bd_ID b) ''log'' (wn_End window) ''sls:GetLogs'' ''sls:GetLogs''
                        (summarizeNginxAccess fl raw) raw], w))))"

section \<open>Audit events\<close>

record trail_event =
  te_EventID :: string
  te_EventName :: string
  te_EventTime :: string
  te_RequestID :: string
  te_ServiceName :: string
  te_UserName :: string

record trail_response =
  tr_RequestID :: string
  tr_Events :: "trail_event list"

definition set_user_field :: "string \<Rightarrow> json \<Rightarrow> trail_event \<Rightarrow> trail_event res" where
  "set_user_field f v e =
     (case string_field v (te_UserName e) of Inl err \<Rightarrow> Inl err | Inr x \<Rightarrow> Inr (e\<lparr>te_UserName := x\<rparr>))"

definition set_event_field :: "string \<Rightarrow> json \<Rightarrow> trail_event \<Rightarrow> trail_event res" where
  "set_event_field f v e =
     (let text = (\<lambda>old upd. case string_field v old of Inl err \<Rightarrow> Inl err | Inr x \<Rightarrow> Inr (upd x))
      in if f = ''eventId'' then text (te_EventID e) (\<lambda>x. e\<lparr>te_EventID := x\<rparr>)
         else if f = ''eventName'' then text (te_EventName e) (\<lambda>x. e\<lparr>te_EventName := x\<rparr>)
         else if f = ''eventTime'' then text (te_EventTime e) (\<lambda>x. e\<lparr>te_EventTime := x\<rparr>)
         else if f = ''requestId'' then text (te_RequestID e) (\<lambda>x. e\<lparr>te_RequestID := x\<rparr>)
         else if f = ''serviceName'' then text (te_ServiceName e) (\<lambda>x. e\<lparr>te_ServiceName := x\<rparr>)
         else struct_value [''userName''] set_user_field v e)"

definition empty_event :: trail_event where
  "empty_event =
     \<lparr>te_EventID = '''', te_EventName = '''', te_EventTime = '''', te_RequestID = '''',
      te_ServiceName = '''', te_UserName = ''''\<rparr>"

fun decode_events :: "json list \<Rightarrow> trail_event list res" where
  "decode_events [] = Inr []"
| "decode_events (v # vs) =
     (case struct_value [''eventId'', ''eventName'', ''eventTime'', ''requestId'', ''serviceName'', ''userIdentity'']
             set_event_field v empty_event of
        Inl err \<Rightarrow> Inl err
      | Inr e \<Rightarrow> (case decode_events vs of Inl err \<Rightarrow> Inl err | Inr es \<Rightarrow> Inr (e # es)))"

definition set_response_field :: "string \<Rightarrow> json \<Rightarrow> trail_response \<Rightarrow> trail_response res" where
  "set_response_field f v r =
     (if f = ''RequestId'' then
        (case string_field v (tr_RequestID r) of Inl err \<Rightarrow> Inl err | Inr x \<Rightarrow> Inr (r\<lparr>tr_RequestID := x\<rparr>))
      else (case v of
              JNull \<Rightarrow> Inr (r\<lparr>tr_Events := []\<rparr>)
            | JArr vs \<Rightarrow>
                (case decode_events vs of Inl err \<Rightarrow> Inl err | Inr es \<Rightarrow> Inr (r\<lparr>tr_Events := es\<rparr>))
            | _ \<Rightarrow> Inl type_error))"

definition decode_trail :: "string \<Rightarrow> trail_response res" where
  "decode_trail raw =
     unmarshal_struct [''RequestId'', ''Events''] set_response_field \<lparr>tr_RequestID = '''', tr_Events = []\<rparr> raw"

definition time_error :: go_error where "time_error = ErrNew ''parsing time''"

fun trail_evidence ::
    "(string \<Rightarrow> string) \<Rightarrow> Binding \<Rightarrow> string \<Rightarrow> string \<Rightarrow> string \<Rightarrow> trail_event list \<Rightarrow> Evidence list res" where
  "trail_evidence sha256 b sgroup request raw [] = Inr []"
| "trail_evidence sha256 b sgroup request raw (e # es) =
     (case parse_time colon_zone (te_EventTime e) of
        None \<Rightarrow> Inl (ErrWrap ''decode ActionTrail event time: '' time_error '''')
      | Some observedAt \<Rightarrow>
        (case trail_evidence sha256 b sgroup request raw es of
           Inl err \<Rightarrow> Inl err
         | Inr items \<Rightarrow>
             Inr (newEvidence sha256 (bd_ID b @ '':'' @ te_EventID e) ''change'' observedAt
                    ''actiontrail:LookupEvents'' (''actiontrail:'' @ request @ '':'' @ te_RequestID e)
                    (''ActionTrail '' @ te_EventName e @ '' on '' @ sgroup @ '' by '' @ te_UserName e) raw # items)))"

definition resolveChanges ::
    "digests \<Rightarrow> 'w AliyunProvider \<Rightarrow> Binding \<Rightarrow> Selectors \<Rightarrow> Window \<Rightarrow> 'w \<Rightarrow> Evidence list res \<times> 'w" where
  "resolveChanges dg p b selectors window w =
     (case requiredSelector selectors ''security_group_id'' of
        Inl err \<Rightarrow> (Inl err, w)
      | Inr securityGroupID \<Rightarrow>
        (case ap_cloud p (buildActionTrailRequest securityGroupID window) w of
           (Inl err, w) \<Rightarrow> (Inl err, w)
         | (Inr raw, w) \<Rightarrow>
           (case decode_trail raw of
              Inl err \<Rightarrow> (Inl (ErrWrap ''decode ActionTrail response: '' err ''''), w)
            | Inr response \<Rightarrow>
                (trail_evidence (dg_sha256 dg) b securityGroupID (tr_RequestID response) raw
                   (tr_Events response), w))))"

section \<open>Resolving a binding\<close>

definition Resolve :: "digests \<Rightarrow> 'f float64 \<Rightarrow> 'w AliyunProvider \<Rightarrow> 'w Provider" where
  "Resolve dg fl p b selectors window w =
     (case validateWindow window of
        Inl err \<Rightarrow> (Inl err, w)
      | Inr _ \<Rightarrow>
        (case validate_all selectors of
           Inl err \<Rightarrow> (Inl err, w)
         | Inr _ \<Rightarrow>
             (let template = bd_QueryTemplate b
              in if template = ''endpoint_context_v1'' then resolveContext dg p b selectors window w
                 else if template = ''endpoint_topology_v1'' then resolveTopologyContext dg p b selectors window w
                 else if template = ''availability_window_v1'' \<or> template = ''ecs_normal_state_window_v1''
                 then resolveMetrics dg fl p b selectors window w
                 else if template = ''nginx_access_by_window_v1'' \<or> template = ''nginx_error_by_window_v1''
                 then resolveLogs dg fl p b selectors window w
                 else if template = ''security_group_change_window_v1''
                 then resolveChanges dg p b selectors window w
                 else (Inl (ErrNew (''template '' @ quoted template @ '' is not implemented'')), w))))"


section \<open>The allowlisted client\<close>

definition allowedActions :: "(string \<times> string list) list" where
  "allowedActions =
     [(''cms'', [''GetEntityStoreData'', ''DescribeMetricList'']), (''sls'', [''GetLogs'']),
      (''actiontrail'', [''LookupEvents''])]"

definition action_allowed :: "string \<Rightarrow> string \<Rightarrow> bool" where
  "action_allowed service operation =
     (case map_of allowedActions service of None \<Rightarrow> False | Some os \<Rightarrow> operation \<in> set os)"

text \<open>The parameters of an OpenAPI call.\<close>

record Params =
  pm_Action :: string
  pm_Version :: string
  pm_Protocol :: string
  pm_Pathname :: string
  pm_Method :: string
  pm_AuthType :: string
  pm_Style :: string
  pm_ReqBodyType :: string
  pm_BodyType :: string

record OpenApiRequest =
  oa_Query :: "(string \<times> string) list"
  oa_Body :: "(string \<times> go_any) list"

record GetLogsRequest =
  gl_From :: int
  gl_To :: int
  gl_Query :: string
  gl_Line :: int

text \<open>
  The SDK: \<^verbatim>\<open>CallApiWithCtx\<close> of the two OpenAPI clients and \<^verbatim>\<open>GetLogs\<close> of the SLS
  client, each with the JSON of its response.
\<close>

record 'w SDKAliyunClient =
  sdk_cms :: "Params \<Rightarrow> OpenApiRequest \<Rightarrow> 'w \<Rightarrow> string res \<times> 'w"
  sdk_actionTrail :: "Params \<Rightarrow> OpenApiRequest \<Rightarrow> 'w \<Rightarrow> string res \<times> 'w"
  sdk_sls :: "string \<Rightarrow> string \<Rightarrow> GetLogsRequest \<Rightarrow> 'w \<Rightarrow> string res \<times> 'w"

definition workspace_first :: "nat \<Rightarrow> bool" where
  "workspace_first r \<longleftrightarrow> (97 \<le> r \<and> r \<le> 122) \<or> (65 \<le> r \<and> r \<le> 90) \<or> (48 \<le> r \<and> r \<le> 57)"

definition entityStoreWorkspacePattern :: "string \<Rightarrow> bool" where
  "entityStoreWorkspacePattern v =
     (case runes v of
        [] \<Rightarrow> False
      | x # xs \<Rightarrow> workspace_first (fst x) \<and> length xs \<le> 127 \<and>
                   list_all (\<lambda>y. workspace_first (fst y) \<or> fst y = 95 \<or> fst y = 45) xs)"

text \<open>\<^verbatim>\<open>strconv.ParseInt(s, 10, 64)\<close>: an optional sign and digits, in range.\<close>

definition ParseInt :: "string \<Rightarrow> int option" where
  "ParseInt s =
     (let sign = take 1 s;
          ds = (if sign = ''-'' \<or> sign = ''+'' then drop 1 s else s);
          n = (if sign = ''-'' then - int (nat_of_digits 0 ds) else int (nat_of_digits 0 ds))
      in if ds \<noteq> [] \<and> list_all is_digit ds \<and> - (2 ^ 63) \<le> n \<and> n < 2 ^ 63 then Some n else None)"

definition parse_int_error :: go_error where "parse_int_error = ErrNew ''strconv.ParseInt''"

definition buildEntityStoreDataRequest :: "(string \<times> string) list \<Rightarrow> (Params \<times> OpenApiRequest) res" where
  "buildEntityStoreDataRequest values =
     (let workspace = at_key values ''Workspace'' in
      if \<not> entityStoreWorkspacePattern workspace then Inl (ErrNew ''safe EntityStore workspace is required'')
      else case ParseInt (at_key values ''From'') of
        None \<Rightarrow> Inl (ErrWrap ''valid EntityStore from time is required: '' parse_int_error '''')
      | Some from_time \<Rightarrow>
        (case ParseInt (at_key values ''To'') of
           None \<Rightarrow> Inl (ErrWrap ''valid EntityStore to time is required: '' parse_int_error '''')
         | Some to_time \<Rightarrow>
             if to_time \<le> from_time then Inl (ErrNew ''EntityStore to time must be after from time'')
             else if at_key values ''Query'' = '''' then Inl (ErrNew ''EntityStore query is required'')
             else Inr
               (\<lparr>pm_Action = ''GetEntityStoreData'', pm_Version = ''2024-03-30'', pm_Protocol = ''HTTPS'',
                 pm_Pathname = ''/workspace/'' @ workspace @ ''/entitiesAndRelations'', pm_Method = ''POST'',
                 pm_AuthType = ''AK'', pm_Style = ''ROA'', pm_ReqBodyType = ''json'', pm_BodyType = ''json''\<rparr>,
                \<lparr>oa_Query = [],
                 oa_Body = [(''from'', GoInt64 from_time), (''to'', GoInt64 to_time),
                            (''query'', GoString (at_key values ''Query''))]\<rparr>)))"

definition callEntityStoreData ::
    "(Params \<Rightarrow> OpenApiRequest \<Rightarrow> 'w \<Rightarrow> string res \<times> 'w) \<Rightarrow> (string \<times> string) list \<Rightarrow> 'w \<Rightarrow>
       string res \<times> 'w" where
  "callEntityStoreData call values w =
     (case buildEntityStoreDataRequest values of
        Inl err \<Rightarrow> (Inl err, w)
      | Inr (params, request) \<Rightarrow> call params request w)"

definition callRPC ::
    "(Params \<Rightarrow> OpenApiRequest \<Rightarrow> 'w \<Rightarrow> string res \<times> 'w) \<Rightarrow> string \<Rightarrow> string \<Rightarrow>
       (string \<times> string) list \<Rightarrow> 'w \<Rightarrow> string res \<times> 'w" where
  "callRPC call action version values w =
     call \<lparr>pm_Action = action, pm_Version = version, pm_Protocol = ''HTTPS'', pm_Pathname = ''/'',
           pm_Method = ''POST'', pm_AuthType = ''AK'', pm_Style = ''RPC'', pm_ReqBodyType = ''formData'',
           pm_BodyType = ''json''\<rparr>
          \<lparr>oa_Query = values, oa_Body = []\<rparr> w"

fun as_int32 :: "go_any option \<Rightarrow> int option" where
  "as_int32 (Some (GoInt32 i)) = Some i"
| "as_int32 _ = None"

fun as_int64 :: "go_any option \<Rightarrow> int option" where
  "as_int64 (Some (GoInt64 i)) = Some i"
| "as_int64 _ = None"

fun as_string :: "go_any option \<Rightarrow> string option" where
  "as_string (Some (GoString s)) = Some s"
| "as_string _ = None"

definition callSLS ::
    "(string \<Rightarrow> string \<Rightarrow> GetLogsRequest \<Rightarrow> 'w \<Rightarrow> string res \<times> 'w) \<Rightarrow> AliyunRequest \<Rightarrow> 'w \<Rightarrow>
       string res \<times> 'w" where
  "callSLS call request w =
     (if ar_Operation request \<noteq> ''GetLogs''
      then (Inl (ErrNew (''unsupported SLS operation '' @ quoted (ar_Operation request))), w)
      else
        (let project = at_key (ar_Query request) ''project''; logstore = at_key (ar_Query request) ''logstore''
         in if project = '''' \<or> logstore = '''' then (Inl (ErrNew ''SLS project and logstore are required''), w)
            else case as_int32 (map_of (ar_Body request) ''from'') of
              None \<Rightarrow> (Inl (ErrNew ''SLS from time is required''), w)
            | Some from_time \<Rightarrow>
              (case as_int32 (map_of (ar_Body request) ''to'') of
                 None \<Rightarrow> (Inl (ErrNew ''SLS to time is required''), w)
               | Some to_time \<Rightarrow>
                 (case as_string (map_of (ar_Body request) ''query'') of
                    None \<Rightarrow> (Inl (ErrNew ''SLS query is required''), w)
                  | Some query \<Rightarrow>
                    (case as_int64 (map_of (ar_Body request) ''line'') of
                       None \<Rightarrow> (Inl (ErrNew ''SLS line limit is required''), w)
                     | Some line_limit \<Rightarrow>
                         call project logstore
                           \<lparr>gl_From = from_time, gl_To = to_time, gl_Query = query, gl_Line = line_limit\<rparr> w)))))"

definition Call :: "'w SDKAliyunClient \<Rightarrow> 'w AliyunAPI" where
  "Call c request w =
     (if \<not> action_allowed (ar_Service request) (ar_Operation request)
      then (Inl (ErrNew (ar_Service request @ '':'' @ ar_Operation request @ '' not allowlisted'')), w)
      else if ar_Service request = ''cms'' then
        (if ar_Operation request = ''GetEntityStoreData''
         then callEntityStoreData (sdk_cms c) (ar_Query request) w
         else callRPC (sdk_cms c) (ar_Operation request) ''2019-01-01'' (ar_Query request) w)
      else if ar_Service request = ''actiontrail''
      then callRPC (sdk_actionTrail c) (ar_Operation request) ''2020-07-06'' (ar_Query request) w
      else if ar_Service request = ''sls'' then callSLS (sdk_sls c) request w
      else (Inl (ErrNew (''unsupported cloud service '' @ quoted (ar_Service request))), w))"

text \<open>The endpoints of the three clients of a region.\<close>

definition sdk_endpoints :: "string \<Rightarrow> (string \<times> string \<times> string) res" where
  "sdk_endpoints region =
     (if region = '''' then Inl (ErrNew ''aliyun region is required'')
      else Inr (''cms.'' @ region @ ''.aliyuncs.com'', ''actiontrail.'' @ region @ ''.aliyuncs.com'',
                region @ ''.log.aliyuncs.com''))"

section \<open>Reviewed requests\<close>

text \<open>The bytes of a safe selector.\<close>

lemma selector_rune_ascii: "selector_rune r \<Longrightarrow> r < 128"
  by (auto simp: selector_rune_def)

lemma length_runes_ascii: "\<forall>c \<in> set v. byte c < 128 \<Longrightarrow> length (runes v) = length v"
  by (induction v) (simp_all add: runes_ascii)

lemma safeSelector_iff:
  "safeSelector v \<longleftrightarrow> v \<noteq> '''' \<and> length v \<le> 256 \<and> (\<forall>c \<in> set v. selector_rune (byte c))"
proof -
  have all: "list_all (\<lambda>x. selector_rune (fst x)) (runes v) \<longleftrightarrow> (\<forall>c \<in> set v. selector_rune (byte c))"
    using runes_all_ascii [of selector_rune v] selector_rune_ascii by (simp add: list_all_iff)
  have len: "length (runes v) = length v" if "\<forall>c \<in> set v. selector_rune (byte c)"
    using that selector_rune_ascii by (intro length_runes_ascii) blast
  have "1 \<le> length v \<longleftrightarrow> v \<noteq> ''''" by (cases v) simp_all
  with all len show ?thesis unfolding safeSelector_def by metis
qed

lemma validateSelectorValue_ok [simp]: "validateSelectorValue v = Inr () \<longleftrightarrow> safeSelector v"
  by (simp add: validateSelectorValue_def)

lemma requiredSelector_ok:
  "requiredSelector selectors name = Inr v \<Longrightarrow> v = at_key selectors name \<and> safeSelector v"
  by (auto simp: requiredSelector_def Let_def validateSelectorValue_def split: if_splits)

text \<open>
  The requests a window can lead to: the five fixed shapes, with values that pass
  \<^theory_text>\<open>allowed\<close> in the only places that vary.
\<close>

inductive reviewed ::
    "(string \<Rightarrow> string) \<Rightarrow> AliyunConfig \<Rightarrow> (string \<Rightarrow> bool) \<Rightarrow> Window \<Rightarrow> AliyunRequest \<Rightarrow> bool"
  for md5 cfg allowed window
where
  endpoint: "allowed v \<Longrightarrow>
    reviewed md5 cfg allowed window (buildEntityStoreRequest (ac_Workspace cfg) (context_query v) window)"
| topology: "allowed v \<Longrightarrow>
    reviewed md5 cfg allowed window
      (buildEntityStoreRequest (ac_Workspace cfg) (topology_query (EndpointEntityID md5 v)) window)"
| metrics: "allowed r \<or> safeSelector r \<and> r = ac_Region cfg \<Longrightarrow> allowed v \<Longrightarrow>
    tail = instance_query v \<or> tail = probe_query v \<Longrightarrow>
    reviewed md5 cfg allowed window
      \<lparr>ar_Service = ''cms'', ar_Operation = ''DescribeMetricList'',
       ar_Query = metrics_query window r @ tail, ar_Body = []\<rparr>"
| logs: "allowed v \<Longrightarrow> allowed u \<Longrightarrow> kind = ''access'' \<or> kind = ''error'' \<Longrightarrow>
    reviewed md5 cfg allowed window
      \<lparr>ar_Service = ''sls'', ar_Operation = ''GetLogs'',
       ar_Query = [(''project'', ac_SLSProject cfg), (''logstore'', ac_SLSLogstore cfg)],
       ar_Body = [(''from'', GoInt32 (int32 (unix (wn_Start window)))),
                  (''to'', GoInt32 (int32 (unix (wn_End window)))),
                  (''query'', GoString (nginx_query v kind u)), (''line'', GoInt64 100)]\<rparr>"
| changes: "allowed v \<Longrightarrow> reviewed md5 cfg allowed window (buildActionTrailRequest v window)"

lemma reviewed_action:
  "reviewed md5 cfg allowed window req \<Longrightarrow> action_allowed (ar_Service req) (ar_Operation req)"
  by (induction rule: reviewed.induct)
    (simp_all add: action_allowed_def allowedActions_def buildEntityStoreRequest_def buildActionTrailRequest_def)

definition selector_value :: "Selectors \<Rightarrow> string \<Rightarrow> bool" where
  "selector_value selectors v \<longleftrightarrow> safeSelector v \<and> v \<in> snd ` set selectors"

lemma at_key_value: "at_key selectors k \<noteq> '''' \<Longrightarrow> at_key selectors k \<in> snd ` set selectors"
  by (force simp: at_key_def split: option.splits dest: map_of_SomeD)

lemma required_value:
  "requiredSelector selectors name = Inr v \<Longrightarrow> selector_value selectors v"
  using requiredSelector_ok [of selectors name v] at_key_value [of selectors name]
  by (auto simp: selector_value_def safeSelector_iff)


end
