(* ===== verification/Runtime.thy ===== *)
theory Runtime
  imports Provider StoreProps
begin

text \<open>
  The composition of the evidence path, \<^verbatim>\<open>internal/runtime\<close>: the source of incident
  contexts over the repository (\<^verbatim>\<open>incident_source.go\<close>) and the evidence service over the
  registry, that source and the provider (\<^verbatim>\<open>evidence.go\<close>). Two locales state the
  interfaces: \<^theory_text>\<open>reviewed_cloud\<close>, a cloud that answers reviewed requests only, and
  \<^theory_text>\<open>evidence_service\<close>, what a service needs of its source and providers. Both are
  interpreted on a world that logs every request to the cloud.
\<close>

section \<open>Incident source\<close>

definition incidentEvidenceWindow :: int where "incidentEvidenceWindow = 30 * 60 * second"

record 'w incident_source =
  is_repo :: "string \<Rightarrow> 'w \<Rightarrow> Incident res \<times> 'w"
  is_bindings :: "(string \<times> IncidentBinding) list"

definition NewIncidentSource ::
    "(string \<Rightarrow> 'w \<Rightarrow> Incident res \<times> 'w) option \<Rightarrow> IncidentBinding list \<Rightarrow> 'w incident_source res" where
  "NewIncidentSource repo bindings =
     (case repo of
        None \<Rightarrow> Inl (ErrNew ''incident repository is required'')
      | Some r \<Rightarrow>
        (case ValidateIncidentBindings bindings of
           Inl err \<Rightarrow> Inl err
         | Inr _ \<Rightarrow>
             Inr \<lparr>is_repo = r, is_bindings = map (\<lambda>b. (IncidentBindingKey b, b)) bindings\<rparr>))"

definition binding_of_incident :: "Incident \<Rightarrow> IncidentBinding" where
  "binding_of_incident inc =
     \<lparr>ib_Workspace = inc_workspace inc, ib_RuleID = inc_rule_id inc, ib_ResourceID = inc_resource_id inc,
      ib_Selectors = []\<rparr>"

definition ResolveIncident :: "'w incident_source \<Rightarrow> 'w IncidentSource" where
  "ResolveIncident s incidentID w =
     (if incidentID = '''' then (Inl (ErrNew ''incident id is required''), w)
      else case is_repo s incidentID w of
        (Inl err, w) \<Rightarrow> (Inl err, w)
      | (Inr inc, w) \<Rightarrow>
        (case map_of (is_bindings s) (IncidentBindingKey (binding_of_incident inc)) of
           None \<Rightarrow> (Inl (ErrNew (''no incident binding for workspace='' @ quoted (inc_workspace inc) @
                      '' rule_id='' @ quoted (inc_rule_id inc) @ '' resource_id='' @ quoted (inc_resource_id inc))), w)
         | Some b \<Rightarrow>
             (Inr \<lparr>ic_Selectors = ib_Selectors b,
                   ic_Window = \<lparr>wn_Start = inc_alert_at inc - incidentEvidenceWindow, wn_End = inc_alert_at inc\<rparr>\<rparr>, w)))"

section \<open>Evidence service\<close>

text \<open>What the service is composed of: the decoders of the two YAML files, the files, the environment.\<close>

record sources =
  sc_registry :: "string \<Rightarrow> Binding list res"
  sc_bindings :: "string \<Rightarrow> IncidentBinding list res"
  sc_env :: "string \<Rightarrow> string"
  sc_ReadFile :: "string \<Rightarrow> string res"

definition provider_config :: "Config \<Rightarrow> AliyunConfig" where
  "provider_config cfg =
     \<lparr>ac_Workspace = cf_Workspace cfg, ac_Region = cf_Region cfg, ac_ECSRAMRoleName = cf_ECSRAMRoleName cfg,
      ac_SLSProject = cf_SLSProject cfg, ac_SLSLogstore = cf_SLSLogstore cfg\<rparr>"

definition provider_names :: "string list" where
  "provider_names =
     [''aliyun.umodel'', ''aliyun.synthetic_probe'', ''aliyun.cloudmonitor'', ''aliyun.sls'', ''aliyun.actiontrail'']"

definition newEvidenceService ::
    "digests \<Rightarrow> 'f float64 \<Rightarrow> sources \<Rightarrow> Config \<Rightarrow> (string \<Rightarrow> 'w \<Rightarrow> Incident res \<times> 'w) option \<Rightarrow>
       'w EvidenceLookup \<Rightarrow> 'w AliyunAPI option \<Rightarrow> 'w Service res" where
  "newEvidenceService dg fl src cfg repo lookup cloud =
     (case cloud of
        None \<Rightarrow> Inl (ErrNew ''aliyun cloud client is required'')
      | Some call \<Rightarrow>
        (case LoadRegistry (sc_registry src) (sc_ReadFile src (cf_EvidenceBindingsPath cfg)) of
           Inl err \<Rightarrow> Inl err
         | Inr registry \<Rightarrow>
           (case LoadIncidentBindings (sc_bindings src) (sc_env src) (sc_ReadFile src (cf_IncidentBindingsPath cfg)) of
              Inl err \<Rightarrow> Inl err
            | Inr bindings \<Rightarrow>
              (case NewIncidentSource repo bindings of
                 Inl err \<Rightarrow> Inl err
               | Inr incidents \<Rightarrow>
                   (let aliyun = Resolve dg fl \<lparr>ap_config = provider_config cfg, ap_cloud = call\<rparr>
                    in Inr (WithEvidenceLookup
                         (NewService registry (ResolveIncident incidents)
                            (\<lambda>name. if name \<in> set provider_names then Some aliyun else None)) lookup))))))"

section \<open>A cloud that takes reviewed requests\<close>

locale reviewed_cloud =
  fixes call :: "'w AliyunAPI" and dg :: digests and fl :: "'f float64" and cfg :: AliyunConfig
    and selectors :: Selectors and window :: Window and ok :: "'w \<Rightarrow> bool" and R :: "'w \<Rightarrow> 'w \<Rightarrow> bool"
  assumes R_refl: "R w w"
    and k_call: "reviewed (dg_md5 dg) cfg (selector_value selectors) window req \<Longrightarrow> keeps ok R (call req) w"
begin

abbreviation aliyun :: "'w AliyunProvider" where
  "aliyun \<equiv> \<lparr>ap_config = cfg, ap_cloud = call\<rparr>"

lemma keep_call:
  assumes "reviewed (dg_md5 dg) cfg (selector_value selectors) window req"
  shows "ok w \<Longrightarrow> call req w = (r, w') \<Longrightarrow> ok w' \<and> R w w'"
  by (rule keepsD [OF k_call [OF assms]])

lemma asked:
  assumes "(case call req w of (Inl err, w) \<Rightarrow> (Inl err, w) | (Inr raw, w) \<Rightarrow> (f raw, w)) = (r, w')"
    and "reviewed (dg_md5 dg) cfg (selector_value selectors) window req" and "ok w"
  shows "ok w' \<and> R w w'"
proof -
  from assms(1) have "call req w = (fst (call req w), w')"
    by (auto simp: prod_eq_iff split: prod.splits sum.splits)
  with keep_call [OF assms(2,3)] show ?thesis .
qed

lemma keep_context: "keeps ok R (resolveContext dg aliyun b selectors window) w"
proof (rule keepsI)
  fix r w'
  assume w: "ok w" and run: "resolveContext dg aliyun b selectors window w = (r, w')"
  show "ok w' \<and> R w w'"
  proof (cases "requiredSelector selectors ''endpoint_id''")
    case (Inr v)
    have "reviewed (dg_md5 dg) cfg (selector_value selectors) window
        (buildEntityStoreRequest (ac_Workspace cfg) (context_query v) window)"
      using required_value [OF Inr] by (rule reviewed.endpoint)
    note ask = asked [OF _ this w]
    show ?thesis
    proof (cases "ac_Workspace cfg = ''''")
      case False
      with run Inr show ?thesis
        by (simp add: resolveContext_def buildEntityStoreContextRequest_def) (erule ask)
    qed (use w run Inr in \<open>auto simp: resolveContext_def buildEntityStoreContextRequest_def R_refl\<close>)
  qed (use w run in \<open>auto simp: resolveContext_def R_refl\<close>)
qed

lemma keep_topology: "keeps ok R (resolveTopologyContext dg aliyun b selectors window) w"
proof (rule keepsI)
  fix r w'
  assume w: "ok w" and run: "resolveTopologyContext dg aliyun b selectors window w = (r, w')"
  show "ok w' \<and> R w w'"
  proof (cases "requiredSelector selectors ''endpoint_id''")
    case (Inr v)
    have "reviewed (dg_md5 dg) cfg (selector_value selectors) window
        (buildEntityStoreRequest (ac_Workspace cfg) (topology_query (EndpointEntityID (dg_md5 dg) v)) window)"
      using required_value [OF Inr] by (rule reviewed.topology)
    note ask = asked [OF _ this w]
    show ?thesis
    proof (cases "ac_Workspace cfg = ''''")
      case False
      with run Inr show ?thesis
        by (simp add: resolveTopologyContext_def buildEntityStoreTopologyRequest_def) (erule ask)
    qed (use w run Inr in \<open>auto simp: resolveTopologyContext_def buildEntityStoreTopologyRequest_def R_refl\<close>)
  qed (use w run in \<open>auto simp: resolveTopologyContext_def R_refl\<close>)
qed

lemma metrics_reviewed:
  assumes "buildMetricsRequest cfg selectors window = Inr req"
  shows "reviewed (dg_md5 dg) cfg (selector_value selectors) window req"
proof -
  let ?r = "if at_key selectors ''region_id'' \<noteq> '''' then at_key selectors ''region_id'' else ac_Region cfg"
  have r: "safeSelector ?r"
    using assms by (auto simp: buildMetricsRequest_def Let_def validateSelectorValue_def split: if_splits)
  then have region: "selector_value selectors ?r \<or> safeSelector ?r \<and> ?r = ac_Region cfg"
    using at_key_value [of selectors "''region_id''"] by (auto simp: selector_value_def)
  have "\<exists>v tail. selector_value selectors v \<and> (tail = instance_query v \<or> tail = probe_query v) \<and>
      req = \<lparr>ar_Service = ''cms'', ar_Operation = ''DescribeMetricList'',
             ar_Query = metrics_query window ?r @ tail, ar_Body = []\<rparr>"
    using assms r at_key_value [of selectors "''instance_id''"] at_key_value [of selectors "''probe_task_id''"]
    by (auto simp: buildMetricsRequest_def Let_def validateSelectorValue_def selector_value_def split: if_splits)
  with region show ?thesis by (auto intro: reviewed.metrics)
qed

lemma keep_metrics: "keeps ok R (resolveMetrics dg fl aliyun b selectors window) w"
proof (rule keepsI)
  fix r w'
  assume w: "ok w" and run: "resolveMetrics dg fl aliyun b selectors window w = (r, w')"
  show "ok w' \<and> R w w'"
  proof (cases "buildMetricsRequest cfg selectors window")
    case (Inr req)
    from keep_call [OF metrics_reviewed [OF Inr] w] run Inr show ?thesis
      by (auto simp: resolveMetrics_def split: prod.splits sum.splits)
  qed (use w run in \<open>auto simp: resolveMetrics_def R_refl\<close>)
qed

lemma logs_reviewed:
  assumes "buildNginxLogsRequest cfg kind selectors window = Inr req" and "kind = ''access'' \<or> kind = ''error''"
  shows "reviewed (dg_md5 dg) cfg (selector_value selectors) window req"
proof -
  obtain v u where "requiredSelector selectors ''endpoint_id'' = Inr v" "requiredSelector selectors ''instance_id'' = Inr u"
    and req: "req = \<lparr>ar_Service = ''sls'', ar_Operation = ''GetLogs'',
               ar_Query = [(''project'', ac_SLSProject cfg), (''logstore'', ac_SLSLogstore cfg)],
               ar_Body = [(''from'', GoInt32 (int32 (unix (wn_Start window)))),
                          (''to'', GoInt32 (int32 (unix (wn_End window)))),
                          (''query'', GoString (nginx_query v kind u)), (''line'', GoInt64 100)]\<rparr>"
    using assms(1) by (auto simp: buildNginxLogsRequest_def split: sum.splits if_splits)
  then have "selector_value selectors v" "selector_value selectors u" by (auto intro: required_value)
  with req assms(2) show ?thesis by (auto intro: reviewed.logs)
qed

lemma keep_logs: "keeps ok R (resolveLogs dg fl aliyun b selectors window) w"
proof (rule keepsI)
  fix r w'
  assume w: "ok w" and run: "resolveLogs dg fl aliyun b selectors window w = (r, w')"
  show "ok w' \<and> R w w'"
  proof (cases "log_kind (bd_QueryTemplate b)")
    case (Some kind)
    then have kind: "kind = ''access'' \<or> kind = ''error''" by (auto simp: log_kind_def split: if_splits)
    show ?thesis
    proof (cases "buildNginxLogsRequest cfg kind selectors window")
      case (Inr req)
      from keep_call [OF logs_reviewed [OF Inr kind] w] run Inr Some show ?thesis
        by (auto simp: resolveLogs_def split: prod.splits sum.splits)
    qed (use w run Some in \<open>auto simp: resolveLogs_def R_refl\<close>)
  qed (use w run in \<open>auto simp: resolveLogs_def R_refl\<close>)
qed

lemma keep_changes: "keeps ok R (resolveChanges dg aliyun b selectors window) w"
proof (rule keepsI)
  fix r w'
  assume w: "ok w" and run: "resolveChanges dg aliyun b selectors window w = (r, w')"
  show "ok w' \<and> R w w'"
  proof (cases "requiredSelector selectors ''security_group_id''")
    case (Inr v)
    have "reviewed (dg_md5 dg) cfg (selector_value selectors) window (buildActionTrailRequest v window)"
      using required_value [OF Inr] by (rule reviewed.changes)
    from keep_call [OF this w] run Inr show ?thesis
      by (auto simp: resolveChanges_def split: prod.splits sum.splits)
  qed (use w run in \<open>auto simp: resolveChanges_def R_refl\<close>)
qed

lemma keep_Resolve: "keeps ok R (Resolve dg fl aliyun b selectors window) w"
proof (rule keepsI)
  fix r w'
  assume w: "ok w" and run: "Resolve dg fl aliyun b selectors window w = (r, w')"
  consider "w' = w" | "resolveContext dg aliyun b selectors window w = (r, w')"
    | "resolveTopologyContext dg aliyun b selectors window w = (r, w')"
    | "resolveMetrics dg fl aliyun b selectors window w = (r, w')"
    | "resolveLogs dg fl aliyun b selectors window w = (r, w')"
    | "resolveChanges dg aliyun b selectors window w = (r, w')"
    using run by (simp add: Resolve_def Let_def split: sum.splits if_splits)
  then show "ok w' \<and> R w w'"
    by cases (use w keepsD [OF keep_context w] keepsD [OF keep_topology w] keepsD [OF keep_metrics w]
        keepsD [OF keep_logs w] keepsD [OF keep_changes w] in \<open>auto simp: R_refl\<close>)
qed

end

section \<open>What the service needs\<close>

locale evidence_service =
  fixes s :: "'w Service" and incidentID :: string and ok :: "'w \<Rightarrow> bool" and R :: "'w \<Rightarrow> 'w \<Rightarrow> bool"
  assumes R_refl: "R w w"
    and R_trans: "R w w' \<Longrightarrow> R w' w'' \<Longrightarrow> R w w''"
    and k_source: "keeps ok R (sv_incidents s incidentID) w"
    and k_provider: "ok w0 \<Longrightarrow> sv_incidents s incidentID w0 = (Inr ctx, w1) \<Longrightarrow> R w1 w \<Longrightarrow>
      resolveSelectors b (ic_Selectors ctx) = Inr selectors \<Longrightarrow> sv_providers s (bd_Provider b) = Some p \<Longrightarrow>
      keeps ok R (p b selectors (ic_Window ctx)) w"
begin

lemma keep_loop:
  assumes "ok w0" and "sv_incidents s incidentID w0 = (Inr ctx, w1)" and "R w1 w" and "ok w"
    and "resolve_loop s ctx bs evidence w = (r, w')"
  shows "ok w' \<and> R w w'"
  using assms(3-5)
proof (induction bs arbitrary: evidence w)
  case (Cons b bs)
  show ?case
  proof (cases "resolveSelectors b (ic_Selectors ctx)")
    case (Inr selectors)
    note sel = this
    show ?thesis
    proof (cases "sv_providers s (bd_Provider b)")
      case (Some p)
      obtain q w2 where q: "p b selectors (ic_Window ctx) w = (q, w2)" by fastforce
      note r1 = keepsD [OF k_provider [OF assms(1,2) Cons.prems(1) sel Some] Cons.prems(2) q]
      show ?thesis
      proof (cases q)
        case (Inl err)
        with Cons.prems(3) sel Some q r1 show ?thesis by simp
      next
        case (Inr items)
        with Cons.prems(3) sel Some q have "resolve_loop s ctx bs (evidence @ items) w2 = (r, w')" by simp
        from Cons.IH [OF R_trans [OF Cons.prems(1)] _ this] r1 show ?thesis by (blast intro: R_trans)
      qed
    qed (use Cons.prems sel in \<open>auto simp: R_refl\<close>)
  qed (use Cons.prems in \<open>auto simp: R_refl\<close>)
qed (auto simp: R_refl)

lemma keep_resolve: "keeps ok R (resolve s class incidentID) w"
proof (rule keepsI)
  fix r w'
  assume w: "ok w" and run: "resolve s class incidentID w = (r, w')"
  obtain q w1 where q: "sv_incidents s incidentID w = (q, w1)" by fastforce
  note r1 = keepsD [OF k_source w q]
  show "ok w' \<and> R w w'"
  proof (cases q)
    case (Inl err)
    with run q r1 w show ?thesis by (auto simp: resolve_def R_refl split: if_splits)
  next
    case (Inr ctx)
    then have src: "sv_incidents s incidentID w = (Inr ctx, w1)" using q by simp
    show ?thesis
    proof (cases "incidentID = ''''")
      case False
      with run src have "resolve_loop s ctx (BindingsFor (sv_registry s) class) [] w1 = (r, w')"
        by (simp add: resolve_def)
      from keep_loop [OF w src R_refl _ this] r1 show ?thesis by (blast intro: R_trans)
    qed (use run w in \<open>simp add: resolve_def R_refl\<close>)
  qed
qed

end


section \<open>On the store, with every request logged\<close>

record evidence_world =
  ew_db :: db
  ew_calls :: "AliyunRequest list"

text \<open>The cloud answers anything.\<close>

definition log_call :: "(nat \<Rightarrow> AliyunRequest \<Rightarrow> string res) \<Rightarrow> evidence_world AliyunAPI" where
  "log_call answer req w = (answer (length (ew_calls w)) req, w\<lparr>ew_calls := ew_calls w @ [req]\<rparr>)"

definition read_incident :: "string \<Rightarrow> evidence_world \<Rightarrow> Incident res \<times> evidence_world" where
  "read_incident i w = (fst (IncidentByID i (ew_db w)), w)"

definition read_evidence :: "(string \<Rightarrow> Evidence res) \<Rightarrow> evidence_world EvidenceLookup" where
  "read_evidence unmarshal i w = (fst (OpenEvidence unmarshal i (ew_db w)), w)"

definition calls_only :: "(AliyunRequest \<Rightarrow> bool) \<Rightarrow> evidence_world \<Rightarrow> evidence_world \<Rightarrow> bool" where
  "calls_only P w w' \<longleftrightarrow>
     ew_db w' = ew_db w \<and> (\<exists>new. ew_calls w' = ew_calls w @ new \<and> (\<forall>req \<in> set new. P req))"

lemma calls_only_refl [simp]: "calls_only P w w"
  by (simp add: calls_only_def)

lemma calls_only_trans: "calls_only P w w' \<Longrightarrow> calls_only P w' w'' \<Longrightarrow> calls_only P w w''"
  unfolding calls_only_def by (metis append.assoc Un_iff set_append)

lemma calls_only_mono: "calls_only P w w' \<Longrightarrow> (\<And>req. P req \<Longrightarrow> Q req) \<Longrightarrow> calls_only Q w w'"
  unfolding calls_only_def by blast

interpretation rc: reviewed_cloud "log_call answer" dg fl cfg selectors window "\<lambda>w. True"
  "calls_only (reviewed (dg_md5 dg) cfg (selector_value selectors) window)"
  for answer dg fl cfg selectors window
  by unfold_locales (auto simp: keeps_def log_call_def calls_only_def)

lemma reviewed_mono:
  "reviewed md5 cfg P window req \<Longrightarrow> (\<And>v. P v \<Longrightarrow> Q v) \<Longrightarrow> reviewed md5 cfg Q window req"
  by (induction rule: reviewed.induct) (auto intro: reviewed.intros)

lemma resolve_selectors_loop_values:
  "resolve_selectors_loop i incident m = Inr selectors \<Longrightarrow> snd ` set selectors \<subseteq> snd ` set incident"
proof (induction m arbitrary: selectors)
  case (Cons kv m)
  then obtain rest where "resolve_selectors_loop i incident m = Inr rest"
    and "selectors = (fst kv, at_key incident (snd kv)) # rest" and "at_key incident (snd kv) \<noteq> ''''"
    by (cases kv) (auto split: if_splits sum.splits)
  with Cons.IH at_key_value show ?case by simp
qed simp

text \<open>
  A request that belongs to an incident: the incident is in the database, one of the reviewed
  bindings has its key, and the request is a reviewed one over that binding's selectors and the
  thirty minutes before the alert.
\<close>

definition belongs_to ::
    "(string \<Rightarrow> string) \<Rightarrow> AliyunConfig \<Rightarrow> IncidentBinding list \<Rightarrow> string \<Rightarrow> db \<Rightarrow> AliyunRequest \<Rightarrow> bool" where
  "belongs_to md5 cfg bindings i s req \<longleftrightarrow>
     (\<exists>row \<in> set (db_incidents s). \<exists>b \<in> set bindings.
        ir_id row = i \<and>
        ib_Workspace b @ nul @ ib_RuleID b @ nul @ ib_ResourceID b =
          ir_workspace row @ nul @ ir_rule_id row @ nul @ ir_resource_id row \<and>
        reviewed md5 cfg (selector_value (ib_Selectors b))
          \<lparr>wn_Start = time_unix (ir_alert_at row) - 1800 * second, wn_End = time_unix (ir_alert_at row)\<rparr> req)"

definition logged_service ::
    "digests \<Rightarrow> 'f float64 \<Rightarrow> AliyunConfig \<Rightarrow> (nat \<Rightarrow> AliyunRequest \<Rightarrow> string res) \<Rightarrow>
       (string \<Rightarrow> Evidence res) \<Rightarrow> Registry \<Rightarrow> IncidentBinding list \<Rightarrow> evidence_world Service" where
  "logged_service dg fl cfg answer unmarshal registry bindings =
     WithEvidenceLookup
       (NewService registry
          (ResolveIncident \<lparr>is_repo = read_incident, is_bindings = map (\<lambda>b. (IncidentBindingKey b, b)) bindings\<rparr>)
          (\<lambda>name. if name \<in> set provider_names
                  then Some (Resolve dg fl \<lparr>ap_config = cfg, ap_cloud = log_call answer\<rparr>) else None))
       (read_evidence unmarshal)"

lemma logged_service_fields [simp]:
  "sv_incidents (logged_service dg fl cfg answer un registry bindings) =
     ResolveIncident \<lparr>is_repo = read_incident, is_bindings = map (\<lambda>b. (IncidentBindingKey b, b)) bindings\<rparr>"
  "sv_providers (logged_service dg fl cfg answer un registry bindings) =
     (\<lambda>name. if name \<in> set provider_names
             then Some (Resolve dg fl \<lparr>ap_config = cfg, ap_cloud = log_call answer\<rparr>) else None)"
  by (simp_all add: logged_service_def WithEvidenceLookup_def NewService_def)

lemma ResolveIncident_row:
  assumes "ResolveIncident \<lparr>is_repo = read_incident, is_bindings = map (\<lambda>b. (IncidentBindingKey b, b)) bindings\<rparr> i w = (Inr ctx, w')"
  shows "w' = w \<and> (\<exists>row \<in> set (db_incidents (ew_db w)). \<exists>b \<in> set bindings. ir_id row = i \<and>
    ib_Workspace b @ nul @ ib_RuleID b @ nul @ ib_ResourceID b =
      ir_workspace row @ nul @ ir_rule_id row @ nul @ ir_resource_id row \<and>
    ctx = \<lparr>ic_Selectors = ib_Selectors b,
      ic_Window = \<lparr>wn_Start = time_unix (ir_alert_at row) - 1800 * second, wn_End = time_unix (ir_alert_at row)\<rparr>\<rparr>)"
proof -
  from assms obtain inc b where inc: "fst (IncidentByID i (ew_db w)) = Inr inc" and "w' = w"
    and b: "map_of (map (\<lambda>b. (IncidentBindingKey b, b)) bindings) (IncidentBindingKey (binding_of_incident inc)) = Some b"
    and ctx: "ctx = \<lparr>ic_Selectors = ib_Selectors b,
      ic_Window = \<lparr>wn_Start = inc_alert_at inc - incidentEvidenceWindow, wn_End = inc_alert_at inc\<rparr>\<rparr>"
    by (auto simp: ResolveIncident_def read_incident_def split: if_splits sum.splits option.splits)
  from inc obtain row where row: "row \<in> set (db_incidents (ew_db w))" "ir_id row = i" "inc = scanIncident row"
    by (auto simp: IncidentByID_def split: option.splits dest: find_SomeD)
  from map_of_SomeD [OF b] have "b \<in> set bindings" "IncidentBindingKey b = IncidentBindingKey (binding_of_incident inc)"
    by auto
  with row ctx \<open>w' = w\<close> show ?thesis
    by (auto simp: IncidentBindingKey_def incidentBindingKey_def binding_of_incident_def scanIncident_def
        incidentEvidenceWindow_def intro!: bexI [of _ row] bexI [of _ b])
qed

interpretation es: evidence_service "logged_service dg fl cfg answer un registry bindings" i "\<lambda>w. True"
  "\<lambda>w w'. calls_only (belongs_to (dg_md5 dg) cfg bindings i (ew_db w)) w w'"
  for dg fl cfg answer un registry bindings i
proof (unfold_locales, goal_cases)
  case (2 w w' w'')
  then have "ew_db w' = ew_db w" by (simp add: calls_only_def)
  with 2 show ?case by (auto intro: calls_only_trans)
next
  case (3 w)
  show ?case
    by (rule keepsI) (auto simp: ResolveIncident_def read_incident_def split: if_splits sum.splits option.splits)
next
  case (4 w0 ctx w1 w b selectors p)
  from ResolveIncident_row [OF 4(2) [unfolded logged_service_fields]] obtain row ib where "w1 = w0"
    and row: "row \<in> set (db_incidents (ew_db w0))" "ir_id row = i" and ib: "ib \<in> set bindings"
      "ib_Workspace ib @ nul @ ib_RuleID ib @ nul @ ib_ResourceID ib =
        ir_workspace row @ nul @ ir_rule_id row @ nul @ ir_resource_id row"
    and ctx: "ctx = \<lparr>ic_Selectors = ib_Selectors ib,
      ic_Window = \<lparr>wn_Start = time_unix (ir_alert_at row) - 1800 * second, wn_End = time_unix (ir_alert_at row)\<rparr>\<rparr>"
    by blast
  have db: "ew_db w = ew_db w0" using 4(3) \<open>w1 = w0\<close> by (simp add: calls_only_def)
  have p: "p = Resolve dg fl \<lparr>ap_config = cfg, ap_cloud = log_call answer\<rparr>"
    using 4(5) by (simp split: if_splits)
  have "snd ` set selectors \<subseteq> snd ` set (ib_Selectors ib)"
    using resolve_selectors_loop_values 4(4) ctx by (auto simp: resolveSelectors_def)
  then have sel: "selector_value selectors v \<Longrightarrow> selector_value (ib_Selectors ib) v" for v
    by (auto simp: selector_value_def)
  show ?case
  proof (rule keepsI)
    fix r w'
    assume "p b selectors (ic_Window ctx) w = (r, w')"
    then have "calls_only (reviewed (dg_md5 dg) cfg (selector_value selectors) (ic_Window ctx)) w w'"
      using keepsD [OF rc.keep_Resolve] unfolding p by blast
    then show "True \<and> calls_only (belongs_to (dg_md5 dg) cfg bindings i (ew_db w)) w w'"
      using row ib ctx sel unfolding db belongs_to_def
      by (intro conjI TrueI) (elim calls_only_mono, auto intro: reviewed_mono)
  qed
qed simp

lemma newEvidenceService_logged:
  assumes "newEvidenceService dg fl src cfg (Some read_incident) (read_evidence un) (Some (log_call answer)) = Inr s"
  shows "\<exists>registry bindings. LoadRegistry (sc_registry src) (sc_ReadFile src (cf_EvidenceBindingsPath cfg)) = Inr registry \<and>
    LoadIncidentBindings (sc_bindings src) (sc_env src) (sc_ReadFile src (cf_IncidentBindingsPath cfg)) = Inr bindings \<and>
    s = logged_service dg fl (provider_config cfg) answer un registry bindings"
  using assms
  by (auto simp: newEvidenceService_def NewIncidentSource_def logged_service_def Let_def split: sum.splits)

text \<open>
  C25 (evidence_requests_are_reviewed). Whatever class of evidence is asked for whatever
  identifier, and whatever the cloud answers, the evidence service changes nothing in the
  database, and every request it sends to the cloud is an allowlisted action in one of the five
  fixed shapes; the only texts in it that vary are selector values of letters, digits, dots,
  underscores, colons and dashes, taken from the reviewed binding of that incident, and its time
  range is the thirty minutes before the incident's alert. Nothing of the callback payload or of
  a model's output reaches a query.
\<close>

theorem evidence_requests_are_reviewed:
  assumes "newEvidenceService dg fl src cfg (Some read_incident) (read_evidence un) (Some (log_call answer)) = Inr s"
    and "LoadIncidentBindings (sc_bindings src) (sc_env src) (sc_ReadFile src (cf_IncidentBindingsPath cfg)) = Inr bindings"
    and "resolve s class i w = (r, w')"
  shows "ew_db w' = ew_db w \<and> (\<exists>new. ew_calls w' = ew_calls w @ new \<and>
    (\<forall>req \<in> set new. action_allowed (ar_Service req) (ar_Operation req) \<and>
       (\<exists>row \<in> set (db_incidents (ew_db w)). \<exists>b \<in> set bindings.
          ir_id row = i \<and>
          ib_Workspace b @ nul @ ib_RuleID b @ nul @ ib_ResourceID b =
            ir_workspace row @ nul @ ir_rule_id row @ nul @ ir_resource_id row \<and>
          reviewed (dg_md5 dg) (provider_config cfg)
            (\<lambda>v. v \<in> snd ` set (ib_Selectors b) \<and> v \<noteq> '''' \<and> length v \<le> 256 \<and> (\<forall>c \<in> set v. selector_rune (byte c)))
            \<lparr>wn_Start = time_unix (ir_alert_at row) - 1800 * second, wn_End = time_unix (ir_alert_at row)\<rparr> req)))"
proof -
  from newEvidenceService_logged [OF assms(1)] assms(2) obtain registry
    where s: "s = logged_service dg fl (provider_config cfg) answer un registry bindings" by auto
  have "calls_only (belongs_to (dg_md5 dg) (provider_config cfg) bindings i (ew_db w)) w w'"
    using keepsD [OF es.keep_resolve] assms(3) unfolding s by blast
  then obtain new where db: "ew_db w' = ew_db w" and new: "ew_calls w' = ew_calls w @ new"
    and bt: "\<forall>req \<in> set new. belongs_to (dg_md5 dg) (provider_config cfg) bindings i (ew_db w) req"
    unfolding calls_only_def by blast
  have allowed: "selector_value sel v \<Longrightarrow>
      v \<in> snd ` set sel \<and> v \<noteq> '''' \<and> length v \<le> 256 \<and> (\<forall>c \<in> set v. selector_rune (byte c))" for sel v
    by (simp add: selector_value_def safeSelector_iff)
  have "\<forall>req \<in> set new. action_allowed (ar_Service req) (ar_Operation req) \<and>
       (\<exists>row \<in> set (db_incidents (ew_db w)). \<exists>b \<in> set bindings.
          ir_id row = i \<and>
          ib_Workspace b @ nul @ ib_RuleID b @ nul @ ib_ResourceID b =
            ir_workspace row @ nul @ ir_rule_id row @ nul @ ir_resource_id row \<and>
          reviewed (dg_md5 dg) (provider_config cfg)
            (\<lambda>v. v \<in> snd ` set (ib_Selectors b) \<and> v \<noteq> '''' \<and> length v \<le> 256 \<and> (\<forall>c \<in> set v. selector_rune (byte c)))
            \<lparr>wn_Start = time_unix (ir_alert_at row) - 1800 * second, wn_End = time_unix (ir_alert_at row)\<rparr> req)"
    using bt reviewed_action reviewed_mono [OF _ allowed] unfolding belongs_to_def by meson
  with db new show ?thesis by blast
qed

end
