(* ===== verification/RuntimeWitnesses.thy ===== *)
theory RuntimeWitnesses
  imports Runtime StoreWitnesses
begin

text \<open>A configured evidence service, asked for the context of the one incident of a database.\<close>

definition demo_binding :: Binding where
  "demo_binding =
     \<lparr>bd_ID = ''ctx'', bd_EvidenceClass = ''context'', bd_Target = ''blog'', bd_Provider = ''aliyun.umodel'',
      bd_QueryTemplate = ''endpoint_context_v1'', bd_SelectorMapping = [(''endpoint_id'', ''endpoint_id'')],
      bd_ConsoleLinkTemplate = '''', bd_QueryURL = '''', bd_Credentials = False, bd_ShellCommand = ''''\<rparr>"

definition demo_incident_binding :: IncidentBinding where
  "demo_incident_binding =
     \<lparr>ib_Workspace = ''ws'', ib_RuleID = ''rule'', ib_ResourceID = ''host'',
      ib_Selectors = [(''endpoint_id'', ''blog'')]\<rparr>"

definition demo_sources :: sources where
  "demo_sources =
     \<lparr>sc_registry = (\<lambda>raw. Inr [demo_binding]), sc_bindings = (\<lambda>raw. Inr [demo_incident_binding]),
      sc_env = (\<lambda>name. ''''), sc_ReadFile = (\<lambda>path. Inr ''yaml'')\<rparr>"

definition demo_cfg :: Config where
  "demo_cfg =
     \<lparr>cf_ListenAddr = '''', cf_CallbackToken = ''t'', cf_CallbackCaptureDir = '''', cf_StateDB = ''db'',
      cf_EvidenceBindingsPath = ''e'', cf_IncidentBindingsPath = ''i'', cf_Workspace = ''cms'',
      cf_Region = ''cn'', cf_ECSRAMRoleName = ''role'', cf_SLSProject = ''p'', cf_SLSLogstore = ''l'',
      cf_AppID = ''a'', cf_AppSecret = ''s'', cf_ChatID = ''c'', cf_Enabled = True, cf_MaxTurns = 8,
      cf_TimeoutSeconds = 300, cf_PollSeconds = 15\<rparr>"

definition demo_digests :: digests where
  "demo_digests = \<lparr>dg_md5 = (\<lambda>s. take 16 s), dg_sha256 = (\<lambda>s. take 32 s)\<rparr>"

definition demo_float :: "nat float64" where
  "demo_float =
     \<lparr>fl_ParseFloat = (\<lambda>s. None), fl_of_nat = (\<lambda>n. n), fl_add = (+), fl_div = (div), fl_less = (<),
      fl_leq = (\<le>), fl_format2 = digits_of\<rparr>"

definition demo_answer :: "nat \<Rightarrow> AliyunRequest \<Rightarrow> string res" where
  "demo_answer n req = Inr ''{}''"

definition demo_service :: "evidence_world Service" where
  "demo_service =
     logged_service demo_digests demo_float (provider_config demo_cfg) demo_answer demo_unmarshal
       [demo_binding] [demo_incident_binding]"

definition demo_evidence_world :: evidence_world where
  "demo_evidence_world = \<lparr>ew_db = queued_db, ew_calls = []\<rparr>"

lemma runes_plain: "\<forall>c \<in> set s. byte c < 128 \<Longrightarrow> runes s = map (\<lambda>c. (byte c, [c])) s"
  by (induction s) (simp_all add: runes_ascii)

lemma not_blank_plain:
  assumes "\<forall>c \<in> set s. byte c < 128" and "s \<noteq> ''''" and "\<forall>c \<in> set s. \<not> is_space (byte c)"
  shows "TrimSpace s \<noteq> ''''"
proof -
  from assms(2) have "hd s \<in> set s" by simp
  then have "(byte (hd s), [hd s]) \<in> set (runes s)" using runes_plain [OF assms(1)] by auto
  moreover have "\<not> is_space (byte (hd s))" using assms(2,3) by simp
  ultimately have "\<not> blank s" unfolding blank_iff by force
  then show ?thesis by (simp add: blank_def)
qed

lemma demo_bindings_valid: "ValidateIncidentBindings [demo_incident_binding] = Inr ()"
proof -
  have "TrimSpace s \<noteq> ''''" if "s \<in> {''ws'', ''rule'', ''host'', ''endpoint_id'', ''blog''}" for s
    using that by (intro not_blank_plain) (auto simp: byte_def is_space_def)
  then show ?thesis
    by (simp add: ValidateIncidentBindings_def demo_incident_binding_def Let_def)
qed

lemma demo_service_loaded:
  "newEvidenceService demo_digests demo_float demo_sources demo_cfg (Some read_incident)
     (read_evidence demo_unmarshal) (Some (log_call demo_answer)) = Inr demo_service"
  "LoadIncidentBindings (sc_bindings demo_sources) (sc_env demo_sources)
     (sc_ReadFile demo_sources (cf_IncidentBindingsPath demo_cfg)) = Inr [demo_incident_binding]"
proof -
  show bindings: "LoadIncidentBindings (sc_bindings demo_sources) (sc_env demo_sources)
     (sc_ReadFile demo_sources (cf_IncidentBindingsPath demo_cfg)) = Inr [demo_incident_binding]"
    by (simp add: LoadIncidentBindings_def demo_sources_def demo_bindings_valid)
  have registry: "LoadRegistry (sc_registry demo_sources) (sc_ReadFile demo_sources (cf_EvidenceBindingsPath demo_cfg)) =
      Inr [demo_binding]"
    by (simp add: LoadRegistry_def demo_sources_def demo_binding_def validateBinding_def ContextClass_def
        template_allowed_def allowedTemplates_def allowedSelectors_def)
  from bindings registry
  show "newEvidenceService demo_digests demo_float demo_sources demo_cfg (Some read_incident)
     (read_evidence demo_unmarshal) (Some (log_call demo_answer)) = Inr demo_service"
    by (simp add: newEvidenceService_def NewIncidentSource_def demo_bindings_valid demo_service_def
        logged_service_def Let_def)
qed

lemma demo_request:
  "ew_calls (snd (resolve demo_service ''context'' ''i1'' demo_evidence_world)) =
     [buildEntityStoreRequest ''cms'' (context_query ''blog'')
        \<lparr>wn_Start = - 1700 * second, wn_End = 100 * second\<rparr>]"
proof -
  have sel: "safeSelector ''blog''" by (simp add: safeSelector_iff selector_rune_def byte_def)
  have bindings: "BindingsFor (sv_registry demo_service) ''context'' = [demo_binding]"
    by (simp add: demo_service_def logged_service_def WithEvidenceLookup_def NewService_def BindingsFor_def demo_binding_def)
  have source: "sv_incidents demo_service ''i1'' demo_evidence_world =
      (Inr \<lparr>ic_Selectors = [(''endpoint_id'', ''blog'')],
            ic_Window = \<lparr>wn_Start = - 1700 * second, wn_End = 100 * second\<rparr>\<rparr>, demo_evidence_world)"
    by (simp add: demo_service_def ResolveIncident_def read_incident_def demo_evidence_world_def IncidentByID_def
        queued_db_eq scanIncident_def IncidentBindingKey_def incidentBindingKey_def demo_incident_binding_def
        binding_of_incident_def incidentEvidenceWindow_def time_unix_def second_def)
  show ?thesis
    using sel by (simp add: resolve_def source bindings)
      (simp add: demo_binding_def demo_service_def resolveSelectors_def at_key_def provider_names_def Resolve_def
        validateWindow_def zero_time_def second_def validateSelectorValue_def Let_def resolveContext_def
        requiredSelector_def buildEntityStoreContextRequest_def provider_config_def demo_cfg_def log_call_def
        demo_answer_def demo_evidence_world_def)
qed

section \<open>Witnesses\<close>

lemma demo_evidence_calls: "ew_calls demo_evidence_world = []"
  by (simp add: demo_evidence_world_def)

lemma evidence_requests_are_reviewed_witness:
  "\<exists>req. ew_calls (snd (resolve demo_service ''context'' ''i1'' demo_evidence_world)) = [req] \<and>
     action_allowed (ar_Service req) (ar_Operation req)"
  using evidence_requests_are_reviewed [OF demo_service_loaded(1) demo_service_loaded(2) surjective_pairing,
      of "''context''" "''i1''" demo_evidence_world]
  by (auto simp add: demo_request demo_evidence_calls)

end
