(* ===== verification/ModelSync.thy ===== *)
theory ModelSync
  imports Provider
begin

text \<open>
  The projection of service endpoints into UModel, \<^verbatim>\<open>internal/modelsync\<close>: plans
  (\<^verbatim>\<open>plan.go\<close>), their split into log batches (\<^verbatim>\<open>writes.go\<close>), the writer and the
  read-only inspectors (\<^verbatim>\<open>writer.go\<close>) and the configuration (\<^verbatim>\<open>config.go\<close>). The
  vendor's clients are parameters: \<^verbatim>\<open>PutLogs\<close> and \<^verbatim>\<open>CallApiWithCtx\<close>.
\<close>

section \<open>Plans\<close>

definition sreDomain :: string where "sreDomain = ''sre''"
definition endpointEntityType :: string where "endpointEntityType = ''sre.service_endpoint''"
definition acsDomain :: string where "acsDomain = ''acs''"
definition ecsEntityType :: string where "ecsEntityType = ''acs.ecs.instance''"
definition keepAliveSeconds :: int where "keepAliveSeconds = 172800"

record Endpoint =
  ep_EndpointID :: string
  ep_ServiceName :: string
  ep_ServiceURL :: string
  ep_Environment :: string
  ep_InstanceID :: string
  ep_ECSEntityID :: string
  ep_RegionID :: string
  ep_AccountID :: string

record Relation =
  rl_Type :: string
  rl_DestinationDomain :: string
  rl_DestinationEntityType :: string

text \<open>An element is a map from system and data fields to values.\<close>

type_synonym element = "(string \<times> go_any) list"
type_synonym Plan = "element list"

fun relation_loop :: "nat \<Rightarrow> (nat \<times> string) list \<Rightarrow> bool" where
  "relation_loop index [] = True"
| "relation_loop index ((r, bytes) # rest) =
     (if (97 \<le> r \<and> r \<le> 122) \<or> (48 \<le> r \<and> r \<le> 57 \<and> index > 0) \<or> r = 95
      then relation_loop (index + length bytes) rest else False)"

definition isSafeRelationType :: "string \<Rightarrow> bool" where
  "isSafeRelationType v =
     (if length v = 0 \<or> length v > 64 then False else relation_loop 0 (runes v))"

definition entity_element :: "string \<Rightarrow> Endpoint \<Rightarrow> time \<Rightarrow> element" where
  "entity_element endpointID ep observedAt =
     [(''__domain__'', GoString sreDomain), (''__entity_type__'', GoString endpointEntityType),
      (''__entity_id__'', GoString endpointID), (''__method__'', GoString ''Update''),
      (''__last_observed_time__'', GoInt64 (unix observedAt)),
      (''__keep_alive_seconds__'', GoInt keepAliveSeconds),
      (''endpoint_id'', GoString (ep_EndpointID ep)), (''service_name'', GoString (ep_ServiceName ep)),
      (''service_url'', GoString (ep_ServiceURL ep)), (''environment'', GoString (ep_Environment ep)),
      (''instance_id'', GoString (ep_InstanceID ep)), (''ecs_entity_id'', GoString (ep_ECSEntityID ep)),
      (''region_id'', GoString (ep_RegionID ep)), (''account_id'', GoString (ep_AccountID ep))]"

definition relation_ends :: "string \<Rightarrow> Endpoint \<Rightarrow> string \<Rightarrow> element" where
  "relation_ends endpointID ep relationType =
     [(''__src_domain__'', GoString sreDomain), (''__src_entity_type__'', GoString endpointEntityType),
      (''__src_entity_id__'', GoString endpointID), (''__dest_domain__'', GoString acsDomain),
      (''__dest_entity_type__'', GoString ecsEntityType),
      (''__dest_entity_id__'', GoString (ep_ECSEntityID ep)),
      (''__relation_type__'', GoString relationType)]"

definition relation_element :: "string \<Rightarrow> Endpoint \<Rightarrow> string \<Rightarrow> time \<Rightarrow> element" where
  "relation_element endpointID ep relationType observedAt =
     relation_ends endpointID ep relationType @
     [(''__method__'', GoString ''Update''), (''__last_observed_time__'', GoInt64 (unix observedAt)),
      (''__keep_alive_seconds__'', GoInt keepAliveSeconds)]"

definition expiry_element :: "string \<Rightarrow> Endpoint \<Rightarrow> string \<Rightarrow> time \<Rightarrow> element" where
  "expiry_element endpointID ep relationType observedAt =
     relation_ends endpointID ep relationType @
     [(''__method__'', GoString ''Expire''), (''__last_observed_time__'', GoInt64 (unix observedAt))]"

definition BuildPlan :: "(string \<Rightarrow> string) \<Rightarrow> Endpoint \<Rightarrow> Relation \<Rightarrow> time \<Rightarrow> Plan res" where
  "BuildPlan md5 ep rel observedAt =
     (if TrimSpace (ep_EndpointID ep) = '''' then Inl (ErrNew ''endpoint_id is required'')
      else if TrimSpace (ep_ServiceName ep) = '''' then Inl (ErrNew ''service_name is required'')
      else if TrimSpace (ep_ECSEntityID ep) = '''' then Inl (ErrNew ''ecs_entity_id is required'')
      else if observedAt = zero_time then Inl (ErrNew ''observed time is required'')
      else
        (let endpointID = EndpointEntityID md5 (ep_EndpointID ep);
             plan = [entity_element endpointID ep observedAt];
             domain = (if rl_DestinationDomain rel = '''' then acsDomain else rl_DestinationDomain rel);
             entity = (if rl_DestinationEntityType rel = '''' then ecsEntityType else rl_DestinationEntityType rel)
         in if TrimSpace (rl_Type rel) = '''' then Inr plan
            else if \<not> isSafeRelationType (rl_Type rel)
            then Inl (ErrNew (''unsafe relation type '' @ quoted (rl_Type rel)))
            else if domain \<noteq> acsDomain \<or> entity \<noteq> ecsEntityType
            then Inl (ErrNew ''relation destination must be acs:acs.ecs.instance'')
            else Inr (plan @ [relation_element endpointID ep (rl_Type rel) observedAt])))"

definition BuildRelationExpirationPlan ::
    "(string \<Rightarrow> string) \<Rightarrow> Endpoint \<Rightarrow> string \<Rightarrow> time \<Rightarrow> Plan res" where
  "BuildRelationExpirationPlan md5 ep relationType observedAt =
     (if TrimSpace (ep_EndpointID ep) = '''' then Inl (ErrNew ''endpoint_id is required'')
      else if TrimSpace (ep_ECSEntityID ep) = '''' then Inl (ErrNew ''ecs_entity_id is required'')
      else if observedAt = zero_time then Inl (ErrNew ''observed time is required'')
      else if \<not> isSafeRelationType relationType
      then Inl (ErrNew (''unsafe relation type '' @ quoted relationType))
      else Inr [expiry_element (EndpointEntityID md5 (ep_EndpointID ep)) ep relationType observedAt])"

section \<open>Log batches\<close>

record Log =
  lg_Time :: int
  lg_Contents :: "(string \<times> string) list"

record LogGroup =
  lg_Topic :: string
  lg_Source :: string
  lg_Logs :: "Log list"

definition entityStoreEntityLogStoreName :: "string \<Rightarrow> string" where
  "entityStoreEntityLogStoreName workspace = workspace @ ''__entity''"

definition entityStoreTopoLogStoreName :: "string \<Rightarrow> string" where
  "entityStoreTopoLogStoreName workspace = workspace @ ''__topo''"

definition isRelationElement :: "element \<Rightarrow> bool" where
  "isRelationElement e \<longleftrightarrow> map_of e ''__src_domain__'' \<noteq> None"

fun split_loop :: "Plan \<Rightarrow> Plan \<Rightarrow> Plan \<Rightarrow> Plan \<times> Plan" where
  "split_loop entities relations [] = (entities, relations)"
| "split_loop entities relations (e # es) =
     (if isRelationElement e then split_loop entities (relations @ [e]) es
      else split_loop (entities @ [e]) relations es)"

definition splitEntityStorePlan :: "Plan \<Rightarrow> Plan \<times> Plan" where
  "splitEntityStorePlan plan = split_loop [] [] plan"

fun check_fields :: "string \<Rightarrow> element \<Rightarrow> string list \<Rightarrow> unit res" where
  "check_fields kind e [] = Inr ()"
| "check_fields kind e (f # fs) =
     (case map_of e f of
        None \<Rightarrow> Inl (ErrNew (''missing required EntityStore '' @ kind @ ''field '' @ quoted f))
      | Some v \<Rightarrow>
          if Sprint v = '''' then Inl (ErrNew (''missing required EntityStore '' @ kind @ ''field '' @ quoted f))
          else check_fields kind e fs)"

definition validateEntityElement :: "element \<Rightarrow> unit res" where
  "validateEntityElement e =
     check_fields '''' e [''__domain__'', ''__entity_type__'', ''__entity_id__'', ''__last_observed_time__'']"

definition validateRelationElement :: "element \<Rightarrow> unit res" where
  "validateRelationElement e =
     check_fields ''relation '' e
       [''__src_domain__'', ''__src_entity_type__'', ''__src_entity_id__'', ''__dest_domain__'',
        ''__dest_entity_type__'', ''__dest_entity_id__'', ''__relation_type__'']"

fun log_contents :: "nat \<Rightarrow> element \<Rightarrow> (string \<times> string) list res" where
  "log_contents index [] = Inr []"
| "log_contents index ((key, v) # rest) =
     (if v = GoNil
      then Inl (ErrNew (''element '' @ itoa (int index) @ '' field '' @ quoted key @ '' must not be null''))
      else case log_contents index rest of
        Inl err \<Rightarrow> Inl err
      | Inr contents \<Rightarrow> Inr ((key, Sprint v) # contents))"

text \<open>Conversion to \<^verbatim>\<open>uint32\<close> keeps the low 32 bits.\<close>

definition uint32 :: "int \<Rightarrow> int" where "uint32 x = x mod 2 ^ 32"

definition buildEntityStoreLog :: "element \<Rightarrow> time \<Rightarrow> nat \<Rightarrow> Log res" where
  "buildEntityStoreLog e observedAt index =
     (case log_contents index (sort_key fst e) of
        Inl err \<Rightarrow> Inl err
      | Inr contents \<Rightarrow> Inr \<lparr>lg_Time = uint32 (unix observedAt), lg_Contents = contents\<rparr>)"

definition newEntityStoreLogGroup :: "Log list \<Rightarrow> LogGroup" where
  "newEntityStoreLogGroup logs =
     \<lparr>lg_Topic = ''umodel-entity-store'', lg_Source = ''sre-sync'', lg_Logs = logs\<rparr>"

definition element_error :: "nat \<Rightarrow> go_error \<Rightarrow> go_error" where
  "element_error index err = ErrWrap (''element '' @ itoa (int index) @ '': '') err ''''"

fun entity_logs :: "time \<Rightarrow> nat \<Rightarrow> Plan \<Rightarrow> Log list res" where
  "entity_logs observedAt index [] = Inr []"
| "entity_logs observedAt index (e # es) =
     (if isRelationElement e
      then Inl (ErrNew (''element '' @ itoa (int index) @
             '' is a relation; EntityStore entity writer only accepts entities''))
      else case validateEntityElement e of
        Inl err \<Rightarrow> Inl (element_error index err)
      | Inr _ \<Rightarrow>
        (case buildEntityStoreLog e observedAt index of
           Inl err \<Rightarrow> Inl err
         | Inr lg \<Rightarrow>
           (case entity_logs observedAt (Suc index) es of Inl err \<Rightarrow> Inl err | Inr logs \<Rightarrow> Inr (lg # logs))))"

fun relation_logs :: "time \<Rightarrow> nat \<Rightarrow> Plan \<Rightarrow> Log list res" where
  "relation_logs observedAt index [] = Inr []"
| "relation_logs observedAt index (e # es) =
     (if \<not> isRelationElement e
      then Inl (ErrNew (''element '' @ itoa (int index) @
             '' is an entity; EntityStore relation writer only accepts relations''))
      else case validateRelationElement e of
        Inl err \<Rightarrow> Inl (element_error index err)
      | Inr _ \<Rightarrow>
        (case buildEntityStoreLog e observedAt index of
           Inl err \<Rightarrow> Inl err
         | Inr lg \<Rightarrow>
           (case relation_logs observedAt (Suc index) es of Inl err \<Rightarrow> Inl err | Inr logs \<Rightarrow> Inr (lg # logs))))"

definition buildEntityStoreLogGroup :: "Plan \<Rightarrow> time \<Rightarrow> LogGroup res" where
  "buildEntityStoreLogGroup plan observedAt =
     (if plan = [] then Inl (ErrNew ''EntityStore write plan must contain at least one entity'')
      else if observedAt = zero_time then Inl (ErrNew ''EntityStore write time is required'')
      else case entity_logs observedAt 0 plan of
        Inl err \<Rightarrow> Inl err | Inr logs \<Rightarrow> Inr (newEntityStoreLogGroup logs))"

definition buildEntityStoreRelationLogGroup :: "Plan \<Rightarrow> time \<Rightarrow> LogGroup res" where
  "buildEntityStoreRelationLogGroup plan observedAt =
     (if plan = [] then Inl (ErrNew ''EntityStore relation write plan must contain at least one relation'')
      else if observedAt = zero_time then Inl (ErrNew ''EntityStore write time is required'')
      else case relation_logs observedAt 0 plan of
        Inl err \<Rightarrow> Inl err | Inr logs \<Rightarrow> Inr (newEntityStoreLogGroup logs))"

record entityStoreWrite =
  es_logstore :: string
  es_group :: LogGroup
  es_description :: string

definition buildEntityStoreWrites :: "string \<Rightarrow> Plan \<Rightarrow> time \<Rightarrow> entityStoreWrite list res" where
  "buildEntityStoreWrites workspace plan observedAt =
     (if \<not> entityStoreWorkspacePattern workspace
      then Inl (ErrNew (''unsafe workspace name '' @ quoted workspace))
      else case splitEntityStorePlan plan of (entities, relations) \<Rightarrow>
        (case (if entities \<noteq> [] then
                 (case buildEntityStoreLogGroup entities observedAt of
                    Inl err \<Rightarrow> Inl err
                  | Inr grp \<Rightarrow> Inr [\<lparr>es_logstore = entityStoreEntityLogStoreName workspace, es_group = grp,
                      es_description = ''write UModel EntityStore entity data''\<rparr>])
               else Inr []) of
           Inl err \<Rightarrow> Inl err
         | Inr writes \<Rightarrow>
             if relations \<noteq> [] then
               (case buildEntityStoreRelationLogGroup relations observedAt of
                  Inl err \<Rightarrow> Inl err
                | Inr grp \<Rightarrow> Inr (writes @ [\<lparr>es_logstore = entityStoreTopoLogStoreName workspace,
                    es_group = grp, es_description = ''write UModel EntityStore relation data''\<rparr>]))
             else Inr writes))"

section \<open>Writer and inspectors\<close>

record 'w CMSWriter =
  cw_client :: "(Params \<Rightarrow> OpenApiRequest \<Rightarrow> 'w \<Rightarrow> json res \<times> 'w) option"
  cw_PutLogs :: "(string \<Rightarrow> string \<Rightarrow> LogGroup \<Rightarrow> 'w \<Rightarrow> unit res \<times> 'w) option"

fun put_writes ::
    "(string \<Rightarrow> string \<Rightarrow> LogGroup \<Rightarrow> 'w \<Rightarrow> unit res \<times> 'w) \<Rightarrow> string \<Rightarrow> entityStoreWrite list \<Rightarrow> 'w \<Rightarrow>
       unit res \<times> 'w" where
  "put_writes put workspace [] w = (Inr (), w)"
| "put_writes put workspace (x # xs) w =
     (case put workspace (es_logstore x) (es_group x) w of
        (Inl err, w) \<Rightarrow> (Inl (ErrWrap (es_description x @ '': '') err ''''), w)
      | (Inr _, w) \<Rightarrow> put_writes put workspace xs w)"

definition Upsert ::
    "'w CMSWriter \<Rightarrow> go_error option \<Rightarrow> time \<Rightarrow> string \<Rightarrow> Plan \<Rightarrow> 'w \<Rightarrow> unit res \<times> 'w" where
  "Upsert wr ctx_err now workspace plan w =
     (case cw_PutLogs wr of
        None \<Rightarrow> (Inl (ErrNew ''EntityStore writer is not configured''), w)
      | Some put \<Rightarrow>
        (case ctx_err of
           Some err \<Rightarrow> (Inl err, w)
         | None \<Rightarrow>
           (case buildEntityStoreWrites workspace plan now of
              Inl err \<Rightarrow> (Inl err, w)
            | Inr writes \<Rightarrow> put_writes put workspace writes w)))"

definition buildGetEntityStoreDataRequestWithQuery ::
    "string \<Rightarrow> string \<Rightarrow> time \<Rightarrow> (Params \<times> OpenApiRequest) res" where
  "buildGetEntityStoreDataRequestWithQuery workspace query observedAt =
     (if \<not> entityStoreWorkspacePattern workspace
      then Inl (ErrNew (''unsafe workspace name '' @ quoted workspace))
      else if observedAt = zero_time then Inl (ErrNew ''EntityStore inspection time is required'')
      else Inr
        (\<lparr>pm_Action = ''GetEntityStoreData'', pm_Version = ''2024-03-30'', pm_Protocol = ''HTTPS'',
          pm_Pathname = ''/workspace/'' @ workspace @ ''/entitiesAndRelations'', pm_Method = ''POST'',
          pm_AuthType = ''AK'', pm_Style = ''ROA'', pm_ReqBodyType = ''json'', pm_BodyType = ''json''\<rparr>,
         \<lparr>oa_Query = [],
          oa_Body = [(''from'', GoInt64 (unix (observedAt - 48 * 3600 * second))),
                     (''to'', GoInt64 (unix observedAt)), (''query'', GoString query)]\<rparr>))"

definition buildGetEntityStoreDataRequest ::
    "string \<Rightarrow> string \<Rightarrow> string \<Rightarrow> time \<Rightarrow> (Params \<times> OpenApiRequest) res" where
  "buildGetEntityStoreDataRequest workspace domain entityType observedAt =
     (if domain \<noteq> ''sre'' \<or> entityType \<noteq> ''sre.service_endpoint''
      then Inl (ErrNew (''unsupported EntityStore inspection target '' @ quoted domain @ ''/'' @ quoted entityType))
      else buildGetEntityStoreDataRequestWithQuery workspace
        (''.entity with(domain='' @ [CHR 0x27] @ domain @ [CHR 0x27] @ '', type='' @ [CHR 0x27] @ entityType @
         [CHR 0x27] @ '') | limit 0, 10'') observedAt)"

definition hex_rune :: "nat \<Rightarrow> bool" where
  "hex_rune r \<longleftrightarrow> (97 \<le> r \<and> r \<le> 102) \<or> (65 \<le> r \<and> r \<le> 70) \<or> (48 \<le> r \<and> r \<le> 57)"

definition entityIDPattern :: "string \<Rightarrow> bool" where
  "entityIDPattern v \<longleftrightarrow> length (runes v) = 32 \<and> list_all (\<lambda>x. hex_rune (fst x)) (runes v)"

definition sprint_field :: "element \<Rightarrow> string \<Rightarrow> string" where
  "sprint_field e f = Sprint (case map_of e f of None \<Rightarrow> GoNil | Some v \<Rightarrow> v)"

definition relation_query :: "element \<Rightarrow> string" where
  "relation_query e =
     ''.topo | graph-call getNeighborNodes('' @ [CHR 0x27] @ ''sequence_out'' @ [CHR 0x27] @ '', 1, [(:\"'' @
     sprint_field e ''__src_domain__'' @ ''@'' @ sprint_field e ''__src_entity_type__'' @
     ''\" {__entity_id__: '' @ [CHR 0x27] @ sprint_field e ''__src_entity_id__'' @ [CHR 0x27] @
     ''})]) | where relationType = '' @ [CHR 0x27] @ sprint_field e ''__relation_type__'' @ [CHR 0x27] @
     '' | extend dest_id = json_extract_scalar(destNode, '' @ [CHR 0x27] @ ''$.properties.__entity_id__'' @
     [CHR 0x27] @ '') | where dest_id = '' @ [CHR 0x27] @ sprint_field e ''__dest_entity_id__'' @ [CHR 0x27]"

definition buildGetEntityStoreRelationRequest ::
    "(string \<Rightarrow> string) \<Rightarrow> string \<Rightarrow> Endpoint \<Rightarrow> Relation \<Rightarrow> time \<Rightarrow> (Params \<times> OpenApiRequest) res" where
  "buildGetEntityStoreRelationRequest md5 workspace ep rel observedAt =
     (case BuildPlan md5 ep rel observedAt of
        Inl err \<Rightarrow> Inl err
      | Inr plan \<Rightarrow>
          if length plan \<noteq> 2 then Inl (ErrNew ''relation inspection requires a configured relation'')
          else
            (let e = plan ! 1 in
             if \<not> entityIDPattern (sprint_field e ''__src_entity_id__'') \<or>
                \<not> entityIDPattern (sprint_field e ''__dest_entity_id__'')
             then Inl (ErrNew ''relation inspection requires 128-bit hexadecimal entity IDs'')
             else buildGetEntityStoreDataRequestWithQuery workspace (relation_query e) observedAt))"

definition InspectSchema ::
    "'w CMSWriter \<Rightarrow> time \<Rightarrow> string \<Rightarrow> string list \<Rightarrow> 'w \<Rightarrow> json res \<times> 'w" where
  "InspectSchema wr now workspace domains w =
     (case cw_client wr of
        None \<Rightarrow> (Inl (ErrNew ''UModel writer is not configured''), w)
      | Some call \<Rightarrow>
          if domains \<noteq> [''sre''] then (Inl (ErrNew ''only the sre domain can be inspected''), w)
          else case buildGetEntityStoreDataRequest workspace ''sre'' ''sre.service_endpoint'' now of
            Inl err \<Rightarrow> (Inl err, w)
          | Inr (params, request) \<Rightarrow>
            (case call params request w of
               (Inl err, w) \<Rightarrow> (Inl (ErrWrap ''get UModel EntityStore data: '' err ''''), w)
             | (Inr result, w) \<Rightarrow> (Inr result, w)))"

definition InspectRelation ::
    "(string \<Rightarrow> string) \<Rightarrow> 'w CMSWriter \<Rightarrow> time \<Rightarrow> string \<Rightarrow> Endpoint \<Rightarrow> Relation \<Rightarrow> 'w \<Rightarrow> json res \<times> 'w" where
  "InspectRelation md5 wr now workspace ep rel w =
     (case cw_client wr of
        None \<Rightarrow> (Inl (ErrNew ''UModel relation inspector is not configured''), w)
      | Some call \<Rightarrow>
        (case buildGetEntityStoreRelationRequest md5 workspace ep rel now of
           Inl err \<Rightarrow> (Inl err, w)
         | Inr (params, request) \<Rightarrow>
           (case call params request w of
              (Inl err, w) \<Rightarrow> (Inl (ErrWrap ''get UModel EntityStore relation data: '' err ''''), w)
            | (Inr result, w) \<Rightarrow> (Inr result, w))))"

section \<open>Configuration\<close>

record SyncConfig =
  sy_Workspace :: string
  sy_Region :: string
  sy_ECSRAMRoleName :: string
  sy_Relation :: Relation
  sy_Endpoints :: "Endpoint list"

fun check_endpoints :: "(string \<Rightarrow> string) \<Rightarrow> time \<Rightarrow> Relation \<Rightarrow> nat \<Rightarrow> Endpoint list \<Rightarrow> unit res" where
  "check_endpoints md5 now rel index [] = Inr ()"
| "check_endpoints md5 now rel index (ep # eps) =
     (case BuildPlan md5 ep rel now of
        Inl err \<Rightarrow> Inl (ErrWrap (''endpoint '' @ itoa (int index) @ '': '') err '''')
      | Inr _ \<Rightarrow> check_endpoints md5 now rel (Suc index) eps)"

definition LoadConfig ::
    "(string \<Rightarrow> string) \<Rightarrow> (string \<Rightarrow> SyncConfig res) \<Rightarrow> time \<Rightarrow> string res \<Rightarrow> SyncConfig res" where
  "LoadConfig md5 yaml now file =
     (case file of
        Inl err \<Rightarrow> Inl err
      | Inr raw \<Rightarrow>
        (case yaml raw of
           Inl err \<Rightarrow> Inl (ErrWrap ''parse SRE sync config: '' err '''')
         | Inr cfg \<Rightarrow>
           (let cfg = cfg\<lparr>sy_Workspace := TrimSpace (sy_Workspace cfg), sy_Region := TrimSpace (sy_Region cfg),
                          sy_ECSRAMRoleName := TrimSpace (sy_ECSRAMRoleName cfg)\<rparr>
            in if \<not> entityStoreWorkspacePattern (sy_Workspace cfg)
               then Inl (ErrNew ''workspace is required and must be safe'')
               else if sy_Region cfg = '''' then Inl (ErrNew ''region is required'')
               else if sy_ECSRAMRoleName cfg = '''' then Inl (ErrNew ''ecs_ram_role_name is required'')
               else if sy_Endpoints cfg = [] then Inl (ErrNew ''at least one endpoint is required'')
               else case check_endpoints md5 now (sy_Relation cfg) 0 (sy_Endpoints cfg) of
                 Inl err \<Rightarrow> Inl err | Inr _ \<Rightarrow> Inr cfg)))"


section \<open>Routing\<close>

lemma split_loop_filter:
  "split_loop a b es = (a @ filter (\<lambda>e. \<not> isRelationElement e) es, b @ filter isRelationElement es)"
  by (induction a b es rule: split_loop.induct) simp_all

lemma split_filter:
  "splitEntityStorePlan plan = (filter (\<lambda>e. \<not> isRelationElement e) plan, filter isRelationElement plan)"
  by (simp add: splitEntityStorePlan_def split_loop_filter)

text \<open>The fields of an element as text, in the order of their names.\<close>

definition printed :: "element \<Rightarrow> (string \<times> string) list" where
  "printed e = map (\<lambda>kv. (fst kv, Sprint (snd kv))) (sort_key fst e)"

lemma map_of_printed:
  assumes "distinct (map fst e)"
  shows "map_of (printed e) k = map_option Sprint (map_of e k)"
proof -
  have "map_of (sort_key fst e) = map_of e"
    using assms by (subst map_of_inject_set) (simp_all add: distinct_map)
  moreover have "printed e = map (\<lambda>(k, v). (k, Sprint v)) (sort_key fst e)"
    by (simp add: printed_def case_prod_unfold)
  ultimately show ?thesis by (simp add: map_of_map)
qed

lemma log_contents_ok: "log_contents index e = Inr cs \<Longrightarrow> cs = map (\<lambda>kv. (fst kv, Sprint (snd kv))) e"
  by (induction index e arbitrary: cs rule: log_contents.induct) (auto split: if_splits sum.splits)

lemma buildEntityStoreLog_ok:
  "buildEntityStoreLog e t index = Inr lg \<Longrightarrow> lg = \<lparr>lg_Time = uint32 (unix t), lg_Contents = printed e\<rparr>"
  by (auto simp: buildEntityStoreLog_def printed_def dest: log_contents_ok split: sum.splits)

lemma entity_logs_ok:
  "entity_logs t index es = Inr logs \<Longrightarrow>
     logs = map (\<lambda>e. \<lparr>lg_Time = uint32 (unix t), lg_Contents = printed e\<rparr>) es \<and>
     (\<forall>e \<in> set es. validateEntityElement e = Inr ())"
  by (induction t index es arbitrary: logs rule: entity_logs.induct)
    (auto split: if_splits sum.splits dest: buildEntityStoreLog_ok)

lemma relation_logs_ok:
  "relation_logs t index es = Inr logs \<Longrightarrow>
     logs = map (\<lambda>e. \<lparr>lg_Time = uint32 (unix t), lg_Contents = printed e\<rparr>) es \<and>
     (\<forall>e \<in> set es. validateRelationElement e = Inr ())"
  by (induction t index es arbitrary: logs rule: relation_logs.induct)
    (auto split: if_splits sum.splits dest: buildEntityStoreLog_ok)

definition group_of :: "time \<Rightarrow> Plan \<Rightarrow> LogGroup" where
  "group_of t es =
     \<lparr>lg_Topic = ''umodel-entity-store'', lg_Source = ''sre-sync'',
      lg_Logs = map (\<lambda>e. \<lparr>lg_Time = uint32 (unix t), lg_Contents = printed e\<rparr>) es\<rparr>"

lemma entity_group_ok:
  "buildEntityStoreLogGroup es t = Inr g \<Longrightarrow> g = group_of t es \<and> (\<forall>e \<in> set es. validateEntityElement e = Inr ())"
  by (auto simp: buildEntityStoreLogGroup_def group_of_def newEntityStoreLogGroup_def
      split: if_splits sum.splits dest: entity_logs_ok)

lemma relation_group_ok:
  "buildEntityStoreRelationLogGroup es t = Inr g \<Longrightarrow>
     g = group_of t es \<and> (\<forall>e \<in> set es. validateRelationElement e = Inr ())"
  by (auto simp: buildEntityStoreRelationLogGroup_def group_of_def newEntityStoreLogGroup_def
      split: if_splits sum.splits dest: relation_logs_ok)

text \<open>
  C39 (writes_route_every_element). When the batches of a plan can be built, every element of the
  plan is in exactly one of them, in the plan's order and as the text of all its fields: the
  entities in one batch for the workspace's entity store, the relations in one for its topology
  store, each with its required fields present, and there is no batch without an element.
\<close>

theorem writes_route_every_element:
  assumes "buildEntityStoreWrites workspace plan t = Inr writes"
  shows "map (\<lambda>x. (es_logstore x, map lg_Contents (lg_Logs (es_group x)))) writes =
      filter (\<lambda>x. snd x \<noteq> [])
        [(workspace @ ''__entity'', map printed (filter (\<lambda>e. \<not> isRelationElement e) plan)),
         (workspace @ ''__topo'', map printed (filter isRelationElement plan))] \<and>
    (\<forall>e \<in> set plan. if isRelationElement e then validateRelationElement e = Inr () else validateEntityElement e = Inr ())"
proof -
  let ?es = "filter (\<lambda>e. \<not> isRelationElement e) plan" and ?rs = "filter isRelationElement plan"
  from assms show ?thesis
    by (auto simp: buildEntityStoreWrites_def split_filter entityStoreEntityLogStoreName_def
        entityStoreTopoLogStoreName_def group_of_def comp_def filter_empty_conv
        split: if_splits sum.splits dest!: entity_group_ok relation_group_ok)
qed

text \<open>What the plans hold.\<close>

lemma plan_elements:
  "\<not> isRelationElement (entity_element i ep t)" "isRelationElement (relation_element i ep ty t)"
  "isRelationElement (expiry_element i ep ty t)"
  by (simp_all add: isRelationElement_def entity_element_def relation_element_def expiry_element_def relation_ends_def)

lemma BuildPlan_shape:
  assumes "BuildPlan md5 ep rel t = Inr plan"
  shows "plan = [entity_element (EndpointEntityID md5 (ep_EndpointID ep)) ep t] \<or>
    plan = [entity_element (EndpointEntityID md5 (ep_EndpointID ep)) ep t,
            relation_element (EndpointEntityID md5 (ep_EndpointID ep)) ep (rl_Type rel) t] \<and>
    isSafeRelationType (rl_Type rel)"
  using assms by (auto simp: BuildPlan_def Let_def split: if_splits)

text \<open>
  C40 (expiry_touches_one_relation). The batches of an expiry plan never include the entity store:
  there is exactly one, for the topology store, with exactly one record, the \<^verbatim>\<open>Expire\<close> of
  the named relation from the endpoint to its ECS instance, without a keep-alive time.
\<close>

theorem expiry_touches_one_relation:
  assumes "BuildRelationExpirationPlan md5 ep relationType t = Inr plan"
    and "buildEntityStoreWrites workspace plan now = Inr writes"
  shows "\<exists>x contents. writes = [x] \<and> es_logstore x = workspace @ ''__topo'' \<and>
    map lg_Contents (lg_Logs (es_group x)) = [contents] \<and>
    map_of contents ''__method__'' = Some ''Expire'' \<and>
    map_of contents ''__relation_type__'' = Some relationType \<and>
    map_of contents ''__src_entity_id__'' = Some (EndpointEntityID md5 (ep_EndpointID ep)) \<and>
    map_of contents ''__dest_entity_id__'' = Some (ep_ECSEntityID ep) \<and>
    map_of contents ''__keep_alive_seconds__'' = None"
proof -
  let ?e = "expiry_element (EndpointEntityID md5 (ep_EndpointID ep)) ep relationType t"
  have plan: "plan = [?e]"
    using assms(1) by (auto simp: BuildRelationExpirationPlan_def split: if_splits)
  then obtain x where x: "writes = [x]" "x = \<lparr>es_logstore = entityStoreTopoLogStoreName workspace,
      es_group = group_of now [?e], es_description = ''write UModel EntityStore relation data''\<rparr>"
    using assms(2)
    by (auto simp: buildEntityStoreWrites_def split_filter plan_elements split: if_splits sum.splits
        dest!: relation_group_ok)
  have "distinct (map fst ?e)" by (simp add: expiry_element_def relation_ends_def)
  note lookup = map_of_printed [OF this]
  have fields: "map_of ?e ''__method__'' = Some (GoString ''Expire'')"
    "map_of ?e ''__relation_type__'' = Some (GoString relationType)"
    "map_of ?e ''__src_entity_id__'' = Some (GoString (EndpointEntityID md5 (ep_EndpointID ep)))"
    "map_of ?e ''__dest_entity_id__'' = Some (GoString (ep_ECSEntityID ep))"
    "map_of ?e ''__keep_alive_seconds__'' = None"
    by (simp_all add: expiry_element_def relation_ends_def)
  show ?thesis
    using x by (intro exI [of _ x] exI [of _ "printed ?e"])
      (simp add: entityStoreTopoLogStoreName_def group_of_def lookup fields)
qed

end
