(* ===== verification/SyncCommand.thy ===== *)
theory SyncCommand
  imports ModelSync GoEncode
begin

text \<open>
  The administrator's command \<^verbatim>\<open>cmd/sre-sync\<close>: its flags, as Go's \<^verbatim>\<open>flag\<close>
  package parses them, and \<^verbatim>\<open>run\<close> with its modes. The configuration loader, the writer and
  the inspectors are parameters of \<^verbatim>\<open>run\<close>, as they are variables in the code; the usage
  texts that the flag package prints are left out.
\<close>

section \<open>Flags\<close>

record sync_flags =
  sf_config :: string
  sf_apply :: bool
  sf_inspect_schema :: bool
  sf_inspect_relation :: bool
  sf_expire :: string

definition default_flags :: sync_flags where
  "default_flags =
     \<lparr>sf_config = '''', sf_apply = False, sf_inspect_schema = False, sf_inspect_relation = False,
      sf_expire = ''''\<rparr>"

text \<open>\<^verbatim>\<open>strconv.ParseBool\<close>.\<close>

definition ParseBool :: "string \<Rightarrow> bool option" where
  "ParseBool s =
     (if s \<in> {''1'', ''t'', ''T'', ''TRUE'', ''true'', ''True''} then Some True
      else if s \<in> {''0'', ''f'', ''F'', ''FALSE'', ''false'', ''False''} then Some False else None)"

definition is_bool_flag :: "string \<Rightarrow> bool" where
  "is_bool_flag name \<longleftrightarrow> name \<in> {''apply'', ''inspect-schema'', ''inspect-relation''}"

definition is_text_flag :: "string \<Rightarrow> bool" where
  "is_text_flag name \<longleftrightarrow> name \<in> {''config'', ''expire-relation-type''}"

definition set_bool_flag :: "string \<Rightarrow> bool \<Rightarrow> sync_flags \<Rightarrow> sync_flags" where
  "set_bool_flag name v f =
     (if name = ''apply'' then f\<lparr>sf_apply := v\<rparr>
      else if name = ''inspect-schema'' then f\<lparr>sf_inspect_schema := v\<rparr>
      else f\<lparr>sf_inspect_relation := v\<rparr>)"

definition set_text_flag :: "string \<Rightarrow> string \<Rightarrow> sync_flags \<Rightarrow> sync_flags" where
  "set_text_flag name v f =
     (if name = ''config'' then f\<lparr>sf_config := v\<rparr> else f\<lparr>sf_expire := v\<rparr>)"

text \<open>The text of an argument after its dashes: the name, and the value after an equals sign.\<close>

definition split_flag :: "string \<Rightarrow> string \<times> string option" where
  "split_flag s =
     (let name = take 1 s @ takeWhile (\<lambda>c. c \<noteq> CHR ''='') (drop 1 s)
      in if length name < length s then (name, Some (drop (Suc (length name)) s)) else (name, None))"

text \<open>\<^verbatim>\<open>FlagSet.Parse\<close>: the flags and the arguments that are left, or no result on an error.\<close>

fun parse_flags :: "sync_flags \<Rightarrow> string list \<Rightarrow> (sync_flags \<times> string list) option" where
  "parse_flags f [] = Some (f, [])"
| "parse_flags f (a # args) =
     (if length a < 2 \<or> take 1 a \<noteq> ''-'' then Some (f, a # args)
      else if a = ''--'' then Some (f, args)
      else
        (let body = (if take 2 a = ''--'' then drop 2 a else drop 1 a) in
         if take 1 body = ''-'' \<or> take 1 body = ''='' then None
         else case split_flag body of (name, value_text) \<Rightarrow>
           if is_bool_flag name then
             (case value_text of
                None \<Rightarrow> parse_flags (set_bool_flag name True f) args
              | Some v \<Rightarrow>
                (case ParseBool v of
                   None \<Rightarrow> None
                 | Some b \<Rightarrow> parse_flags (set_bool_flag name b f) args))
           else if is_text_flag name then
             (case value_text of
                Some v \<Rightarrow> parse_flags (set_text_flag name v f) args
              | None \<Rightarrow>
                (case args of
                   [] \<Rightarrow> None
                 | v # args' \<Rightarrow> parse_flags (set_text_flag name v f) args'))
           else None))"

section \<open>The command\<close>

record 'w sync_env =
  sn_loadSyncConfig :: "string \<Rightarrow> SyncConfig res"
  sn_newWriter :: "string \<Rightarrow> string \<Rightarrow> (string \<Rightarrow> Plan \<Rightarrow> 'w \<Rightarrow> unit res \<times> 'w) res"
  sn_newSchemaInspector :: "string \<Rightarrow> string \<Rightarrow> (string \<Rightarrow> string list \<Rightarrow> 'w \<Rightarrow> json res \<times> 'w) res"
  sn_newRelationInspector ::
    "string \<Rightarrow> string \<Rightarrow> (string \<Rightarrow> Endpoint \<Rightarrow> Relation \<Rightarrow> 'w \<Rightarrow> json res \<times> 'w) res"
  sn_md5 :: "string \<Rightarrow> string"
  sn_now :: time

record outcome =
  oc_code :: int
  oc_stdout :: string
  oc_stderr :: string

definition failed :: "int \<Rightarrow> string \<Rightarrow> outcome" where
  "failed code message = \<lparr>oc_code = code, oc_stdout = '''', oc_stderr = message @ [CHR 0x0A]\<rparr>"

definition printed_json :: "(string \<times> json) list \<Rightarrow> outcome" where
  "printed_json ms = \<lparr>oc_code = 0, oc_stdout = encode_line (go_map ms), oc_stderr = ''''\<rparr>"

definition IsAbs :: "string \<Rightarrow> bool" where
  "IsAbs path \<longleftrightarrow> take 1 path = ''/''"

fun any_json :: "go_any \<Rightarrow> json" where
  "any_json (GoString s) = JStr s"
| "any_json (GoInt i) = JNum (itoa i)"
| "any_json (GoInt32 i) = JNum (itoa i)"
| "any_json (GoInt64 i) = JNum (itoa i)"
| "any_json GoNil = JNull"

text \<open>A nil slice is written as \<^verbatim>\<open>null\<close>.\<close>

definition elements_json :: "Plan \<Rightarrow> json" where
  "elements_json plan =
     (if plan = [] then JNull
      else JArr (map (\<lambda>e. go_map (map (\<lambda>kv. (fst kv, any_json (snd kv))) e)) plan))"

fun build_plans :: "(string \<Rightarrow> string) \<Rightarrow> Relation \<Rightarrow> time \<Rightarrow> Endpoint list \<Rightarrow> Plan res" where
  "build_plans md5 rel t [] = Inr []"
| "build_plans md5 rel t (ep # eps) =
     (case BuildPlan md5 ep rel t of
        Inl err \<Rightarrow> Inl err
      | Inr p \<Rightarrow> (case build_plans md5 rel t eps of Inl err \<Rightarrow> Inl err | Inr ps \<Rightarrow> Inr (p @ ps)))"

definition inspect_schema :: "'w sync_env \<Rightarrow> SyncConfig \<Rightarrow> 'w \<Rightarrow> outcome \<times> 'w" where
  "inspect_schema env cfg w =
     (case sn_newSchemaInspector env (sy_Region cfg) (sy_ECSRAMRoleName cfg) of
        Inl err \<Rightarrow> (failed 1 (''create UModel schema inspector: '' @ err_text err), w)
      | Inr inspect \<Rightarrow>
        (case inspect (sy_Workspace cfg) [''sre''] w of
           (Inl err, w) \<Rightarrow> (failed 1 (''inspect UModel schema: '' @ err_text err), w)
         | (Inr result, w) \<Rightarrow>
             (printed_json [(''mode'', JStr ''schema-inspection''), (''workspace'', JStr (sy_Workspace cfg)),
                (''region'', JStr (sy_Region cfg)), (''domains'', JArr [JStr ''sre'']), (''result'', result)], w)))"

definition inspect_relation :: "'w sync_env \<Rightarrow> SyncConfig \<Rightarrow> 'w \<Rightarrow> outcome \<times> 'w" where
  "inspect_relation env cfg w =
     (if length (sy_Endpoints cfg) \<noteq> 1
      then (failed 1 ''inspect relation: exactly one endpoint must be configured'', w)
      else case sn_newRelationInspector env (sy_Region cfg) (sy_ECSRAMRoleName cfg) of
        Inl err \<Rightarrow> (failed 1 (''create UModel relation inspector: '' @ err_text err), w)
      | Inr inspect \<Rightarrow>
        (case inspect (sy_Workspace cfg) (hd (sy_Endpoints cfg)) (sy_Relation cfg) w of
           (Inl err, w) \<Rightarrow> (failed 1 (''inspect UModel relation: '' @ err_text err), w)
         | (Inr result, w) \<Rightarrow>
             (printed_json [(''mode'', JStr ''relation-inspection''), (''workspace'', JStr (sy_Workspace cfg)),
                (''region'', JStr (sy_Region cfg)), (''endpoint_id'', JStr (ep_EndpointID (hd (sy_Endpoints cfg)))),
                (''relation_type'', JStr (rl_Type (sy_Relation cfg))), (''result'', result)], w)))"

text \<open>The plan of a run, with the prefix of its error message.\<close>

definition run_plan :: "'w sync_env \<Rightarrow> SyncConfig \<Rightarrow> string \<Rightarrow> string + (Plan \<times> string)" where
  "run_plan env cfg expire =
     (if expire \<noteq> '''' then
        (if length (sy_Endpoints cfg) \<noteq> 1 then Inl ''expire relation: exactly one endpoint must be configured''
         else case BuildRelationExpirationPlan (sn_md5 env) (hd (sy_Endpoints cfg)) expire (sn_now env) of
           Inl err \<Rightarrow> Inl (''build relation expiry plan: '' @ err_text err)
         | Inr plan \<Rightarrow> Inr (plan, ''expire-relation''))
      else
        (case build_plans (sn_md5 env) (sy_Relation cfg) (sn_now env) (sy_Endpoints cfg) of
           Inl err \<Rightarrow> Inl (''build plan: '' @ err_text err)
         | Inr plan \<Rightarrow> Inr (plan, ''sync'')))"

definition sync_report :: "SyncConfig \<Rightarrow> string \<Rightarrow> string \<Rightarrow> Plan \<Rightarrow> outcome" where
  "sync_report cfg operation mode plan =
     printed_json [(''operation'', JStr operation), (''mode'', JStr mode), (''workspace'', JStr (sy_Workspace cfg)),
       (''region'', JStr (sy_Region cfg)), (''element_count'', JNum (itoa (int (length plan)))),
       (''relation_enabled'', JBool (operation = ''sync'' \<and> rl_Type (sy_Relation cfg) \<noteq> '''')),
       (''elements'', elements_json plan)]"

definition apply_or_report ::
    "'w sync_env \<Rightarrow> SyncConfig \<Rightarrow> bool \<Rightarrow> Plan \<Rightarrow> string \<Rightarrow> 'w \<Rightarrow> outcome \<times> 'w" where
  "apply_or_report env cfg apply_it plan operation w =
     (if apply_it then
        (case sn_newWriter env (sy_Region cfg) (sy_ECSRAMRoleName cfg) of
           Inl err \<Rightarrow> (failed 1 (''create UModel writer: '' @ err_text err), w)
         | Inr upsert \<Rightarrow>
           (case upsert (sy_Workspace cfg) plan w of
              (Inl err, w) \<Rightarrow> (failed 1 (''upsert UModel data: '' @ err_text err), w)
            | (Inr _, w) \<Rightarrow> (sync_report cfg operation ''applied'' plan, w)))
      else (sync_report cfg operation ''dry-run'' plan, w))"

definition sync_usage :: string where
  "sync_usage = ''usage: sre-sync --config /absolute/path/to/sre-sync.yaml [--apply | --inspect-schema]''"

definition sync_run :: "'w sync_env \<Rightarrow> string list \<Rightarrow> 'w \<Rightarrow> outcome \<times> 'w" where
  "sync_run env args w =
     (case parse_flags default_flags args of
        None \<Rightarrow> (\<lparr>oc_code = 2, oc_stdout = '''', oc_stderr = ''''\<rparr>, w)
      | Some (f, rest) \<Rightarrow>
          if sf_config f = '''' \<or> \<not> IsAbs (sf_config f) \<or> rest \<noteq> [] then (failed 2 sync_usage, w)
          else if 1 < length (filter (\<lambda>b. b) [sf_apply f, sf_inspect_schema f, sf_inspect_relation f])
          then (failed 2 ''--apply, --inspect-schema, and --inspect-relation are mutually exclusive'', w)
          else if sf_expire f \<noteq> '''' \<and> (sf_inspect_schema f \<or> sf_inspect_relation f)
          then (failed 2 ''--expire-relation-type cannot be combined with inspection flags'', w)
          else case sn_loadSyncConfig env (sf_config f) of
            Inl err \<Rightarrow> (failed 1 (''load config: '' @ err_text err), w)
          | Inr cfg \<Rightarrow>
              if sf_inspect_schema f then inspect_schema env cfg w
              else if sf_inspect_relation f then inspect_relation env cfg w
              else case run_plan env cfg (sf_expire f) of
                Inl message \<Rightarrow> (failed 1 message, w)
              | Inr (plan, operation) \<Rightarrow> apply_or_report env cfg (sf_apply f) plan operation w)"

section \<open>Writing only on request\<close>

text \<open>An environment whose inspectors read and whose writer logs the plan it is given.\<close>

definition log_upsert :: "(nat \<Rightarrow> unit res) \<Rightarrow> string \<Rightarrow> Plan \<Rightarrow> (string \<times> Plan) list \<Rightarrow> unit res \<times> (string \<times> Plan) list" where
  "log_upsert answer workspace plan w = (answer (length w), w @ [(workspace, plan)])"

definition logging_env ::
    "(string \<Rightarrow> SyncConfig res) \<Rightarrow> (string \<Rightarrow> string) \<Rightarrow> time \<Rightarrow> (nat \<Rightarrow> unit res) \<Rightarrow> (nat \<Rightarrow> json res) \<Rightarrow>
       (string \<times> Plan) list sync_env" where
  "logging_env load md5 now answer seen =
     \<lparr>sn_loadSyncConfig = load, sn_newWriter = (\<lambda>region role. Inr (log_upsert answer)),
      sn_newSchemaInspector = (\<lambda>region role. Inr (\<lambda>workspace domains w. (seen (length w), w))),
      sn_newRelationInspector = (\<lambda>region role. Inr (\<lambda>workspace ep rel w. (seen (length w), w))),
      sn_md5 = md5, sn_now = now\<rparr>"

lemma inspect_unchanged:
  "inspect_schema (logging_env load md5 now answer seen) cfg w = (out, w') \<Longrightarrow> w' = w"
  "inspect_relation (logging_env load md5 now answer seen) cfg w = (out, w') \<Longrightarrow> w' = w"
  by (auto simp: inspect_schema_def inspect_relation_def logging_env_def split: sum.splits if_splits)

text \<open>
  C37 (sync_writes_only_on_apply). A run writes at most one plan, and only when the flag
  \<^verbatim>\<open>--apply\<close> was given: then it is, for the workspace of the configuration, the expiry plan
  of the one configured endpoint when a relation type to expire was named, and otherwise the
  plans of the endpoints in their order. Every other run, dry runs and inspections included,
  writes nothing.
\<close>

theorem sync_writes_only_on_apply:
  assumes "sync_run (logging_env load md5 now answer seen) args w = (out, w')"
  shows "w' = w \<or>
    (\<exists>f cfg plan. parse_flags default_flags args = Some (f, []) \<and> sf_apply f \<and>
       load (sf_config f) = Inr cfg \<and> w' = w @ [(sy_Workspace cfg, plan)] \<and>
       (if sf_expire f = '''' then build_plans md5 (sy_Relation cfg) now (sy_Endpoints cfg) = Inr plan
        else \<exists>ep. sy_Endpoints cfg = [ep] \<and> BuildRelationExpirationPlan md5 ep (sf_expire f) now = Inr plan))"
proof -
  let ?env = "logging_env load md5 now answer seen"
  show ?thesis
  proof (cases "w' = w")
    case False
    with assms obtain f cfg plan operation where f: "parse_flags default_flags args = Some (f, [])"
      and cfg: "sn_loadSyncConfig ?env (sf_config f) = Inr cfg"
      and plan: "run_plan ?env cfg (sf_expire f) = Inr (plan, operation)"
      and run: "apply_or_report ?env cfg (sf_apply f) plan operation w = (out, w')"
      by (auto simp: sync_run_def split: option.splits prod.splits if_splits sum.splits dest: inspect_unchanged)
    from run False have "sf_apply f" and "w' = w @ [(sy_Workspace cfg, plan)]"
      by (auto simp: apply_or_report_def logging_env_def log_upsert_def split: if_splits sum.splits)
    moreover have "if sf_expire f = '''' then build_plans md5 (sy_Relation cfg) now (sy_Endpoints cfg) = Inr plan
        else \<exists>ep. sy_Endpoints cfg = [ep] \<and> BuildRelationExpirationPlan md5 ep (sf_expire f) now = Inr plan"
      using plan
      by (auto simp: run_plan_def logging_env_def length_Suc_conv split: if_splits sum.splits)
    ultimately show ?thesis using f cfg by (auto simp: logging_env_def)
  qed simp
qed

end
