(* ===== verification/Commands.thy ===== *)
theory Commands
  imports Runner EvidenceService SyncCommand
begin

text \<open>
  The commands \<^verbatim>\<open>cmd/sre-evidence\<close>, \<^verbatim>\<open>cmd/sre-worker\<close> and
  \<^verbatim>\<open>cmd/sre-gateway\<close>: the fixed command line of the evidence CLI and its \<^verbatim>\<open>run\<close>,
  the polling loop of the worker, and the configuration checks, limits and shutdown of the
  gateway. Loading the configuration, opening the database and composing the service are
  parameters of \<^verbatim>\<open>run\<close>, as they are variables in the code.
\<close>

section \<open>The evidence command line\<close>

definition defaultConfigPath :: string where "defaultConfigPath = ''/etc/sre-rca/sre.yaml''"

fun isSafeReference_loop :: "(nat \<times> string) list \<Rightarrow> bool" where
  "isSafeReference_loop [] = True"
| "isSafeReference_loop (x # xs) =
     (let char = fst x in
      if (97 \<le> char \<and> char \<le> 122) \<or> (65 \<le> char \<and> char \<le> 90) \<or> (48 \<le> char \<and> char \<le> 57) \<or>
         char = 45 \<or> char = 95 \<or> char = 46 \<or> char = 58
      then isSafeReference_loop xs else False)"

definition isSafeReference :: "string \<Rightarrow> bool" where
  "isSafeReference v = (if v = '''' then False else isSafeReference_loop (runes v))"

definition isFixedCommand :: "string list \<Rightarrow> bool" where
  "isFixedCommand args =
     (if length args \<noteq> 3 \<or> \<not> isSafeReference (args ! 2) then False
      else (args ! 0 = ''incident'' \<and> args ! 1 = ''context'') \<or> (args ! 0 = ''metrics'' \<and> args ! 1 = ''query'') \<or>
           (args ! 0 = ''logs'' \<and> args ! 1 = ''query'') \<or> (args ! 0 = ''changes'' \<and> args ! 1 = ''query'') \<or>
           (args ! 0 = ''evidence'' \<and> args ! 1 = ''open''))"

text \<open>The path of the configuration and the command, or no result.\<close>

definition parseCommand :: "string list \<Rightarrow> (string \<times> string list) option" where
  "parseCommand args =
     (if args \<noteq> [] \<and> hd args = ''--config'' then
        (if length args < 3 \<or> \<not> IsAbs (args ! 1) then None
         else if \<not> isFixedCommand (drop 2 args) then None
         else Some (args ! 1, drop 2 args))
      else if \<not> isFixedCommand args then None
      else Some (defaultConfigPath, args))"

record 'w commandService =
  cs_Context :: "string \<Rightarrow> 'w \<Rightarrow> Evidence list res \<times> 'w"
  cs_Metrics :: "string \<Rightarrow> 'w \<Rightarrow> Evidence list res \<times> 'w"
  cs_Logs :: "string \<Rightarrow> 'w \<Rightarrow> Evidence list res \<times> 'w"
  cs_Changes :: "string \<Rightarrow> 'w \<Rightarrow> Evidence list res \<times> 'w"
  cs_Open :: "string \<Rightarrow> 'w \<Rightarrow> Evidence res \<times> 'w"

definition command_service :: "'w Service \<Rightarrow> 'w commandService" where
  "command_service s =
     \<lparr>cs_Context = sv_Context s, cs_Metrics = sv_Metrics s, cs_Logs = sv_Logs s, cs_Changes = sv_Changes s,
      cs_Open = sv_Open s\<rparr>"

definition run_command ::
    "'w commandService \<Rightarrow> string list \<Rightarrow> 'w \<Rightarrow> Evidence list res \<times> 'w" where
  "run_command s command w =
     (let i = last command in
      if hd command = ''incident'' then cs_Context s i w
      else if hd command = ''metrics'' then cs_Metrics s i w
      else if hd command = ''logs'' then cs_Logs s i w
      else if hd command = ''changes'' then cs_Changes s i w
      else case cs_Open s i w of
        (Inl err, w) \<Rightarrow> (Inl err, w)
      | (Inr item, w) \<Rightarrow> (Inr [item], w))"

definition evidence_usage :: string where
  "evidence_usage =
     ''usage: sre-evidence {incident context|metrics query|logs query|changes query|evidence open} <id>''"

text \<open>The service is composed from the configuration file, unless one is given.\<close>

definition configured_service ::
    "(string \<Rightarrow> Config res) \<Rightarrow> (string \<Rightarrow> 'r res) \<Rightarrow> (Config \<Rightarrow> 'r \<Rightarrow> 'w commandService res) \<Rightarrow> string \<Rightarrow>
       string + 'w commandService" where
  "configured_service load open_db compose path =
     (case load path of
        Inl err \<Rightarrow> Inl (''load evidence config: '' @ err_text err)
      | Inr cfg \<Rightarrow>
        (case open_db (cf_StateDB cfg) of
           Inl err \<Rightarrow> Inl (''open evidence state DB: '' @ err_text err)
         | Inr repo \<Rightarrow>
           (case compose cfg repo of
              Inl err \<Rightarrow> Inl (''compose evidence service: '' @ err_text err)
            | Inr s \<Rightarrow> Inr s)))"

definition evidence_run ::
    "(string \<Rightarrow> Config res) \<Rightarrow> (string \<Rightarrow> 'r res) \<Rightarrow> (Config \<Rightarrow> 'r \<Rightarrow> 'w commandService res) \<Rightarrow>
       (Evidence list \<Rightarrow> string res) \<Rightarrow> 'w commandService option \<Rightarrow> string list \<Rightarrow> 'w \<Rightarrow> outcome \<times> 'w" where
  "evidence_run load open_db compose encode service args w =
     (case parseCommand args of
        None \<Rightarrow> (failed 2 evidence_usage, w)
      | Some (path, command) \<Rightarrow>
        (case (case service of Some s \<Rightarrow> Inr s | None \<Rightarrow> configured_service load open_db compose path) of
           Inl message \<Rightarrow> (failed 1 message, w)
         | Inr s \<Rightarrow>
           (case run_command s command w of
              (Inl err, w) \<Rightarrow> (failed 1 (err_text err), w)
            | (Inr items, w) \<Rightarrow>
              (case encode items of
                 Inl err \<Rightarrow> (failed 1 (err_text err), w)
               | Inr text_out \<Rightarrow> (\<lparr>oc_code = 0, oc_stdout = text_out @ [CHR 0x0A], oc_stderr = ''''\<rparr>, w)))))"

section \<open>The worker's loop\<close>

definition validateWorkerConfig :: "Config \<Rightarrow> unit res" where
  "validateWorkerConfig cfg =
     (if cf_AppID cfg = '''' \<or> cf_AppSecret cfg = '''' \<or> cf_ChatID cfg = ''''
      then Inl (ErrNew ''worker.enabled requires feishu app_id, app_secret, and chat_id'') else Inr ())"

text \<open>
  \<^verbatim>\<open>runOnce\<close>: the turn gets the timeout; its error is logged, unless the incident was
  inactive.
\<close>

definition runOnce ::
    "(int \<Rightarrow> 'w \<Rightarrow> unit res \<times> 'w) \<Rightarrow> int \<Rightarrow> string list \<times> 'w \<Rightarrow> string list \<times> 'w" where
  "runOnce turn timeout lw =
     (case turn timeout (snd lw) of
        (Inr _, w) \<Rightarrow> (fst lw, w)
      | (Inl err, w) \<Rightarrow>
          if errors_is err ErrIncidentInactive then (fst lw, w)
          else (fst lw @ [''sre-worker RunOne: '' @ err_text err], w))"

text \<open>What the \<^verbatim>\<open>select\<close> of the loop takes next: the end of the context or a tick.\<close>

datatype signal = Done | Tick

partial_function (option) poll ::
    "(nat \<Rightarrow> signal) \<Rightarrow> (string list \<times> 'w \<Rightarrow> string list \<times> 'w) \<Rightarrow> nat \<Rightarrow> string list \<times> 'w \<Rightarrow>
       (string list \<times> 'w) option" where
  "poll signals once n lw =
     (case signals n of
        Done \<Rightarrow> Some lw
      | Tick \<Rightarrow> poll signals once (Suc n) (once lw))"

definition loop_timeout :: "int \<Rightarrow> int" where
  "loop_timeout timeout = (if timeout \<le> 0 then 5 * 60 * second else timeout)"

definition poll_interval :: "int \<Rightarrow> int" where
  "poll_interval interval = (if interval \<le> 0 then 15 * second else interval)"

definition runLoop ::
    "(nat \<Rightarrow> signal) \<Rightarrow> (int \<Rightarrow> 'w \<Rightarrow> unit res \<times> 'w) \<Rightarrow> int \<Rightarrow> 'w \<Rightarrow> (string list \<times> 'w) option" where
  "runLoop signals turn timeout w =
     (let once = runOnce turn (loop_timeout timeout) in poll signals once 0 (once ([], w)))"

text \<open>What \<^verbatim>\<open>run\<close> of the worker makes of the configuration: poll interval, timeout, runner.\<close>

definition worker_settings :: "Config \<Rightarrow> (int \<times> int \<times> Runner) res" where
  "worker_settings cfg =
     (if \<not> cf_Enabled cfg then Inl (ErrNew ''worker.enabled must be true to run sre-worker'')
      else case validateWorkerConfig cfg of
        Inl err \<Rightarrow> Inl err
      | Inr _ \<Rightarrow>
          Inr (cf_PollSeconds cfg * second, cf_TimeoutSeconds cfg * second,
               \<lparr>rn_Timeout = cf_TimeoutSeconds cfg * second, rn_MaxTurns = cf_MaxTurns cfg,
                rn_MaxOutputBytes = 0, rn_workingDir = ''''\<rparr>))"

section \<open>The gateway's command\<close>

definition validateGatewayConfig :: "Config \<Rightarrow> unit res" where
  "validateGatewayConfig cfg =
     (if cf_CallbackToken cfg = '''' then Inl (ErrNew ''callback_token is required'')
      else if (cf_AppID cfg = '''') \<noteq> (cf_AppSecret cfg = '''')
      then Inl (ErrNew ''feishu app_id and app_secret must be configured together for recovery card updates'')
      else Inr ())"

text \<open>The notifier exists when the application is configured; \<^theory_text>\<open>client\<close> makes it.\<close>

definition newGatewayNotifier :: "(Config \<Rightarrow> 'n) \<Rightarrow> Config \<Rightarrow> 'n option" where
  "newGatewayNotifier client cfg = (if cf_AppID cfg = '''' then None else Some (client cfg))"

definition gatewayReadHeaderTimeout :: int where "gatewayReadHeaderTimeout = 10 * second"
definition gatewayReadTimeout :: int where "gatewayReadTimeout = 30 * second"
definition gatewayWriteTimeout :: int where "gatewayWriteTimeout = 30 * second"
definition gatewayIdleTimeout :: int where "gatewayIdleTimeout = 60 * second"
definition gatewayShutdownTimeout :: int where "gatewayShutdownTimeout = 10 * second"

record http_server =
  hs_Addr :: string
  hs_ReadHeaderTimeout :: int
  hs_ReadTimeout :: int
  hs_WriteTimeout :: int
  hs_IdleTimeout :: int

definition newGatewayServer :: "string \<Rightarrow> http_server" where
  "newGatewayServer addr =
     \<lparr>hs_Addr = addr, hs_ReadHeaderTimeout = gatewayReadHeaderTimeout, hs_ReadTimeout = gatewayReadTimeout,
      hs_WriteTimeout = gatewayWriteTimeout, hs_IdleTimeout = gatewayIdleTimeout\<rparr>"

definition ErrServerClosed :: go_error where "ErrServerClosed = ErrNew ''http: Server closed''"

text \<open>
  \<^verbatim>\<open>serveGateway\<close>: what \<^verbatim>\<open>ListenAndServe\<close> returned, if that came before the end of the
  context, and otherwise the error of \<^verbatim>\<open>Shutdown\<close> and what \<^verbatim>\<open>ListenAndServe\<close> returns
  then. No result is \<^verbatim>\<open>nil\<close>.
\<close>

definition serveGateway :: "go_error option option \<Rightarrow> go_error option \<Rightarrow> go_error option \<Rightarrow> go_error option" where
  "serveGateway served shutdown served_after =
     (case served of
        Some None \<Rightarrow> Some (ErrWrap ''serve gateway: '' (ErrNew ''%!w(<nil>)'') '''')
      | Some (Some err) \<Rightarrow>
          if errors_is err ErrServerClosed then None else Some (ErrWrap ''serve gateway: '' err '''')
      | None \<Rightarrow>
        (case shutdown of
           Some err \<Rightarrow> Some (ErrWrap ''shutdown gateway: '' err '''')
         | None \<Rightarrow>
           (case served_after of
              None \<Rightarrow> None
            | Some err \<Rightarrow>
                if errors_is err ErrServerClosed then None
                else Some (ErrWrap ''serve gateway after shutdown: '' err ''''))))"

section \<open>Properties\<close>

lemma safe_reference_loop: "isSafeReference_loop xs \<longleftrightarrow> reference_loop xs"
  by (induction xs) (auto simp: reference_rune_def Let_def)

lemma safe_reference: "isSafeReference v = isSafeIncidentID v"
  using safe_id_bytes [of v] reference_loop_iff [of "runes v"]
    runes_all_ascii [of reference_rune v] reference_rune_ascii
  by (auto simp: isSafeReference_def safe_reference_loop)

definition form_name :: "string list \<Rightarrow> bool" where
  "form_name form \<longleftrightarrow> isFixedEvidenceForm form \<or> form = [''evidence'', ''open'']"

lemma fixed_forms: "isFixedEvidenceForm form \<longleftrightarrow> form \<in> set fixedEvidenceForms"
  by (simp add: isFixedEvidenceForm_def form_loop_iff)

lemma fixed_command:
  "isFixedCommand args \<longleftrightarrow> (\<exists>form i. args = form @ [i] \<and> isSafeIncidentID i \<and> form_name form)"
proof (cases "length args = 3")
  case True
  then obtain a b i where args: "args = [a, b] @ [i]"
    by (auto simp: length_Suc_conv eval_nat_numeral)
  have "isFixedCommand args \<longleftrightarrow> isSafeIncidentID i \<and> form_name [a, b]"
    by (auto simp: args isFixedCommand_def safe_reference form_name_def fixed_forms fixedEvidenceForms_def)
  then show ?thesis unfolding args by blast
next
  case False
  then show ?thesis
    by (auto simp: isFixedCommand_def form_name_def fixed_forms fixedEvidenceForms_def)
qed

lemma parse_fixed_command:
  "parseCommand args = Some (''/etc/sre-rca/sre.yaml'', args) \<longleftrightarrow>
     (\<exists>form i. args = form @ [i] \<and> isSafeIncidentID i \<and> form_name form)"
proof (cases "args \<noteq> [] \<and> hd args = ''--config''")
  case True
  then obtain rest where "args = ''--config'' # rest" by (cases args) auto
  then have "\<not> isFixedCommand args" by (auto simp: isFixedCommand_def)
  moreover have "parseCommand args \<noteq> Some (''/etc/sre-rca/sre.yaml'', args)"
    using True by (auto simp: parseCommand_def dest: arg_cong [of _ _ length] split: if_splits)
  ultimately show ?thesis by (simp add: fixed_command)
next
  case False
  then show ?thesis by (auto simp: parseCommand_def fixed_command defaultConfigPath_def)
qed

text \<open>
  C34 (cli_takes_what_the_runner_prepares). The evidence CLI and the analysis runner, which check
  identifiers with two different functions, agree: a reference is safe for the one exactly when
  it is for the other, and the CLI accepts an argument list without \<^verbatim>\<open>--config\<close> exactly
  when it is a fixed evidence form, or \<^verbatim>\<open>evidence open\<close>, and a safe identifier; so every
  evidence command the runner prepares is one the CLI accepts.
\<close>

theorem cli_takes_what_the_runner_prepares:
  "isSafeReference i = isSafeIncidentID i \<and>
   (parseCommand args = Some (''/etc/sre-rca/sre.yaml'', args) \<longleftrightarrow>
      (\<exists>form i. args = form @ [i] \<and> isSafeIncidentID i \<and>
         (isFixedEvidenceForm form \<or> form = [''evidence'', ''open'']))) \<and>
   (prepareEvidenceCommand r form i = Inr c \<longrightarrow>
      parseCommand (cmd_args c) = Some (''/etc/sre-rca/sre.yaml'', cmd_args c))"
proof -
  have safe: "isSafeReference v = isSafeIncidentID v" for v by (rule safe_reference)
  have command: "parseCommand args = Some (''/etc/sre-rca/sre.yaml'', args) \<longleftrightarrow>
      (\<exists>form i. args = form @ [i] \<and> isSafeIncidentID i \<and> form_name form)" for args
    by (rule parse_fixed_command)
  have "cmd_args c = form @ [i] \<and> isSafeIncidentID i \<and> form_name form"
    if "prepareEvidenceCommand r form i = Inr c"
    using that fixed_forms [of form]
    by (auto simp: prepareEvidenceCommand_def configureChildCommand_def configureProcessGroup_def newCommand_def
        form_name_def split: if_splits)
  then show ?thesis
    using safe command fixed_forms unfolding form_name_def by blast
qed

section \<open>The end of the loop\<close>

lemma poll_done:
  "signals (m + k) = Done \<Longrightarrow> (\<And>j. j < k \<Longrightarrow> signals (m + j) = Tick) \<Longrightarrow>
     poll signals once m lw = Some ((once ^^ k) lw)"
proof (induction k arbitrary: m lw)
  case 0
  then show ?case by (simp add: poll.simps)
next
  case (Suc k)
  have "signals m = Tick" using Suc.prems(2) [of 0] by simp
  moreover have "poll signals once (Suc m) (once lw) = Some ((once ^^ k) (once lw))"
    using Suc.prems(1) Suc.prems(2) [of "Suc j" for j] by (intro Suc.IH) simp_all
  ultimately show ?case
    by (simp add: poll.simps [of signals once m] funpow_swap1)
qed

lemma poll_some: "poll signals once m lw = Some r \<Longrightarrow> \<exists>n \<ge> m. signals n = Done"
proof (erule poll.raw_induct [where P = "\<lambda>signals once m lw r. \<exists>n \<ge> m. signals n = Done", rotated])
  fix p :: "(nat \<Rightarrow> signal) \<Rightarrow> (string list \<times> 'c \<Rightarrow> string list \<times> 'c) \<Rightarrow> nat \<Rightarrow> string list \<times> 'c \<Rightarrow> (string list \<times> 'c) option"
    and signals :: "nat \<Rightarrow> signal" and once m lw r
  assume IH: "\<And>signals once m lw r. p signals once m lw = Some r \<Longrightarrow> \<exists>n \<ge> m. signals n = Done"
    and run: "(case signals m of Done \<Rightarrow> Some lw | Tick \<Rightarrow> p signals once (Suc m) (once lw)) = Some r"
  show "\<exists>n \<ge> m. signals n = Done"
  proof (cases "signals m")
    case Tick
    with run IH obtain n where "Suc m \<le> n" "signals n = Done" by fastforce
    then show ?thesis by (meson Suc_leD)
  qed blast
qed

lemma runLoop_eq:
  "runLoop signals turn timeout w =
     (if \<exists>n. signals n = Done
      then Some ((runOnce turn (loop_timeout timeout) ^^ Suc (LEAST n. signals n = Done)) ([], w))
      else None)"
proof (cases "\<exists>n. signals n = Done")
  case True
  let ?once = "runOnce turn (loop_timeout timeout)" and ?n = "LEAST n. signals n = Done"
  have "signals (0 + ?n) = Done" using LeastI_ex [OF True] by simp
  moreover have "signals (0 + j) = Tick" if "j < ?n" for j
    using not_less_Least [OF that] by (cases "signals j") simp_all
  ultimately have "poll signals ?once 0 (?once ([], w)) = Some ((?once ^^ ?n) (?once ([], w)))"
    by (rule poll_done)
  with True show ?thesis by (simp add: runLoop_def Let_def funpow_swap1)
next
  case False
  then have "poll signals (runOnce turn (loop_timeout timeout)) 0 lw = None" for lw
    using poll_some [of signals "runOnce turn (loop_timeout timeout)" 0 lw] by (metis not_None_eq)
  with False show ?thesis by (simp add: runLoop_def Let_def)
qed

lemma runLoop_ends: "runLoop signals turn timeout w \<noteq> None \<longleftrightarrow> (\<exists>n. signals n = Done)"
  by (simp add: runLoop_eq)

text \<open>
  C35 (loop_ends_exactly_when_told). The worker's loop returns exactly when the context ends at
  some point; it has then run one turn at the start and one for each tick before the end, and no
  error of a turn stops it earlier.
\<close>

theorem loop_ends_exactly_when_told:
  "runLoop signals turn timeout w =
     (if \<exists>n. signals n = Done
      then Some ((runOnce turn (loop_timeout timeout) ^^ Suc (LEAST n. signals n = Done)) ([], w))
      else None)"
  by (rule runLoop_eq)

text \<open>
  The worker gives a whole turn exactly the time that it gives the child process alone.
\<close>

lemma child_gets_the_whole_turn:
  "worker_settings cfg = Inr (interval, timeout, runner) \<Longrightarrow> timeout_of runner = loop_timeout timeout"
  by (auto simp: worker_settings_def timeout_of_def loop_timeout_def defaultTimeout_def
      split: if_splits sum.splits)

section \<open>Witness\<close>

lemma cli_takes_what_the_runner_prepares_witness:
  "\<exists>c. prepareEvidenceCommand demo_runner [''incident'', ''context''] ''i1'' = Inr c \<and>
     parseCommand (cmd_args c) = Some (''/etc/sre-rca/sre.yaml'', cmd_args c)"
proof -
  have "isSafeIncidentID ''i1''"
    by (simp add: safe_id_bytes reference_rune_def byte_def)
  then have "\<exists>c. prepareEvidenceCommand demo_runner [''incident'', ''context''] ''i1'' = Inr c"
    by (simp add: prepareEvidenceCommand_def fixed_forms fixedEvidenceForms_def)
  with cli_takes_what_the_runner_prepares [of "''i1''" "[]" demo_runner "[''incident'', ''context'']"]
  show ?thesis by blast
qed

end
