(* ===== verification/Feishu.thy ===== *)
theory Feishu
  imports Domain GoEncode
begin

text \<open>
  The incident cards of \<^verbatim>\<open>internal/feishu/client.go\<close>: the text of a card, its size limit, and
  the client that fetches a tenant token and creates or updates the message. The HTTP client is
  a parameter, with the check that \<^verbatim>\<open>http.NewRequest\<close> makes of a URL, and so is the text of
  a confidence as a percentage (arithmetic of \<^verbatim>\<open>float64\<close>).
\<close>

section \<open>Cards\<close>

definition maxCardBytes :: nat where "maxCardBytes = 30 * 1024"

definition text_event :: string where
  "text_event = ''**'' @ utf8 [228, 186, 139, 228, 187, 182] @ ''**'' @ [CHR 0x0A]"

definition text_state :: string where
  "text_state = ''**'' @ utf8 [231, 138, 182, 230, 128, 129] @ ''**'' @ [CHR 0x0A]"

definition text_summary :: string where
  "text_summary = ''**'' @ utf8 [231, 187, 147, 232, 174, 186] @ ''**'' @ [CHR 0x0A]"

definition text_confidence :: string where
  "text_confidence = ''**'' @ utf8 [231, 189, 174, 228, 191, 161, 229, 186, 166] @ ''**'' @ [CHR 0x0A]"

definition text_evidence :: string where
  "text_evidence = ''**'' @ utf8 [232, 175, 129, 230, 141, 174, 229, 188, 149, 231, 148, 168] @ ''**'' @ [CHR 0x0A]"

definition text_actions :: string where
  "text_actions = ''**'' @ utf8 [229, 187, 186, 232, 174, 174, 229, 138, 168, 228, 189, 156] @ ''**'' @ [CHR 0x0A] @ ''- ''"

definition text_title :: string where
  "text_title = ''SRE RCA '' @ utf8 [194, 183] @ '' ''"

definition localizedState :: "string \<Rightarrow> string" where
  "localizedState state =
     (if state = IncidentReceived then utf8 [229, 183, 178, 230, 142, 165, 230, 148, 182]
      else if state = IncidentInvestigating then utf8 [232, 176, 131, 230, 159, 165, 228, 184, 173]
      else if state = IncidentAwaitingAuditEvent then utf8 [231, 173, 137, 229, 190, 133, 229, 174, 161, 232, 174, 161, 228, 186, 139, 228, 187, 182]
      else if state = IncidentCompleted then utf8 [229, 183, 178, 229, 174, 140, 230, 136, 144]
      else if state = IncidentFailed then utf8 [232, 176, 131, 230, 159, 165, 229, 164, 177, 232, 180, 165]
      else if state = IncidentRecovered then utf8 [229, 183, 178, 230, 129, 162, 229, 164, 141]
      else state)"

definition cardTemplate :: "string \<Rightarrow> string" where
  "cardTemplate state =
     (if state = IncidentCompleted then ''green''
      else if state = IncidentFailed then ''red''
      else if state = IncidentRecovered then ''blue''
      else ''orange'')"

definition card_text :: "string \<Rightarrow> string \<Rightarrow> json" where
  "card_text tag content = go_map [(''tag'', JStr tag), (''content'', JStr content)]"

definition card_element :: "string \<Rightarrow> json" where
  "card_element content = go_map [(''tag'', JStr ''div''), (''text'', card_text ''lark_md'' content)]"

definition card_elements :: "(rat \<Rightarrow> string) \<Rightarrow> Incident \<Rightarrow> RCAResult \<Rightarrow> json list" where
  "card_elements percent incident result =
     [card_element (text_event @ inc_id incident), card_element (text_state @ localizedState (inc_state incident))] @
     (if rca_summary result \<noteq> ''''
      then [card_element (text_summary @ rca_summary result),
            card_element (text_confidence @ percent (rca_confidence result) @ ''%'')] else []) @
     (if rca_evidence_ids result \<noteq> []
      then [card_element (text_evidence @ join '', '' (rca_evidence_ids result))] else []) @
     (if rca_next_actions result \<noteq> []
      then [card_element (text_actions @ join ([CHR 0x0A] @ ''- '') (rca_next_actions result))] else [])"

definition card_json :: "(rat \<Rightarrow> string) \<Rightarrow> Incident \<Rightarrow> RCAResult \<Rightarrow> json" where
  "card_json percent incident result =
     go_map [(''config'', go_map [(''wide_screen_mode'', JBool True)]),
       (''header'', go_map [(''title'', card_text ''plain_text'' (text_title @ localizedState (inc_state incident))),
                            (''template'', JStr (cardTemplate (inc_state incident)))]),
       (''elements'', JArr (card_elements percent incident result))]"

definition RenderIncidentCard :: "(rat \<Rightarrow> string) \<Rightarrow> Incident \<Rightarrow> RCAResult \<Rightarrow> string res" where
  "RenderIncidentCard percent incident result =
     (let raw = marshal (card_json percent incident result)
      in if length raw > maxCardBytes
         then Inl (ErrNew (''Feishu card is '' @ itoa (int (length raw)) @ '' bytes; maximum is '' @ itoa (int maxCardBytes)))
         else Inr raw)"

section \<open>Client\<close>

record http_request =
  hr_method :: string
  hr_url :: string
  hr_content_type :: string
  hr_authorization :: "string option"
  hr_body :: string

record http_response =
  hp_status :: int
  hp_body :: string

record 'w feishu_client =
  fc_baseURL :: string
  fc_appID :: string
  fc_appSecret :: string
  fc_chatID :: string
  fc_url_error :: "string \<Rightarrow> go_error option"
  fc_Do :: "http_request \<Rightarrow> 'w \<Rightarrow> http_response res \<times> 'w"

definition TrimRight :: "char \<Rightarrow> string \<Rightarrow> string" where
  "TrimRight c s = rev (dropWhile (\<lambda>x. x = c) (rev s))"

definition NewClient ::
    "string \<Rightarrow> string \<Rightarrow> string \<Rightarrow> string \<Rightarrow> (string \<Rightarrow> go_error option) \<Rightarrow>
       (http_request \<Rightarrow> 'w \<Rightarrow> http_response res \<times> 'w) \<Rightarrow> 'w feishu_client" where
  "NewClient baseURL appID appSecret chatID url_error do_request =
     \<lparr>fc_baseURL = TrimRight (CHR ''/'') baseURL, fc_appID = appID, fc_appSecret = appSecret,
      fc_chatID = chatID, fc_url_error = url_error, fc_Do = do_request\<rparr>"

text \<open>
  \<^verbatim>\<open>doJSON\<close>: the request, its status, and the first JSON value in the first mebibyte of
  the answer, decoded by \<^theory_text>\<open>decode\<close>.
\<close>

definition json_request :: "'w feishu_client \<Rightarrow> string \<Rightarrow> string \<Rightarrow> string \<Rightarrow> json \<Rightarrow> http_request" where
  "json_request c method path token body =
     \<lparr>hr_method = method, hr_url = fc_baseURL c @ path, hr_content_type = ''application/json; charset=utf-8'',
      hr_authorization = (if token \<noteq> '''' then Some (''Bearer '' @ token) else None), hr_body = marshal body\<rparr>"

definition doJSON ::
    "'w feishu_client \<Rightarrow> string \<Rightarrow> string \<Rightarrow> string \<Rightarrow> json \<Rightarrow> (json \<Rightarrow> 'r res) \<Rightarrow> 'w \<Rightarrow> 'r res \<times> 'w" where
  "doJSON c method path token body decode w =
     (case fc_url_error c (fc_baseURL c @ path) of
        Some err \<Rightarrow> (Inl err, w)
      | None \<Rightarrow>
        (case fc_Do c (json_request c method path token body) w of
           (Inl err, w) \<Rightarrow> (Inl err, w)
         | (Inr response, w) \<Rightarrow>
             if hp_status response < 200 \<or> hp_status response \<ge> 300
             then (Inl (ErrNew (''Feishu '' @ method @ '' '' @ path @ '' returned HTTP '' @ itoa (hp_status response))), w)
             else case decode_value (take (2 ^ 20) (hp_body response)) of
               Inl err \<Rightarrow> (Inl (ErrWrap ''decode Feishu response: '' err ''''), w)
             | Inr (v, rest) \<Rightarrow>
               (case decode v of
                  Inl err \<Rightarrow> (Inl (ErrWrap ''decode Feishu response: '' err ''''), w)
                | Inr output \<Rightarrow> (Inr output, w))))"

record feishu_answer =
  fa_code :: int
  fa_token :: string
  fa_message_id :: string

definition empty_answer :: feishu_answer where
  "empty_answer = \<lparr>fa_code = 0, fa_token = '''', fa_message_id = ''''\<rparr>"

definition set_code :: "json \<Rightarrow> feishu_answer \<Rightarrow> feishu_answer res" where
  "set_code v a =
     (case int64_field v (fa_code a) of Inl err \<Rightarrow> Inl err | Inr n \<Rightarrow> Inr (a\<lparr>fa_code := n\<rparr>))"

definition set_token_field :: "string \<Rightarrow> json \<Rightarrow> feishu_answer \<Rightarrow> feishu_answer res" where
  "set_token_field f v a =
     (if f = ''code'' then set_code v a
      else case string_field v (fa_token a) of Inl err \<Rightarrow> Inl err | Inr t \<Rightarrow> Inr (a\<lparr>fa_token := t\<rparr>))"

definition set_data_field :: "string \<Rightarrow> json \<Rightarrow> feishu_answer \<Rightarrow> feishu_answer res" where
  "set_data_field f v a =
     (case string_field v (fa_message_id a) of Inl err \<Rightarrow> Inl err | Inr t \<Rightarrow> Inr (a\<lparr>fa_message_id := t\<rparr>))"

definition set_create_field :: "string \<Rightarrow> json \<Rightarrow> feishu_answer \<Rightarrow> feishu_answer res" where
  "set_create_field f v a =
     (if f = ''code'' then set_code v a else struct_value [''message_id''] set_data_field v a)"

definition set_update_field :: "string \<Rightarrow> json \<Rightarrow> feishu_answer \<Rightarrow> feishu_answer res" where
  "set_update_field f v a = set_code v a"

definition token_path :: string where "token_path = ''/auth/v3/tenant_access_token/internal''"
definition messages_path :: string where "messages_path = ''/im/v1/messages''"

definition token_body :: "'w feishu_client \<Rightarrow> json" where
  "token_body c = go_map [(''app_id'', JStr (fc_appID c)), (''app_secret'', JStr (fc_appSecret c))]"

definition tenantAccessToken :: "'w feishu_client \<Rightarrow> 'w \<Rightarrow> string res \<times> 'w" where
  "tenantAccessToken c w =
     (case doJSON c ''POST'' token_path '''' (token_body c)
             (\<lambda>v. struct_value [''code'', ''tenant_access_token''] set_token_field v empty_answer) w of
        (Inl err, w) \<Rightarrow> (Inl err, w)
      | (Inr a, w) \<Rightarrow>
          if fa_code a \<noteq> 0 \<or> fa_token a = ''''
          then (Inl (ErrNew (''Feishu tenant token request failed: code='' @ itoa (fa_code a))), w)
          else (Inr (fa_token a), w))"

definition create_body :: "'w feishu_client \<Rightarrow> string \<Rightarrow> json" where
  "create_body c content =
     go_map [(''receive_id'', JStr (fc_chatID c)), (''msg_type'', JStr ''interactive''), (''content'', JStr content)]"

definition update_body :: "string \<Rightarrow> json" where
  "update_body content = go_map [(''msg_type'', JStr ''interactive''), (''content'', JStr content)]"

definition CreateIncidentCard ::
    "(rat \<Rightarrow> string) \<Rightarrow> 'w feishu_client \<Rightarrow> Incident \<Rightarrow> 'w \<Rightarrow> string res \<times> 'w" where
  "CreateIncidentCard percent c incident w =
     (case RenderIncidentCard percent incident empty_result of
        Inl err \<Rightarrow> (Inl err, w)
      | Inr content \<Rightarrow>
        (case tenantAccessToken c w of
           (Inl err, w) \<Rightarrow> (Inl err, w)
         | (Inr token, w) \<Rightarrow>
           (case doJSON c ''POST'' (messages_path @ ''?receive_id_type=chat_id'') token (create_body c content)
                   (\<lambda>v. struct_value [''code'', ''data''] set_create_field v empty_answer) w of
              (Inl err, w) \<Rightarrow> (Inl err, w)
            | (Inr a, w) \<Rightarrow>
                if fa_code a \<noteq> 0 \<or> fa_message_id a = ''''
                then (Inl (ErrNew (''Feishu create message failed: code='' @ itoa (fa_code a))), w)
                else (Inr (fa_message_id a), w))))"

definition UpdateIncidentCard ::
    "(rat \<Rightarrow> string) \<Rightarrow> 'w feishu_client \<Rightarrow> string \<Rightarrow> Incident \<Rightarrow> RCAResult \<Rightarrow> 'w \<Rightarrow> unit res \<times> 'w" where
  "UpdateIncidentCard percent c messageID incident result w =
     (if messageID = '''' then (Inl (ErrNew ''Feishu message id is required''), w)
      else case RenderIncidentCard percent incident result of
        Inl err \<Rightarrow> (Inl err, w)
      | Inr content \<Rightarrow>
        (case tenantAccessToken c w of
           (Inl err, w) \<Rightarrow> (Inl err, w)
         | (Inr token, w) \<Rightarrow>
           (case doJSON c ''PATCH'' (messages_path @ ''/'' @ messageID) token (update_body content)
                   (\<lambda>v. struct_value [''code''] set_update_field v empty_answer) w of
              (Inl err, w) \<Rightarrow> (Inl err, w)
            | (Inr a, w) \<Rightarrow>
                if fa_code a \<noteq> 0
                then (Inl (ErrNew (''Feishu update message failed: code='' @ itoa (fa_code a))), w)
                else (Inr (), w))))"

section \<open>What is sent\<close>

text \<open>An HTTP client that answers anything and logs the requests.\<close>

type_synonym http_log = "http_request list"

definition log_request :: "(nat \<Rightarrow> http_request \<Rightarrow> http_response res) \<Rightarrow> http_request \<Rightarrow> http_log \<Rightarrow> http_response res \<times> http_log" where
  "log_request answer r w = (answer (length w) r, w @ [r])"

definition logging_client ::
    "string \<Rightarrow> string \<Rightarrow> string \<Rightarrow> string \<Rightarrow> (string \<Rightarrow> go_error option) \<Rightarrow>
       (nat \<Rightarrow> http_request \<Rightarrow> http_response res) \<Rightarrow> http_log feishu_client" where
  "logging_client baseURL appID appSecret chatID url_error answer =
     NewClient baseURL appID appSecret chatID url_error (log_request answer)"

lemma doJSON_log:
  assumes "doJSON (logging_client b i s h u answer) method path token body decode w = (r, w')"
  shows "(w' = w \<and> (\<exists>err. r = Inl err)) \<or>
    (w' = w @ [json_request (logging_client b i s h u answer) method path token body] \<and>
     (\<forall>x. r = Inr x \<longrightarrow> (\<exists>p. answer (length w) (json_request (logging_client b i s h u answer) method path token body) = Inr p \<and>
        200 \<le> hp_status p \<and> hp_status p < 300)))"
  using assms
  by (auto simp: doJSON_def logging_client_def NewClient_def log_request_def split: option.splits sum.splits if_splits)

lemma token_log:
  assumes "tenantAccessToken (logging_client b i s h u answer) w = (r, w')"
  shows "(w' = w \<or> w' = w @ [json_request (logging_client b i s h u answer) ''POST'' token_path ''''
            (token_body (logging_client b i s h u answer))]) \<and>
    (\<forall>t. r = Inr t \<longrightarrow> t \<noteq> '''' \<and> w' = w @ [json_request (logging_client b i s h u answer) ''POST'' token_path ''''
            (token_body (logging_client b i s h u answer))])"
proof -
  obtain q w1 where q: "doJSON (logging_client b i s h u answer) ''POST'' token_path '''' (token_body (logging_client b i s h u answer))
      (\<lambda>v. struct_value [''code'', ''tenant_access_token''] set_token_field v empty_answer) w = (q, w1)"
    by fastforce
  from doJSON_log [OF q] assms q show ?thesis
    by (auto simp: tenantAccessToken_def split: sum.splits if_splits)
qed

text \<open>
  C36 (card_updates_fit_the_limit). An update of a card sends at most two requests, the first for
  a tenant token; the second, if it is sent, patches the message with the given id under a
  non-empty token, and carries a rendered card of at most 30720 bytes. Without a message id
  nothing is sent, and success means that both requests were made and answered with a 2xx status.
\<close>

theorem card_updates_fit_the_limit:
  assumes "UpdateIncidentCard percent (logging_client b i s h u answer) m inc res w = (r, w')"
  defines "c \<equiv> logging_client b i s h u answer"
  shows "(w' = w \<or> w' = w @ [json_request c ''POST'' token_path '''' (token_body c)] \<or>
      (\<exists>token card. m \<noteq> '''' \<and> token \<noteq> '''' \<and> length card \<le> 30720 \<and>
         card = marshal (card_json percent inc res) \<and>
         w' = w @ [json_request c ''POST'' token_path '''' (token_body c),
                   json_request c ''PATCH'' (''/im/v1/messages/'' @ m) token (update_body card)])) \<and>
    (r = Inr () \<longrightarrow> length w' = length w + 2 \<and>
       (\<exists>p. answer (Suc (length w)) (last w') = Inr p \<and> 200 \<le> hp_status p \<and> hp_status p < 300))"
proof (cases "m = ''''")
  case False
  show ?thesis
  proof (cases "RenderIncidentCard percent inc res")
    case (Inr card)
    then have card: "card = marshal (card_json percent inc res)" "length card \<le> 30720"
      by (auto simp: RenderIncidentCard_def maxCardBytes_def Let_def split: if_splits)
    obtain q w1 where q: "tenantAccessToken c w = (q, w1)" by fastforce
    note tl = token_log [OF q [unfolded c_def], folded c_def]
    show ?thesis
    proof (cases q)
      case (Inl err)
      with assms(1) False Inr q tl show ?thesis
        by (auto simp: UpdateIncidentCard_def c_def)
    next
      case token: (Inr token)
      then have w1: "w1 = w @ [json_request c ''POST'' token_path '''' (token_body c)]" and "token \<noteq> ''''"
        using tl by auto
      obtain a w2 where a: "doJSON c ''PATCH'' (messages_path @ ''/'' @ m) token (update_body card)
          (\<lambda>v. struct_value [''code''] set_update_field v empty_answer) w1 = (a, w2)" by fastforce
      have w2: "w' = w2" "r = Inr () \<Longrightarrow> \<exists>x. a = Inr x"
        using assms(1) False Inr q token a
        by (auto simp: UpdateIncidentCard_def c_def split: sum.splits if_splits)
      from doJSON_log [OF a [unfolded c_def], folded c_def] show ?thesis
        using w1 w2 card False \<open>token \<noteq> ''''\<close> by (auto simp: messages_path_def)
    qed
  qed (use assms(1) False in \<open>auto simp: UpdateIncidentCard_def\<close>)
qed (use assms(1) in \<open>auto simp: UpdateIncidentCard_def\<close>)

end
