(* ===== verification/CommandWitnesses.thy ===== *)
theory CommandWitnesses
  imports Commands Feishu RuntimeWitnesses
begin

text \<open>
  Concrete inputs for the properties of the synchronisation and of the cards: a plan with an
  entity and a relation, a dry run, and the update of a card that Feishu accepts.
\<close>

section \<open>Batches\<close>

definition demo_endpoint :: Endpoint where
  "demo_endpoint =
     \<lparr>ep_EndpointID = ''e'', ep_ServiceName = ''blog'', ep_ServiceURL = ''u'', ep_Environment = ''prod'',
      ep_InstanceID = ''i'', ep_ECSEntityID = ''c'', ep_RegionID = ''cn'', ep_AccountID = ''1''\<rparr>"

definition demo_time :: time where "demo_time = 5 * second"

lemma demo_time_set [simp]: "demo_time \<noteq> zero_time"
  by (simp add: demo_time_def zero_time_def second_def)

definition demo_plan :: Plan where
  "demo_plan = [entity_element ''e'' demo_endpoint demo_time, relation_element ''e'' demo_endpoint ''runs_on'' demo_time]"

lemma log_contents_total:
  "GoNil \<notin> snd ` set e \<Longrightarrow> log_contents index e = Inr (map (\<lambda>kv. (fst kv, Sprint (snd kv))) e)"
  by (induction index e rule: log_contents.induct) auto

lemma buildEntityStoreLog_total:
  "GoNil \<notin> snd ` set e \<Longrightarrow>
     buildEntityStoreLog e t index = Inr \<lparr>lg_Time = uint32 (unix t), lg_Contents = printed e\<rparr>"
  by (simp add: buildEntityStoreLog_def log_contents_total printed_def)

lemma itoa_nonempty: "itoa i \<noteq> ''''"
  by (simp add: itoa_def digits_of.simps)

lemma demo_workspace: "entityStoreWorkspacePattern ''ws''"
  by (simp add: entityStoreWorkspacePattern_def workspace_first_def runes_ascii byte_def)

lemma demo_elements:
  "isRelationElement (relation_element ''e'' demo_endpoint ''runs_on'' demo_time)"
  "\<not> isRelationElement (entity_element ''e'' demo_endpoint demo_time)"
  "GoNil \<notin> snd ` set (relation_element ''e'' demo_endpoint ''runs_on'' demo_time)"
  "GoNil \<notin> snd ` set (entity_element ''e'' demo_endpoint demo_time)"
  "validateRelationElement (relation_element ''e'' demo_endpoint ''runs_on'' demo_time) = Inr ()"
  "validateEntityElement (entity_element ''e'' demo_endpoint demo_time) = Inr ()"
  by (simp_all add: isRelationElement_def validateRelationElement_def validateEntityElement_def relation_element_def
      relation_ends_def entity_element_def demo_endpoint_def sreDomain_def endpointEntityType_def acsDomain_def
      ecsEntityType_def itoa_nonempty)

lemma demo_group:
  "buildEntityStoreLogGroup [entity_element ''e'' demo_endpoint demo_time] demo_time =
     Inr (group_of demo_time [entity_element ''e'' demo_endpoint demo_time])"
  "buildEntityStoreRelationLogGroup [relation_element ''e'' demo_endpoint ''runs_on'' demo_time] demo_time =
     Inr (group_of demo_time [relation_element ''e'' demo_endpoint ''runs_on'' demo_time])"
  by (simp_all add: buildEntityStoreLogGroup_def buildEntityStoreRelationLogGroup_def demo_elements
      buildEntityStoreLog_total group_of_def newEntityStoreLogGroup_def)

lemma demo_split:
  "splitEntityStorePlan demo_plan = ([entity_element ''e'' demo_endpoint demo_time], [relation_element ''e'' demo_endpoint ''runs_on'' demo_time])"
  by (simp add: demo_plan_def split_filter demo_elements)

lemma demo_writes: "\<exists>writes. buildEntityStoreWrites ''ws'' demo_plan demo_time = Inr writes"
  by (simp add: buildEntityStoreWrites_def demo_workspace demo_split demo_group)

lemma writes_route_every_element_witness:
  "\<exists>writes. buildEntityStoreWrites ''ws'' demo_plan demo_time = Inr writes \<and>
     map es_logstore writes = [''ws__entity'', ''ws__topo'']"
proof -
  obtain writes where w: "buildEntityStoreWrites ''ws'' demo_plan demo_time = Inr writes"
    using demo_writes by blast
  have "map (\<lambda>x. (es_logstore x, map lg_Contents (lg_Logs (es_group x)))) writes =
      [(''ws__entity'', [printed (entity_element ''e'' demo_endpoint demo_time)]),
       (''ws__topo'', [printed (relation_element ''e'' demo_endpoint ''runs_on'' demo_time)])]"
    using writes_route_every_element [OF w] by (simp add: demo_plan_def demo_elements)
  then have "map fst (map (\<lambda>x. (es_logstore x, map lg_Contents (lg_Logs (es_group x)))) writes) =
      [''ws__entity'', ''ws__topo'']" by simp
  with w show ?thesis by (auto simp: comp_def)
qed

definition demo_expiry :: element where
  "demo_expiry = expiry_element (EndpointEntityID id ''e'') demo_endpoint ''runs_on'' demo_time"

lemma demo_expiry_element:
  "isRelationElement demo_expiry" "GoNil \<notin> snd ` set demo_expiry" "validateRelationElement demo_expiry = Inr ()"
  by (simp_all add: demo_expiry_def isRelationElement_def validateRelationElement_def expiry_element_def EndpointEntityID_def
      relation_ends_def demo_endpoint_def sreDomain_def endpointEntityType_def acsDomain_def ecsEntityType_def itoa_nonempty)

lemma demo_expiry_plan: "BuildRelationExpirationPlan id demo_endpoint ''runs_on'' demo_time = Inr [demo_expiry]"
  by (simp add: BuildRelationExpirationPlan_def demo_endpoint_def demo_expiry_def isSafeRelationType_def
      not_blank_plain runes_ascii byte_def is_space_def)

lemma demo_expiry_writes: "\<exists>writes. buildEntityStoreWrites ''ws'' [demo_expiry] demo_time = Inr writes"
  by (simp add: buildEntityStoreWrites_def demo_workspace split_filter demo_expiry_element
      buildEntityStoreRelationLogGroup_def buildEntityStoreLog_total newEntityStoreLogGroup_def)

lemma expiry_touches_one_relation_witness:
  "\<exists>x contents. buildEntityStoreWrites ''ws'' [demo_expiry] demo_time = Inr [x] \<and> es_logstore x = ''ws__topo'' \<and>
     map lg_Contents (lg_Logs (es_group x)) = [contents] \<and> map_of contents ''__method__'' = Some ''Expire''"
proof -
  obtain writes where w: "buildEntityStoreWrites ''ws'' [demo_expiry] demo_time = Inr writes"
    using demo_expiry_writes by blast
  from expiry_touches_one_relation [OF demo_expiry_plan w] w show ?thesis by auto
qed

section \<open>A dry run\<close>

definition demo_sync_config :: SyncConfig where
  "demo_sync_config =
     \<lparr>sy_Workspace = ''ws'', sy_Region = ''cn'', sy_ECSRAMRoleName = ''role'',
      sy_Relation = \<lparr>rl_Type = ''runs_on'', rl_DestinationDomain = '''', rl_DestinationEntityType = ''''\<rparr>,
      sy_Endpoints = [demo_endpoint]\<rparr>"

definition demo_sync_env :: "(string \<times> Plan) list sync_env" where
  "demo_sync_env = logging_env (\<lambda>path. Inr demo_sync_config) id demo_time (\<lambda>n. Inr ()) (\<lambda>n. Inr JNull)"

lemma dry_flags:
  "parse_flags default_flags [''--config'', ''/c'', ''--expire-relation-type=runs_on''] =
     Some (default_flags\<lparr>sf_config := ''/c'', sf_expire := ''runs_on''\<rparr>, [])"
  by (simp add: default_flags_def split_flag_def is_bool_flag_def is_text_flag_def set_text_flag_def)

lemma sync_writes_only_on_apply_witness:
  "snd (sync_run demo_sync_env [''--config'', ''/c'', ''--expire-relation-type=runs_on''] []) = []"
  using sync_writes_only_on_apply [OF surjective_pairing,
      of "\<lambda>path. Inr demo_sync_config" id demo_time "\<lambda>n. Inr ()" "\<lambda>n. Inr JNull"
         "[''--config'', ''/c'', ''--expire-relation-type=runs_on'']" "[]"]
  unfolding demo_sync_env_def [symmetric] dry_flags by (auto simp: default_flags_def)

section \<open>An accepted card\<close>

definition shown_incident :: Incident where
  "shown_incident = zero_incident\<lparr>inc_id := ''i1'', inc_state := ''X''\<rparr>"
definition shown_result :: RCAResult where
  "shown_result = empty_result\<lparr>rca_evidence_ids := [''e1'']\<rparr>"

lemma escape_rune_le: "1 \<le> length (snd x) \<Longrightarrow> length (escape_rune x) \<le> 6 * length (snd x)"
  by (simp add: escape_rune_def u00_def Let_def) 

lemma quote_le: "length (quote s) \<le> 2 + 6 * length s"
proof -
  have "sum_list (map (length \<circ> escape_rune) xs) \<le> 6 * sum_list (map (length \<circ> snd) xs)"
    if "\<forall>x \<in> set xs. snd x \<noteq> []" for xs
    using that
  proof (induction xs)
    case (Cons x xs)
    then have "1 \<le> length (snd x)" by (cases "snd x") auto
    from escape_rune_le [OF this] Cons show ?case by simp
  qed simp
  from this [of "runes s"] have "sum_list (map (length \<circ> escape_rune) (runes s)) \<le> 6 * sum_list (map (length \<circ> snd) (runes s))"
    using runes_bytes_nonempty by blast
  moreover have "sum_list (map (length \<circ> snd) (runes s)) = length s"
    using arg_cong [OF concat_runes [of s], of length] by (simp add: length_concat)
  ultimately show ?thesis by (simp add: quote_def length_concat)
qed

lemma sorted_maps:
  "go_map [(''tag'', a), (''content'', b)] = JObj [(''content'', b), (''tag'', a)]"
  "go_map [(''tag'', a), (''text'', b)] = JObj [(''tag'', a), (''text'', b)]"
  "go_map [(''config'', a), (''header'', b), (''elements'', c)] = JObj [(''config'', a), (''elements'', c), (''header'', b)]"
  "go_map [(''title'', a), (''template'', b)] = JObj [(''template'', b), (''title'', a)]"
  "go_map [(''wide_screen_mode'', a)] = JObj [(''wide_screen_mode'', a)]"
  by (simp_all add: go_map_def)

lemma element_le: "length (marshal (card_element s)) \<le> 400 + 6 * length s"
  using quote_le [of s] quote_le [of "''content''"] quote_le [of "''tag''"] quote_le [of "''div''"]
     quote_le [of "''text''"] quote_le [of "''lark_md''"] 
  by (simp add: card_element_def card_text_def sorted_maps)


lemma header_le: "length (marshal (card_text ''plain_text'' s)) \<le> 300 + 6 * length s"
  using quote_le [of s] quote_le [of "''content''"] quote_le [of "''tag''"] quote_le [of "''plain_text''"]
  by (simp add: card_text_def sorted_maps)

lemma demo_card: "length (marshal (card_json percent shown_incident shown_result)) \<le> 30720"
proof -
  let ?c = "marshal (card_json percent shown_incident shown_result)"
  note el = element_le [of "text_event @ ''i1''"] element_le [of "text_state @ ''X''"] element_le [of "text_evidence @ ''e1''"]
    header_le [of "text_title @ ''X''"] quote_le [of "''template''"]  quote_le [of "''title''"] quote_le [of "''orange''"]
    quote_le [of "''wide_screen_mode''"] quote_le [of "''config''"] quote_le [of "''header''"] quote_le [of "''elements''"]
  show ?thesis
    using el [simplified]
    by (simp add: card_json_def shown_incident_def shown_result_def empty_result_def card_elements_def sorted_maps
       localizedState_def incident_state_defs cardTemplate_def text_event_def text_state_def text_evidence_def text_title_def utf8_def)
qed

definition demo_client :: "http_log feishu_client" where
  "demo_client = logging_client ''https://f'' ''a'' ''s'' ''c'' (\<lambda>url. None)
     (\<lambda>n r. Inr \<lparr>hp_status = 200, hp_body = (if n = 0 then ''{\"code\":0,\"tenant_access_token\":\"t\"}'' else ''{\"code\":0}'')\<rparr>)"

lemma demo_update: "fst (UpdateIncidentCard percent demo_client ''m'' shown_incident shown_result []) = Inr ()"
  using demo_card [of percent]
  by (simp add: UpdateIncidentCard_def RenderIncidentCard_def maxCardBytes_def tenantAccessToken_def doJSON_def demo_client_def
     logging_client_def NewClient_def log_request_def json_eval struct_value_def field_of_def set_token_field_def set_code_def
     int64_field_def int64_literal_def digit_value_def string_field_def set_update_field_def empty_answer_def token_path_def)
lemma card_updates_fit_the_limit_witness:
  "\<exists>log. UpdateIncidentCard (\<lambda>r. ''90'') demo_client ''m'' shown_incident shown_result [] = (Inr (), log) \<and>
     length log = 2 \<and> map hr_method log = [''POST'', ''PATCH'']"
proof -
  obtain log where run: "UpdateIncidentCard (\<lambda>r. ''90'') demo_client ''m'' shown_incident shown_result [] = (Inr (), log)"
    using demo_update [of "\<lambda>r. ''90''"] by (metis prod.collapse)
  from card_updates_fit_the_limit [OF run [unfolded demo_client_def]]
  have "length log = 2" and "log = [] \<or> length log = 1 \<or> map hr_method log = [''POST'', ''PATCH'']"
    by (auto simp: json_request_def)
  with run show ?thesis by auto
qed

end
