(* ===== verification/Lifecycle.thy ===== *)
theory Lifecycle
  imports StoreOutcomes
begin

text \<open>
  The lifecycle of incidents as an abstract machine: a map from incident identifiers to a key and
  a phase, with one event per step. The repository refines it: seen through \<^theory_text>\<open>phases\<close>,
  every call is one step of the machine, with an event that the call stands for, or no step at
  all. The relation \<^theory_text>\<open>may e\<close> (nothing or one event \<^theory_text>\<open>e\<close>) is a preorder
  for every event, so the locale of transactions carries it from the statements to the calls.
\<close>

section \<open>The machine\<close>

datatype phase = Received | Investigating | Awaiting | Completed | Failed | Recovered | Unknown

type_synonym phase_map = "string \<rightharpoonup> string \<times> phase"

datatype event = Opened string string | Moved string phase

definition open_phase :: "phase \<Rightarrow> bool" where
  "open_phase p \<longleftrightarrow> p \<in> {Received, Investigating, Awaiting}"

fun edge :: "phase \<Rightarrow> phase \<Rightarrow> bool" where
  "edge p Investigating \<longleftrightarrow> p = Received \<or> p = Awaiting"
| "edge p Awaiting \<longleftrightarrow> open_phase p"
| "edge p Completed \<longleftrightarrow> open_phase p"
| "edge p Failed \<longleftrightarrow> open_phase p"
| "edge p Recovered \<longleftrightarrow> open_phase p \<or> p = Completed \<or> p = Failed"
| "edge p Received \<longleftrightarrow> False"
| "edge p Unknown \<longleftrightarrow> False"

inductive lifecycle_step :: "event \<Rightarrow> phase_map \<Rightarrow> phase_map \<Rightarrow> bool" where
  opened: "A i = None \<Longrightarrow> (\<And>j p. A j = Some (key, p) \<Longrightarrow> \<not> open_phase p) \<Longrightarrow>
     lifecycle_step (Opened i key) A (A(i \<mapsto> (key, Received)))"
| moved: "A i = Some (key, p) \<Longrightarrow> edge p p' \<Longrightarrow> lifecycle_step (Moved i p') A (A(i \<mapsto> (key, p')))"

inductive_cases openedE: "lifecycle_step (Opened i key) A B"
inductive_cases movedE: "lifecycle_step (Moved i p) A B"

definition one_open_per_key :: "phase_map \<Rightarrow> bool" where
  "one_open_per_key A \<longleftrightarrow>
     (\<forall>i j key p q. A i = Some (key, p) \<longrightarrow> A j = Some (key, q) \<longrightarrow> open_phase p \<longrightarrow> open_phase q \<longrightarrow> i = j)"

lemma edge_open: "edge p p' \<Longrightarrow> open_phase p' \<Longrightarrow> open_phase p"
  by (cases p') (auto simp: open_phase_def)

text \<open>The machine keeps its invariant by itself.\<close>

lemma lifecycle_keeps_keys:
  "lifecycle_step e A B \<Longrightarrow> one_open_per_key A \<Longrightarrow> one_open_per_key B"
proof (induction rule: lifecycle_step.induct)
  case (opened A i key)
  then show ?case by (auto simp: one_open_per_key_def)
next
  case (moved A i key p p')
  have "open_phase p' \<Longrightarrow> open_phase p" using moved.hyps(2) by (rule edge_open)
  with moved show ?case unfolding one_open_per_key_def by (auto split: if_splits)
qed

lemma step_twice: "lifecycle_step e A B \<Longrightarrow> lifecycle_step e B C \<Longrightarrow> C = B"
  by (cases e) (auto elim!: openedE movedE, (metis edge.simps phase.exhaust)?)

section \<open>The abstraction\<close>

definition phase_of :: "string \<Rightarrow> phase" where
  "phase_of st =
     (if st = IncidentReceived then Received
      else if st = IncidentInvestigating then Investigating
      else if st = IncidentAwaitingAuditEvent then Awaiting
      else if st = IncidentCompleted then Completed
      else if st = IncidentFailed then Failed
      else if st = IncidentRecovered then Recovered else Unknown)"

definition row_phase :: "incident_row \<Rightarrow> string \<times> string \<times> phase" where
  "row_phase r = (ir_id r, ir_key r, phase_of (ir_state r))"

definition phases :: "db \<Rightarrow> phase_map" where
  "phases s = map_of (map row_phase (db_incidents s))"

lemma phase_of_states [simp]:
  "phase_of IncidentReceived = Received" "phase_of IncidentInvestigating = Investigating"
  "phase_of IncidentAwaitingAuditEvent = Awaiting" "phase_of IncidentCompleted = Completed"
  "phase_of IncidentFailed = Failed" "phase_of IncidentRecovered = Recovered"
  by (simp_all add: phase_of_def)

lemma open_phase_of [simp]: "open_phase (phase_of st) \<longleftrightarrow> is_active st"
  by (auto simp: phase_of_def open_phase_def is_active_def)

lemma recoverable_phase:
  "is_recoverable st \<longleftrightarrow> open_phase (phase_of st) \<or> phase_of st = Completed \<or> phase_of st = Failed"
  by (simp add: is_recoverable_def) (auto simp: phase_of_def is_active_def)

section \<open>Statements\<close>

definition rows_ok :: "db \<Rightarrow> bool" where
  "rows_ok s \<longleftrightarrow> incidents_ok (db_incidents s) \<and> (\<forall>r \<in> set (db_incidents s). ir_state r \<in> set incident_states)"

definition may :: "event \<Rightarrow> db \<Rightarrow> db \<Rightarrow> bool" where
  "may e s s' \<longleftrightarrow>
     (rows_ok s \<longrightarrow> rows_ok s' \<and> (phases s' = phases s \<or> lifecycle_step e (phases s) (phases s')))"

lemma may_trans: "may e s s' \<Longrightarrow> may e s' s'' \<Longrightarrow> may e s s''"
  unfolding may_def using step_twice by metis

interpretation lc: tx_preorder "may e" for e
  by unfold_locales (simp_all add: may_def [of e s s for s], erule may_trans)

lemma may_same_incidents:
  "(\<And>s x s'. m s = Inr (x, s') \<Longrightarrow> db_incidents s' = db_incidents s) \<Longrightarrow> tx_rel (may e) m"
  by (rule tx_relI) (simp add: may_def rows_ok_def phases_def)

lemma may_jobs: "tx_rel (may e) (tx_update_jobs p f)" "tx_rel (may e) (tx_insert_job j)"
  "tx_rel (may e) (tx_insert_snapshot row)" "tx_rel (may e) (tx_replace_evidence row)"
  by (rule may_same_incidents; auto simp: tx_update_jobs_def tx_insert_job_def tx_insert_snapshot_def
      tx_replace_evidence_def split: if_splits)+

lemma may_row_check:
  "tx_rel (may e) (oneRow n op i)" "tx_rel (may e) (activeRow n op i)" "tx_rel (may e) (leaseRow n op i)"
  by (simp_all add: oneRow_def activeRow_def leaseRow_def lc.rel_return lc.rel_throw)

text \<open>A write that leaves identifier, key and state alone.\<close>

lemma may_quiet:
  assumes "\<And>s r. p s r \<Longrightarrow> ir_id (f r) = ir_id r \<and> ir_key (f r) = ir_key r \<and> ir_state (f r) = ir_state r"
  shows "tx_rel (may e) (tx_update_incidents p f)"
proof (rule tx_relI)
  fix s x s'
  assume "tx_update_incidents p f s = Inr (x, s')"
  then have s': "s' = s\<lparr>db_incidents := update_where (p s) f (db_incidents s)\<rparr>"
    and ok: "incidents_ok (update_where (p s) f (db_incidents s))"
    by (auto simp: tx_update_incidents_def Let_def split: if_splits)
  have "map row_phase (update_where (p s) f (db_incidents s)) = map row_phase (db_incidents s)"
    using assms by (intro map_update_where) (simp add: row_phase_def)
  with s' have "phases s' = phases s" by (simp add: phases_def)
  moreover have "rows_ok s \<Longrightarrow> rows_ok s'"
    using ok assms unfolding s' rows_ok_def by (auto simp: set_update_where)
  ultimately show "may e s s'" by (simp add: may_def)
qed

lemma phases_lookup:
  "distinct (map ir_id rows) \<Longrightarrow> r \<in> set rows \<Longrightarrow> map_of (map row_phase rows) (ir_id r) = Some (ir_key r, phase_of (ir_state r))"
  by (induction rows) (auto simp: row_phase_def, (metis imageI)+)

lemma phases_update:
  assumes "distinct (map ir_id rows)" and "r \<in> set rows"
  shows "map_of (map row_phase (update_where (\<lambda>q. ir_id q = ir_id r) (set_state st ts) rows)) =
    (map_of (map row_phase rows))(ir_id r \<mapsto> (ir_key r, phase_of st))"
  using assms
proof (induction rows)
  case (Cons a rows)
  show ?case
  proof (cases "a = r")
    case True
    with Cons.prems(1) have "update_where (\<lambda>q. ir_id q = ir_id r) (set_state st ts) rows = rows"
      by (intro update_where_none) (auto, metis imageI)
    then have u: "update_where (\<lambda>q. ir_id q = ir_id r) (set_state st ts) (a # rows) = set_state st ts r # rows"
      using True by (simp add: update_where_def)
    show ?thesis unfolding u using True by (simp add: row_phase_def set_state_def fun_eq_iff)
  next
    case False
    with Cons.prems have "r \<in> set rows" "ir_id a \<noteq> ir_id r" by auto
    with Cons show ?thesis by (simp add: update_where_def row_phase_def fun_upd_twist fun_eq_iff)
  qed
qed simp

text \<open>A write of the state of one incident, along an edge of the machine.\<close>

lemma may_move:
  assumes "\<And>s r. p s r \<Longrightarrow> ir_state r \<in> set incident_states \<Longrightarrow> ir_id r = i \<and> edge (phase_of (ir_state r)) (phase_of st)"
    and "st \<in> set incident_states"
  shows "tx_rel (may (Moved i (phase_of st))) (tx_update_incidents p (set_state st ts))"
proof (rule tx_relI)
  fix s x s'
  let ?f = "set_state st ts"
  assume "tx_update_incidents p ?f s = Inr (x, s')"
  then have s': "s' = s\<lparr>db_incidents := update_where (p s) ?f (db_incidents s)\<rparr>"
    and ok: "incidents_ok (update_where (p s) ?f (db_incidents s))"
    by (auto simp: tx_update_incidents_def Let_def split: if_splits)
  show "may (Moved i (phase_of st)) s s'"
    unfolding may_def
  proof (intro impI conjI)
    assume rows: "rows_ok s"
    then show "rows_ok s'"
      using ok assms(2) unfolding s' rows_ok_def by (auto simp: set_update_where set_state_def)
    have ids: "distinct (map ir_id (db_incidents s))" using rows by (simp add: rows_ok_def incidents_ok_def)
    show "phases s' = phases s \<or> lifecycle_step (Moved i (phase_of st)) (phases s) (phases s')"
    proof (cases "\<exists>r \<in> set (db_incidents s). p s r")
      case False
      then have "update_where (p s) ?f (db_incidents s) = db_incidents s"
        by (intro update_where_none) blast
      with s' show ?thesis by (simp add: phases_def)
    next
      case True
      then obtain r where r: "r \<in> set (db_incidents s)" "p s r" by blast
      with rows assms(1) have i: "ir_id r = i" and e: "edge (phase_of (ir_state r)) (phase_of st)"
        by (auto simp: rows_ok_def)
      have "p s q \<longleftrightarrow> ir_id q = i" if "q \<in> set (db_incidents s)" for q
        using that r i rows assms(1) distinct_key_eq [OF ids that r(1)] by (auto simp: rows_ok_def)
      then have "update_where (p s) ?f (db_incidents s) = update_where (\<lambda>q. ir_id q = ir_id r) ?f (db_incidents s)"
        unfolding i by (rule update_where_cong)
      then have "phases s' = (phases s)(i \<mapsto> (ir_key r, phase_of st))"
        using phases_update [OF ids r(1)] i by (simp add: s' phases_def)
      moreover have "phases s i = Some (ir_key r, phase_of (ir_state r))"
        using phases_lookup [OF ids r(1)] i by (simp add: phases_def)
      ultimately show ?thesis using e by (auto intro: lifecycle_step.moved)
    qed
  qed
qed

lemma may_open:
  assumes "ir_state r = IncidentReceived"
  shows "tx_rel (may (Opened (ir_id r) (ir_key r))) (tx_insert_incident r)"
proof (rule tx_relI)
  fix s x s'
  assume "tx_insert_incident r s = Inr (x, s')"
  then have s': "s' = s\<lparr>db_incidents := db_incidents s @ [r]\<rparr>" and new: "ir_id r \<notin> ir_id ` set (db_incidents s)"
    and ok: "incidents_ok (db_incidents s @ [r])"
    by (auto simp: tx_insert_incident_def split: if_splits)
  have ids: "distinct (map ir_id (db_incidents s))" using ok by (simp add: incidents_ok_def)
  have none: "phases s (ir_id r) = None"
    using new by (auto simp: phases_def map_of_eq_None_iff row_phase_def image_image)
  have "phases s' = (phases s)(ir_id r \<mapsto> (ir_key r, Received))"
  proof
    fix k
    show "phases s' k = ((phases s)(ir_id r \<mapsto> (ir_key r, Received))) k"
      using none assms by (simp add: s' phases_def map_add_def row_phase_def split: option.split)
  qed
  moreover have "\<not> open_phase p" if "phases s j = Some (ir_key r, p)" for j p
  proof -
    have "(j, ir_key r, p) \<in> set (map row_phase (db_incidents s))"
      using that map_of_SomeD unfolding phases_def by fastforce
    then obtain q where "q \<in> set (db_incidents s)" "ir_key q = ir_key r" "p = phase_of (ir_state q)"
      by (auto simp: row_phase_def)
    moreover have "\<not> is_active (ir_state q)"
      using ok assms calculation by (auto simp: incidents_ok_def image_iff)
    ultimately show ?thesis by simp
  qed
  moreover have "rows_ok s \<Longrightarrow> rows_ok s'"
    using ok assms unfolding s' rows_ok_def by auto
  ultimately show "may (Opened (ir_id r) (ir_key r)) s s'"
    using none by (auto simp: may_def intro!: lifecycle_step.opened)
qed

section \<open>Calls\<close>

lemma may_update_active:
  "st \<in> {IncidentAwaitingAuditEvent, IncidentCompleted, IncidentFailed} \<Longrightarrow>
     tx_rel (may (Moved i (phase_of st))) (update_active_incident st i ts)"
  unfolding update_active_incident_def by (rule may_move) auto

lemmas may_complete = may_update_active [where st = IncidentCompleted, simplified]
lemmas may_fail = may_update_active [where st = IncidentFailed, simplified]

lemma may_await: "tx_rel (may (Moved i Awaiting)) (await_audit_event i ts)"
proof -
  have "tx_rel (may (Moved i (phase_of IncidentAwaitingAuditEvent))) (await_audit_event i ts)"
    unfolding await_audit_event_def
    by (rule may_move) (use legacy_state_unknown in \<open>auto simp: is_active_or_legacy_def\<close>)
  then show ?thesis by simp
qed

lemmas may_rules =
  lc.rel_run lc.rel_rules may_jobs may_row_check may_complete may_fail may_await

lemma may_job_writes:
  "tx_rel (may e) (touch_claim job)" "tx_rel (may e) (cancel_live_jobs i)"
  "tx_rel (may e) (cancel_other_jobs i k)" "tx_rel (may e) (close_claimed_job job i st)"
  by (simp_all add: touch_claim_def cancel_live_jobs_def cancel_other_jobs_def close_claimed_job_def may_jobs)

lemma may_refl: "may e s s"
  by (rule lc.R_refl)

lemma may_CreateOrGetIncident:
  assumes "inc_state inc = IncidentReceived"
  shows "may (Opened (inc_id inc) (inc_key inc)) s (snd (CreateOrGetIncident inc s))"
proof -
  have "tx_rel (may (Opened (inc_id inc) (inc_key inc))) (tx_insert_incident (incident_columns inc))"
    using may_open [of "incident_columns inc"] assms by (simp add: incident_columns_def)
  then have "may (Opened (inc_id inc) (inc_key inc)) s (snd (run_tx (tx_insert_incident (incident_columns inc)) s))"
    by (rule lc.rel_run)
  then show ?thesis
    by (auto simp: CreateOrGetIncident_def split: sum.splits option.splits prod.splits)
qed

lemma may_MarkInvestigating:
  "may (Moved (job_incident_id job) Investigating) s (snd (MarkInvestigatingForClaim job t s))"
proof -
  let ?m = "tx_update_incidents
     (\<lambda>s r. ir_id r = job_incident_id job \<and>
        (ir_state r = IncidentReceived \<or> ir_state r = IncidentAwaitingAuditEvent) \<and>
        (\<exists>j \<in> set (db_jobs s). claim_row job (job_incident_id job) j))
     (set_state IncidentInvestigating (unix t))"
  have "tx_rel (may (Moved (job_incident_id job) (phase_of IncidentInvestigating))) ?m"
    by (rule may_move) auto
  then have "may (Moved (job_incident_id job) Investigating) s (snd (run_tx ?m s))"
    by (simp add: lc.rel_run)
  then show ?thesis
    by (auto simp: MarkInvestigatingForClaim_def CheckActiveClaim_def split: sum.splits prod.splits)
qed

lemma may_messages:
  "may e s (snd (SetFeishuMessageID i m t s))" "may e s (snd (SetFeishuMessageIDForClaim job m t s))"
  unfolding SetFeishuMessageID_def SetFeishuMessageIDForClaim_def
  by (auto simp: may_refl intro!: may_rules may_job_writes may_quiet)

lemma may_card_fence: "tx_rel (may e) (card_fence job)"
  unfolding card_fence_def by (intro may_rules may_job_writes may_quiet) auto

lemma may_UpdateActiveClaimCard: "may e s (fst (snd (UpdateActiveClaimCard job update (s, c))))"
  unfolding UpdateActiveClaimCard_def
  by (auto simp: may_refl split: sum.splits prod.splits dest: tx_relD [OF may_card_fence])

lemma may_StoreEvidence: "may e s (snd (StoreEvidence marshal i items t s))"
proof -
  have "tx_rel (may e) (tx_store_evidence marshal i t items)"
    by (induction items) (auto split: sum.splits intro!: lc.rel_rules may_jobs)
  then show ?thesis unfolding StoreEvidence_def by (rule lc.rel_run)
qed

lemma may_closing:
  "may (Moved i Completed) s (snd (Complete marshal k i res t s))"
  "may (Moved i Failed) s (snd (Fail i t s))"
  "may (Moved i Awaiting) s (snd (ScheduleAuditRetry k i t s))"
  "may (Moved i Completed) s (snd (CompleteJobAndIncident marshal k job i res t s))"
  "may (Moved i Awaiting) s (snd (CompleteJobAndScheduleAuditRetry k job i t s))"
  "may (Moved (job_incident_id job) Failed) s (snd (RetryOrFailJob job t n s))"
  unfolding Complete_def Fail_def ScheduleAuditRetry_def CompleteJobAndIncident_def
    CompleteJobAndScheduleAuditRetry_def RetryOrFailJob_def
  by (auto simp: may_refl split: sum.splits intro!: may_rules may_job_writes)

lemma may_job_calls:
  "may e s (snd (Enqueue k i t s))" "may e s (snd (CompleteJob job s))"
  "may e s (snd (CancelJobsForIncident i s))"
  unfolding Enqueue_def CompleteJob_def CancelJobsForIncident_def
  by (intro may_rules may_job_writes)+

lemma may_ClaimNext: "may e s (snd (ClaimNext w now s))"
  unfolding ClaimNext_def
  by (auto simp: tx_defs may_refl split: option.splits sum.splits if_splits dest: tx_relD [OF may_jobs(1)])

lemma may_Recover:
  assumes "rows_ok s"
  shows "phases (snd (Recover key t s)) = phases s \<or>
    (\<exists>i p. phases s i = Some (key, p) \<and>
       lifecycle_step (Moved i Recovered) (phases s) (phases (snd (Recover key t s))))"
proof (cases "recover_target key t s")
  case None
  then have "snd (Recover key t s) = s" by (simp add: Recover_def tx_defs)
  then show ?thesis by simp
next
  case (Some r)
  let ?m = "if ir_state r = IncidentRecovered then tx_return (scanIncident r, False)
           else
             tx_bind (tx_update_incidents (\<lambda>s q. ir_id q = ir_id r \<and> is_recoverable (ir_state q))
                        (set_state IncidentRecovered (unix t))) (\<lambda>updated.
             tx_bind (oneRow updated ''recover incident'' key) (\<lambda>_.
             tx_bind (cancel_live_jobs (ir_id r)) (\<lambda>_.
             tx_return ((scanIncident r)\<lparr>inc_state := IncidentRecovered, inc_updated_at := t\<rparr>, True))))"
  have "tx_rel (may (Moved (ir_id r) (phase_of IncidentRecovered)))
      (tx_update_incidents (\<lambda>s q. ir_id q = ir_id r \<and> is_recoverable (ir_state q)) (set_state IncidentRecovered (unix t)))"
    by (rule may_move) (auto simp: recoverable_phase)
  then have "tx_rel (may (Moved (ir_id r) Recovered)) ?m"
    by (auto intro!: may_rules may_job_writes)
  then have "may (Moved (ir_id r) Recovered) s (snd (run_tx ?m s))" by (rule lc.rel_run)
  moreover have "Recover key t s = run_tx ?m s"
    using Some by (simp add: Recover_def run_tx_def tx_bind_def tx_read_def)
  moreover have "r \<in> set (db_incidents s)" "ir_key r = key"
    using recover_target_in [OF Some] by auto
  ultimately show ?thesis
    using assms phases_lookup [of "db_incidents s" r]
    by (auto simp: may_def phases_def rows_ok_def incidents_ok_def)
qed

text \<open>The events a call stands for.\<close>

fun triggers :: "store_op \<Rightarrow> phase_map \<Rightarrow> event \<Rightarrow> bool" where
  "triggers (OpCreateOrGet k now w r i t) A e \<longleftrightarrow> e = Opened k (incident_key w r i)"
| "triggers (OpMarkInvestigating job t) A e \<longleftrightarrow> e = Moved (job_incident_id job) Investigating"
| "triggers (OpComplete k i res t) A e \<longleftrightarrow> e = Moved i Completed"
| "triggers (OpCompleteJobAndIncident k job i res t) A e \<longleftrightarrow> e = Moved i Completed"
| "triggers (OpFail i t) A e \<longleftrightarrow> e = Moved i Failed"
| "triggers (OpRetryOrFail job t n) A e \<longleftrightarrow> n \<le> job_attempt job \<and> e = Moved (job_incident_id job) Failed"
| "triggers (OpScheduleAuditRetry k i t) A e \<longleftrightarrow> e = Moved i Awaiting"
| "triggers (OpCompleteJobAndScheduleAuditRetry k job i t) A e \<longleftrightarrow> e = Moved i Awaiting"
| "triggers (OpRecover key t) A e \<longleftrightarrow> (\<exists>i p. A i = Some (key, p) \<and> e = Moved i Recovered)"
| "triggers op A e \<longleftrightarrow> False"

lemma may_RetryOrFail_retry: "job_attempt job < n \<Longrightarrow> may e s (snd (RetryOrFailJob job t n s))"
  unfolding RetryOrFailJob_def by (auto simp: may_refl intro!: may_rules may_job_writes)

definition simulates :: "store_op \<Rightarrow> phase_map \<Rightarrow> phase_map \<Rightarrow> bool" where
  "simulates op A B \<longleftrightarrow> B = A \<or> (\<exists>e. triggers op A e \<and> lifecycle_step e A B)"

lemma may_simulates: "rows_ok s \<Longrightarrow> may e s s' \<Longrightarrow> triggers op (phases s) e \<Longrightarrow> simulates op (phases s) (phases s')"
  by (auto simp: may_def simulates_def)

lemma quiet_simulates:
  "rows_ok s \<Longrightarrow> (\<And>e. may e s s') \<Longrightarrow> simulates op (phases s) (phases s')"
proof -
  assume "rows_ok s" and may: "\<And>e. may e s s'"
  then have "phases s' = phases s \<or> lifecycle_step (Moved i Unknown) (phases s) (phases s')" for i
    using may [of "Moved i Unknown"] by (simp add: may_def)
  moreover have "\<not> lifecycle_step (Moved i Unknown) A B" for i A B by (auto elim: movedE)
  ultimately show ?thesis by (simp add: simulates_def)
qed

lemma exec_op_simulates:
  assumes "rows_ok s"
  shows "simulates op (phases s) (phases (exec_op mE mR op s))"
proof (cases op)
  case (OpCreateOrGet k now w r i t)
  then show ?thesis
    using assms may_CreateOrGetIncident [of "NewIncident k now w r i t" s]
    by (intro may_simulates [where e = "Opened k (incident_key w r i)"]) (simp_all add: NewIncident_def)
next
  case (OpRecover key t)
  then show ?thesis
    using may_Recover [OF assms, of key t] by (auto simp: simulates_def)
next
  case (OpRetryOrFail job t n)
  then show ?thesis
    using may_simulates [OF assms may_closing(6), of "OpRetryOrFail job t n" job t n]
      quiet_simulates [OF assms, of "snd (RetryOrFailJob job t n s)"]
    by (cases "n \<le> job_attempt job") (simp_all add: may_RetryOrFail_retry)
qed (simp_all add: assms quiet_simulates may_job_calls may_ClaimNext may_messages may_UpdateActiveClaimCard may_StoreEvidence
    may_simulates [OF assms may_closing(1)] may_simulates [OF assms may_closing(2)]
    may_simulates [OF assms may_closing(3)] may_simulates [OF assms may_closing(4)]
    may_simulates [OF assms may_closing(5)] may_simulates [OF assms may_MarkInvestigating])

lemma run_ops_rows_ok: "rows_ok (run_ops mE mR ops empty_db)"
  using wf_run_ops [OF wf_empty_db, of mE mR ops] by (simp add: rows_ok_def wf_db_def)

text \<open>
  C33 (store_refines_lifecycle). The repository refines the lifecycle machine: after any sequence
  of calls, the next call, whatever its arguments and the outcome of its transaction, is either
  invisible in the phases of the incidents or exactly one step of the machine, on one incident,
  with an event that this call stands for: \<^verbatim>\<open>CreateOrGetIncident\<close> opens its incident, the
  closing calls move theirs along an edge, \<^verbatim>\<open>Recover\<close> moves an incident of its key, a retry
  with attempts left moves none, and claiming, cards, evidence and job calls never move one. The
  empty database is the initial state, and the machine's own invariant, one open incident per
  key, holds throughout.
\<close>

theorem store_refines_lifecycle:
  fixes mE mR ops op
  defines "s \<equiv> run_ops mE mR ops empty_db"
  shows "(phases (exec_op mE mR op s) = phases s \<or>
      (\<exists>e. triggers op (phases s) e \<and> lifecycle_step e (phases s) (phases (exec_op mE mR op s)))) \<and>
    phases empty_db = Map.empty \<and> one_open_per_key (phases s)"
proof -
  have "one_open_per_key (phases (run_ops mE mR ops empty_db))" for ops
  proof (induction ops rule: rev_induct)
    case Nil
    show ?case by (simp add: run_ops_def phases_def empty_db_def one_open_per_key_def)
  next
    case (snoc op ops)
    have "run_ops mE mR (ops @ [op]) empty_db = exec_op mE mR op (run_ops mE mR ops empty_db)"
      by (simp add: run_ops_def)
    with snoc exec_op_simulates [OF run_ops_rows_ok [of mE mR ops], of op mE mR] show ?case
      unfolding simulates_def by (metis lifecycle_keeps_keys)
  qed
  moreover have "simulates op (phases s) (phases (exec_op mE mR op s))"
    unfolding s_def by (rule exec_op_simulates [OF run_ops_rows_ok])
  ultimately show ?thesis
    by (simp add: s_def simulates_def phases_def empty_db_def)
qed

end
