(* ===== verification/Migration.thy ===== *)
theory Migration
  imports Domain
begin

text \<open>
  \<^verbatim>\<open>Open\<close> and \<^verbatim>\<open>migrate\<close> of \<^verbatim>\<open>internal/store/sqlite.go\<close>: the schema of a
  database file as its tables with their columns and its indexes, the six statements that create
  what is missing, and the column that older files lack. Every statement commits by itself;
  \<^theory_text>\<open>fault\<close> says at which of them the driver fails, and how (I/O errors, or rows that
  violate a new unique index).
\<close>

section \<open>Schemas and statements\<close>

type_synonym column = "string \<times> string"

record schema =
  sm_tables :: "(string \<times> column list) list"
  sm_indexes :: "string list"

definition empty_schema :: schema where
  "empty_schema = \<lparr>sm_tables = [], sm_indexes = []\<rparr>"

definition columns_of :: "schema \<Rightarrow> string \<Rightarrow> column list option" where
  "columns_of s = map_of (sm_tables s)"

definition has_column :: "schema \<Rightarrow> string \<Rightarrow> string \<Rightarrow> bool" where
  "has_column s t c \<longleftrightarrow> (\<exists>cols. columns_of s t = Some cols \<and> c \<in> fst ` set cols)"

datatype statement =
    CreateTable string "column list"
  | CreateIndex string string "string list"
  | AddColumn string column

text \<open>\<^verbatim>\<open>IF NOT EXISTS\<close> skips the statement; a name is taken by tables and indexes alike.\<close>

fun exec_statement :: "statement \<Rightarrow> schema \<Rightarrow> unit res \<times> schema" where
  "exec_statement (CreateTable t cols) s =
     (if columns_of s t \<noteq> None then (Inr (), s)
      else if t \<in> set (sm_indexes s) then (Inl (ErrNew (''there is already an index named '' @ t)), s)
      else (Inr (), s\<lparr>sm_tables := sm_tables s @ [(t, cols)]\<rparr>))"
| "exec_statement (CreateIndex i t cs) s =
     (if i \<in> set (sm_indexes s) then (Inr (), s)
      else if columns_of s i \<noteq> None then (Inl (ErrNew (''there is already a table named '' @ i)), s)
      else if columns_of s t = None then (Inl (ErrNew (''no such table: '' @ t)), s)
      else if \<not> list_all (has_column s t) cs then (Inl (ErrNew ''no such column''), s)
      else (Inr (), s\<lparr>sm_indexes := sm_indexes s @ [i]\<rparr>))"
| "exec_statement (AddColumn t c) s =
     (case columns_of s t of
        None \<Rightarrow> (Inl (ErrNew (''no such table: '' @ t)), s)
      | Some cols \<Rightarrow>
          if fst c \<in> fst ` set cols then (Inl (ErrNew (''duplicate column name: '' @ fst c)), s)
          else (Inr (), s\<lparr>sm_tables := map (\<lambda>(u, us). (u, if u = t then us @ [c] else us)) (sm_tables s)\<rparr>))"

definition try_statement ::
    "(nat \<Rightarrow> go_error option) \<Rightarrow> nat \<Rightarrow> statement \<Rightarrow> schema \<Rightarrow> unit res \<times> schema" where
  "try_statement fault n st s = (case fault n of Some err \<Rightarrow> (Inl err, s) | None \<Rightarrow> exec_statement st s)"

section \<open>Migration\<close>

definition incidents_columns :: "column list" where
  "incidents_columns =
     [(''id'', ''TEXT PRIMARY KEY''), (''incident_key'', ''TEXT NOT NULL''), (''workspace'', ''TEXT NOT NULL''),
      (''rule_id'', ''TEXT NOT NULL''), (''resource_id'', ''TEXT NOT NULL''), (''state'', ''TEXT NOT NULL''),
      (''feishu_message_id'', ''TEXT NOT NULL DEFAULT '' @ [CHR 0x27, CHR 0x27]),
      (''alert_at'', ''INTEGER NOT NULL''), (''created_at'', ''INTEGER NOT NULL''), (''updated_at'', ''INTEGER NOT NULL'')]"

definition lease_column :: column where
  "lease_column = (''lease_until'', ''INTEGER NOT NULL DEFAULT 0'')"

definition jobs_columns :: "column list" where
  "jobs_columns =
     [(''id'', ''TEXT PRIMARY KEY''), (''incident_id'', ''TEXT NOT NULL''), (''status'', ''TEXT NOT NULL''),
      (''worker_id'', ''TEXT NOT NULL DEFAULT '' @ [CHR 0x27, CHR 0x27]),
      (''attempt'', ''INTEGER NOT NULL DEFAULT 0''), (''run_after'', ''INTEGER NOT NULL''), lease_column]"

definition evidence_columns :: "column list" where
  "evidence_columns =
     [(''id'', ''TEXT PRIMARY KEY''), (''incident_id'', ''TEXT NOT NULL''), (''evidence_json'', ''TEXT NOT NULL''),
      (''created_at'', ''INTEGER NOT NULL'')]"

definition migrate_statements :: "statement list" where
  "migrate_statements =
     [CreateTable ''incidents'' incidents_columns,
      CreateIndex ''incidents_active_key'' ''incidents'' [''incident_key'', ''state''],
      CreateTable ''jobs'' jobs_columns,
      CreateIndex ''jobs_claimable'' ''jobs'' [''status'', ''run_after''],
      CreateTable ''evidence_snapshots'' evidence_columns,
      CreateTable ''evidence_records'' evidence_columns]"

fun exec_statements ::
    "(nat \<Rightarrow> go_error option) \<Rightarrow> nat \<Rightarrow> statement list \<Rightarrow> schema \<Rightarrow> unit res \<times> schema" where
  "exec_statements fault n [] s = (Inr (), s)"
| "exec_statements fault n (st # sts) s =
     (case try_statement fault n st s of
        (Inl err, s) \<Rightarrow> (Inl err, s)
      | (Inr _, s) \<Rightarrow> exec_statements fault (Suc n) sts s)"

text \<open>\<^verbatim>\<open>PRAGMA table_info(jobs)\<close> (steps 6 and 7: the query and its rows) and the repair.\<close>

fun lease_loop :: "bool \<Rightarrow> column list \<Rightarrow> bool" where
  "lease_loop hasLeaseUntil [] = hasLeaseUntil"
| "lease_loop hasLeaseUntil (c # cs) =
     (if fst c = ''lease_until'' then lease_loop True cs else lease_loop hasLeaseUntil cs)"

definition table_info :: "schema \<Rightarrow> string \<Rightarrow> column list" where
  "table_info s t = (case columns_of s t of None \<Rightarrow> [] | Some cols \<Rightarrow> cols)"

definition add_lease :: "(nat \<Rightarrow> go_error option) \<Rightarrow> schema \<Rightarrow> unit res \<times> schema" where
  "add_lease fault s =
     (case fault 6 of
        Some err \<Rightarrow> (Inl err, s)
      | None \<Rightarrow>
        (case fault 7 of
           Some err \<Rightarrow> (Inl err, s)
         | None \<Rightarrow>
             if lease_loop False (table_info s ''jobs'') then (Inr (), s)
             else try_statement fault 8 (AddColumn ''jobs'' lease_column) s))"

definition migrate :: "(nat \<Rightarrow> go_error option) \<Rightarrow> schema \<Rightarrow> unit res \<times> schema" where
  "migrate fault s =
     (case exec_statements fault 0 migrate_statements s of
        (Inl err, s) \<Rightarrow> (Inl err, s)
      | (Inr _, s) \<Rightarrow> add_lease fault s)"

text \<open>\<^verbatim>\<open>Open\<close>: the driver's \<^verbatim>\<open>sql.Open\<close>, then the migration; the result is usable.\<close>

definition Open :: "go_error option \<Rightarrow> (nat \<Rightarrow> go_error option) \<Rightarrow> schema \<Rightarrow> unit res \<times> schema" where
  "Open driver_error fault s =
     (case driver_error of
        Some err \<Rightarrow> (Inl err, s)
      | None \<Rightarrow>
        (case migrate fault s of
           (Inl err, s) \<Rightarrow> (Inl err, s)
         | (Inr _, s) \<Rightarrow> (Inr (), s)))"

section \<open>What a migration leaves\<close>

definition schema_le :: "schema \<Rightarrow> schema \<Rightarrow> bool" where
  "schema_le s s' \<longleftrightarrow>
     (\<forall>t cols. columns_of s t = Some cols \<longrightarrow> (\<exists>more. columns_of s' t = Some (cols @ more))) \<and>
     set (sm_indexes s) \<subseteq> set (sm_indexes s')"

lemma schema_le_refl: "schema_le s s"
  by (simp add: schema_le_def)

lemma schema_le_trans: "schema_le s s' \<Longrightarrow> schema_le s' s'' \<Longrightarrow> schema_le s s''"
  unfolding schema_le_def by (intro conjI allI impI) (metis append_assoc, blast)

lemma columns_map:
  "map_of (map (\<lambda>(u, us). (u, if u = t then us @ [c] else us)) ts) u =
     map_option (\<lambda>us. if u = t then us @ [c] else us) (map_of ts u)"
  by (induction ts) auto

lemma exec_statement_le: "exec_statement st s = (r, s') \<Longrightarrow> schema_le s s'"
proof (cases st)
  case (AddColumn t c)
  assume "exec_statement st s = (r, s')"
  with AddColumn consider "s' = s" |
    "s' = s\<lparr>sm_tables := map (\<lambda>(u, us). (u, if u = t then us @ [c] else us)) (sm_tables s)\<rparr>"
    by (auto split: option.splits if_splits)
  then show ?thesis
  proof cases
    case 2
    then show ?thesis by (auto simp: schema_le_def columns_of_def columns_map)
  qed (simp add: schema_le_refl)
qed (auto simp: schema_le_def columns_of_def map_add_def split: if_splits option.splits)

lemma try_statement_le: "try_statement fault n st s = (r, s') \<Longrightarrow> schema_le s s'"
  by (auto simp: try_statement_def schema_le_refl split: option.splits dest: exec_statement_le)

lemma exec_statements_le: "exec_statements fault n sts s = (r, s') \<Longrightarrow> schema_le s s'"
proof (induction sts arbitrary: n s)
  case (Cons st sts)
  obtain q s1 where q: "try_statement fault n st s = (q, s1)" by fastforce
  then have "schema_le s s1" by (rule try_statement_le)
  with Cons q show ?case by (cases q) (auto intro: schema_le_trans)
qed (simp add: schema_le_refl)

lemma lease_loop_iff: "lease_loop b cols \<longleftrightarrow> b \<or> ''lease_until'' \<in> fst ` set cols"
  by (induction b cols rule: lease_loop.induct) auto

lemma add_lease_le: "add_lease fault s = (r, s') \<Longrightarrow> schema_le s s'"
  by (auto simp: add_lease_def schema_le_refl split: option.splits if_splits dest: try_statement_le)

text \<open>What a statement makes exist, and that it exists from then on.\<close>

fun provides :: "statement \<Rightarrow> schema \<Rightarrow> bool" where
  "provides (CreateTable t cols) s \<longleftrightarrow> columns_of s t \<noteq> None"
| "provides (CreateIndex i t cs) s \<longleftrightarrow> i \<in> set (sm_indexes s)"
| "provides (AddColumn t c) s \<longleftrightarrow> has_column s t (fst c)"

lemma provides_mono: "provides st s \<Longrightarrow> schema_le s s' \<Longrightarrow> provides st s'"
  by (cases st) (fastforce simp: schema_le_def has_column_def)+

lemma try_provides: "try_statement fault n st s = (Inr x, s') \<Longrightarrow> provides st s'"
  by (cases st)
    (auto simp: try_statement_def columns_of_def columns_map has_column_def map_add_def
      split: option.splits if_splits)

lemma exec_provides: "exec_statements fault n sts s = (Inr x, s') \<Longrightarrow> \<forall>st \<in> set sts. provides st s'"
proof (induction sts arbitrary: n s)
  case (Cons st sts)
  then obtain y s1 where y: "try_statement fault n st s = (Inr y, s1)"
    and rest: "exec_statements fault (Suc n) sts s1 = (Inr x, s')"
    by (auto split: prod.splits sum.splits)
  from try_provides [OF y] exec_statements_le [OF rest] have "provides st s'" by (rule provides_mono)
  with Cons.IH [OF rest] show ?case by simp
qed simp

lemma exec_provided:
  "\<forall>st \<in> set sts. provides st s \<and> (\<forall>t c. st \<noteq> AddColumn t c) \<Longrightarrow> exec_statements (\<lambda>_. None) n sts s = (Inr (), s)"
proof (induction sts arbitrary: n)
  case (Cons st sts)
  then have "try_statement (\<lambda>_. None) n st s = (Inr (), s)"
    by (cases st) (auto simp: try_statement_def)
  with Cons show ?case by simp
qed simp

text \<open>
  C38 (migration_repairs_and_repeats). A migration that succeeds, on an empty file, a current one
  or one of the older layout without \<^verbatim>\<open>lease_until\<close>, leaves every table and both indexes in
  place and the lease column on the jobs, keeps every table and column that was there in its
  position, and repeated on the result it succeeds and changes nothing; a migration that fails
  loses nothing either.
\<close>

theorem migration_repairs_and_repeats:
  assumes "migrate fault s = (r, s')"
  shows "(\<forall>t cols. columns_of s t = Some cols \<longrightarrow> (\<exists>more. columns_of s' t = Some (cols @ more))) \<and>
    (r = Inr () \<longrightarrow>
       list_all (\<lambda>t. columns_of s' t \<noteq> None) [''incidents'', ''jobs'', ''evidence_snapshots'', ''evidence_records''] \<and>
       {''incidents_active_key'', ''jobs_claimable''} \<subseteq> set (sm_indexes s') \<and>
       has_column s' ''jobs'' ''lease_until'' \<and> migrate (\<lambda>_. None) s' = (Inr (), s'))"
proof -
  obtain q s1 where q: "exec_statements fault 0 migrate_statements s = (q, s1)" by fastforce
  note le1 = exec_statements_le [OF q]
  have le: "schema_le s s'"
  proof (cases q)
    case (Inr x)
    with q assms have "add_lease fault s1 = (r, s')" by (simp add: migrate_def)
    with add_lease_le le1 show ?thesis by (blast intro: schema_le_trans)
  qed (use q assms le1 in \<open>simp add: migrate_def\<close>)
  have "list_all (\<lambda>t. columns_of s' t \<noteq> None) [''incidents'', ''jobs'', ''evidence_snapshots'', ''evidence_records''] \<and>
      {''incidents_active_key'', ''jobs_claimable''} \<subseteq> set (sm_indexes s') \<and>
      has_column s' ''jobs'' ''lease_until'' \<and> migrate (\<lambda>_. None) s' = (Inr (), s')" if "r = Inr ()"
  proof -
    from that assms q obtain x where x: "q = Inr x" and add: "add_lease fault s1 = (Inr (), s')"
      by (cases q) (auto simp: migrate_def)
    have all: "\<forall>st \<in> set migrate_statements. provides st s'"
      using exec_provides [OF q [unfolded x]] add_lease_le [OF add] provides_mono by blast
    then have jobs: "columns_of s' ''jobs'' \<noteq> None" and tables:
      "list_all (\<lambda>t. columns_of s' t \<noteq> None) [''incidents'', ''jobs'', ''evidence_snapshots'', ''evidence_records'']"
      "{''incidents_active_key'', ''jobs_claimable''} \<subseteq> set (sm_indexes s')"
      by (simp_all add: migrate_statements_def)
    have lease: "has_column s' ''jobs'' ''lease_until''"
    proof (cases "lease_loop False (table_info s1 ''jobs'')")
      case True
      then have "has_column s1 ''jobs'' ''lease_until''"
        by (cases "columns_of s1 ''jobs''") (force simp: lease_loop_iff table_info_def has_column_def)+
      moreover have "s1 = s'" using add True by (auto simp: add_lease_def split: option.splits)
      ultimately show ?thesis by simp
    next
      case False
      then have "try_statement fault 8 (AddColumn ''jobs'' lease_column) s1 = (Inr (), s')"
        using add by (auto simp: add_lease_def split: option.splits)
      from try_provides [OF this] show ?thesis by (simp add: lease_column_def)
    qed
    have "exec_statements (\<lambda>_. None) 0 migrate_statements s' = (Inr (), s')"
      using all by (intro exec_provided) (auto simp: migrate_statements_def)
    moreover have "add_lease (\<lambda>_. None) s' = (Inr (), s')"
      using lease by (auto simp: add_lease_def lease_loop_iff table_info_def has_column_def)
    ultimately show ?thesis using tables lease by (simp add: migrate_def)
  qed
  with le show ?thesis by (simp add: schema_le_def)
qed

text \<open>A file of the layout before leases.\<close>

definition old_schema :: schema where
  "old_schema = \<lparr>sm_tables = [(''jobs'', butlast jobs_columns)], sm_indexes = []\<rparr>"

lemma migration_repairs_and_repeats_witness:
  "\<exists>s'. migrate (\<lambda>_. None) old_schema = (Inr (), s') \<and> has_column s' ''jobs'' ''lease_until''"
proof -
  have "fst (migrate (\<lambda>_. None) old_schema) = Inr ()"
    by (simp add: migrate_def migrate_statements_def try_statement_def old_schema_def columns_of_def has_column_def
        incidents_columns_def jobs_columns_def evidence_columns_def lease_column_def add_lease_def table_info_def)
  then obtain s' where run: "migrate (\<lambda>_. None) old_schema = (Inr (), s')" by (metis prod.collapse)
  from migration_repairs_and_repeats [OF run] run show ?thesis by simp
qed

end
