(* ===== verification/Wiring.thy ===== *)
theory Wiring
  imports Commands Feishu Worker Gateway Runtime
begin

text \<open>
  How the programs are put together: credentials and cloud clients
  (\<^verbatim>\<open>internal/aliyunauth\<close>, the constructors of \<^verbatim>\<open>internal/provider\<close> and
  \<^verbatim>\<open>internal/modelsync\<close>), and the \<^verbatim>\<open>run\<close> functions of \<^verbatim>\<open>cmd/sre-worker\<close> and
  \<^verbatim>\<open>cmd/sre-gateway\<close>, over the components' own models. The vendor's constructors, the
  opening of the database, the host name and the HTTP server are parameters.
\<close>

section \<open>Credentials and clients\<close>

record credential_config =
  cc_type :: string
  cc_disable_imdsv1 :: bool
  cc_role_name :: "string option"

definition ecs_credential_config :: "string \<Rightarrow> credential_config" where
  "ecs_credential_config roleName =
     \<lparr>cc_type = ''ecs_ram_role'', cc_disable_imdsv1 = True,
      cc_role_name = (if roleName \<noteq> '''' then Some roleName else None)\<rparr>"

definition NewECSRAMRoleCredential :: "(credential_config \<Rightarrow> 'c res) \<Rightarrow> string \<Rightarrow> 'c res" where
  "NewECSRAMRoleCredential newCredential roleName = newCredential (ecs_credential_config roleName)"

record 'c client_config =
  cl_Endpoint :: string
  cl_RegionId :: string
  cl_Credential :: 'c

definition service_config :: "string \<Rightarrow> string \<Rightarrow> 'c \<Rightarrow> 'c client_config" where
  "service_config service region credential =
     \<lparr>cl_Endpoint = service @ ''.'' @ region @ ''.aliyuncs.com'', cl_RegionId = region, cl_Credential = credential\<rparr>"

definition NewAliyunSDKClient ::
    "(credential_config \<Rightarrow> 'c res) \<Rightarrow>
       ('c client_config \<Rightarrow> (Params \<Rightarrow> OpenApiRequest \<Rightarrow> 'w \<Rightarrow> string res \<times> 'w) res) \<Rightarrow>
       ('c client_config \<Rightarrow> (string \<Rightarrow> string \<Rightarrow> GetLogsRequest \<Rightarrow> 'w \<Rightarrow> string res \<times> 'w) res) \<Rightarrow>
       string \<Rightarrow> string \<Rightarrow> 'w SDKAliyunClient res" where
  "NewAliyunSDKClient newCredential openapi sls region ecsRAMRoleName =
     (if region = '''' then Inl (ErrNew ''aliyun region is required'')
      else case NewECSRAMRoleCredential newCredential ecsRAMRoleName of
        Inl err \<Rightarrow> Inl (ErrWrap ''create ECS RAM role credential: '' err '''')
      | Inr credential \<Rightarrow>
        (case openapi (service_config ''cms'' region credential) of
           Inl err \<Rightarrow> Inl (ErrWrap ''create CMS OpenAPI client: '' err '''')
         | Inr cms \<Rightarrow>
           (case openapi (service_config ''actiontrail'' region credential) of
              Inl err \<Rightarrow> Inl (ErrWrap ''create ActionTrail OpenAPI client: '' err '''')
            | Inr actionTrail \<Rightarrow>
              (case sls \<lparr>cl_Endpoint = region @ ''.log.aliyuncs.com'', cl_RegionId = region, cl_Credential = credential\<rparr> of
                 Inl err \<Rightarrow> Inl (ErrWrap ''create SLS OpenAPI client: '' err '''')
               | Inr slsClient \<Rightarrow>
                   Inr \<lparr>sdk_cms = cms, sdk_actionTrail = actionTrail, sdk_sls = slsClient\<rparr>))))"

text \<open>The log client of the writer takes an endpoint and the role; it has no error.\<close>

definition NewCMSWriter ::
    "(credential_config \<Rightarrow> 'c res) \<Rightarrow>
       ('c client_config \<Rightarrow> (Params \<Rightarrow> OpenApiRequest \<Rightarrow> 'w \<Rightarrow> json res \<times> 'w) res) \<Rightarrow>
       (string \<Rightarrow> string \<Rightarrow> string \<Rightarrow> string \<Rightarrow> LogGroup \<Rightarrow> 'w \<Rightarrow> unit res \<times> 'w) \<Rightarrow>
       string \<Rightarrow> string \<Rightarrow> 'w CMSWriter res" where
  "NewCMSWriter newCredential openapi logs region ecsRAMRoleName =
     (if region = '''' then Inl (ErrNew ''aliyun region is required'')
      else case NewECSRAMRoleCredential newCredential ecsRAMRoleName of
        Inl err \<Rightarrow> Inl (ErrWrap ''create ECS RAM role credential: '' err '''')
      | Inr credential \<Rightarrow>
        (case openapi (service_config ''cms'' region credential) of
           Inl err \<Rightarrow> Inl (ErrWrap ''create CMS EntityStore inspector: '' err '''')
         | Inr client \<Rightarrow>
             Inr \<lparr>cw_client = Some client,
                  cw_PutLogs = Some (logs (region @ ''-intranet.log.aliyuncs.com'') ecsRAMRoleName)\<rparr>))"

definition NewEvidenceService ::
    "digests \<Rightarrow> 'f float64 \<Rightarrow> sources \<Rightarrow> (string \<Rightarrow> string \<Rightarrow> 'w AliyunAPI res) \<Rightarrow> Config \<Rightarrow>
       (string \<Rightarrow> 'w \<Rightarrow> Incident res \<times> 'w) option \<Rightarrow> 'w EvidenceLookup \<Rightarrow> 'w Service res" where
  "NewEvidenceService dg fl src newAliyunEvidenceClient cfg repo lookup =
     (case newAliyunEvidenceClient (cf_Region cfg) (cf_ECSRAMRoleName cfg) of
        Inl err \<Rightarrow> Inl err
      | Inr cloud \<Rightarrow> newEvidenceService dg fl src cfg repo lookup (Some cloud))"

section \<open>The worker\<close>

definition feishuBaseURL :: string where "feishuBaseURL = ''https://open.feishu.cn/open-apis''"

definition configured_client ::
    "(string \<Rightarrow> go_error option) \<Rightarrow> (http_request \<Rightarrow> 'w \<Rightarrow> http_response res \<times> 'w) \<Rightarrow> Config \<Rightarrow> 'w feishu_client" where
  "configured_client url_error do_request cfg =
     NewClient feishuBaseURL (cf_AppID cfg) (cf_AppSecret cfg) (cf_ChatID cfg) url_error do_request"

text \<open>The client as the worker's \<^verbatim>\<open>Cards\<close> and the service as its \<^verbatim>\<open>Evidence\<close>.\<close>

definition feishu_cards :: "(rat \<Rightarrow> string) \<Rightarrow> 'w feishu_client \<Rightarrow> 'w Cards" where
  "feishu_cards percent c =
     \<lparr>cd_CreateIncidentCard = CreateIncidentCard percent c, cd_UpdateIncidentCard = UpdateIncidentCard percent c\<rparr>"

definition service_queries :: "'w Service \<Rightarrow> 'w EvidenceQueries" where
  "service_queries s =
     \<lparr>eq_Context = sv_Context s, eq_Metrics = sv_Metrics s, eq_Logs = sv_Logs s, eq_Changes = sv_Changes s\<rparr>"

record 'w worker_env =
  we_Load :: "string \<Rightarrow> Config res"
  we_Open :: "string \<Rightarrow> 'w Repository res"
  we_NewEvidenceService :: "Config \<Rightarrow> 'w Repository \<Rightarrow> 'w Service res"
  we_Hostname :: "string res"
  we_cards :: "Config \<Rightarrow> 'w Cards"
  we_Run :: "Runner \<Rightarrow> string \<Rightarrow> EvidenceCollection list \<Rightarrow> 'w \<Rightarrow> RCAResult res \<times> 'w"
  we_now :: "'w \<Rightarrow> time"
  we_signals :: "nat \<Rightarrow> signal"

text \<open>
  The result is the error with which \<^verbatim>\<open>run\<close> returns, or the log lines of the loop and the
  world after it (\<^const>\<open>None\<close> while it goes on).
\<close>

definition worker_run ::
    "'w worker_env \<Rightarrow> string \<Rightarrow> 'w \<Rightarrow> go_error + (string list \<times> 'w) option" where
  "worker_run env configPath w =
     (case we_Load env configPath of
        Inl err \<Rightarrow> Inl (ErrWrap ''load worker config: '' err '''')
      | Inr cfg \<Rightarrow>
        (case worker_settings cfg of
           Inl err \<Rightarrow> Inl err
         | Inr (interval, timeout, runner) \<Rightarrow>
           (case we_Open env (cf_StateDB cfg) of
              Inl err \<Rightarrow> Inl (ErrWrap ''open worker state DB: '' err '''')
            | Inr repo \<Rightarrow>
              (case we_NewEvidenceService env cfg repo of
                 Inl err \<Rightarrow> Inl (ErrWrap ''compose evidence service: '' err '''')
               | Inr service \<Rightarrow>
                 (case we_Hostname env of
                    Inl err \<Rightarrow> Inl (ErrWrap ''read worker hostname: '' err '''')
                  | Inr hostname \<Rightarrow>
                      (let configuredWorker =
                         New repo (we_cards env cfg) (service_queries service) (we_Run env runner)
                           (''sre-worker-'' @ hostname) (we_now env)
                       in Inr (runLoop (we_signals env) (\<lambda>timeout. RunOne configuredWorker) timeout w)))))))"

section \<open>The gateway\<close>

definition NewGatewayWithNotifier ::
    "string \<Rightarrow> string \<Rightarrow> 'w incidentRepository \<Rightarrow> 'w RecoveryNotifier option \<Rightarrow>
       (string \<Rightarrow> string \<Rightarrow> 'w \<Rightarrow> string res \<times> 'w) \<Rightarrow> ('w \<Rightarrow> string) \<Rightarrow> ('w \<Rightarrow> time) \<Rightarrow> request \<Rightarrow> 'w \<Rightarrow> response \<times> 'w" where
  "NewGatewayWithNotifier callbackToken captureDir repo notifier save fresh now =
     newGateway \<lparr>gt_token = callbackToken, gt_capture_dir = captureDir, gt_repo = Some repo,
       gt_notifier = notifier, gt_save = save, gt_fresh = fresh, gt_now = now\<rparr>"

definition NewGateway ::
    "string \<Rightarrow> string \<Rightarrow> 'w incidentRepository list \<Rightarrow>
       (string \<Rightarrow> string \<Rightarrow> 'w \<Rightarrow> string res \<times> 'w) \<Rightarrow> ('w \<Rightarrow> string) \<Rightarrow> ('w \<Rightarrow> time) \<Rightarrow> request \<Rightarrow> 'w \<Rightarrow> response \<times> 'w" where
  "NewGateway callbackToken captureDir repositories save fresh now =
     newGateway \<lparr>gt_token = callbackToken, gt_capture_dir = captureDir,
       gt_repo = (if repositories \<noteq> [] then Some (hd repositories) else None),
       gt_notifier = None, gt_save = save, gt_fresh = fresh, gt_now = now\<rparr>"

definition newGatewayHandler ::
    "(string \<Rightarrow> string \<Rightarrow> 'w \<Rightarrow> string res \<times> 'w) \<Rightarrow> ('w \<Rightarrow> string) \<Rightarrow> ('w \<Rightarrow> time) \<Rightarrow> Config \<Rightarrow>
       'w incidentRepository \<Rightarrow> 'w RecoveryNotifier option \<Rightarrow> request \<Rightarrow> 'w \<Rightarrow> response \<times> 'w" where
  "newGatewayHandler save fresh now cfg repo notifier =
     NewGatewayWithNotifier (cf_CallbackToken cfg) (cf_CallbackCaptureDir cfg) repo notifier save fresh now"

text \<open>
  \<^theory_text>\<open>serve\<close> is what happens to the configured server and its handler until it stops: what
  \<^verbatim>\<open>ListenAndServe\<close> and \<^verbatim>\<open>Shutdown\<close> returned.
\<close>

record 'w gateway_env =
  ge_Load :: "string \<Rightarrow> Config res"
  ge_Open :: "string \<Rightarrow> 'w incidentRepository res"
  ge_client :: "Config \<Rightarrow> 'w feishu_client"
  ge_percent :: "rat \<Rightarrow> string"
  ge_save :: "string \<Rightarrow> string \<Rightarrow> 'w \<Rightarrow> string res \<times> 'w"
  ge_fresh :: "'w \<Rightarrow> string"
  ge_now :: "'w \<Rightarrow> time"
  ge_serve :: "http_server \<Rightarrow> (request \<Rightarrow> 'w \<Rightarrow> response \<times> 'w) \<Rightarrow>
     go_error option option \<times> go_error option \<times> go_error option"

definition gateway_run :: "'w gateway_env \<Rightarrow> string \<Rightarrow> go_error option" where
  "gateway_run env configPath =
     (case ge_Load env configPath of
        Inl err \<Rightarrow> Some (ErrWrap ''load gateway config: '' err '''')
      | Inr cfg \<Rightarrow>
        (case validateGatewayConfig cfg of
           Inl err \<Rightarrow> Some err
         | Inr _ \<Rightarrow>
           (case ge_Open env (cf_StateDB cfg) of
              Inl err \<Rightarrow> Some (ErrWrap ''open gateway state DB: '' err '''')
            | Inr repo \<Rightarrow>
              (let notifier = map_option (UpdateIncidentCard (ge_percent env)) (newGatewayNotifier (ge_client env) cfg);
                   handler = newGatewayHandler (ge_save env) (ge_fresh env) (ge_now env) cfg repo notifier
               in case ge_serve env (newGatewayServer (cf_ListenAddr cfg)) handler of
                 (served, shutdown, served_after) \<Rightarrow> serveGateway served shutdown served_after))))"

section \<open>What starts\<close>

text \<open>
  A worker that starts has been enabled, has its Feishu application and chat configured, and
  gives every turn the time it gives the child process.
\<close>

lemma worker_starts_configured:
  assumes "worker_run env path w = Inr out"
  shows "\<exists>cfg repo service hostname. we_Load env path = Inr cfg \<and> cf_Enabled cfg \<and>
    cf_AppID cfg \<noteq> '''' \<and> cf_AppSecret cfg \<noteq> '''' \<and> cf_ChatID cfg \<noteq> '''' \<and>
    we_Open env (cf_StateDB cfg) = Inr repo \<and> we_NewEvidenceService env cfg repo = Inr service \<and>
    we_Hostname env = Inr hostname \<and>
    (out \<noteq> None \<longleftrightarrow> (\<exists>n. we_signals env n = Done))"
proof -
  from assms obtain cfg repo service hostname turn timeout where "we_Load env path = Inr cfg" "cf_Enabled cfg"
    "cf_AppID cfg \<noteq> ''''" "cf_AppSecret cfg \<noteq> ''''" "cf_ChatID cfg \<noteq> ''''"
    "we_Open env (cf_StateDB cfg) = Inr repo" "we_NewEvidenceService env cfg repo = Inr service"
    "we_Hostname env = Inr hostname" and out: "out = runLoop (we_signals env) turn timeout w"
    by (auto simp: worker_run_def worker_settings_def validateWorkerConfig_def Let_def split: sum.splits if_splits)
  moreover have "out \<noteq> None \<longleftrightarrow> (\<exists>n. we_signals env n = Done)"
    unfolding out by (rule runLoop_ends)
  ultimately show ?thesis by blast
qed

text \<open>A gateway that starts never runs without a callback token: an unauthenticated caller stays one.\<close>

lemma gateway_starts_with_token:
  assumes "gateway_run (env\<lparr>ge_serve := serve\<rparr>) path \<noteq> gateway_run (env\<lparr>ge_serve := serve'\<rparr>) path"
  shows "\<exists>cfg. ge_Load env path = Inr cfg \<and> cf_CallbackToken cfg \<noteq> ''''"
  using assms
  by (auto simp: gateway_run_def validateGatewayConfig_def Let_def split: sum.splits if_splits)

end
