(* ===== verification/JsonRoundTrip.thy ===== *)
theory JsonRoundTrip
  imports GoEncode
begin

text \<open>
  The decoder of JSON reads back what the encoder wrote: strings of valid UTF-8 with all their
  escapes, numbers, and values of any nesting up to the decoder's limit. A text that the encoder
  wrote may be followed by what follows a value in an array, an object or a document.
\<close>

section \<open>Valid UTF-8\<close>

definition valid_rune :: "nat \<times> string \<Rightarrow> bool" where
  "valid_rune x \<longleftrightarrow> \<not> (fst x = RuneError \<and> length (snd x) = 1)"

definition valid_utf8 :: "string \<Rightarrow> bool" where
  "valid_utf8 s \<longleftrightarrow> list_all valid_rune (runes s)"

lemma chr_byte [simp]: "chr (byte c) = c"
  by (simp add: chr_def byte_def)

lemma byte_less: "byte c < 256"
  by (simp add: byte_def)

lemma split_64: "z < 64 \<Longrightarrow> (p * 64 + z) div 64 = (p :: nat)" "z < 64 \<Longrightarrow> (p * 64 + z) mod 64 = (z :: nat)"
  by simp_all

lemma div_64s: "n div 4096 = n div 64 div (64 :: nat)" "n div 262144 = n div 64 div 64 div (64 :: nat)"
  by (simp_all flip: div_mult2_eq)

text \<open>What a valid multi-byte sequence looks like.\<close>

lemma decode_rune_cases:
  assumes "decode_rune (a # s) = (r, n)"
  obtains (ascii) "byte a < 128" "r = byte a" "n = 1"
  | (invalid) "r = RuneError" "n = 1" "128 \<le> byte a"
  | (two) b t where "s = b # t" "194 \<le> byte a" "byte a \<le> 223" "cont b" "r = rune2 a b" "n = 2"
  | (three) b c t where "s = b # c # t" "224 \<le> byte a" "byte a \<le> 239" "second_ok (byte a) b" "cont c"
      "r = rune3 a b c" "n = 3"
  | (four) b c d t where "s = b # c # d # t" "240 \<le> byte a" "byte a \<le> 244" "second_ok (byte a) b" "cont c" "cont d"
      "r = rune4 a b c d" "n = 4"
  using assms unfolding decode_rune.simps(2) Let_def
  by (auto split: if_splits list.splits)

lemma encode_rune2:
  assumes "194 \<le> byte a" and "byte a \<le> 223" and "cont b"
  shows "encode_rune (rune2 a b) = [a, b]"
proof -
  define x y where "x = byte a - 192" and "y = byte b - 128"
  have a: "byte a = 192 + x" "2 \<le> x" "x < 32" and b: "byte b = 128 + y" "y < 64"
    using assms by (auto simp: x_def y_def cont_def)
  have r: "rune2 a b = x * 64 + y" by (simp add: rune2_def x_def y_def)
  have "\<not> x * 64 + y < 128" "x * 64 + y < 2048" "(x * 64 + y) div 64 = x" "(x * 64 + y) mod 64 = y"
    using a b by auto
  then show ?thesis
    using a(1) b(1) by (simp add: encode_rune_def r) (metis chr_byte)
qed

lemma encode_rune3:
  assumes "224 \<le> byte a" and "byte a \<le> 239" and "second_ok (byte a) b" and "cont c"
  shows "encode_rune (rune3 a b c) = [a, b, c]"
proof -
  define x y z where "x = byte a - 224" and "y = byte b - 128" and "z = byte c - 128"
  have a: "byte a = 224 + x" "x < 16" and b: "byte b = 128 + y" "y < 64" and c: "byte c = 128 + z" "z < 64"
    using assms by (auto simp: x_def y_def z_def cont_def second_ok_def split: if_splits)
  have low: "x = 0 \<Longrightarrow> 32 \<le> y"
    using assms(3) a(1) b(1) by (auto simp: second_ok_def)
  have r: "rune3 a b c = (x * 64 + y) * 64 + z" by (simp add: rune3_def x_def y_def z_def)
  have "2048 \<le> (x * 64 + y) * 64 + z" using low by (cases "x = 0") auto
  moreover have "(x * 64 + y) * 64 + z < 65536" using a b c by simp
  moreover have "((x * 64 + y) * 64 + z) div 4096 = x" "((x * 64 + y) * 64 + z) div 64 mod 64 = y"
    "((x * 64 + y) * 64 + z) mod 64 = z"
    unfolding div_64s split_64 [OF c(2)] split_64 [OF b(2)] by (rule refl)+
  ultimately show ?thesis
    using a(1) b(1) c(1) by (simp add: encode_rune_def r) (metis chr_byte)
qed

lemma encode_rune4:
  assumes "240 \<le> byte a" and "byte a \<le> 244" and "second_ok (byte a) b" and "cont c" and "cont d"
  shows "encode_rune (rune4 a b c d) = [a, b, c, d]"
proof -
  define x y z u where "x = byte a - 240" and "y = byte b - 128" and "z = byte c - 128" and "u = byte d - 128"
  have a: "byte a = 240 + x" "x < 5" and b: "byte b = 128 + y" "y < 64"
    and c: "byte c = 128 + z" "z < 64" and d: "byte d = 128 + u" "u < 64"
    using assms by (auto simp: x_def y_def z_def u_def cont_def second_ok_def split: if_splits)
  have low: "x = 0 \<Longrightarrow> 16 \<le> y"
    using assms(3) a(1) b(1) by (auto simp: second_ok_def)
  have r: "rune4 a b c d = ((x * 64 + y) * 64 + z) * 64 + u" by (simp add: rune4_def x_def y_def z_def u_def)
  have "65536 \<le> ((x * 64 + y) * 64 + z) * 64 + u" using low by (cases "x = 0") auto
  moreover have "(((x * 64 + y) * 64 + z) * 64 + u) div 262144 = x"
    "(((x * 64 + y) * 64 + z) * 64 + u) div 4096 mod 64 = y"
    "(((x * 64 + y) * 64 + z) * 64 + u) div 64 mod 64 = z" "(((x * 64 + y) * 64 + z) * 64 + u) mod 64 = u"
    unfolding div_64s split_64 [OF d(2)] split_64 [OF c(2)] split_64 [OF b(2)] by (rule refl)+
  ultimately show ?thesis
    using a(1) b(1) c(1) d(1) by (simp add: encode_rune_def r) (metis chr_byte)
qed

lemma encode_decode_rune:
  assumes "decode_rune (a # s) = (r, n)" and "\<not> (r = RuneError \<and> n = 1)"
  shows "encode_rune r = take n (a # s)"
  using assms(1)
proof (cases rule: decode_rune_cases)
  case ascii
  then show ?thesis by (simp add: encode_rune_def)
qed (use assms(2) in \<open>simp_all add: encode_rune2 encode_rune3 encode_rune4\<close>)

text \<open>A valid sequence decodes the same before any other text.\<close>

lemma decode_rune_prefix:
  assumes "decode_rune (a # s) = (r, n)" and "\<not> (r = RuneError \<and> n = 1)"
  shows "decode_rune (take n (a # s) @ t) = (r, n)"
  using assms(1)
proof (cases rule: decode_rune_cases)
  case ascii
  then show ?thesis by (simp add: decode_rune_ascii)
qed (use assms(2) in \<open>auto simp: decode_rune.simps(2) Let_def\<close>)

section \<open>Strings\<close>

lemma ascii_rune:
  assumes "decode_rune (a # s) = (r, n)" and "r < 128"
  shows "byte a = r" "n = 1" "take n (a # s) = [a]" "chr r = a"
proof -
  have "byte a < 128" using assms decode_rune_high [of a s] by (cases "byte a < 128") auto
  with assms show "byte a = r" "n = 1" "take n (a # s) = [a]" "chr r = a"
    by (auto simp: decode_rune_ascii)
qed

lemma parse_string_escape:
  "parse_string (CHR 0x5C # s) =
     (case unescape s of
        None \<Rightarrow> None
      | Some (out, n) \<Rightarrow> map_option (\<lambda>p. (out @ fst p, snd p)) (parse_string (drop n s)))"
  by (auto simp: parse_string.simps(2) split: option.split)

lemma parse_string_plain_rune:
  assumes d: "decode_rune (a # s) = (r, n)" and v: "\<not> (r = RuneError \<and> n = 1)"
    and r: "32 \<le> r" "r \<noteq> 34" "r \<noteq> 92"
  shows "parse_string (take n (a # s) @ u) = map_option (\<lambda>p. (take n (a # s) @ fst p, snd p)) (parse_string u)"
proof -
  have n: "1 \<le> n" using decode_rune_width [of a s] d by simp
  then obtain m where m: "take n (a # s) = a # m" by (cases n) auto
  have len: "n = length (take n (a # s))"
    using d by (cases rule: decode_rune_cases) simp_all
  have a: "a \<noteq> CHR 0x22" "a \<noteq> CHR 0x5C" "\<not> byte a < 32"
    using decode_rune_ascii [of a s] d r by (cases "byte a < 128"; auto simp: byte_def)+
  have dec: "decode_rune (a # m @ u) = (r, n)"
    using decode_rune_prefix [OF d v, of u] m by simp
  have enc: "encode_rune r = a # m" using encode_decode_rune [OF d v] m by simp
  have "drop n (a # m @ u) = u" using len m by (metis append_Cons append_eq_conv_conj)
  with a dec enc show ?thesis
    by (auto simp: m parse_string.simps(2) split: option.split)
qed

lemma getu4_digits:
  "i < 16 \<Longrightarrow> j < 16 \<Longrightarrow>
     getu4 (CHR ''0'' # CHR ''0'' # ''0123456789abcdef'' ! i # ''0123456789abcdef'' ! j # u) = Some (i * 16 + j)"
proof -
  have "hex_value (''0123456789abcdef'' ! k) = Some k" if "k < 16" for k
  proof -
    have "list_all (\<lambda>k. hex_value (''0123456789abcdef'' ! k) = Some k) [0..<16]" by code_simp
    with that show ?thesis by (simp add: list_all_iff)
  qed
  moreover have "hex_value (CHR ''0'') = Some 0" by code_simp
  ultimately show "i < 16 \<Longrightarrow> j < 16 \<Longrightarrow> ?thesis" by simp
qed

lemma unescape_u:
  "getu4 u = Some r \<Longrightarrow> \<not> is_surrogate r \<Longrightarrow> unescape (CHR ''u'' # u) = Some (encode_rune r, 5)"
  by (simp add: unescape_def)

lemma chr_escapes:
  "chr 34 = CHR 0x22" "chr 92 = CHR 0x5C" "chr 8 = CHR 0x08" "chr 12 = CHR 0x0C" "chr 10 = CHR 0x0A"
  "chr 13 = CHR 0x0D" "chr 9 = CHR 0x09"
  by code_simp+

lemma short_escape:
  assumes "r \<in> {34, 92, 8, 12, 10, 13, 9}"
  shows "\<exists>e. (\<forall>b. escape_rune (r, b) = [CHR 0x5C, e]) \<and> (\<forall>u. unescape (e # u) = Some ([chr r], 1))"
  using assms
  by (elim insertE emptyE) (simp_all add: escape_rune_def unescape_def chr_escapes)

lemma parse_escape_rune:
  assumes d: "decode_rune (a # s) = (r, n)" and v: "\<not> (r = RuneError \<and> n = 1)"
  shows "parse_string (escape_rune (r, take n (a # s)) @ u) =
    map_option (\<lambda>p. (take n (a # s) @ fst p, snd p)) (parse_string u)"
proof -
  let ?b = "take n (a # s)"
  have len: "length ?b = n" using d by (cases rule: decode_rune_cases) simp_all
  note enc = encode_decode_rune [OF d v]
  consider (short) "r \<in> {34, 92, 8, 12, 10, 13, 9}"
    | (hex) "r \<notin> {8, 12, 10, 13, 9}" "r < 32 \<or> r = 60 \<or> r = 62 \<or> r = 38"
    | (sep) "r = 8232 \<or> r = 8233"
    | (plain) "32 \<le> r" "r \<noteq> 34" "r \<noteq> 92" "r \<noteq> 60" "r \<noteq> 62" "r \<noteq> 38" "r \<noteq> 8232" "r \<noteq> 8233"
    by force
  then show ?thesis
  proof cases
    case short
    then have b: "?b = [a]" "chr r = a" using ascii_rune [OF d] by auto
    from short_escape [OF short] obtain e where "escape_rune (r, ?b) = [CHR 0x5C, e]"
      and "\<And>u. unescape (e # u) = Some ([chr r], 1)" by blast
    with b show ?thesis by (simp add: parse_string_escape)
  next
    case hex
    then have small: "r < 128" by auto
    then have b: "?b = [a]" "chr r = a" using ascii_rune [OF d] by auto
    have "escape_rune (r, ?b) = u00 r" using hex by (auto simp: escape_rune_def Let_def)
    moreover have "getu4 (drop 2 (u00 r) @ u) = Some r"
      using getu4_digits [of "r div 16" "r mod 16" u] small by (simp add: u00_def)
    ultimately show ?thesis
      using small b by (simp add: u00_def parse_string_escape unescape_u is_surrogate_def encode_rune_def)
  next
    case sep
    define x where "x = (if r = 8232 then CHR ''8'' else CHR ''9'')"
    have e: "escape_rune (r, ?b) = CHR 0x5C # CHR ''u'' # ''202'' @ [x]"
      using sep v by (auto simp: escape_rune_def Let_def RuneError_def x_def)
    have "getu4 (''202'' @ x # u) = Some r"
      using sep by (auto simp: hex_value_def byte_def Let_def x_def)
    moreover have "\<not> is_surrogate r" using sep by (auto simp: is_surrogate_def)
    ultimately have un: "unescape (CHR ''u'' # ''202'' @ x # u) = Some (?b, 5)"
      using enc unescape_u by metis
    have "parse_string (escape_rune (r, ?b) @ u) =
        parse_string (CHR 0x5C # (CHR ''u'' # ''202'' @ x # u))"
      by (simp add: e)
    then show ?thesis unfolding parse_string_escape un by simp
  next
    case plain
    then have "escape_rune (r, ?b) = ?b"
      using v len by (auto simp: escape_rune_def Let_def)
    with parse_string_plain_rune [OF d v plain(1-3)] show ?thesis by simp
  qed
qed

theorem parse_quoted:
  assumes "valid_utf8 s"
  shows "parse_string (concat (map escape_rune (runes s)) @ CHR 0x22 # u) = Some (s, u)"
  using assms
proof (induction s rule: runes.induct)
  case 1
  then show ?case by (simp add: parse_string.simps(2))
next
  case (2 a s)
  obtain r n where d: "decode_rune (a # s) = (r, n)" by fastforce
  have len: "length (take n (a # s)) = n" using d by (cases rule: decode_rune_cases) simp_all
  have "valid_rune (r, take n (a # s))" and rest: "valid_utf8 (drop n (a # s))"
    using "2.prems" d by (simp_all add: valid_utf8_def runes_Cons)
  then have v: "\<not> (r = RuneError \<and> n = 1)" using len by (simp add: valid_rune_def)
  from "2.IH" [OF d [symmetric] refl rest] parse_escape_rune [OF d v] show ?case
    by (simp add: runes_Cons d)
qed

section \<open>Numbers\<close>

definition number_text :: "string \<Rightarrow> bool" where
  "number_text t \<longleftrightarrow> parse_number t = Some (t, [])"

text \<open>What may follow a value.\<close>

definition value_ends :: "string \<Rightarrow> bool" where
  "value_ends s \<longleftrightarrow> (\<forall>c r. s = c # r \<longrightarrow> c \<in> {CHR '','', CHR '']'', CHR ''}''})"

lemma value_ends_simps [simp]:
  "value_ends []" "value_ends (CHR '','' # r)" "value_ends (CHR '']'' # r)" "value_ends (CHR ''}'' # r)"
  by (simp_all add: value_ends_def)

lemma digits_before:
  assumes "value_ends s"
  shows "digits (t @ s) = digits t" "after_digits (t @ s) = after_digits t @ s"
  using assms
  by (induction t)
    (cases s; auto simp: digits_def after_digits_def value_ends_def is_digit_def byte_def)+

lemma int_part_before:
  "value_ends s \<Longrightarrow> int_part t = Some (a, t') \<Longrightarrow> int_part (t @ s) = Some (a, t' @ s)"
  using digits_before [of s t]
  by (cases t) (auto simp: int_part_def split: if_splits)

lemma frac_part_before:
  "value_ends s \<Longrightarrow> frac_part t = Some (a, t') \<Longrightarrow> frac_part (t @ s) = Some (a, t' @ s)"
  using digits_before [of s "tl t"]
  by (cases t; cases s) (auto simp: frac_part_def value_ends_def split: if_splits)

lemma exp_part_before:
  assumes "value_ends s" and "exp_part t = Some (a, t')"
  shows "exp_part (t @ s) = Some (a, t' @ s)"
proof (cases t)
  case Nil
  with assms show ?thesis by (cases s) (auto simp: exp_part_def value_ends_def)
next
  case (Cons c r)
  show ?thesis
  proof (cases r)
    case Nil
    with assms Cons show ?thesis by (auto simp: exp_part_def digits_def split: if_splits)
  next
    case (Cons x r')
    with assms \<open>t = c # r\<close> digits_before [OF assms(1), of r] digits_before [OF assms(1), of r']
    show ?thesis by (auto simp: exp_part_def Let_def split: if_splits)
  qed
qed

lemma parse_number_before:
  assumes "number_text t" and "value_ends s"
  shows "parse_number (t @ s) = Some (t, s)"
proof -
  let ?sign = "takeWhile (\<lambda>x. x = CHR ''-'') (take 1 t)"
  have "t \<noteq> []" using assms(1) by (auto simp: number_text_def parse_number_def int_part_def)
  then have sign: "take 1 (t @ s) = take 1 t" by (cases t) auto
  have "drop (length ?sign) (t @ s) = drop (length ?sign) t @ s" by (cases t) (auto simp: \<open>t \<noteq> []\<close>)
  moreover obtain a s1 b s2 c s3 where "int_part (drop (length ?sign) t) = Some (a, s1)"
    and "frac_part s1 = Some (b, s2)" and "exp_part s2 = Some (c, s3)" and "s3 = []"
    and "?sign @ a @ b @ c = t"
    using assms(1) by (auto simp: number_text_def parse_number_def Let_def split: option.splits)
  ultimately show ?thesis
    using int_part_before [OF assms(2), of "drop (length ?sign) t" a s1]
      frac_part_before [OF assms(2), of s1 b s2] exp_part_before [OF assms(2), of s2 c s3]
    unfolding parse_number_def sign Let_def by simp
qed

lemma number_starts:
  assumes "number_text t"
  obtains c r where "t = c # r" and "c = CHR ''-'' \<or> is_digit c"
proof (cases t)
  case (Cons c r)
  with assms that show ?thesis
    by (auto simp: number_text_def parse_number_def int_part_def is_digit_def byte_def split: if_splits)
qed (use assms in \<open>simp add: number_text_def parse_number_def int_part_def\<close>)

section \<open>Values\<close>

fun json_depth :: "json \<Rightarrow> nat" where
  "json_depth (JArr vs) = Suc (Max (insert 0 (json_depth ` set vs)))"
| "json_depth (JObj ms) = Suc (Max (insert 0 ((\<lambda>kv. json_depth (snd kv)) ` set ms)))"
| "json_depth v = 0"

text \<open>Values whose strings are valid UTF-8 and whose numbers are literals of JSON.\<close>

fun faithful :: "json \<Rightarrow> bool" where
  "faithful (JNum t) = number_text t"
| "faithful (JStr s) = valid_utf8 s"
| "faithful (JArr vs) = (\<forall>v \<in> set vs. faithful v)"
| "faithful (JObj ms) = (\<forall>kv \<in> set ms. valid_utf8 (fst kv) \<and> faithful (snd kv))"
| "faithful v = True"

lemma skip_ws_head: "\<not> is_ws c \<Longrightarrow> skip_ws (c # r) = c # r"
  by (simp add: skip_ws_def)

lemma marshal_starts:
  assumes "faithful v"
  obtains c r where "marshal v = c # r" and "\<not> is_ws c" and "c \<noteq> CHR '']''"
proof (cases v)
  case (JNum t)
  with assms have "number_text t" by simp
  then obtain c r where "t = c # r" "c = CHR ''-'' \<or> is_digit c" by (rule number_starts)
  moreover from this(2) have "\<not> is_ws c" "c \<noteq> CHR '']''"
    by (auto simp: is_ws_def is_digit_def byte_def)
  ultimately show ?thesis using JNum that by simp
next
  case (JBool b)
  with that show ?thesis by (cases b) (auto simp: is_ws_def)
qed (use that in \<open>auto simp: is_ws_def quote_def\<close>)

definition reads_back :: "json \<Rightarrow> bool" where
  "reads_back v \<longleftrightarrow> (\<forall>n d s. 2 * length (marshal v) < n \<longrightarrow> json_depth v \<le> d \<longrightarrow> value_ends s \<longrightarrow>
     parse_value n d (marshal v @ s) = Some (v, s))"

lemma reads_backD:
  "reads_back v \<Longrightarrow> 2 * length (marshal v) < n \<Longrightarrow> json_depth v \<le> d \<Longrightarrow> value_ends s \<Longrightarrow>
     parse_value n d (marshal v @ s) = Some (v, s)"
  by (simp add: reads_back_def)

lemma reads_backI:
  assumes "\<And>m d s. 2 * length (marshal v) \<le> m \<Longrightarrow> json_depth v \<le> d \<Longrightarrow> value_ends s \<Longrightarrow>
    parse_value (Suc m) d (marshal v @ s) = Some (v, s)"
  shows "reads_back v"
  unfolding reads_back_def
proof (intro allI impI)
  fix n d s
  assume "2 * length (marshal v) < n" "json_depth v \<le> d" "value_ends s"
  with assms [of "n - 1" d s] show "parse_value n d (marshal v @ s) = Some (v, s)" by simp
qed

lemma join_Cons: "xs \<noteq> [] \<Longrightarrow> join sep (x # xs) = x @ sep @ join sep xs"
  by (cases xs) simp_all

lemma parse_elements_marshal:
  assumes "vs \<noteq> []" and "\<forall>v \<in> set vs. reads_back v \<and> json_depth v \<le> d"
    and "2 * length (join '','' (map marshal vs)) + 1 < n"
  shows "parse_elements n d (join '','' (map marshal vs) @ CHR '']'' # s) = Some (vs, s)"
  using assms
proof (induction vs arbitrary: n)
  case (Cons v vs)
  then obtain m where n: "n = Suc m" by (cases n) auto
  show ?case
  proof (cases "vs = []")
    case True
    with Cons n reads_backD [of v m d "CHR '']'' # s"] show ?thesis
      by (simp add: skip_ws_head is_ws_def)
  next
    case False
    have "parse_elements m d (join '','' (map marshal vs) @ CHR '']'' # s) = Some (vs, s)"
      using Cons.IH [of m] Cons.prems False n by (simp add: join_Cons)
    with Cons.prems False n reads_backD [of v m d "CHR '','' # join '','' (map marshal vs) @ CHR '']'' # s"]
    show ?thesis by (simp add: skip_ws_head is_ws_def join_Cons)
  qed
qed simp

abbreviation member_text :: "string \<times> json \<Rightarrow> string" where
  "member_text kv \<equiv> quote (fst kv) @ '':'' @ marshal (snd kv)"

lemma parse_members_marshal:
  assumes "ms \<noteq> []"
    and "\<forall>kv \<in> set ms. valid_utf8 (fst kv) \<and> reads_back (snd kv) \<and> json_depth (snd kv) \<le> d"
    and "2 * length (join '','' (map member_text ms)) + 1 < n"
  shows "parse_members n d (join '','' (map member_text ms) @ CHR ''}'' # s) = Some (ms, s)"
  using assms
proof (induction ms arbitrary: n)
  case (Cons kv ms)
  then obtain m where n: "n = Suc m" by (cases n) auto
  note str = parse_quoted [of "fst kv"]
  show ?case
  proof (cases "ms = []")
    case True
    with Cons n str reads_backD [of "snd kv" m d "CHR ''}'' # s"] show ?thesis
      by (simp add: skip_ws_head is_ws_def quote_def)
  next
    case False
    have "parse_members m d (join '','' (map member_text ms) @ CHR ''}'' # s) = Some (ms, s)"
      using Cons.IH [of m] Cons.prems False n by (simp add: join_Cons)
    with Cons.prems False n str
      reads_backD [of "snd kv" m d "CHR '','' # join '','' (map member_text ms) @ CHR ''}'' # s"]
    show ?thesis by (simp add: skip_ws_head is_ws_def join_Cons quote_def)
  qed
qed simp


lemma depth_Max:
  "json_depth (JArr vs) \<le> d \<Longrightarrow> v \<in> set vs \<Longrightarrow> 0 < d \<and> json_depth v \<le> d - 1"
  "json_depth (JObj ms) \<le> d \<Longrightarrow> kv \<in> set ms \<Longrightarrow> 0 < d \<and> json_depth (snd kv) \<le> d - 1"
  by (cases d; auto)+

lemma join_start: "xs \<noteq> [] \<Longrightarrow> hd xs = c # r \<Longrightarrow> \<exists>r'. join sep xs = c # r'"
  by (cases xs rule: list.exhaust; cases "tl xs") auto

lemma reads_back_array:
  assumes "\<forall>v \<in> set vs. faithful v \<and> reads_back v"
  shows "reads_back (JArr vs)"
proof (rule reads_backI)
  fix m d s
  assume m: "2 * length (marshal (JArr vs)) \<le> m" and d: "json_depth (JArr vs) \<le> d"
  have d0: "d \<noteq> 0" using d by auto
  show "parse_value (Suc m) d (marshal (JArr vs) @ s) = Some (JArr vs, s)"
  proof (cases "vs = []")
    case True
    with d0 show ?thesis by (simp add: skip_ws_head is_ws_def)
  next
    case False
    then have "hd vs \<in> set vs" by simp
    then obtain c r where c: "marshal (hd vs) = c # r" "\<not> is_ws c" "c \<noteq> CHR '']''"
      using assms marshal_starts [of "hd vs"] by auto
    then obtain r' where r': "join '','' (map marshal vs) = c # r'"
      using join_start [of "map marshal vs" c r] False by (auto simp: hd_map)
    have "parse_elements m (d - 1) (join '','' (map marshal vs) @ CHR '']'' # s) = Some (vs, s)"
      using assms False m depth_Max(1) [OF d] by (intro parse_elements_marshal) auto
    with d0 c r' show ?thesis by (simp add: skip_ws_head is_ws_def)
  qed
qed

lemma reads_back_object:
  assumes "\<forall>kv \<in> set ms. valid_utf8 (fst kv) \<and> reads_back (snd kv)"
  shows "reads_back (JObj ms)"
proof (rule reads_backI)
  fix m d s
  assume m: "2 * length (marshal (JObj ms)) \<le> m" and d: "json_depth (JObj ms) \<le> d"
  have d0: "d \<noteq> 0" using d by auto
  show "parse_value (Suc m) d (marshal (JObj ms) @ s) = Some (JObj ms, s)"
  proof (cases "ms = []")
    case True
    with d0 show ?thesis by (simp add: skip_ws_head is_ws_def)
  next
    case False
    obtain r' where r': "join '','' (map member_text ms) = CHR 0x22 # r'"
      using join_start [of "map member_text ms" "CHR 0x22"] False by (auto simp: hd_map quote_def)
    have "parse_members m (d - 1) (join '','' (map member_text ms) @ CHR ''}'' # s) = Some (ms, s)"
    proof (rule parse_members_marshal [OF False])
      show "\<forall>kv \<in> set ms. valid_utf8 (fst kv) \<and> reads_back (snd kv) \<and> json_depth (snd kv) \<le> d - 1"
        using assms depth_Max(2) [OF d] by auto
    qed (use m in simp)
    with d0 r' show ?thesis by (simp add: skip_ws_head is_ws_def)
  qed
qed

lemma faithful_reads_back: "faithful v \<Longrightarrow> reads_back v"
proof (induction v)
  case JNull
  show ?case by (rule reads_backI) (simp add: literal_def skip_ws_head is_ws_def)
next
  case (JBool b)
  show ?case by (rule reads_backI) (cases b; simp add: literal_def skip_ws_head is_ws_def)
next
  case (JNum t)
  then have t: "number_text t" by simp
  then obtain c r where c: "t = c # r" "c = CHR ''-'' \<or> is_digit c" by (rule number_starts)
  then have "\<not> is_ws c" "c \<notin> {CHR ''{'', CHR ''['', CHR 0x22, CHR ''t'', CHR ''f'', CHR ''n''}"
    by (auto simp: is_ws_def is_digit_def byte_def)
  with c parse_number_before [OF t] show ?case
    by (intro reads_backI) (simp add: skip_ws_head)
next
  case (JStr s)
  then show ?case
    by (intro reads_backI) (simp add: quote_def skip_ws_head is_ws_def parse_quoted)
next
  case (JArr vs)
  then show ?case by (intro reads_back_array) auto
next
  case (JObj ms)
  then show ?case by (intro reads_back_object) (auto simp: snds.simps)
qed

theorem unmarshal_marshal:
  assumes "faithful v" and "json_depth v \<le> max_depth"
  shows "unmarshal_value (marshal v) = Inr v"
  using reads_backD [OF faithful_reads_back [OF assms(1)] _ assms(2), of "fuel_for (marshal v)" "[]"]
  by (simp add: unmarshal_value_def parse_prefix_def fuel_for_def skip_ws_def)

end
