(* ===== verification/TimeRoundTrip.thy ===== *)
theory TimeRoundTrip
  imports GoTime
begin

text \<open>
  The text of a time in JSON and that the parser reads it back: the calendar of
  \<^theory_text>\<open>date_of_days\<close> is the inverse of \<^theory_text>\<open>civil_days\<close>, the fields of the
  text have their widths, and the fraction of a second loses its trailing zeros only.
\<close>

section \<open>The calendar\<close>

text \<open>Days before a year in a cycle of 400 years that start in March, and the year of a day.\<close>

definition cycle_days :: "int \<Rightarrow> int" where
  "cycle_days y = 365 * y + y div 4 - y div 100 + y div 400"

definition year_of_cycle :: "int \<Rightarrow> int" where
  "year_of_cycle doe = (doe - doe div 1460 + doe div 36524 - doe div 146096) div 365"

lemma div_next:
  assumes "1 < (k :: int)"
  shows "(y + 1) div k - y div k = (if (y + 1) mod k = 0 then 1 else 0)"
proof -
  let ?q = "(y + 1) div k" and ?r = "(y + 1) mod k"
  have y: "y = k * ?q + ?r - 1" using mult_div_mod_eq [of k "y + 1"] by simp
  have r: "0 \<le> ?r" "?r < k" using assms by simp_all
  show ?thesis
  proof (cases "?r = 0")
    case True
    have "y = k * (?q - 1) + (k - 1)" using y True unfolding right_diff_distrib by linarith
    then have "y div k = ?q - 1" using assms by (intro int_div_pos_eq [of _ _ _ "k - 1"]) auto
    with True show ?thesis by simp
  next
    case False
    have "y div k = ?q" 
      by (rule int_div_pos_eq [of _ _ _ "?r - 1"]) (use y False r in linarith)+
    with False show ?thesis by simp
  qed
qed

lemma year_of_cycle_step:
  "year_of_cycle n \<le> year_of_cycle (n + 1)"
proof -
  have "(n + 1) div 1460 \<le> (n + 1460) div 1460" by (rule zdiv_mono1) simp_all
  then have 1: "(n + 1) div 1460 \<le> n div 1460 + 1" by simp
  have 2: "n div 36524 \<le> (n + 1) div 36524" by (rule zdiv_mono1) simp_all
  have 4: "m div 146096 = m div 36524 div 4" for m :: int
    using zdiv_zmult2_eq [of 4 m 36524] by simp
  have "b div 4 - a div 4 \<le> b - a" if "a \<le> b" for a b :: int
    using that by presburger
  from this [OF 2] have 3: "(n + 1) div 146096 - n div 146096 \<le> (n + 1) div 36524 - n div 36524"
    unfolding 4 .
  show ?thesis unfolding year_of_cycle_def
    by (rule zdiv_mono1) (use 1 2 3 in linarith, simp)
qed

lemma year_of_cycle_mono: "a \<le> b \<Longrightarrow> year_of_cycle a \<le> year_of_cycle b"
proof (induction b rule: int_ge_induct)
  case (step i)
  then show ?case using year_of_cycle_step [of i] by linarith
qed simp

text \<open>The first day of a year, split into centuries and leap years.\<close>

lemma cycle_parts:
  assumes "0 \<le> y" and "y < 400"
  shows "cycle_days y div 36524 - cycle_days y div 1460 = 365 * y - cycle_days y"
    and "cycle_days y div 146096 = 0" and "0 < y \<Longrightarrow> cycle_days y mod 1460 \<noteq> 0"
proof -
  define q a b where "q = y div 100" and "a = y mod 100 div 4" and "b = y mod 4"
  have "y mod 100 mod 4 = y mod 4" by (rule mod_mod_cancel) (rule dvdI [of _ _ 25], simp)
  then have y: "y = 100 * q + 4 * a + b"
    unfolding q_def a_def b_def
    using mult_div_mod_eq [of 100 y] mult_div_mod_eq [of 4 "y mod 100"] by linarith
  have q: "0 \<le> q" "q < 4" and a: "0 \<le> a" "a < 25" and b: "0 \<le> b" "b < 4"
    using assms by (auto simp: q_def a_def b_def)
  have "y div 4 = 25 * q + a" by (rule int_div_pos_eq [of _ _ _ b]) (use y b in simp_all)
  moreover have "y div 100 = q" "y div 400 = 0" using assms by (simp_all add: q_def)
  ultimately have c: "cycle_days y = 36524 * q + 1461 * a + 365 * b" using y by (simp add: cycle_days_def)
  have 1: "cycle_days y div 36524 = q"
    by (rule int_div_pos_eq [of _ _ _ "1461 * a + 365 * b"]) (use c a b in simp_all)
  have 2: "cycle_days y div 1460 = 25 * q + a" and r: "cycle_days y mod 1460 = 24 * q + a + 365 * b"
    by (rule int_div_pos_eq [of _ _ _ "24 * q + a + 365 * b"], use c q a b in simp_all)
      (rule int_mod_pos_eq [of _ _ "25 * q + a"], use c q a b in simp_all)
  show "cycle_days y div 36524 - cycle_days y div 1460 = 365 * y - cycle_days y"
    unfolding 1 2 using c y by linarith
  show "cycle_days y div 146096 = 0" using c q a b by (intro div_pos_pos_trivial) simp_all
  show "cycle_days y mod 1460 \<noteq> 0" if "0 < y"
  proof
    assume "cycle_days y mod 1460 = 0"
    then have "24 * q + a + 365 * b = 0" using r by simp
    then have "q = 0" "a = 0" "b = 0" using q(1) a(1) b(1) by linarith+
    with that y show False by simp
  qed
qed

lemma cycle_years:
  assumes "0 \<le> y" and "y < 400"
  shows "year_of_cycle (cycle_days y) = y" and "0 < y \<Longrightarrow> year_of_cycle (cycle_days y - 1) < y"
proof -
  let ?c = "cycle_days y"
  note p = cycle_parts [OF assms]
  have "?c - ?c div 1460 + ?c div 36524 - ?c div 146096 = 365 * y" using p(1,2) by linarith
  then show "year_of_cycle ?c = y" by (simp add: year_of_cycle_def)
  show "year_of_cycle (?c - 1) < y" if "0 < y"
  proof -
    have "(?c - 1) div 1460 = ?c div 1460"
      using div_next [of 1460 "?c - 1"] p(3) [OF that] by simp
    moreover have "(?c - 1) div 36524 \<le> ?c div 36524" by (rule zdiv_mono1) simp_all
    moreover have "0 \<le> ?c - 1" using that by (simp add: cycle_days_def)
    then have "0 \<le> (?c - 1) div 146096" by (simp add: pos_imp_zdiv_nonneg_iff)
    ultimately have "?c - 1 - (?c - 1) div 1460 + (?c - 1) div 36524 - (?c - 1) div 146096 < 365 * y"
      using p(1) by linarith
    then have "year_of_cycle (?c - 1) \<le> (365 * y - 1) div 365"
      unfolding year_of_cycle_def by (intro zdiv_mono1) simp_all
    moreover have "(365 * y - 1) div 365 = y - 1" by (rule int_div_pos_eq [of _ _ _ 364]) simp_all
    ultimately show ?thesis by simp
  qed
qed

lemma year_of_cycle:
  assumes "0 \<le> doe" and "doe < 146097"
  defines "y \<equiv> year_of_cycle doe"
  shows "0 \<le> y" "y < 400" "cycle_days y \<le> doe" "doe < cycle_days (y + 1)"
proof -
  have "year_of_cycle 0 \<le> y" "y \<le> year_of_cycle 146096"
    using assms(1,2) unfolding y_def by (auto intro!: year_of_cycle_mono)
  then show y: "0 \<le> y" "y < 400" by (simp_all add: year_of_cycle_def)
  show "cycle_days y \<le> doe"
  proof (rule ccontr)
    assume "\<not> cycle_days y \<le> doe"
    then have "y \<le> year_of_cycle (cycle_days y - 1)"
      unfolding y_def by (intro year_of_cycle_mono) simp
    moreover have "y \<noteq> 0" using \<open>\<not> cycle_days y \<le> doe\<close> assms(1) by (auto simp: cycle_days_def)
    ultimately show False using y cycle_years(2) [of y] by simp
  qed
  show "doe < cycle_days (y + 1)"
  proof (cases "y = 399")
    case True
    with assms(2) show ?thesis by (simp add: cycle_days_def)
  next
    case False
    show ?thesis
    proof (rule ccontr)
      assume "\<not> doe < cycle_days (y + 1)"
      then have "year_of_cycle (cycle_days (y + 1)) \<le> y"
        unfolding y_def by (intro year_of_cycle_mono) simp
      with y False cycle_years(1) [of "y + 1"] show False by simp
    qed
  qed
qed

text \<open>Month and day of a day in a year that starts in March.\<close>

definition month_index :: "int \<Rightarrow> int" where "month_index doy = (5 * doy + 2) div 153"

definition month_start :: "int \<Rightarrow> int" where "month_start mp = (153 * mp + 2) div 5"

definition month_sizes :: "int list" where
  "month_sizes = [31, 30, 31, 30, 31, 31, 30, 31, 30, 31, 31, 29]"

lemma month_of_day:
  assumes "0 \<le> doy" and "doy < 366"
  shows "0 \<le> month_index doy" "month_index doy < 12" "month_start (month_index doy) \<le> doy"
    "doy - month_start (month_index doy) < month_sizes ! nat (month_index doy)"
proof -
  define mp where "mp = month_index doy"
  have "153 * q \<le> x \<and> x < 153 * (q + 1)" if "153 * q + k = x" "0 \<le> k" "k < 153" for x q k :: int
    using that by simp
  from this [OF mult_div_mod_eq [of 153 "5 * doy + 2"]]
  have mp: "153 * mp \<le> 5 * doy + 2" "5 * doy + 2 < 153 * (mp + 1)"
    unfolding mp_def month_index_def by simp_all
  then show b: "0 \<le> month_index doy" "month_index doy < 12"
    using assms unfolding mp_def [symmetric] by simp_all
  show "month_start (month_index doy) \<le> doy"
    using mp(1) unfolding mp_def [symmetric] month_start_def by linarith
  have next_month: "doy < month_start (mp + 1)"
    using mp(2) unfolding month_start_def by linarith
  have "mp = 0 \<or> mp = 1 \<or> mp = 2 \<or> mp = 3 \<or> mp = 4 \<or> mp = 5 \<or> mp = 6 \<or> mp = 7 \<or> mp = 8 \<or>
      mp = 9 \<or> mp = 10 \<or> mp = 11"
    using b unfolding mp_def [symmetric] by presburger
  then show "doy - month_start (month_index doy) < month_sizes ! nat (month_index doy)"
    using next_month assms(2) unfolding mp_def [symmetric]
    by (elim disjE) (simp_all add: month_start_def month_sizes_def)
qed

lemma cycle_leap:
  "cycle_days (y + 1) - cycle_days y =
     365 + (if (y + 1) mod 4 = 0 \<and> ((y + 1) mod 100 \<noteq> 0 \<or> (y + 1) mod 400 = 0) then 1 else 0)"
proof -
  have "(4 :: int) dvd 100" "(100 :: int) dvd 400"
    by (rule dvdI [of _ _ 25], simp, rule dvdI [of _ _ 4], simp)
  then have "(y + 1) mod 100 = 0 \<Longrightarrow> (y + 1) mod 4 = 0" "(y + 1) mod 400 = 0 \<Longrightarrow> (y + 1) mod 100 = 0"
    unfolding mod_eq_0_iff_dvd by (metis dvd_trans)+
  note imp = this
  have "cycle_days (y + 1) - cycle_days y = 365 + ((y + 1) div 4 - y div 4) -
      ((y + 1) div 100 - y div 100) + ((y + 1) div 400 - y div 400)"
    by (simp add: cycle_days_def)
  also have "\<dots> = 365 + (if (y + 1) mod 4 = 0 then 1 else 0) - (if (y + 1) mod 100 = 0 then 1 else 0) +
      (if (y + 1) mod 400 = 0 then 1 else 0)"
    by (simp only: div_next [of 4 y, simplified] div_next [of 100 y, simplified] div_next [of 400 y, simplified])
  finally have d: "cycle_days (y + 1) - cycle_days y = \<dots>" .
  show ?thesis
  proof (cases "(y + 1) mod 100 = 0")
    case True
    then have "(y + 1) mod 4 = 0" by (rule imp(1))
    then show ?thesis unfolding d by (simp only: True) simp
  next
    case False
    then have "\<not> (y + 1) mod 400 = 0" by (rule contrapos_nn) (rule imp(2))
    then show ?thesis unfolding d by (simp only: False if_False) simp
  qed
qed

lemma year_start_cycle:
  "year_start (nat (y + 1 + 400 * era)) = cycle_days y + 146097 * era - 719162"
  if "0 \<le> y + 1 + 400 * era"
proof -
  have "(y + 400 * era) div 4 = y div 4 + 100 * era" "(y + 400 * era) div 100 = y div 100 + 4 * era"
    "(y + 400 * era) div 400 = y div 400 + era"
    using div_mult_self2 [of 4 y "100 * era"] div_mult_self2 [of 100 y "4 * era"] div_mult_self2 [of 400 y era]
    by simp_all
  with that show ?thesis by (simp add: year_start_def cycle_days_def)
qed

lemma is_leap_mod:
  "is_leap (nat z) \<longleftrightarrow> z mod 4 = 0 \<and> (z mod 100 \<noteq> 0 \<or> z mod 400 = 0)" if "0 \<le> z"
proof -
  have "k dvd nat z \<longleftrightarrow> z mod int k = 0" for k
    using that by (metis int_dvd_int_iff int_nat_eq mod_eq_0_iff_dvd)
  from this [of 4] this [of 100] this [of 400] show ?thesis by (simp add: is_leap_def)
qed

lemma is_leap_cycle:
  assumes "0 \<le> y + 1 + 400 * era"
  shows "cycle_days (y + 1) - cycle_days y = (if is_leap (nat (y + 1 + 400 * era)) then 366 else 365)"
proof -
  have "(y + 1 + 400 * era) mod 4 = (y + 1) mod 4" "(y + 1 + 400 * era) mod 100 = (y + 1) mod 100"
    "(y + 1 + 400 * era) mod 400 = (y + 1) mod 400"
    using mod_mult_self2 [of "y + 1" 4 "100 * era"] mod_mult_self2 [of "y + 1" 100 "4 * era"]
      mod_mult_self2 [of "y + 1" 400 era]
    by simp_all
  then show ?thesis by (simp only: is_leap_mod [OF assms] cycle_leap split: if_split) simp
qed

text \<open>A year that starts in March, in the months of the calendar year.\<close>

lemma months_after_march:
  assumes "0 \<le> mp" and "mp < 12"
  shows "mp < 10 \<Longrightarrow> int (sum_list (take (nat (mp + 3) - 1) (month_days y))) =
      59 + (if is_leap y then 1 else 0) + month_start mp"
    and "10 \<le> mp \<Longrightarrow> int (sum_list (take (nat (mp - 9) - 1) (month_days y))) = month_start mp - 306"
    and "mp < 10 \<Longrightarrow> int (days_in (nat (mp + 3)) y) = month_sizes ! nat mp"
    and "mp = 10 \<Longrightarrow> days_in (nat (mp - 9)) y = 31"
    and "mp = 11 \<Longrightarrow> days_in (nat (mp - 9)) y = (if is_leap y then 29 else 28)"
proof -
  have "mp = 0 \<or> mp = 1 \<or> mp = 2 \<or> mp = 3 \<or> mp = 4 \<or> mp = 5 \<or> mp = 6 \<or> mp = 7 \<or> mp = 8 \<or>
      mp = 9 \<or> mp = 10 \<or> mp = 11"
    using assms by presburger
  then show "mp < 10 \<Longrightarrow> int (sum_list (take (nat (mp + 3) - 1) (month_days y))) =
      59 + (if is_leap y then 1 else 0) + month_start mp"
    and "10 \<le> mp \<Longrightarrow> int (sum_list (take (nat (mp - 9) - 1) (month_days y))) = month_start mp - 306"
    and "mp < 10 \<Longrightarrow> int (days_in (nat (mp + 3)) y) = month_sizes ! nat mp"
    and "mp = 10 \<Longrightarrow> days_in (nat (mp - 9)) y = 31"
    and "mp = 11 \<Longrightarrow> days_in (nat (mp - 9)) y = (if is_leap y then 29 else 28)"
    by (auto simp: month_days_def month_start_def month_sizes_def days_in_def)
qed

theorem date_of_days_inverse:
  assumes "date_of_days days = (y, m, d)" and "0 \<le> y"
  shows "civil_days (nat y) m d = days" and "1 \<le> m" "m \<le> 12" and "1 \<le> d" "d \<le> days_in m (nat y)"
proof -
  define era doe where "era = (days + 719468) div 146097" and "doe = (days + 719468) mod 146097"
  define yoe where "yoe = year_of_cycle doe"
  define doy where "doy = doe - cycle_days yoe"
  define mp where "mp = month_index doy"
  have days: "days = 146097 * era + doe - 719468"
    unfolding era_def doe_def using mult_div_mod_eq [of 146097 "days + 719468"] by simp
  have doe: "0 \<le> doe" "doe < 146097" by (simp_all add: doe_def)
  note yoe = year_of_cycle [OF doe, folded yoe_def]
  have doy: "0 \<le> doy" "doy < 366" "doy < cycle_days (yoe + 1) - cycle_days yoe"
    using yoe(3,4) cycle_leap [of yoe] by (auto simp: doy_def split: if_splits)
  note mp = month_of_day [OF doy(1,2), folded mp_def]
  have e1: "(doe - doe div 1460 + doe div 36524 - doe div 146096) div 365 = yoe"
    by (simp only: yoe_def year_of_cycle_def)
  have e2: "doe - (365 * yoe + yoe div 4 - yoe div 100) = doy"
    using yoe by (simp add: doy_def cycle_days_def)
  have e3: "(5 * doy + 2) div 153 = mp" by (simp only: mp_def month_index_def)
  have "date_of_days days =
      (yoe + era * 400 + (if (if mp < 10 then mp + 3 else mp - 9) \<le> 2 then 1 else 0),
       nat (if mp < 10 then mp + 3 else mp - 9), nat (doy - month_start mp + 1))"
    by (simp only: date_of_days_def Let_def era_def [symmetric] doe_def [symmetric] e1 e2 e3 month_start_def)
  moreover have "(if mp < 10 then mp + 3 else mp - 9) \<le> 2 \<longleftrightarrow> \<not> mp < 10" using mp(1,2) by simp
  ultimately have "date_of_days days = (yoe + era * 400 + (if mp < 10 then 0 else 1),
      nat (if mp < 10 then mp + 3 else mp - 9), nat (doy - month_start mp + 1))"
    by simp
  then have y: "y = yoe + era * 400 + (if mp < 10 then 0 else 1)"
    and m: "m = nat (if mp < 10 then mp + 3 else mp - 9)" and d: "d = nat (doy - month_start mp + 1)"
    using assms(1) by simp_all
  show "1 \<le> m" "m \<le> 12" "1 \<le> d" using mp by (auto simp: m d)
  have "civil_days (nat y) m d = days \<and> d \<le> days_in m (nat y)"
  proof (cases "mp < 10")
    case True
    then have y': "y = (yoe - 1) + 1 + 400 * era" using y by simp
    have "year_start (nat y) = cycle_days (yoe - 1) + 146097 * era - 719162"
      using year_start_cycle [of "yoe - 1" era] y' assms(2) by simp
    moreover have "cycle_days yoe - cycle_days (yoe - 1) = (if is_leap (nat y) then 366 else 365)"
      using is_leap_cycle [of "yoe - 1" era] y' assms(2) by simp
    moreover note months_after_march(1,3) [OF mp(1,2) True, of "nat y"]
    ultimately show ?thesis
      using mp(3,4) True by (simp add: civil_days_def m d days doy_def nat_le_iff split: if_splits)
  next
    case False
    then have y': "y = yoe + 1 + 400 * era" using y by simp
    have start: "year_start (nat y) = cycle_days yoe + 146097 * era - 719162"
      using year_start_cycle [of yoe era] y' assms(2) by simp
    have leap: "cycle_days (yoe + 1) - cycle_days yoe = (if is_leap (nat y) then 366 else 365)"
      using is_leap_cycle [of yoe era] y' assms(2) by simp
    have "civil_days (nat y) m d = days"
      using months_after_march(2) [OF mp(1,2), of "nat y"] False mp(3) start
      by (simp add: civil_days_def m d days doy_def)
    moreover have "d \<le> days_in m (nat y)"
    proof (cases "mp = 10")
      case True
      with months_after_march(4) [OF mp(1,2), of "nat y"] mp(4) show ?thesis
        by (simp add: m d month_sizes_def)
    next
      case other: False
      then have "mp = 11" using False mp(2) by simp
      with months_after_march(5) [OF mp(1,2), of "nat y"] doy(3) leap show ?thesis
        by (simp add: m d month_start_def split: if_splits)
    qed
    ultimately show ?thesis by simp
  qed
  then show "civil_days (nat y) m d = days" and "d \<le> days_in m (nat y)" by simp_all
qed

section \<open>Digits\<close>

lemma nat_of_digits_append: "nat_of_digits a (xs @ ys) = nat_of_digits (nat_of_digits a xs) ys"
  by (induction xs arbitrary: a) simp_all

lemma nat_of_digits_zeros:
  "nat_of_digits a (replicate k (CHR ''0'')) = a * 10 ^ k"
  by (induction k arbitrary: a) (simp_all add: digit_value_def byte_def)

lemma digit_char: "n < 10 \<Longrightarrow> is_digit (char_of (48 + n))" "n < 10 \<Longrightarrow> digit_value (char_of (48 + n :: nat)) = n"
  by (simp_all add: is_digit_def digit_value_def byte_def of_char_of)

lemma digits_of_digits:
  "list_all is_digit (digits_of n)" "nat_of_digits 0 (digits_of n) = n"
  by (induction n rule: digits_of.induct)
    (subst digits_of.simps; simp add: digit_char nat_of_digits_append)+

lemma length_digits_of: "n < 10 ^ w \<Longrightarrow> 0 < w \<Longrightarrow> length (digits_of n) \<le> w"
proof (induction w arbitrary: n)
  case (Suc w)
  show ?case
  proof (cases "n < 10")
    case False
    then have "w \<noteq> 0" using Suc.prems by (cases w) auto
    moreover have "n div 10 < 10 ^ w" using Suc.prems by (simp add: less_mult_imp_div_less)
    ultimately show ?thesis using Suc.IH [of "n div 10"] by (subst digits_of.simps) simp
  qed (simp add: digits_of.simps [of n])
qed simp

lemma pad_digits:
  assumes "n < 10 ^ w" and "0 < w"
  shows "length (pad w n) = w" "list_all is_digit (pad w n)" "nat_of_digits 0 (pad w n) = n"
proof -
  have "list_all is_digit (replicate k (CHR ''0''))" for k
    by (induction k) (simp_all add: is_digit_def byte_def)
  then show "list_all is_digit (pad w n)" by (simp add: pad_def digits_of_digits)
qed (use length_digits_of [OF assms] in
  \<open>simp_all add: pad_def nat_of_digits_append nat_of_digits_zeros digits_of_digits\<close>)

lemma getnum_pad:
  assumes "n < 100"
  shows "getnum fixed (pad 2 n @ s) = Some (n, s)"
proof -
  note p = pad_digits [of n 2]
  then obtain a b where "pad 2 n = [a, b]" using assms by (auto simp: length_Suc_conv numeral_2_eq_2)
  with p assms show ?thesis by (simp add: getnum_def)
qed

lemma get_year_pad:
  assumes "n < 10000"
  shows "get_year (pad 4 n @ s) = Some (n, s)"
  using pad_digits [of n 4] assms by (simp add: get_year_def)

section \<open>The text of a time in JSON\<close>

definition trim_zeros :: "string \<Rightarrow> string" where
  "trim_zeros s = rev (dropWhile (\<lambda>c. c = CHR ''0'') (rev s))"

definition fraction_text :: "nat \<Rightarrow> string" where
  "fraction_text nsec = (let ds = trim_zeros (pad 9 nsec) in if ds = [] then '''' else CHR ''.'' # ds)"

text \<open>\<^verbatim>\<open>t.Format(time.RFC3339Nano)\<close> of a time in UTC.\<close>

definition format_rfc3339_nano :: "time \<Rightarrow> string" where
  "format_rfc3339_nano t = butlast (format_rfc3339 t) @ fraction_text (nat (t mod second)) @ ''Z''"

definition year_of :: "time \<Rightarrow> int" where
  "year_of t = fst (date_of_days (unix t div 86400))"

lemma trim_zeros_append: "\<exists>k. s = trim_zeros s @ replicate k (CHR ''0'')"
proof -
  have "\<exists>k. r = replicate k (CHR ''0'') @ dropWhile (\<lambda>c. c = CHR ''0'') r" for r
  proof (induction r)
    case (Cons c r)
    then obtain k where "r = replicate k (CHR ''0'') @ dropWhile (\<lambda>c. c = CHR ''0'') r" by blast
    then have "c = CHR ''0'' \<Longrightarrow>
        c # r = replicate (Suc k) (CHR ''0'') @ dropWhile (\<lambda>c. c = CHR ''0'') (c # r)"
      by simp
    moreover have "c \<noteq> CHR ''0'' \<Longrightarrow> c # r = replicate 0 (CHR ''0'') @ dropWhile (\<lambda>c. c = CHR ''0'') (c # r)"
      by simp
    ultimately show ?case by blast
  qed simp
  then obtain k where "rev s = replicate k (CHR ''0'') @ dropWhile (\<lambda>c. c = CHR ''0'') (rev s)" by blast
  then have "rev (rev s) = trim_zeros s @ rev (replicate k (CHR ''0''))"
    unfolding trim_zeros_def by (metis rev_append)
  then have "s = trim_zeros s @ replicate k (CHR ''0'')" by simp
  then show ?thesis by blast
qed

lemma get_fraction_text:
  assumes "n < 10 ^ 9"
  shows "get_fraction (fraction_text n @ ''Z'') = (n, ''Z'')"
proof -
  have p: "length (pad 9 n) = 9" "list_all is_digit (pad 9 n)" "nat_of_digits 0 (pad 9 n) = n"
    using pad_digits [of n 9] assms by simp_all
  obtain k where k: "pad 9 n = trim_zeros (pad 9 n) @ replicate k (CHR ''0'')"
    using trim_zeros_append by blast
  define ds where "ds = trim_zeros (pad 9 n)"
  have n: "n = nat_of_digits 0 ds * 10 ^ k" and len: "length ds + k = 9" and d: "list_all is_digit ds"
    using p arg_cong [OF k, of "nat_of_digits 0"] arg_cong [OF k, of length] arg_cong [OF k, of "list_all is_digit"]
    by (simp_all add: nat_of_digits_append nat_of_digits_zeros ds_def)
  have z: "\<not> is_digit (CHR ''Z'')" by (simp add: is_digit_def byte_def)
  then have "digits (ds @ ''Z'') = ds" "after_digits (ds @ ''Z'') = ''Z''"
    using d by (simp_all add: digits_def after_digits_def list_all_iff takeWhile_append dropWhile_append)
  moreover have "fraction_text n = (if ds = [] then '''' else CHR ''.'' # ds)"
    by (simp add: fraction_text_def ds_def Let_def)
  moreover have "9 - length ds = k" using len by simp
  moreover have "take 9 ds = ds" using len by simp
  moreover have "ds = [] \<Longrightarrow> n = 0" using n by simp
  ultimately show ?thesis using n [symmetric]
    by (cases "ds = []") (simp_all add: get_fraction_def Let_def)
qed

theorem parse_format_nano:
  assumes "0 \<le> year_of t" and "year_of t \<le> 9999"
  shows "parse_time colon_zone (format_rfc3339_nano t) = Some t"
proof -
  define days r where "days = unix t div 86400" and "r = nat (unix t mod 86400)"
  obtain y m d where date: "date_of_days days = (y, m, d)" by (metis prod_cases3)
  have y: "0 \<le> y" "nat y < 10000" using assms date by (simp_all add: year_of_def days_def)
  note civil = date_of_days_inverse [OF date y(1)]
  have "days_in m (nat y) \<le> 31"
    using civil(2,3) by (auto simp: days_in_def month_days_def nth_Cons' )
  then have d: "d < 100" and m: "m < 100" using civil(3,5) by simp_all
  have r: "int r = unix t mod 86400" "r < 86400" by (simp_all add: r_def nat_less_iff)
  then have clock: "r div 3600 < 24" "r div 60 mod 60 < 60" "r mod 60 < 60" by auto
  let ?n = "nat (t mod second)"
  have n: "?n < 10 ^ 9" by (simp add: second_def nat_less_iff)
  have fields: "format_rfc3339_nano t = pad 4 (nat y) @ CHR ''-'' # pad 2 m @ CHR ''-'' # pad 2 d @ CHR ''T'' #
      pad 2 (r div 3600) @ CHR '':'' # pad 2 (r div 60 mod 60) @ CHR '':'' # pad 2 (r mod 60) @
      fraction_text ?n @ ''Z''"
    using y date by (simp add: format_rfc3339_nano_def format_rfc3339_def Let_def days_def r_def butlast_append)
  have "parse_time colon_zone (format_rfc3339_nano t) =
      Some (instant (nat y) m d (r div 3600) (r div 60 mod 60) (r mod 60) ?n 0)"
    using y d m clock civil get_fraction_text [OF n]
    unfolding fields
    by (simp add: parse_time_def parse_date_def parse_clock_def obind_def expect_def get_year_pad getnum_pad
        colon_zone_def not_le)
  also have "instant (nat y) m d (r div 3600) (r div 60 mod 60) (r mod 60) ?n 0 = t"
  proof -
    have "x = c * 3600 + e * 60 + b" if "a * 60 + b = x" "c * 60 + e = a" for x a b c e :: nat
      using that by simp
    from this [OF div_mult_mod_eq [of r 60] div_mult_mod_eq [of "r div 60" 60]]
    have "r = r div 3600 * 3600 + r div 60 mod 60 * 60 + r mod 60"
      by (simp add: div_mult2_eq [of r 60 60, simplified])
    then have "days * 86400 + int (r div 3600) * 3600 + int (r div 60 mod 60) * 60 + int (r mod 60) = unix t"
      using r(1) div_mult_mod_eq [of "unix t" 86400] arg_cong [of r _ int]
      by (metis (no_types, lifting) add.assoc days_def of_nat_add of_nat_mult of_nat_numeral)
    moreover have "unix t * second + t mod second = t" unfolding unix_def by simp
    ultimately show ?thesis by (simp add: instant_def civil(1))
  qed
  finally show ?thesis .
qed

end
