(* ===== verification/EvidenceCodec.thy ===== *)
theory EvidenceCodec
  imports JsonRoundTrip TimeRoundTrip StoreOutcomes
begin

text \<open>
  The JSON text of \<^verbatim>\<open>domain.Evidence\<close> as \<^verbatim>\<open>StoreEvidence\<close> writes it and
  \<^verbatim>\<open>OpenEvidence\<close> reads it (the tags of src/internal/domain/incident.go), and that an
  evidence with valid UTF-8 strings and a year of four digits is read back as it was. Another
  year makes \<^verbatim>\<open>json.Marshal\<close> fail; in other strings each invalid byte becomes the
  replacement character.
\<close>

section \<open>Encoding\<close>

definition year_error :: go_error where
  "year_error =
     ErrNew ''json: error calling MarshalJSON for type time.Time: Time.MarshalJSON: year outside of range [0,9999]''"

definition evidence_members :: "Evidence \<Rightarrow> (string \<times> json) list" where
  "evidence_members e =
     [(''id'', JStr (ev_id e)),
      (''type'', JStr (ev_type e)),
      (''observed_at'', JStr (format_rfc3339_nano (ev_observed_at e))),
      (''source'', JStr (ev_source e)),
      (''query_ref'', JStr (ev_query_ref e)),
      (''summary'', JStr (ev_summary e)),
      (''raw_ref'', JStr (ev_raw_ref e))]"

definition evidence_json :: "Evidence \<Rightarrow> json res" where
  "evidence_json e =
     (if year_of (ev_observed_at e) < 0 \<or> 9999 < year_of (ev_observed_at e) then Inl year_error
      else Inr (JObj (evidence_members e)))"

definition marshal_evidence :: "Evidence \<Rightarrow> string res" where
  "marshal_evidence e =
     (case evidence_json e of Inl err \<Rightarrow> Inl err | Inr v \<Rightarrow> Inr (marshal v))"

section \<open>Decoding\<close>

text \<open>
  The members of an object with the text of each value: \<^verbatim>\<open>time.Time\<close> decodes the text
  itself, between its quotes and without undoing escapes.
\<close>

fun raw_members :: "nat \<Rightarrow> nat \<Rightarrow> string \<Rightarrow> (string \<times> string \<times> json) list" where
  "raw_members 0 d s = []"
| "raw_members (Suc n) d s =
     (case skip_ws s of
        [] \<Rightarrow> []
      | c # r \<Rightarrow>
          if c \<noteq> CHR 0x22 then []
          else (case parse_string r of
            None \<Rightarrow> []
          | Some (key, r1) \<Rightarrow>
              (let t = skip_ws (drop 1 (skip_ws r1)) in
               case parse_value n d t of
                 None \<Rightarrow> []
               | Some (v, r2) \<Rightarrow>
                   (key, take (length t - length r2) t, v) #
                   (if take 1 (skip_ws r2) = '','' then raw_members n d (drop 1 (skip_ws r2)) else []))))"

definition time_field :: "string \<Rightarrow> time \<Rightarrow> time res" where
  "time_field raw old =
     (if raw = ''null'' then Inr old
      else if length raw < 2 \<or> hd raw \<noteq> CHR 0x22 \<or> last raw \<noteq> CHR 0x22
      then Inl (ErrNew ''Time.UnmarshalJSON: input is not a JSON string'')
      else (case parse_time colon_zone (butlast (tl raw)) of
              None \<Rightarrow> Inl (ErrNew ''parsing time'') | Some t \<Rightarrow> Inr t))"

definition evidence_fields :: "string list" where
  "evidence_fields = [''id'', ''type'', ''observed_at'', ''source'', ''query_ref'', ''summary'', ''raw_ref'']"

definition set_evidence_field :: "string \<Rightarrow> string \<times> json \<Rightarrow> Evidence \<Rightarrow> Evidence res" where
  "set_evidence_field f x e =
     (let str = (\<lambda>old upd. case string_field (snd x) old of Inl err \<Rightarrow> Inl err | Inr t \<Rightarrow> Inr (upd t))
      in if f = ''id'' then str (ev_id e) (\<lambda>t. e\<lparr>ev_id := t\<rparr>)
         else if f = ''type'' then str (ev_type e) (\<lambda>t. e\<lparr>ev_type := t\<rparr>)
         else if f = ''observed_at'' then
           (case time_field (fst x) (ev_observed_at e) of
              Inl err \<Rightarrow> Inl err | Inr t \<Rightarrow> Inr (e\<lparr>ev_observed_at := t\<rparr>))
         else if f = ''source'' then str (ev_source e) (\<lambda>t. e\<lparr>ev_source := t\<rparr>)
         else if f = ''query_ref'' then str (ev_query_ref e) (\<lambda>t. e\<lparr>ev_query_ref := t\<rparr>)
         else if f = ''summary'' then str (ev_summary e) (\<lambda>t. e\<lparr>ev_summary := t\<rparr>)
         else str (ev_raw_ref e) (\<lambda>t. e\<lparr>ev_raw_ref := t\<rparr>))"

definition zero_evidence :: Evidence where
  "zero_evidence =
     \<lparr>ev_id = '''', ev_type = '''', ev_observed_at = zero_time, ev_source = '''', ev_query_ref = '''',
      ev_summary = '''', ev_raw_ref = ''''\<rparr>"

definition unmarshal_evidence :: "string \<Rightarrow> Evidence res" where
  "unmarshal_evidence s =
     (case unmarshal_value s of
        Inl err \<Rightarrow> Inl err
      | Inr v \<Rightarrow>
          (case v of
             JNull \<Rightarrow> Inr zero_evidence
           | JObj _ \<Rightarrow>
               assign_members evidence_fields set_evidence_field
                 (raw_members (fuel_for s) (max_depth - 1) (drop 1 (skip_ws s))) zero_evidence
           | _ \<Rightarrow> Inl type_error))"

section \<open>The round trip\<close>

lemma raw_members_marshal:
  assumes "ms \<noteq> []"
    and "\<forall>kv \<in> set ms. valid_utf8 (fst kv) \<and> faithful (snd kv) \<and> json_depth (snd kv) \<le> d"
    and "2 * length (join '','' (map member_text ms)) + 1 < n"
  shows "raw_members n d (join '','' (map member_text ms) @ CHR ''}'' # s) =
    map (\<lambda>kv. (fst kv, marshal (snd kv), snd kv)) ms"
  using assms
proof (induction ms arbitrary: n)
  case (Cons kv ms)
  then obtain m where n: "n = Suc m" by (cases n) auto
  note str = parse_quoted [of "fst kv"]
  have "faithful (snd kv)" using Cons.prems by simp
  then obtain c r where c: "marshal (snd kv) = c # r" "\<not> is_ws c" by (rule marshal_starts)
  then have ws: "skip_ws (marshal (snd kv) @ t) = marshal (snd kv) @ t" for t
    by (simp add: skip_ws_head)
  note reads_backD [OF faithful_reads_back [OF \<open>faithful (snd kv)\<close>], of m d]
  note val = this [of "CHR ''}'' # s"] this [of "CHR '','' # join '','' (map member_text ms) @ CHR ''}'' # s"]
  show ?case
  proof (cases "ms = []")
    case True
    with Cons n str val(1) ws show ?thesis
      by (simp add: skip_ws_head is_ws_def quote_def Let_def)
  next
    case False
    have "raw_members m d (join '','' (map member_text ms) @ CHR ''}'' # s) =
        map (\<lambda>kv. (fst kv, marshal (snd kv), snd kv)) ms"
      using Cons.IH [of m] Cons.prems False n by (simp add: join_Cons)
    with Cons.prems False n str val(2) ws show ?thesis
      by (simp add: skip_ws_head is_ws_def quote_def Let_def join_Cons)
  qed
qed simp

definition storable :: "Evidence \<Rightarrow> bool" where
  "storable e \<longleftrightarrow>
     list_all valid_utf8 [ev_id e, ev_type e, ev_source e, ev_query_ref e, ev_summary e, ev_raw_ref e] \<and>
     0 \<le> year_of (ev_observed_at e) \<and> year_of (ev_observed_at e) \<le> 9999"

text \<open>The text of a time needs no escapes.\<close>

definition plain_char :: "char \<Rightarrow> bool" where
  "plain_char c \<longleftrightarrow> 32 \<le> byte c \<and> byte c < 128 \<and> byte c \<notin> {34, 38, 60, 62, 92}"

lemma plain_text:
  assumes "list_all plain_char s"
  shows "valid_utf8 s" "concat (map escape_rune (runes s)) = s"
proof -
  have "valid_utf8 s \<and> concat (map escape_rune (runes s)) = s"
    using assms
  proof (induction s)
    case (Cons c s)
    then have c: "plain_char c" and IH: "valid_utf8 s" "concat (map escape_rune (runes s)) = s" by simp_all
    from c have r: "runes (c # s) = (byte c, [c]) # runes s"
      by (simp add: plain_char_def runes_ascii)
    moreover have "escape_rune (byte c, [c]) = [c]" "valid_rune (byte c, [c])"
      using c by (auto simp: plain_char_def escape_rune_def valid_rune_def Let_def RuneError_def)
    ultimately show ?case using IH by (simp add: valid_utf8_def)
  qed (simp add: valid_utf8_def)
  then show "valid_utf8 s" "concat (map escape_rune (runes s)) = s" by simp_all
qed

lemma pad_plain: "list_all plain_char (pad w n)"
proof -
  have digit: "is_digit c \<Longrightarrow> plain_char c" for c by (auto simp: is_digit_def plain_char_def)
  have "list_all is_digit (digits_of n)" by (rule digits_of_digits)
  moreover have "is_digit (CHR ''0'')" by (simp add: is_digit_def byte_def)
  ultimately show ?thesis using digit by (auto simp: pad_def list_all_iff)
qed

lemma time_text_plain: "list_all plain_char (format_rfc3339_nano t)"
proof -
  have marks: "plain_char (CHR ''-'')" "plain_char (CHR ''T'')" "plain_char (CHR '':'')" "plain_char (CHR ''.'')"
    "plain_char (CHR ''Z'')"
    by (simp_all add: plain_char_def byte_def)
  have sub: "list_all plain_char s \<Longrightarrow> list_all plain_char (trim_zeros s)" for s
    by (auto simp: trim_zeros_def list_all_iff dest: set_dropWhileD)
  have "list_all plain_char (format_rfc3339 t)"
    using pad_plain marks
    by (simp add: format_rfc3339_def Let_def split: prod.split)
  then have "list_all plain_char (butlast (format_rfc3339 t))"
    by (auto simp: list_all_iff dest: in_set_butlastD)
  moreover have "list_all plain_char (fraction_text n)" for n
    using sub [OF pad_plain] marks by (simp add: fraction_text_def Let_def)
  ultimately show ?thesis using marks by (simp add: format_rfc3339_nano_def)
qed

lemma time_field_marshal:
  assumes "0 \<le> year_of t" and "year_of t \<le> 9999"
  shows "time_field (quote (format_rfc3339_nano t)) old = Inr t"
  using parse_format_nano [OF assms]
  by (simp add: quote_def plain_text(2) [OF time_text_plain] time_field_def)

lemma unmarshal_marshal_evidence:
  assumes "storable e"
  shows "\<exists>raw. marshal_evidence e = Inr raw \<and> unmarshal_evidence raw = Inr e"
proof -
  let ?ms = "evidence_members e"
  let ?raw = "marshal (JObj ?ms)"
  have valid: "\<forall>kv \<in> set ?ms. valid_utf8 (fst kv) \<and> faithful (snd kv) \<and> json_depth (snd kv) = 0"
  proof -
    have "list_all (list_all plain_char) evidence_fields"
      by (simp add: evidence_fields_def plain_char_def byte_def)
    then have "list_all valid_utf8 evidence_fields"
      using plain_text(1) by (auto simp: list_all_iff)
    moreover have "valid_utf8 (format_rfc3339_nano (ev_observed_at e))"
      by (rule plain_text(1)) (rule time_text_plain)
    ultimately show ?thesis
      using assms by (simp add: evidence_members_def storable_def evidence_fields_def)
  qed
  then have "unmarshal_value ?raw = Inr (JObj ?ms)"
    by (intro unmarshal_marshal) (auto simp: max_depth_def image_def evidence_members_def)
  moreover have "raw_members (fuel_for ?raw) (max_depth - 1) (drop 1 (skip_ws ?raw)) =
      map (\<lambda>kv. (fst kv, marshal (snd kv), snd kv)) ?ms"
  proof -
    have "drop 1 (skip_ws ?raw) = join '','' (map member_text ?ms) @ CHR ''}'' # []"
      by (simp add: skip_ws_head is_ws_def)
    moreover have "raw_members (fuel_for ?raw) (max_depth - 1) (join '','' (map member_text ?ms) @ CHR ''}'' # []) =
        map (\<lambda>kv. (fst kv, marshal (snd kv), snd kv)) ?ms"
      using valid by (intro raw_members_marshal) (auto simp: fuel_for_def evidence_members_def)
    ultimately show ?thesis by simp
  qed
  moreover have "assign_members evidence_fields set_evidence_field
      (map (\<lambda>kv. (fst kv, marshal (snd kv), snd kv)) ?ms) zero_evidence = Inr e"
    using assms
    by (simp add: evidence_members_def evidence_fields_def field_of_def set_evidence_field_def Let_def
        string_field_def zero_evidence_def storable_def time_field_marshal)
  ultimately have "unmarshal_evidence ?raw = Inr e"
    by (simp add: unmarshal_evidence_def)
  moreover have "marshal_evidence e = Inr ?raw"
    using assms by (simp add: marshal_evidence_def evidence_json_def storable_def)
  ultimately show ?thesis by blast
qed

text \<open>
  C13 (stored_evidence_opens). With the JSON of the program: after a batch of evidence with
  valid UTF-8 strings and years of four digits was stored, an evidence id opens to the last item
  of the batch with that id, every field as it was, and otherwise to what it opened to before.
\<close>

theorem stored_evidence_opens:
  assumes "list_all storable items"
    and "StoreEvidence marshal_evidence i items t s = (Inr (), s')"
  shows "fst (OpenEvidence unmarshal_evidence k s') =
    (case find (\<lambda>e. ev_id e = k) (rev items) of
       Some e \<Rightarrow> Inr e | None \<Rightarrow> fst (OpenEvidence unmarshal_evidence k s))"
proof (rule StoreEvidence_lookup [OF _ assms(2)])
  fix item raw
  assume "item \<in> set items" and "marshal_evidence item = Inr raw"
  with unmarshal_marshal_evidence [of item] assms(1) show "unmarshal_evidence raw = Inr item"
    by (auto simp: list_all_iff)
qed

text \<open>
  A batch of such evidence with ids is stored: nothing of the codec makes it fail, and a year
  outside the four digits does.
\<close>

lemma marshal_evidence_total:
  "(\<exists>raw. marshal_evidence e = Inr raw) \<longleftrightarrow> 0 \<le> year_of (ev_observed_at e) \<and> year_of (ev_observed_at e) \<le> 9999"
  by (auto simp: marshal_evidence_def evidence_json_def)

lemma stored_evidence_opens_witness:
  "fst (OpenEvidence unmarshal_evidence ''e1''
     (snd (StoreEvidence marshal_evidence ''i1''
       [\<lparr>ev_id = ''e1'', ev_type = ''metrics'', ev_observed_at = 1500000000, ev_source = ''cms'',
         ev_query_ref = ''q'', ev_summary = ''cpu over 90%'', ev_raw_ref = ''sha256:0''\<rparr>] 0 empty_db))) =
   Inr \<lparr>ev_id = ''e1'', ev_type = ''metrics'', ev_observed_at = 1500000000, ev_source = ''cms'',
         ev_query_ref = ''q'', ev_summary = ''cpu over 90%'', ev_raw_ref = ''sha256:0''\<rparr>"
proof -
  let ?e = "\<lparr>ev_id = ''e1'', ev_type = ''metrics'', ev_observed_at = 1500000000, ev_source = ''cms'',
    ev_query_ref = ''q'', ev_summary = ''cpu over 90%'', ev_raw_ref = ''sha256:0''\<rparr>"
  have "list_all (list_all plain_char) [''e1'', ''metrics'', ''cms'', ''q'', ''cpu over 90%'', ''sha256:0'']"
    by (simp add: plain_char_def byte_def)
  then have "list_all valid_utf8 [''e1'', ''metrics'', ''cms'', ''q'', ''cpu over 90%'', ''sha256:0'']"
    using plain_text(1) unfolding list_all_iff by blast
  moreover have "unix 1500000000 div 86400 = 0" by (simp add: unix_def second_def)
  then have "year_of 1500000000 = 1970" by (simp add: year_of_def date_of_days_examples)
  ultimately have st: "storable ?e" by (simp add: storable_def)
  from unmarshal_marshal_evidence [OF st] obtain raw where m: "marshal_evidence ?e = Inr raw" by blast
  have "StoreEvidence marshal_evidence ''i1'' [?e] 0 empty_db =
      (Inr (), snd (StoreEvidence marshal_evidence ''i1'' [?e] 0 empty_db))"
    by (simp add: StoreEvidence_def m tx_defs tx_replace_evidence_def)
  from stored_evidence_opens [OF _ this, where k = "''e1''"] st show ?thesis by simp
qed

end
