(* ===== verification/WorkerDrain.thy ===== *)
theory WorkerDrain
  imports WorkerHealthy
begin

text \<open>
  The worker over many turns: with healthy services the poll loop works through the whole queue,
  one incident a turn.
\<close>

text \<open>An incident that waits for the worker: active, with a queued or running job.\<close>

definition needs_work :: "db \<Rightarrow> string \<Rightarrow> bool" where
  "needs_work s i \<longleftrightarrow> incident_active s i \<and> (\<exists>j \<in> set (db_jobs s). jr_incident_id j = i \<and> live j)"

definition pending :: "db \<Rightarrow> job_row list" where
  "pending s = filter (\<lambda>j. live j \<and> incident_active s (jr_incident_id j)) (db_jobs s)"

text \<open>All pending jobs are queued and due, and their incidents are not under investigation.\<close>

definition queue_due :: "int \<Rightarrow> db \<Rightarrow> bool" where
  "queue_due t s \<longleftrightarrow>
     (\<forall>j \<in> set (pending s). jr_status j = JobQueued \<and> jr_run_after j \<le> t \<and>
        (\<forall>r \<in> set (db_incidents s). ir_id r = jr_incident_id j \<longrightarrow>
           ir_state r = IncidentReceived \<or> ir_state r = IncidentAwaitingAuditEvent))"

definition analysed :: "string \<Rightarrow> db \<Rightarrow> string \<Rightarrow> bool" where
  "analysed raw s i \<longleftrightarrow>
     (\<exists>r \<in> set (db_incidents s). ir_id r = i \<and> ir_state r = IncidentCompleted) \<and>
     (\<exists>e \<in> set (db_snapshots s). er_incident_id e = i \<and> er_evidence_json e = raw)"

definition fresh_after :: "environment \<Rightarrow> world \<Rightarrow> bool" where
  "fresh_after env w \<longleftrightarrow>
     (\<forall>n \<ge> w_step w. ev_fresh (en_event env n) \<notin> set (map er_id (db_snapshots (w_db w))))"

definition ready_queue :: "environment \<Rightarrow> int \<Rightarrow> world \<Rightarrow> bool" where
  "ready_queue env t w \<longleftrightarrow>
     wf_db (w_db w) \<and> \<not> w_locked w \<and> queue_due t (w_db w) \<and> fresh_after env w"

text \<open>What the rows of another incident say is what they said before.\<close>

lemma other_rows:
  assumes "rows_of job s' = (fst (rows_of job s), fst (snd (rows_of job s)), x)" and "i \<noteq> job_incident_id job"
  shows "r \<in> set (db_incidents s') \<and> ir_id r = i \<longleftrightarrow> r \<in> set (db_incidents s) \<and> ir_id r = i"
    and "incident_active s' i \<longleftrightarrow> incident_active s i"
    and "needs_work s' i \<longleftrightarrow> needs_work s i"
proof -
  have r: "r \<in> set (db_incidents s') \<and> ir_id r = i \<longleftrightarrow> r \<in> set (db_incidents s) \<and> ir_id r = i" for r
  proof -
    have "filter (\<lambda>r. ir_id r \<noteq> job_incident_id job) (db_incidents s') =
        filter (\<lambda>r. ir_id r \<noteq> job_incident_id job) (db_incidents s)"
      using assms(1) by (simp add: rows_of_def)
    from arg_cong [OF this, of "\<lambda>xs. r \<in> set xs \<and> ir_id r = i"] assms(2) show ?thesis by auto
  qed
  then show "r \<in> set (db_incidents s') \<and> ir_id r = i \<longleftrightarrow> r \<in> set (db_incidents s) \<and> ir_id r = i" .
  from r show a: "incident_active s' i \<longleftrightarrow> incident_active s i"
    unfolding incident_active_def by blast
  have "j \<in> set (db_jobs s') \<and> jr_incident_id j = i \<longleftrightarrow> j \<in> set (db_jobs s) \<and> jr_incident_id j = i" for j
  proof -
    have "filter (\<lambda>j. jr_incident_id j \<noteq> job_incident_id job) (db_jobs s') =
        filter (\<lambda>j. jr_incident_id j \<noteq> job_incident_id job) (db_jobs s)"
      using assms(1) by (simp add: rows_of_def)
    from arg_cong [OF this, of "\<lambda>xs. j \<in> set xs \<and> jr_incident_id j = i"] assms(2) show ?thesis by auto
  qed
  then show "needs_work s' i \<longleftrightarrow> needs_work s i"
    unfolding needs_work_def a by blast
qed

lemma pending_after:
  assumes "rows_of job s' = (fst (rows_of job s), fst (snd (rows_of job s)), x)"
    and "\<not> (\<exists>j \<in> set (db_jobs s'). jr_incident_id j = job_incident_id job \<and> live j)"
  shows "pending s' = filter (\<lambda>j. jr_incident_id j \<noteq> job_incident_id job) (pending s)"
proof -
  let ?o = "\<lambda>j. jr_incident_id j \<noteq> job_incident_id job"
  have jobs: "filter ?o (db_jobs s') = filter ?o (db_jobs s)"
    using assms(1) by (simp add: rows_of_def)
  have "pending s' = filter (\<lambda>j. live j \<and> incident_active s' (jr_incident_id j)) (filter ?o (db_jobs s'))"
    using assms(2) by (auto simp: pending_def intro!: filter_cong)
  also have "\<dots> = filter (\<lambda>j. live j \<and> incident_active s (jr_incident_id j)) (filter ?o (db_jobs s))"
    unfolding jobs using other_rows(2) [OF assms(1)] by (auto intro!: filter_cong)
  also have "\<dots> = filter ?o (pending s)"
    by (auto simp: pending_def intro!: filter_cong)
  finally show ?thesis .
qed

text \<open>One turn: nothing to do, or one incident is analysed and the rest left alone.\<close>

lemma claim_pending:
  assumes "wf_db s" and "ClaimNext wid now s = (Inr (Some job), s')" and "queue_due t s"
  obtains j r where "j \<in> set (pending s)" and "jr_incident_id j = job_incident_id job"
    and "r \<in> set (db_incidents s)" and "ir_id r = job_incident_id job"
    and "ir_state r = IncidentReceived \<or> ir_state r = IncidentAwaitingAuditEvent"
proof -
  obtain j where j: "min_by (\<lambda>j. (jr_run_after j, jr_id j)) (claimable_jobs (unix now) s) = Some j"
    and job: "job = claimed_job wid now j"
    using assms(1,2) by (rule ClaimNext_SomeE)
  have p: "j \<in> set (pending s)"
    using min_by_in [OF j]
    by (auto simp: claimable_jobs_def pending_def live_def claimable_def job_incident_active_def)
  moreover obtain r where "r \<in> set (db_incidents s)" "ir_id r = jr_incident_id j"
    using p by (auto simp: pending_def incident_active_def)
  ultimately show thesis
    using that [of j r] assms(3) by (auto simp: queue_due_def job claimed_job_def scanJob_def)
qed

lemma pending_claimed:
  assumes "wf_db s" and "queue_due t s" and "t \<le> unix now" and "pending s \<noteq> []"
  shows "\<exists>job s'. ClaimNext wid now s = (Inr (Some job), s')"
proof -
  from assms(4) obtain j where j: "j \<in> set (pending s)" by (cases "pending s") auto
  with assms(2,3) have "claimable (unix now) j" by (auto simp: queue_due_def claimable_def)
  moreover have "j \<in> set (db_jobs s)" "incident_active s (jr_incident_id j)" using j by (auto simp: pending_def)
  ultimately have "fst (ClaimNext wid now s) \<noteq> Inr None" using ClaimNext_none_iff [OF assms(1)] by blast
  with ClaimNext_cases [OF assms(1), of wid now] show ?thesis by fastforce
qed

lemma idle_turn:
  assumes "undisturbed env" and "wf_db (w_db w)" and "pending (w_db w) = []"
  shows "RunOne (sqlite_worker env wid) w = (Inr (), w\<lparr>w_step := Suc (w_step w)\<rparr>)"
proof -
  let ?now = "ev_now (event_of env w)"
  have "\<not> (\<exists>j \<in> set (db_jobs (w_db w)). claimable (unix ?now) j \<and> incident_active (w_db w) (jr_incident_id j))"
    using assms(3) by (auto simp: pending_def claimable_def live_def filter_empty_conv)
  then have "fst (ClaimNext wid ?now (w_db w)) = Inr None" using ClaimNext_none_iff [OF assms(2)] by blast
  with ClaimNext_cases [OF assms(2), of wid ?now] have "ClaimNext wid ?now (w_db w) = (Inr None, w_db w)" by fastforce
  then show ?thesis
    by (simp add: RunOne_def attempt_def sqlite_repo_def done_ok_def repo_call_undisturbed [OF assms(1)])
qed

lemma queue_due_after:
  assumes "rows_of job s' = (fst (rows_of job s), fst (snd (rows_of job s)), x)"
    and "\<not> (\<exists>j \<in> set (db_jobs s'). jr_incident_id j = job_incident_id job \<and> live j)" and "queue_due t s"
  shows "queue_due t s'"
  unfolding queue_due_def pending_after [OF assms(1,2)]
proof (rule ballI)
  fix q
  assume "q \<in> set (filter (\<lambda>j. jr_incident_id j \<noteq> job_incident_id job) (pending s))"
  with assms(3) show "jr_status q = JobQueued \<and> jr_run_after q \<le> t \<and>
      (\<forall>r \<in> set (db_incidents s'). ir_id r = jr_incident_id q \<longrightarrow>
         ir_state r = IncidentReceived \<or> ir_state r = IncidentAwaitingAuditEvent)"
    using other_rows(1) [OF assms(1), of "jr_incident_id q"] by (auto simp: queue_due_def)
qed

lemma turn_progress:
  assumes env: "healthy env items result raw" and w: "ready_queue env t w"
    and clock: "\<forall>n. t \<le> unix (ev_now (en_event env n))"
    and inj: "inj (\<lambda>n. ev_fresh (en_event env n))"
  obtains (idle) w' where "RunOne (sqlite_worker env wid) w = (Inr (), w')" and "pending (w_db w) = []"
      and "w_db w' = w_db w" and "ready_queue env t w'"
  | (work) w' i where "RunOne (sqlite_worker env wid) w = (Inr (), w')"
      and "length (pending (w_db w')) < length (pending (w_db w))" and "ready_queue env t w'"
      and "needs_work (w_db w) i" and "analysed raw (w_db w') i"
      and "\<not> needs_work (w_db w') i"
      and "set (db_snapshots (w_db w)) \<subseteq> set (db_snapshots (w_db w'))"
      and "\<And>k. k \<noteq> i \<Longrightarrow> needs_work (w_db w') k = needs_work (w_db w) k"
      and "\<And>r. ir_id r \<noteq> i \<Longrightarrow> r \<in> set (db_incidents (w_db w')) \<longleftrightarrow> r \<in> set (db_incidents (w_db w))"
proof -
  let ?s = "w_db w" and ?now = "ev_now (event_of env w)"
  from w have s: "wf_db ?s" "\<not> w_locked w" "queue_due t ?s" "fresh_after env w"
    by (simp_all add: ready_queue_def)
  show thesis
  proof (cases "pending ?s = []")
    case True
    note run = idle_turn [OF healthy_undisturbed [OF env] s(1) True, of wid]
    have "ready_queue env t (w\<lparr>w_step := Suc (w_step w)\<rparr>)"
      using s by (simp add: ready_queue_def fresh_after_def)
    with run True show thesis by (intro idle) simp_all
  next
    case False
    have "t \<le> unix ?now" using clock by (simp add: event_of_def)
    from pending_claimed [OF s(1,3) this False] obtain job s1 where
      c: "ClaimNext wid ?now ?s = (Inr (Some job), s1)" by blast
    obtain j r where j: "j \<in> set (pending ?s)" "jr_incident_id j = job_incident_id job"
      and r: "r \<in> set (db_incidents ?s)" "ir_id r = job_incident_id job"
        "ir_state r = IncidentReceived \<or> ir_state r = IncidentAwaitingAuditEvent"
      using s(1) c s(3) by (rule claim_pending)
    have "fresh_ids env (w_step w, rows_of job ?s)"
      using s(4) by (simp add: fresh_after_def fresh_ids_def rows_of_def)
    from healthy_turn [OF env s(1,2) c r this] obtain w' where
      run: "RunOne (sqlite_worker env wid) w = (Inr (), w')"
      and fin: "completed_in env job raw (w_step w, rows_of job ?s) w'"
      by (auto simp: returns_def)
    obtain e n where rows: "rows_of job (w_db w') =
        (fst (rows_of job ?s), fst (snd (rows_of job ?s)), snd (snd (rows_of job ?s)) @ [e])"
      and e: "er_incident_id e = job_incident_id job" "er_evidence_json e = raw"
        "er_id e = ev_fresh (en_event env n)" "w_step w \<le> n" "n < w_step w'"
      using fin by (auto simp: completed_in_def)
    have snaps: "db_snapshots (w_db w') = db_snapshots ?s @ [e]" using rows by (simp add: rows_of_def)
    have closed: "\<not> (\<exists>j \<in> set (db_jobs (w_db w')). jr_incident_id j = job_incident_id job \<and> live j)"
      and wf': "wf_db (w_db w')" "\<not> w_locked w'"
      using fin by (simp_all add: completed_in_def)
    note pend = pending_after [OF rows closed]
    show thesis
    proof (rule work [OF run])
      show "length (pending (w_db w')) < length (pending ?s)"
        unfolding pend using j by (intro length_filter_less) auto
      have "queue_due t (w_db w')" by (rule queue_due_after [OF rows closed s(3)])
      moreover have "fresh_after env w'"
        using s(4) e unfolding fresh_after_def snaps by (auto dest!: injD [OF inj])
      ultimately show "ready_queue env t w'" using wf' by (simp add: ready_queue_def)
      show "needs_work ?s (job_incident_id job)"
        using j by (auto simp: needs_work_def pending_def)
      show "analysed raw (w_db w') (job_incident_id job)"
        using fin e snaps by (auto simp: analysed_def completed_in_def)
      show "\<not> needs_work (w_db w') (job_incident_id job)"
        using closed by (auto simp: needs_work_def)
      show "set (db_snapshots ?s) \<subseteq> set (db_snapshots (w_db w'))" by (auto simp: snaps)
      show "needs_work (w_db w') k = needs_work ?s k" if "k \<noteq> job_incident_id job" for k
        using other_rows(3) [OF rows that] .
      show "r \<in> set (db_incidents (w_db w')) \<longleftrightarrow> r \<in> set (db_incidents ?s)"
        if "ir_id r \<noteq> job_incident_id job" for r
        using other_rows(1) [OF rows that, of r] by simp
    qed
  qed
qed

lemma polls_drain:
  assumes env: "healthy env items result raw" and clock: "\<forall>n. t \<le> unix (ev_now (en_event env n))"
    and inj: "inj (\<lambda>n. ev_fresh (en_event env n))"
  shows "ready_queue env t w \<Longrightarrow> length (pending (w_db w)) \<le> n \<Longrightarrow>
    pending (w_db (polls env wid n w)) = [] \<and>
    set (db_snapshots (w_db w)) \<subseteq> set (db_snapshots (w_db (polls env wid n w))) \<and>
    (\<forall>i. needs_work (w_db w) i \<longrightarrow> analysed raw (w_db (polls env wid n w)) i) \<and>
    (\<forall>r. \<not> needs_work (w_db w) (ir_id r) \<longrightarrow>
       (r \<in> set (db_incidents (w_db (polls env wid n w))) \<longleftrightarrow> r \<in> set (db_incidents (w_db w))))"
proof (induction n arbitrary: w)
  case 0
  then have "\<not> needs_work (w_db w) i" for i
    by (auto simp: needs_work_def pending_def filter_empty_conv)
  with 0 show ?case by simp
next
  case (Suc n)
  show ?case
  proof (cases rule: turn_progress [OF env Suc.prems(1) clock inj, of wid])
    case (1 w')
    with Suc.IH [of w'] show ?thesis by simp
  next
    case (2 w' i)
    note work = 2
    from Suc.IH [OF work(3)] work(2) Suc.prems(2)
    have IH: "pending (w_db (polls env wid n w')) = []"
      "set (db_snapshots (w_db w')) \<subseteq> set (db_snapshots (w_db (polls env wid n w')))"
      "\<And>k. needs_work (w_db w') k \<Longrightarrow> analysed raw (w_db (polls env wid n w')) k"
      "\<And>r. \<not> needs_work (w_db w') (ir_id r) \<Longrightarrow>
        r \<in> set (db_incidents (w_db (polls env wid n w'))) \<longleftrightarrow> r \<in> set (db_incidents (w_db w'))"
      by auto
    have "analysed raw (w_db (polls env wid n w')) k" if "needs_work (w_db w) k" for k
    proof (cases "k = i")
      case True
      with work(5,6) IH(2,4) show ?thesis unfolding analysed_def by blast
    qed (use that work(8) IH(3) in auto)
    moreover have "r \<in> set (db_incidents (w_db (polls env wid n w'))) \<longleftrightarrow> r \<in> set (db_incidents (w_db w))"
      if "\<not> needs_work (w_db w) (ir_id r)" for r
    proof -
      have "ir_id r \<noteq> i" using that work(4) by auto
      with that work(8,9) IH(4) show ?thesis by simp
    qed
    ultimately show ?thesis using work(1,7) IH(1,2) by auto
  qed
qed

end
