(* ===== verification/EndToEnd.thy ===== *)
theory EndToEnd
  imports GatewayWitnesses WorkerDrain
begin

text \<open>
  From the delivery of an alert to its analysis: the gateway and the worker on the same database.
\<close>

lemma polls_forward:
  "wf_db (w_db w) \<Longrightarrow> \<not> w_locked w \<Longrightarrow>
     wf_db (w_db (polls env wid n w)) \<and> db_le (w_db w) (w_db (polls env wid n w))"
proof (induction n arbitrary: w)
  case (Suc n)
  let ?w1 = "snd (RunOne (sqlite_worker env wid) w)"
  obtain new where "w_ok ?w1" "db_le (w_db w) (w_db ?w1)"
    by (rule RunOne_world [OF Suc.prems, of env wid "fst (RunOne (sqlite_worker env wid) w)" ?w1]) simp_all
  with Suc.IH [of ?w1] show ?case by (auto simp: w_ok_def intro: db_le_trans)
qed simp

text \<open>The database after a new alert: one more incident waits for the worker.\<close>

lemma opened_pending:
  fixes now :: time and al :: Alert and q :: string and t :: time
  assumes "k \<notin> set (map ir_id (db_incidents s))" and "k \<notin> set (map jr_incident_id (db_jobs s))"
  defines "s' \<equiv> s\<lparr>db_incidents := db_incidents s @ [opened_row k now al],
    db_jobs := db_jobs s @ [job_columns (NewJob q k t)]\<rparr>"
  shows "pending s' = pending s @ [job_columns (NewJob q k t)]"
    and "needs_work s i \<Longrightarrow> needs_work s' i" and "needs_work s' k"
    and "queue_due u s \<Longrightarrow> unix t \<le> u \<Longrightarrow> queue_due u s'"
proof -
  let ?job = "job_columns (NewJob q k t)" and ?row = "opened_row k now al"
  have row: "ir_id ?row = k" "is_active (ir_state ?row)" "ir_state ?row = IncidentReceived"
    by (simp_all add: opened_row_def)
  have job: "jr_incident_id ?job = k" "live ?job" "jr_status ?job = JobQueued" "jr_run_after ?job = unix t"
    by (simp_all add: job_columns_def NewJob_def live_def)
  have active: "incident_active s' i \<longleftrightarrow> i = k \<or> incident_active s i" for i
    using row by (auto simp: s'_def incident_active_def)
  have old: "jr_incident_id j \<noteq> k" if "j \<in> set (db_jobs s)" for j using assms(2) that by auto
  have "filter (\<lambda>j. live j \<and> incident_active s' (jr_incident_id j)) (db_jobs s) = pending s"
    unfolding pending_def using old active by (intro filter_cong) auto
  then show p: "pending s' = pending s @ [?job]"
    using job active by (simp add: pending_def s'_def)
  show "needs_work s i \<Longrightarrow> needs_work s' i" using active by (auto simp: needs_work_def s'_def)
  show "needs_work s' k" using active job by (auto simp: needs_work_def s'_def)
  assume due: "queue_due u s" "unix t \<le> u"
  show "queue_due u s'"
    unfolding queue_due_def p
  proof (intro ballI)
    fix j
    assume "j \<in> set (pending s @ [?job])"
    then consider "j = ?job" | "j \<in> set (pending s)" by auto
    then show "jr_status j = JobQueued \<and> jr_run_after j \<le> u \<and> (\<forall>r \<in> set (db_incidents s').
        ir_id r = jr_incident_id j \<longrightarrow> ir_state r = IncidentReceived \<or> ir_state r = IncidentAwaitingAuditEvent)"
    proof cases
      case 1
      with assms(1) job row due(2) show ?thesis by (auto simp: s'_def)
    next
      case 2
      then have "jr_incident_id j \<noteq> k" using old by (auto simp: pending_def)
      with 2 due(1) row show ?thesis by (auto simp: s'_def queue_due_def)
    qed
  qed
qed

text \<open>
  C17 (delivered_alert_is_analysed). The whole way of an alert. Let no incident of its key be
  active, and let every pending job be queued, due and of an incident that no earlier attempt left
  under investigation. When the gateway takes the delivery without interference and then a worker
  polls at least once for every pending job and once more, with services that answer, a result
  that validates, a clock past the alert and fresh identifiers, the answer of the gateway names a
  new incident; at the end that incident has the key of the alert, is completed and its result
  stored, so is every incident that waited before, and no queued or running job of an active
  incident is left.
\<close>

theorem delivered_alert_is_analysed:
  assumes "wf_db (w_db w)" and "\<not> w_locked w" and "queue_due t (w_db w)"
    and "undisturbed genv" and "delivers (gc_token c) r ev" and "cm_transition ev = AlertOccurred"
    and "active_by_key (alert_key (cm_alert ev)) (w_db w) = None"
    and "unix (al_event_at (cm_alert ev)) \<le> t"
    and "ev_fresh (event_of genv w) \<notin> set (map ir_id (db_incidents (w_db w)))"
    and "ev_fresh (event_of genv w) \<notin> set (map jr_incident_id (db_jobs (w_db w)))"
    and "ev_fresh (en_event genv (Suc (w_step w))) \<notin> set (map jr_id (db_jobs (w_db w)))"
    and "newGateway (sqlite_gateway c genv) r w = (resp, w')"
    and "healthy env items result raw" and "\<forall>n. t \<le> unix (ev_now (en_event env n))"
    and "inj (\<lambda>n. ev_fresh (en_event env n))"
    and "\<forall>n. ev_fresh (en_event env n) \<notin> set (map er_id (db_snapshots (w_db w)))"
    and "length (pending (w_db w)) < n"
    and "s = w_db (polls env wid n w')"
  shows "\<exists>i. resp = incident_response i False \<and> i \<notin> set (map ir_id (db_incidents (w_db w))) \<and>
    (\<exists>row \<in> set (db_incidents s). ir_id row = i \<and> ir_key row = alert_key (cm_alert ev) \<and>
       ir_state row = IncidentCompleted) \<and>
    (\<exists>e \<in> set (db_snapshots s). er_incident_id e = i \<and> er_evidence_json e = raw) \<and>
    (\<forall>k. needs_work (w_db w) k \<longrightarrow> analysed raw s k) \<and> pending s = []"
proof -
  let ?k = "ev_fresh (event_of genv w)" and ?al = "cm_alert ev"
  let ?row = "opened_row ?k (ev_now (event_of genv w)) ?al"
  note run = new_alert_world [OF assms(1,4,5,6,9,11,7)]
  have resp: "resp = incident_response ?k False" and lock: "\<not> w_locked w'"
    and db: "w_db w' = (w_db w)\<lparr>db_incidents := db_incidents (w_db w) @ [?row],
      db_jobs := db_jobs (w_db w) @
        [job_columns (NewJob (ev_fresh (en_event genv (Suc (w_step w)))) ?k (al_event_at ?al))]\<rparr>"
    using run assms(2,12) by auto
  note opened = opened_pending [OF assms(9,10), where now = "ev_now (event_of genv w)" and al = ?al
      and q = "ev_fresh (en_event genv (Suc (w_step w)))" and t = "al_event_at ?al", folded db]
  have "w_ok w" using assms(1,2) by (simp add: w_ok_def)
  from keepsD [OF sg.keep_request this assms(12)] have wf: "wf_db (w_db w')" by (simp add: w_ok_def)
  have queue: "ready_queue env t w'"
    using wf lock opened(4) [OF assms(3,8)] assms(16) by (simp add: ready_queue_def fresh_after_def db)
  have "length (pending (w_db w')) \<le> n" using assms(17) opened(1) by simp
  note drained = polls_drain [OF assms(13,14,15) queue this, of wid, folded assms(18)]
  have "analysed raw s ?k" using drained opened(3) by blast
  moreover have "\<forall>k. needs_work (w_db w) k \<longrightarrow> analysed raw s k" using drained opened(2) by blast
  moreover have "ir_key row = alert_key ?al" if "row \<in> set (db_incidents s)" "ir_id row = ?k" for row
  proof -
    have s: "wf_db s" "db_le (w_db w') s" using polls_forward [OF wf lock] by (simp_all add: assms(18))
    moreover have "?row \<in> set (db_incidents (w_db w'))" by (simp add: db)
    ultimately obtain row' where "row' \<in> set (db_incidents s)" "incident_le ?row row'"
      by (auto simp: db_le_def)
    moreover from this that have "row' = row"
      using distinct_key_eq [OF wf_incident_ids [OF s(1)]] by (auto simp: incident_le_def opened_row_def)
    ultimately show ?thesis by (auto simp: incident_le_def opened_row_def)
  qed
  ultimately show ?thesis
    using drained resp assms(9) unfolding analysed_def by (intro exI [of _ ?k]) blast
qed

section \<open>A concrete way of an alert\<close>

definition numbered_env :: environment where
  "numbered_env = demo_env\<lparr>en_event := (\<lambda>n. demo_event\<lparr>ev_fresh := replicate n (CHR ''x'')\<rparr>)\<rparr>"

lemma numbered_env_healthy: "healthy numbered_env [demo_evidence] worker_result ''{}''"
  using worker_result_valid
  by (simp add: healthy_def)
    (simp add: numbered_env_def demo_env_def demo_event_def demo_marshal_def demo_encode_def demo_evidence_def
      worker_result_def undisturbed_def)

lemma delivered_alert_is_analysed_witness:
  "\<exists>row \<in> set (db_incidents (w_db (polls numbered_env ''w1'' 1 (snd (answer demo_env alert_request empty_db))))).
     ir_key row = alert_key (cm_alert alert_event) \<and> ir_state row = IncidentCompleted"
proof -
  have due: "queue_due 5 (w_db (start_world empty_db))"
    by (simp add: queue_due_def pending_def)
  have none: "active_by_key (alert_key (cm_alert alert_event)) (w_db (start_world empty_db)) = None"
    by (simp add: active_by_key_def)
  have now: "unix (al_event_at (cm_alert alert_event)) \<le> 5"
    by (simp add: alert_event_def unix_def second_def)
  have clock: "\<forall>n. 5 \<le> unix (ev_now (en_event numbered_env n))"
    by (simp add: numbered_env_def demo_event_def unix_def second_def)
  have inj: "inj (\<lambda>n. ev_fresh (en_event numbered_env n))"
    by (rule injI, drule arg_cong [of _ _ length]) (simp add: numbered_env_def)
  show ?thesis
    using delivered_alert_is_analysed [OF _ _ due demo_env_undisturbed alert_delivered alert_occurred none now
        _ _ _ answer_eq [of demo_env alert_request empty_db] numbered_env_healthy clock inj _ _ refl,
        where n = 1 and wid = "''w1''"]
    by (simp add: pending_def) (auto simp: empty_db_def)
qed

end
