(* ===== verification/Spec2Isabelle.thy ===== *)
theory Spec2Isabelle
  imports GatewayWitnesses RuntimeWitnesses CommandWitnesses Lifecycle Migration Wiring EvidenceCodec EndToEnd
begin

text \<open>
  A verification of the alert-driven root cause analysis (RCA) service.

  The program. CloudMonitor posts alerts and recoveries to the gateway
  (\<^verbatim>\<open>cmd/sre-gateway\<close>, \<^verbatim>\<open>internal/httpapi\<close>, \<^verbatim>\<open>internal/inbound\<close>), which
  opens or recovers incidents in a SQLite database (\<^verbatim>\<open>internal/store\<close>) and queues one job
  per new incident. A worker (\<^verbatim>\<open>cmd/sre-worker\<close>, \<^verbatim>\<open>internal/worker\<close>) claims a job under
  a lease, shows the incident on a Feishu card (\<^verbatim>\<open>internal/feishu\<close>), collects evidence from
  reviewed bindings (\<^verbatim>\<open>internal/config\<close>, \<^verbatim>\<open>internal/evidence\<close>,
  \<^verbatim>\<open>internal/runtime\<close>, \<^verbatim>\<open>internal/provider\<close>), gives it to a child process without
  tools (\<^verbatim>\<open>internal/cc\<close>), validates the answer and concludes the incident.
  \<^verbatim>\<open>cmd/sre-evidence\<close> is the read-only evidence CLI, and \<^verbatim>\<open>cmd/sre-sync\<close> with
  \<^verbatim>\<open>internal/modelsync\<close> the administrator's projection of endpoints into UModel.

  \<^bold>\<open>Theories and what they model.\<close>

  \<^item> Prelude: errors and \<^verbatim>\<open>errors.Is\<close>, instants, \<^verbatim>\<open>int64\<close>, tables as lists of rows.
    Domain: \<^verbatim>\<open>internal/domain\<close> and \<^verbatim>\<open>internal/messages\<close>.
  \<^item> GoText, GoJson, GoEncode, GoTime: what the program uses of Go's standard library: UTF-8
    decoding, \<^verbatim>\<open>encoding/json\<close> in both directions, \<^verbatim>\<open>time.Parse\<close> and the RFC 3339
    format. The parser of JSON values carries fuel; \<^theory_text>\<open>fuel_for\<close> (twice the length of the
    text and one) is proved to be enough: any larger fuel gives the same answer. JsonRoundTrip: the decoder reads back every value the
    encoder wrote (valid UTF-8, nesting up to the decoder's limit). TimeRoundTrip: the calendar of
    the formatter is the inverse of that of the parser, and a time in JSON is read back.
  \<^item> WorkerDrain, EndToEnd: the poll loop over many turns, and gateway and worker together: from
    the delivery of an alert to the completed incident.
  \<^item> EvidenceCodec: the JSON of \<^verbatim>\<open>domain.Evidence\<close> as the store writes and reads it.
  \<^item> Migration: \<^verbatim>\<open>Open\<close> and \<^verbatim>\<open>migrate\<close> over schemas. SqlTx: tables, statements and
    transactions that commit a value and roll an error back, and the locale
    \<^theory_text>\<open>tx_preorder\<close>, which carries a reflexive and transitive relation from the statements
    to the operations. Store: every operation of \<^verbatim>\<open>internal/store/sqlite.go\<close>.
    StoreInv: the well-formedness of a database and its forward order, kept by every operation.
    StoreProps, StoreOutcomes: sequences of calls, fencing of lost claims, and the outcome of each
    operation. Lifecycle: an abstract machine of incident phases that the store refines, by a second
    interpretation of the locale.
  \<^item> Runner: \<^verbatim>\<open>internal/cc/runner.go\<close>, with the child process and the digest as parameters.
    Worker: \<^verbatim>\<open>RunOne\<close> over records of collaborators on an arbitrary world. WorkerWorld: the
    interfaces as locales and the properties of a turn proved from their laws. WorkerEnv: the
    world of the store under arbitrary other calls, driver faults, clocks and service answers
    between any two steps, where the locales are interpreted. WorkerProps, WorkerSettle,
    WorkerHealthy: safety under every interleaving, and progress without interference.
  \<^item> Inbound: the event parser, redaction and capture. Gateway: routes and handlers.
    GatewayStore: the gateway on the store's world.
  \<^item> Config, EvidenceService, Provider, Runtime: configuration and bindings, the registry and the
    service, cloud requests and summaries, and the composed evidence path with its locales.
  \<^item> Feishu: cards and client. ModelSync, SyncCommand: plans, batches, inspectors and the command.
    Commands: the evidence CLI, the worker's loop and the gateway's server. Wiring: credentials,
    clients, and the \<^verbatim>\<open>run\<close> functions that put the programs together.
  \<^item> The theories named Witnesses evaluate the properties on concrete inputs.

  \<^bold>\<open>State.\<close> A database is a record of tables, a table a list of rows in insertion order, a row
  a record with the columns of \<^verbatim>\<open>migrate\<close>. An operation takes the database to a result or an
  error and the new database. The worker and the gateway act on a world that holds the database,
  the cards sent and a step counter; an environment says, for every step, which other repository
  calls happen before it, whether the driver fails and how, what the clock shows and which
  identifiers are drawn. A theorem for all environments is one for all interleavings and faults.

  \<^bold>\<open>Groups of theorems.\<close> Invariants: one active incident per key, known states, closed jobs
  frozen, recovery final. Fencing: an expired claim's token is dead, and every fenced operation then
  fails without effect. Outcomes of claiming, completing, failing, retrying, recovering. Refinement:
  each call is at most one step of the lifecycle machine. The worker: every card is justified, cards
  with conclusions are validated, a healthy turn completes its incident, an undisturbed turn settles
  its claim, and healthy turns work through the whole queue, so that a delivered alert ends as a
  completed incident. The boundary to the analysis: fixed command line, bounded output, safe identifiers,
  grounded results. The evidence path: only reviewed, allowlisted requests over the half hour before
  the alert. The gateway: one job per new alert, refusals without effect, redacted captures. The
  commands: termination of the loop, the CLI accepts what the runner prepares, nothing is written
  without being asked for. The migration repairs older files and can be repeated. Stored evidence
  is read back field by field, through the JSON of the program.

  \<^bold>\<open>What modelling showed.\<close> An incident whose first attempt fails after it entered
  INVESTIGATING is never finished: every later attempt ends as inactive
  (\<^theory_text>\<open>interrupted_incident_never_finishes\<close>). Creating an incident and queueing its job are
  separate transactions, and a lost queueing is not repaired by later deliveries
  (\<^theory_text>\<open>lost_enqueue_is_never_repaired\<close>).

  \<^bold>\<open>Not modelled.\<close> The \<^verbatim>\<open>main\<close> functions (flag parsing of two commands,
  \<^verbatim>\<open>log.Fatal\<close>). Parameters, because their code is elsewhere: the SQLite driver's failures, the
  vendor's SDK, YAML, MD5 and SHA-256, the child process, the HTTP transport and server, random
  bytes, and the arithmetic and formatting of \<^verbatim>\<open>float64\<close>. The texts of JSON syntax errors are
  one text.
\<close>

end
